(* ===== verification/Prelude.thy ===== *)
theory Prelude imports Main "HOL-Library.Sublist" begin

text \<open>
  The shared base of the development: the collections that the component proofs use, the
  generic facts on lists and options, the locale of transition systems in which the safety
  arguments of the concurrent components are carried out once, and the locale of refinements.
\<close>

named_theorems clib_defs \<open>definitions of the C library functions\<close>

section \<open>Lists\<close>

lemma takeWhile_id_iff: "takeWhile P xs = xs \<longleftrightarrow> (\<forall>x \<in> set xs. P x)"
  by (metis set_takeWhileD takeWhile_eq_all_conv)

lemma suffix_unique_by_length:
  "suffix a s \<Longrightarrow> suffix b s \<Longrightarrow> length a \<le> length b \<Longrightarrow> suffix a b"
  by (rule suffix_length_suffix)

lemma suffix_drop_iff:
  "suffix a s \<longleftrightarrow> length a \<le> length s \<and> drop (length s - length a) s = a"
proof
  assume "suffix a s"
  then show "length a \<le> length s \<and> drop (length s - length a) s = a"
    by (auto simp: suffix_def)
next
  assume r: "length a \<le> length s \<and> drop (length s - length a) s = a"
  then have "s = take (length s - length a) s @ a"
    by (metis append_take_drop_id)
  then show "suffix a s"
    by (metis suffixI)
qed

lemma suffix_tail: "suffix a (xs @ b) \<Longrightarrow> length a \<le> length b \<Longrightarrow> suffix a b"
  by (metis suffixI suffix_unique_by_length)

lemma find_SomeD: "find P xs = Some x \<Longrightarrow> P x \<and> x \<in> set xs"
  by (auto simp: find_Some_iff)

lemma map_filter_concat: "map g (filter P xs) = concat (map (\<lambda>x. if P x then [g x] else []) xs)"
  by (induction xs) auto

section \<open>Transition systems\<close>

text \<open>
  The reachable states of a labelled step relation, and the two facts every safety argument
  needs: an invariant that holds at the start and is kept by each step holds in every
  reachable state, and along every run.
\<close>

inductive reachable_from :: "('s \<Rightarrow> 'l \<Rightarrow> 's \<Rightarrow> bool) \<Rightarrow> 's \<Rightarrow> 's \<Rightarrow> bool"
  for step :: "'s \<Rightarrow> 'l \<Rightarrow> 's \<Rightarrow> bool" and s0 :: 's where
  reach_start: "reachable_from step s0 s0"
| reach_step: "reachable_from step s0 s \<Longrightarrow> step s l t \<Longrightarrow> reachable_from step s0 t"

inductive run_of :: "('s \<Rightarrow> 'l \<Rightarrow> 's \<Rightarrow> bool) \<Rightarrow> 's \<Rightarrow> 'l list \<Rightarrow> 's \<Rightarrow> bool"
  for step :: "'s \<Rightarrow> 'l \<Rightarrow> 's \<Rightarrow> bool" where
  run_nil: "run_of step s [] s"
| run_cons: "step s l t \<Longrightarrow> run_of step t ls u \<Longrightarrow> run_of step s (l # ls) u"

inductive_simps run_of_Nil: "run_of step s [] u"
inductive_simps run_of_Cons: "run_of step s (l # ls) u"

lemma run_of_append: "run_of step s xs t \<Longrightarrow> run_of step t ys u \<Longrightarrow> run_of step s (xs @ ys) u"
  by (induction rule: run_of.induct) (auto intro: run_cons)

lemma run_of_reachable:
  "run_of step s ls u \<Longrightarrow> reachable_from step s0 s \<Longrightarrow> reachable_from step s0 u"
  by (induction rule: run_of.induct) (auto intro: reach_step)

locale safe_system =
  fixes step :: "'s \<Rightarrow> 'l \<Rightarrow> 's \<Rightarrow> bool"
    and start :: 's
    and inv :: "'s \<Rightarrow> bool"
  assumes inv_start: "inv start"
    and inv_step: "inv s \<Longrightarrow> step s l t \<Longrightarrow> inv t"
begin

lemma reachable_inv: "reachable_from step start s \<Longrightarrow> inv s"
  by (induction rule: reachable_from.induct) (auto intro: inv_start inv_step)

lemma run_inv: "run_of step s ls u \<Longrightarrow> inv s \<Longrightarrow> inv u"
  by (induction rule: run_of.induct) (auto intro: inv_step)

end

section \<open>Refinement\<close>

text \<open>
  The operations of an abstract object, each possible in some states only, and the sequence of
  operations that a sequence of concrete steps stands for: \<open>label\<close> says what one step stands for.
\<close>

fun exec_all :: "('o \<Rightarrow> 'm \<Rightarrow> 'm option) \<Rightarrow> 'o list \<Rightarrow> 'm \<Rightarrow> 'm option" where
  "exec_all act [] m = Some m"
| "exec_all act (x # xs) m = (case act x m of None \<Rightarrow> None | Some m' \<Rightarrow> exec_all act xs m')"

lemma exec_all_append:
  "exec_all act (xs @ ys) m = (case exec_all act xs m of None \<Rightarrow> None | Some m' \<Rightarrow> exec_all act ys m')"
  by (induction xs arbitrary: m) (auto split: option.splits)

inductive traced :: "('s \<Rightarrow> 'l \<Rightarrow> 's \<Rightarrow> bool) \<Rightarrow> ('s \<Rightarrow> 'l \<Rightarrow> 'o list) \<Rightarrow> 's \<Rightarrow> 'l list \<Rightarrow> 'o list \<Rightarrow> 's \<Rightarrow> bool"
  for step :: "'s \<Rightarrow> 'l \<Rightarrow> 's \<Rightarrow> bool" and label :: "'s \<Rightarrow> 'l \<Rightarrow> 'o list" where
  traced_nil: "traced step label s [] [] s"
| traced_cons: "step s l t \<Longrightarrow> traced step label t ls xs u \<Longrightarrow> traced step label s (l # ls) (label s l @ xs) u"

lemma run_of_traced: "run_of step s ls u \<Longrightarrow> \<exists>xs. traced step label s ls xs u"
  by (induction rule: run_of.induct) (auto intro: traced.intros)

lemma reachable_run_of: "reachable_from step s0 s \<Longrightarrow> \<exists>ls. run_of step s0 ls s"
  by (induction rule: reachable_from.induct) (blast intro: run_of.intros run_of_append)+

text \<open>
  A concrete system that keeps an invariant and whose steps, as long as they end in a proper state,
  do to the abstract state what their label says.
\<close>

locale refinement = safe_system step start inv
  for step :: "'s \<Rightarrow> 'l \<Rightarrow> 's \<Rightarrow> bool" and start :: 's and inv :: "'s \<Rightarrow> bool" +
  fixes proper :: "'s \<Rightarrow> bool"
    and label :: "'s \<Rightarrow> 'l \<Rightarrow> 'o list"
    and act :: "'o \<Rightarrow> 'm \<Rightarrow> 'm option"
    and abs_state :: "'s \<Rightarrow> 'm"
  assumes step_proper: "step s l t \<Longrightarrow> proper s"
    and step_simulates: "inv s \<Longrightarrow> step s l t \<Longrightarrow> proper t \<Longrightarrow> exec_all act (label s l) (abs_state s) = Some (abs_state t)"
begin

lemma traced_proper: "traced step label s ls xs u \<Longrightarrow> proper u \<Longrightarrow> proper s"
  by (induction rule: traced.induct) (auto intro: step_proper)

lemma traced_simulates:
  "traced step label s ls xs u \<Longrightarrow> inv s \<Longrightarrow> proper u \<Longrightarrow> exec_all act xs (abs_state s) = Some (abs_state u)"
proof (induction rule: traced.induct)
  case (traced_cons s l t ls xs u)
  have "proper t" using traced_proper traced_cons by blast
  with step_simulates inv_step traced_cons show ?case by (simp add: exec_all_append)
qed simp

end

end
