(* ===== verification/CLib.thy ===== *)
theory CLib imports Prelude begin

text \<open>
  The parts of the C library that the sources call, as pure functions.  A C string is the
  list of its characters without the terminating NUL; a character buffer is the list of all
  its cells, and \<open>cstr\<close> reads the string a buffer holds.
\<close>

section \<open>Integer limits\<close>

definition INT_MAX :: int where
  "INT_MAX = 2 ^ 31 - 1"

definition PATH_MAX :: nat where
  "PATH_MAX = 4096"

section \<open>Strings and buffers\<close>

abbreviation NUL :: char where
  "NUL \<equiv> CHR 0x00"

text \<open>The string held by a buffer: the characters before the first NUL.\<close>

definition cstr :: "char list \<Rightarrow> string" where
  "cstr buf = takeWhile (\<lambda>c. c \<noteq> NUL) buf"

text \<open>A character list is the value of a C string when it holds no NUL.\<close>

definition is_cstr :: "string \<Rightarrow> bool" where
  "is_cstr s \<longleftrightarrow> list_all (\<lambda>c. c \<noteq> NUL) s"

definition strlen :: "string \<Rightarrow> nat" where
  [clib_defs]: "strlen s = length s"

text \<open>
  \<open>strcmp\<close> returns the difference of the first pair of characters that differ, as unsigned
  characters, the terminating NUL included.
\<close>

fun strcmp :: "string \<Rightarrow> string \<Rightarrow> int" where
  "strcmp [] [] = 0"
| "strcmp (a # as) [] = int (of_char a)"
| "strcmp [] (b # bs) = - int (of_char b)"
| "strcmp (a # as) (b # bs) =
     (if a = b then strcmp as bs else int (of_char a) - int (of_char b))"

text \<open>
  \<open>strncpy (dst, src, n)\<close> writes exactly \<open>n\<close> cells: the string cut to \<open>n\<close> characters and
  then NULs.  Cells of \<open>dst\<close> beyond \<open>n\<close> are kept.
\<close>

definition strncpy :: "char list \<Rightarrow> string \<Rightarrow> nat \<Rightarrow> char list" where
  "strncpy dst src n = take n src @ replicate (n - length src) NUL @ drop n dst"

text \<open>
  \<open>snprintf (dst, size, ...)\<close> on an output text: the buffer holds the text cut to
  \<open>size - 1\<close> characters and a NUL; the result is the length of the whole text, or a negative
  value when that does not fit an \<open>int\<close>.
\<close>

definition snprintf_ret :: "string \<Rightarrow> int" where
  "snprintf_ret out = (if int (length out) > INT_MAX then -1 else int (length out))"

definition snprintf_buf :: "char list \<Rightarrow> nat \<Rightarrow> string \<Rightarrow> char list" where
  "snprintf_buf dst n out =
     (if n = 0 \<or> snprintf_ret out < 0 then dst
      else take (n - 1) out @ NUL # drop (min (n - 1) (length out) + 1) dst)"

text \<open>The first call of \<open>strtok\<close>: skip leading delimiters, then read up to the next one.\<close>

definition strtok :: "string \<Rightarrow> string \<Rightarrow> string option" where
  "strtok s delim =
     (let s' = dropWhile (\<lambda>c. c \<in> set delim) s
      in if s' = [] then None else Some (takeWhile (\<lambda>c. c \<notin> set delim) s'))"

section \<open>Facts\<close>

lemma of_char_nat_inj [simp]: "(of_char a :: nat) = of_char b \<longleftrightarrow> a = b"
  by (simp add: of_char_eq_iff)

lemma strcmp_eq_0_iff:
  assumes "is_cstr s" and "is_cstr t"
  shows "strcmp s t = 0 \<longleftrightarrow> s = t"
  using assms
proof (induction s t rule: strcmp.induct)
  case (2 a as)
  then show ?case by (cases a rule: char.exhaust) (auto simp: is_cstr_def)
next
  case (3 b bs)
  then show ?case by (cases b rule: char.exhaust) (auto simp: is_cstr_def)
qed (auto simp: is_cstr_def)

lemma is_cstr_append [simp]: "is_cstr (s @ t) \<longleftrightarrow> is_cstr s \<and> is_cstr t"
  by (simp add: is_cstr_def)

lemma is_cstr_drop [simp]: "is_cstr s \<Longrightarrow> is_cstr (drop n s)"
  by (auto simp: is_cstr_def list_all_iff dest: in_set_dropD)

lemma is_cstr_take [simp]: "is_cstr s \<Longrightarrow> is_cstr (take n s)"
  by (auto simp: is_cstr_def list_all_iff dest: in_set_takeD)

lemma is_cstr_cstr [simp]: "is_cstr (cstr buf)"
  by (auto simp: is_cstr_def cstr_def list_all_iff dest: set_takeWhileD)

lemma cstr_terminated [simp]: "is_cstr s \<Longrightarrow> cstr (s @ NUL # rest) = s"
  by (simp add: is_cstr_def cstr_def list_all_iff takeWhile_append)

lemma cstr_eq_iff: "cstr s = s \<longleftrightarrow> is_cstr s"
  by (simp add: cstr_def is_cstr_def list_all_iff takeWhile_id_iff)

lemma cstr_snoc_NUL: "cstr (d @ [NUL]) = cstr d"
  by (induction d) (auto simp: cstr_def)

end
