(* ===== verification/Posix.thy ===== *)
theory Posix imports CLib begin

text \<open>
  The operating system as the C programs see it: a world with a file system, open
  descriptors, heap blocks, the mount table and the sequence of calls made so far.  Every
  call may fail: \<open>fault\<close> is an arbitrary function from the number of calls made so far to
  the error of the next call, so a theorem about every world covers every pattern of failures.
  A call that returns -1 with \<open>errno\<close> (or NULL with \<open>errno\<close>) is \<open>Inl errno\<close> here.
\<close>

section \<open>The world\<close>

text \<open>
  \<open>ENOENT\<close> and \<open>EEXIST\<close> follow from the state of the file system; every other error may
  strike any call at any time.
\<close>

datatype fault_code = EACCES | EIO | ENOMEM | EAGAIN | EINTR | EBUSY

datatype errno = ENOENT | EEXIST | Fault fault_code

datatype node = Directory | Regular "char list"

datatype event =
    Malloc nat
  | Free nat
  | Stat string
  | Open string
  | Read string
  | Write string
  | Fsync
  | Close nat
  | Mkdir string
  | Remove string
  | Sync
  | Setmntent
  | Endmntent
  | Ioctl string

record world =
  fs :: "string \<rightharpoonup> node"
  mtab :: "(string \<times> string) list" \<comment> \<open>\<open>mnt_fsname\<close> and \<open>mnt_dir\<close> of each entry\<close>
  fds :: "nat \<rightharpoonup> string" \<comment> \<open>open descriptors and the path each was opened on\<close>
  next_fd :: nat
  heap :: "nat \<rightharpoonup> nat" \<comment> \<open>live blocks and their sizes\<close>
  next_block :: nat
  fault :: "nat \<Rightarrow> fault_code option"
  trace :: "event list"

text \<open>
  The functions of the C programs return \<open>None\<close> when the program does not come back from the
  call: \<open>abort ()\<close> was called, or the behaviour is undefined.
\<close>

type_synonym 'a c = "('a \<times> world) option"

definition attempt :: "event \<Rightarrow> world \<Rightarrow> fault_code option \<times> world" where
  "attempt e w = (fault w (length (trace w)), w\<lparr>trace := trace w @ [e]\<rparr>)"

section \<open>Calls\<close>

definition sys_malloc :: "nat \<Rightarrow> world \<Rightarrow> (errno + nat) \<times> world" where
  "sys_malloc n w =
     (case attempt (Malloc n) w of
        (Some e, w) \<Rightarrow> (Inl (Fault e), w)
      | (None, w) \<Rightarrow> (Inr (next_block w),
          w\<lparr>heap := (heap w)(next_block w \<mapsto> n), next_block := Suc (next_block w)\<rparr>))"

text \<open>\<open>free\<close> of a block that is not live is undefined behaviour.\<close>

definition sys_free :: "nat \<Rightarrow> world \<Rightarrow> unit c" where
  "sys_free b w =
     (if heap w b = None then None
      else Some ((), w\<lparr>heap := (heap w)(b := None), trace := trace w @ [Free b]\<rparr>))"

definition sys_stat :: "string \<Rightarrow> world \<Rightarrow> (errno + int) \<times> world" where
  "sys_stat p w =
     (case attempt (Stat p) w of
        (Some e, w) \<Rightarrow> (Inl (Fault e), w)
      | (None, w) \<Rightarrow>
          (case fs w p of
             None \<Rightarrow> (Inl ENOENT, w)
           | Some Directory \<Rightarrow> (Inr 0, w)
           | Some (Regular d) \<Rightarrow> (Inr (int (length d)), w)))"

text \<open>Opening a path: \<open>creat\<close> says whether a missing file is created (\<open>O_CREAT\<close>).\<close>

definition sys_open :: "bool \<Rightarrow> string \<Rightarrow> world \<Rightarrow> (errno + nat) \<times> world" where
  "sys_open creat p w =
     (case attempt (Open p) w of
        (Some e, w) \<Rightarrow> (Inl (Fault e), w)
      | (None, w) \<Rightarrow>
          if fs w p = None \<and> \<not> creat then (Inl ENOENT, w)
          else (Inr (next_fd w),
            w\<lparr>fs := (if fs w p = None then (fs w)(p \<mapsto> Regular []) else fs w),
              fds := (fds w)(next_fd w \<mapsto> p), next_fd := Suc (next_fd w)\<rparr>))"

text \<open>
  \<open>fread\<close> of \<open>n\<close> characters from the start of a file that was just opened: the characters
  read, the end-of-file indicator (set when fewer than \<open>n\<close> were available) and the error
  indicator.
\<close>

definition sys_fread :: "nat \<Rightarrow> nat \<Rightarrow> world \<Rightarrow> (char list \<times> bool \<times> bool) \<times> world" where
  "sys_fread fd n w =
     (case fds w fd of
        None \<Rightarrow> (([], False, True), w)
      | Some p \<Rightarrow>
          (case attempt (Read p) w of
             (Some e, w) \<Rightarrow> (([], False, True), w)
           | (None, w) \<Rightarrow>
               (case fs w p of
                  Some (Regular d) \<Rightarrow> ((take n d, length d < n, False), w)
                | _ \<Rightarrow> (([], False, True), w))))"

text \<open>\<open>close\<close> releases the descriptor also when it reports an error.\<close>

definition sys_close :: "nat \<Rightarrow> world \<Rightarrow> (errno + unit) \<times> world" where
  "sys_close fd w =
     (case attempt (Close fd) w of
        (Some e, w) \<Rightarrow> (Inl (Fault e), w\<lparr>fds := (fds w)(fd := None)\<rparr>)
      | (None, w) \<Rightarrow> (Inr (), w\<lparr>fds := (fds w)(fd := None)\<rparr>))"

definition sys_fsync :: "nat \<Rightarrow> world \<Rightarrow> (errno + unit) \<times> world" where
  "sys_fsync fd w =
     (case attempt Fsync w of (Some e, w) \<Rightarrow> (Inl (Fault e), w) | (None, w) \<Rightarrow> (Inr (), w))"

definition sys_mkdir :: "string \<Rightarrow> world \<Rightarrow> (errno + unit) \<times> world" where
  "sys_mkdir p w =
     (case attempt (Mkdir p) w of
        (Some e, w) \<Rightarrow> (Inl (Fault e), w)
      | (None, w) \<Rightarrow>
          if fs w p \<noteq> None then (Inl EEXIST, w)
          else (Inr (), w\<lparr>fs := (fs w)(p \<mapsto> Directory)\<rparr>))"

definition sys_remove :: "string \<Rightarrow> world \<Rightarrow> (errno + unit) \<times> world" where
  "sys_remove p w =
     (case attempt (Remove p) w of
        (Some e, w) \<Rightarrow> (Inl (Fault e), w)
      | (None, w) \<Rightarrow>
          if fs w p = None then (Inl ENOENT, w)
          else (Inr (), w\<lparr>fs := (fs w)(p := None)\<rparr>))"

definition sys_sync :: "world \<Rightarrow> world" where
  "sys_sync w = w\<lparr>trace := trace w @ [Sync]\<rparr>"

text \<open>\<open>setmntent\<close> opens the mount table; \<open>getmntent\<close> then yields its entries in order.\<close>

definition sys_setmntent :: "world \<Rightarrow> (errno + (string \<times> string) list) \<times> world" where
  "sys_setmntent w =
     (case attempt Setmntent w of
        (Some e, w) \<Rightarrow> (Inl (Fault e), w)
      | (None, w) \<Rightarrow> (Inr (mtab w), w))"

definition sys_endmntent :: "world \<Rightarrow> world" where
  "sys_endmntent w = w\<lparr>trace := trace w @ [Endmntent]\<rparr>"

lemmas sys_defs =
  attempt_def sys_malloc_def sys_free_def sys_stat_def sys_open_def sys_fread_def
  sys_close_def sys_fsync_def sys_mkdir_def sys_remove_def sys_sync_def sys_setmntent_def
  sys_endmntent_def

section \<open>Well-formed worlds\<close>

text \<open>Descriptors and blocks not handed out yet are not in use.\<close>

definition wf_world :: "world \<Rightarrow> bool" where
  "wf_world w \<longleftrightarrow>
     (\<forall>n \<ge> next_fd w. fds w n = None) \<and> (\<forall>b \<ge> next_block w. heap w b = None)"

text \<open>
  What a function that gives back every resource it takes leaves unchanged: the open
  descriptors and the live blocks.
\<close>

definition balanced :: "world \<Rightarrow> world \<Rightarrow> bool" where
  "balanced w w' \<longleftrightarrow> fds w' = fds w \<and> heap w' = heap w"

lemma balanced_refl [simp]: "balanced w w"
  by (simp add: balanced_def)

text \<open>A world with a given file system, no open descriptor, no block and no faults.\<close>

definition fresh_world :: "(string \<rightharpoonup> node) \<Rightarrow> world" where
  "fresh_world f = \<lparr>fs = f, mtab = [], fds = Map.empty, next_fd = 3, heap = Map.empty, next_block = 0,
     fault = (\<lambda>_. None), trace = []\<rparr>"

lemma wf_fresh_world [simp]: "wf_world (fresh_world f)"
  by (simp add: wf_world_def fresh_world_def)

text \<open>Worlds in which no call fails for reasons of its own.\<close>

definition no_faults :: "world \<Rightarrow> bool" where
  "no_faults w \<longleftrightarrow> (\<forall>i. fault w i = None)"

text \<open>
  A call is quiet when only the trace of calls grows.  The rules below say of each call what
  it returns and what it changes; the component proofs use them and never unfold a call.
\<close>

definition quiet :: "world \<Rightarrow> world \<Rightarrow> bool" where
  "quiet w w' \<longleftrightarrow>
     fs w' = fs w \<and> fds w' = fds w \<and> heap w' = heap w \<and> next_fd w' = next_fd w \<and>
     next_block w' = next_block w \<and> mtab w' = mtab w \<and> fault w' = fault w"

lemma quiet_refl [simp]: "quiet w w"
  by (simp add: quiet_def)

lemma quiet_trans [trans]: "quiet u v \<Longrightarrow> quiet v w \<Longrightarrow> quiet u w"
  by (simp add: quiet_def)

lemma quiet_wf: "quiet w w' \<Longrightarrow> wf_world w' = wf_world w"
  by (simp add: quiet_def wf_world_def)

lemma quiet_balanced: "quiet w w' \<Longrightarrow> balanced w w'"
  by (simp add: quiet_def balanced_def)

lemma quiet_fs: "quiet w w' \<Longrightarrow> fs w' = fs w"
  by (simp add: quiet_def)

lemma sys_malloc_Inr:
  "sys_malloc n w = (Inr b, w') \<Longrightarrow> wf_world w \<Longrightarrow>
     heap w b = None \<and> heap w' = (heap w)(b \<mapsto> n) \<and> fs w' = fs w \<and> fds w' = fds w \<and>
     mtab w' = mtab w \<and> wf_world w'"
  by (auto simp: sys_malloc_def attempt_def wf_world_def split: option.splits)

lemma sys_free_live:
  "heap w b = Some n \<Longrightarrow> \<exists>w'. sys_free b w = Some ((), w') \<and> heap w' = (heap w)(b := None) \<and>
     fs w' = fs w \<and> fds w' = fds w \<and> mtab w' = mtab w \<and> (wf_world w \<longrightarrow> wf_world w')"
  by (simp add: sys_free_def wf_world_def)

lemma sys_stat_quiet: "sys_stat p w = (r, w') \<Longrightarrow> quiet w w'"
  by (auto simp: sys_stat_def attempt_def quiet_def split: option.splits node.splits)

lemma sys_open_Inl: "sys_open creat p w = (Inl e, w') \<Longrightarrow> quiet w w'"
  by (auto simp: sys_open_def attempt_def quiet_def split: option.splits if_splits)

lemma sys_fread_quiet: "sys_fread fd n w = (r, w') \<Longrightarrow> quiet w w'"
  by (auto simp: sys_fread_def attempt_def quiet_def split: option.splits node.splits)

lemma sys_close_frame:
  "sys_close fd w = (r, w') \<Longrightarrow>
     fs w' = fs w \<and> heap w' = heap w \<and> mtab w' = mtab w \<and> fds w' = (fds w)(fd := None) \<and>
     (wf_world w \<longrightarrow> wf_world w')"
  by (auto simp: sys_close_def attempt_def wf_world_def split: option.splits)

lemma sys_fsync_quiet: "quiet w (snd (sys_fsync fd w))"
  by (auto simp: sys_fsync_def attempt_def quiet_def split: option.splits)

lemma sys_sync_quiet [simp]: "quiet w (sys_sync w)"
  by (simp add: sys_sync_def quiet_def)

lemma sys_endmntent_quiet [simp]: "quiet w (sys_endmntent w)"
  by (simp add: sys_endmntent_def quiet_def)

lemma sys_setmntent_quiet: "sys_setmntent w = (r, w') \<Longrightarrow> quiet w w'"
  by (auto simp: sys_setmntent_def attempt_def quiet_def split: option.splits)

lemma sys_setmntent_Inr: "sys_setmntent w = (Inr es, w') \<Longrightarrow> es = mtab w"
  by (auto simp: sys_setmntent_def attempt_def split: option.splits)

lemma map_take_back [simp]: "m k = None \<Longrightarrow> m(k := None) = m"
  by (simp add: fun_upd_idem)

end
