(* ===== verification/Handler_Common.thy ===== *)
theory Handler_Common imports Posix "HOL-Library.Monad_Syntax" begin

text \<open>
  \<open>firmware-management/swupdate-handlers/arm-handler-common.c\<close>: the helpers of the swupdate
  handlers, one definition per function, in the order of the file.  A \<open>char *\<close> to a fresh
  heap block is the pair of the block and the characters in it; a destination buffer is
  passed in and returned; the log messages are left out.
\<close>

section \<open>Build configuration\<close>

text \<open>The directories that CMake substitutes into \<open>arm-handler-common.h.in\<close>.\<close>

record handler_config =
  BOOTFLAGS_DIR :: string
  PART_INFO_DIR :: string
  TMP_DIR :: string

definition default_config :: handler_config where
  "default_config = \<lparr>BOOTFLAGS_DIR = ''/var/bootflags'',
     PART_INFO_DIR = ''/config/factory/part-info'', TMP_DIR = ''/tmp''\<rparr>"

definition MAX_DEVICE_FILE_PATH :: nat where
  "MAX_DEVICE_FILE_PATH = 512"

section \<open>Operations\<close>

text \<open>The size requested is \<open>sizeof dst * size\<close>, a multiple of the size of a pointer.\<close>

definition malloc_or_abort :: "nat \<Rightarrow> world \<Rightarrow> nat c" where
  "malloc_or_abort n w =
     (case sys_malloc ((8 * n) mod 2 ^ 64) w of
        (Inl e, w) \<Rightarrow> None
      | (Inr dst, w) \<Rightarrow> Some (dst, w))"

definition str_copy_to_new :: "string \<Rightarrow> world \<Rightarrow> (nat \<times> string) c" where
  "str_copy_to_new src w =
     (do {
        (dst, w) \<leftarrow> malloc_or_abort (strlen src + 1) w;
        Some ((dst, src), w)
      })"

definition str_endswith :: "string \<Rightarrow> string \<Rightarrow> int" where
  "str_endswith substr fullstr =
     (let substr_len = strlen substr; fullstr_len = strlen fullstr
      in if substr_len > fullstr_len then 1
         else strcmp (drop (fullstr_len - substr_len) fullstr) substr)"

definition read_file_to_new_str :: "string \<Rightarrow> world \<Rightarrow> (nat \<times> char list) option c" where
  "read_file_to_new_str filepath w =
     (case sys_stat filepath w of
        (Inl e, w) \<Rightarrow> Some (None, w)
      | (Inr st_size, w) \<Rightarrow>
          if st_size < 0 then Some (None, w)
          else do {
            (dst, w) \<leftarrow> malloc_or_abort (nat st_size + 1) w;
            (case sys_open False filepath w of
               (Inl e, w) \<Rightarrow> do { (_, w) \<leftarrow> sys_free dst w; Some (None, w) }
             | (Inr fp, w) \<Rightarrow>
                 (case sys_fread fp (nat st_size) w of
                    ((d, eof, err), w) \<Rightarrow>
                      (case sys_close fp w of
                         (closed, w) \<Rightarrow>
                           if eof \<or> err \<or> isl closed
                           then do { (_, w) \<leftarrow> sys_free dst w; Some (None, w) }
                           else Some (Some (dst, d @ [NUL]), w))))
          })"

text \<open>The loop over \<open>getmntent\<close>; \<open>dst[dst_size - 1]\<close> with size 0 is out of bounds.\<close>

fun scan_mtab :: "char list \<Rightarrow> string \<Rightarrow> nat \<Rightarrow> (string \<times> string) list \<Rightarrow> (int \<times> char list) option" where
  "scan_mtab dst mount_point dst_size [] = Some (-1, dst)"
| "scan_mtab dst mount_point dst_size ((mnt_fsname, mnt_dir) # entries) =
     (if strcmp mount_point mnt_dir = 0
      then if dst_size = 0 then None
           else let dst = strncpy dst mnt_fsname dst_size
                in if dst ! (dst_size - 1) \<noteq> NUL then Some (-1, dst) else Some (0, dst)
      else scan_mtab dst mount_point dst_size entries)"

definition get_mounted_device :: "char list \<Rightarrow> string \<Rightarrow> nat \<Rightarrow> world \<Rightarrow> (int \<times> char list) c" where
  "get_mounted_device dst mount_point dst_size w =
     (case sys_setmntent w of
        (Inl e, w) \<Rightarrow> Some ((-1, dst), w)
      | (Inr entries, w) \<Rightarrow>
          do {
            r \<leftarrow> scan_mtab dst mount_point dst_size entries;
            Some (r, sys_endmntent w)
          })"

text \<open>
  The three checks that follow each \<open>snprintf\<close> of the file: an output error, an output that
  did not fit, success.
\<close>

definition snprintf_checked :: "char list \<Rightarrow> nat \<Rightarrow> string \<Rightarrow> int \<times> char list" where
  "snprintf_checked dst dst_size out =
     (let num_written = snprintf_ret out; dst = snprintf_buf dst dst_size out
      in if num_written < 0 then (-1, dst)
         else if nat num_written \<ge> dst_size then (-1, dst)
         else (0, dst))"

definition find_target_partition ::
    "char list \<Rightarrow> string \<Rightarrow> string \<Rightarrow> string \<Rightarrow> nat \<Rightarrow> world \<Rightarrow> (int \<times> char list) c" where
  "find_target_partition dst mounted_partition bank1_part_num bank2_part_num dst_size w =
     (do {
        ((mnt_device_cpy, s), w) \<leftarrow> str_copy_to_new mounted_partition w;
        let delim = ''p'';
        let r = (case strtok s delim of
                   None \<Rightarrow> (-1, dst)
                 | Some token \<Rightarrow>
                     if str_endswith bank1_part_num mounted_partition = 0
                     then snprintf_checked dst dst_size (token @ delim @ bank2_part_num)
                     else if str_endswith bank2_part_num mounted_partition = 0
                     then snprintf_checked dst dst_size (token @ delim @ bank1_part_num)
                     else (-1, dst));
        (_, w) \<leftarrow> sys_free mnt_device_cpy w;
        Some (r, w)
      })"

definition get_part_info_filepath ::
    "handler_config \<Rightarrow> char list \<Rightarrow> string \<Rightarrow> nat \<Rightarrow> int \<times> char list" where
  "get_part_info_filepath cfg dst file_name dst_size =
     snprintf_checked dst dst_size (PART_INFO_DIR cfg @ ''/'' @ file_name)"

definition read_part_info_file_to_new_str ::
    "handler_config \<Rightarrow> string \<Rightarrow> world \<Rightarrow> (nat \<times> char list) option c" where
  "read_part_info_file_to_new_str cfg file_name w =
     (case get_part_info_filepath cfg (replicate PATH_MAX NUL) file_name PATH_MAX of
        (r, part_info_filepath) \<Rightarrow>
          if r = -1 then Some (None, w)
          else read_file_to_new_str (cstr part_info_filepath) w)"

definition get_bootflag_file_path ::
    "handler_config \<Rightarrow> char list \<Rightarrow> string \<Rightarrow> nat \<Rightarrow> int \<times> char list" where
  "get_bootflag_file_path cfg bootflags_file_path filename n =
     snprintf_checked bootflags_file_path n (BOOTFLAGS_DIR cfg @ ''/'' @ filename)"

definition write_bootflag_file :: "handler_config \<Rightarrow> string \<Rightarrow> world \<Rightarrow> int \<times> world" where
  "write_bootflag_file cfg filename w =
     (case sys_mkdir (BOOTFLAGS_DIR cfg) w of
        (made, w) \<Rightarrow>
          if isl made \<and> projl made \<noteq> EEXIST then (-1, w)
          else
            (case get_bootflag_file_path cfg (replicate PATH_MAX NUL) filename PATH_MAX of
               (r, bootflags_file_path) \<Rightarrow>
                 if r = -1 then (-1, w)
                 else
                   (case sys_open True (cstr bootflags_file_path) w of
                      (Inl e, w) \<Rightarrow> (-1, w)
                    | (Inr fd, w) \<Rightarrow>
                        (case sys_close fd w of (closed, w) \<Rightarrow> (0, sys_sync w)))))"

definition remove_bootflag_file :: "handler_config \<Rightarrow> string \<Rightarrow> world \<Rightarrow> int \<times> world" where
  "remove_bootflag_file cfg filename w =
     (case get_bootflag_file_path cfg (replicate PATH_MAX NUL) filename PATH_MAX of
        (r, bootflags_file_path) \<Rightarrow>
          if r < 0 then (-1, w)
          else
            (case sys_remove (cstr bootflags_file_path) w of
               (removed, w) \<Rightarrow>
                 if isl removed \<and> projl removed \<noteq> ENOENT then (-1, w)
                 else (0, sys_sync w)))"

text \<open>
  \<open>openfileoutput\<close> and \<open>copyimage\<close> belong to swupdate and are parameters: the first returns
  a descriptor or a negative value, the second a negative value on failure.  After a failed
  copy the code jumps to the label \<open>close\<close> before the assignment of -1 to \<open>ret_val\<close>, so that
  assignment is never executed.
\<close>

definition copy_image_and_sync ::
    "(string \<Rightarrow> world \<Rightarrow> int \<times> world) \<Rightarrow> (int \<Rightarrow> 'img \<Rightarrow> world \<Rightarrow> int \<times> world) \<Rightarrow>
     'img \<Rightarrow> string \<Rightarrow> world \<Rightarrow> int \<times> world" where
  "copy_image_and_sync openfileoutput copyimage img device_filepath w =
     (case openfileoutput device_filepath w of
        (fd, w) \<Rightarrow>
          if fd < 0 then (-1, w)
          else
            (case copyimage fd img w of
               (copied, w) \<Rightarrow>
                 let w = (if copied < 0 then w else snd (sys_fsync (nat fd) w))
                 in (case sys_close (nat fd) w of
                       (Inl e, w) \<Rightarrow> (-1, w)
                     | (Inr _, w) \<Rightarrow> (0, w))))"

definition remove_do_not_reboot_flag :: "handler_config \<Rightarrow> world \<Rightarrow> int \<times> world" where
  "remove_do_not_reboot_flag cfg w =
     (case snprintf_checked (replicate PATH_MAX NUL) PATH_MAX (TMP_DIR cfg @ ''/'' @ ''do_not_reboot'') of
        (r, reboot_flag_path) \<Rightarrow>
          if r = -1 then (-1, w)
          else
            (case sys_remove (cstr reboot_flag_path) w of
               (removed, w) \<Rightarrow>
                 if isl removed \<and> projl removed \<noteq> ENOENT then (-1, w)
                 else (0, w)))"

section \<open>Strings and paths\<close>

lemma str_endswith_eq_0:
  assumes "is_cstr substr" and "is_cstr fullstr"
  shows "str_endswith substr fullstr = 0 \<longleftrightarrow> suffix substr fullstr"
  using assms
  by (auto simp: str_endswith_def clib_defs Let_def strcmp_eq_0_iff suffix_drop_iff)

lemma snprintf_checked_result:
  "fst (snprintf_checked dst n out) =
     (if length out < n \<and> int (length out) \<le> INT_MAX then 0 else -1)"
  by (auto simp: snprintf_checked_def snprintf_ret_def Let_def)

lemma snprintf_checked_ok:
  assumes "snprintf_checked dst n out = (0, buf)" and "is_cstr out"
  shows "cstr buf = out"
proof -
  have "length out < n" and "int (length out) \<le> INT_MAX"
    using snprintf_checked_result [of dst n out] assms(1) by (auto split: if_splits)
  moreover from this have "buf = snprintf_buf dst n out"
    using assms(1) by (auto simp: snprintf_checked_def snprintf_ret_def Let_def split: if_splits)
  moreover have "min (n - 1) (length out) = length out"
    using \<open>length out < n\<close> by simp
  ultimately have "buf = out @ NUL # drop (length out + 1) dst"
    by (simp add: snprintf_buf_def snprintf_ret_def INT_MAX_def)
  then show ?thesis
    using assms(2) by simp
qed

text \<open>A path of the right size is formatted whole; a longer one is refused.\<close>

lemma snprintf_checked_path:
  assumes "is_cstr out"
  obtains (ok) buf where "length out < PATH_MAX" "snprintf_checked dst PATH_MAX out = (0, buf)" "cstr buf = out"
  | (long) buf where "\<not> length out < PATH_MAX" "snprintf_checked dst PATH_MAX out = (-1, buf)"
proof (cases "length out < PATH_MAX")
  case True
  obtain buf where "snprintf_checked dst PATH_MAX out = (0, buf)"
    using snprintf_checked_result [of dst PATH_MAX out] True
    by (cases "snprintf_checked dst PATH_MAX out") (auto simp: PATH_MAX_def INT_MAX_def)
  with snprintf_checked_ok [OF this assms] True show ?thesis
    by (auto intro: ok)
next
  case False
  then show ?thesis
    using snprintf_checked_result [of dst PATH_MAX out]
    by (cases "snprintf_checked dst PATH_MAX out") (auto intro: long)
qed

section \<open>Memory and files\<close>

text \<open>
  Reading a file: what is returned is the content of the file, terminated, in a fresh block;
  when NULL is returned every resource has been given back.
\<close>

lemma read_file_to_new_str_cases:
  assumes "read_file_to_new_str p w = Some (r, w')" and "wf_world w"
  shows "fs w' = fs w \<and> fds w' = fds w \<and> wf_world w' \<and> fault w' = fault w \<and>
    (case r of
       None \<Rightarrow> heap w' = heap w
     | Some (b, buf) \<Rightarrow>
         heap w b = None \<and>
         (\<exists>d. fs w p = Some (Regular d) \<and> buf = d @ [NUL] \<and>
           heap w' = (heap w)(b \<mapsto> (8 * (length d + 1)) mod 2 ^ 64)))"
  using assms
  by (auto simp: read_file_to_new_str_def malloc_or_abort_def sys_defs wf_world_def
      split: option.splits node.splits if_splits Option.bind_splits sum.splits)

section \<open>Choosing the partition to write\<close>

text \<open>The device file of a partition: the disk, the letter p and the partition number.\<close>

definition partition_device :: "string \<Rightarrow> string \<Rightarrow> string" where
  "partition_device disk num = disk @ ''p'' @ num"

lemma is_cstr_partition_device [simp]:
  "is_cstr (partition_device disk num) \<longleftrightarrow> is_cstr disk \<and> is_cstr num"
  by (auto simp: partition_device_def is_cstr_def)

text \<open>
  The layouts on which comparing the ends of device names tells the banks apart: the disk's
  name and the partition numbers hold no p, and neither number ends with the other.
\<close>

definition bank_layout :: "string \<Rightarrow> string \<Rightarrow> string \<Rightarrow> bool" where
  "bank_layout disk b1 b2 \<longleftrightarrow>
     disk \<noteq> [] \<and> is_cstr disk \<and> is_cstr b1 \<and> is_cstr b2 \<and>
     CHR ''p'' \<notin> set disk \<and> CHR ''p'' \<notin> set b1 \<and> CHR ''p'' \<notin> set b2 \<and>
     \<not> suffix b1 b2 \<and> \<not> suffix b2 b1"

lemma strtok_disk:
  assumes "disk \<noteq> []" and "CHR ''p'' \<notin> set disk"
  shows "strtok (partition_device disk num) ''p'' = Some disk"
proof -
  have "dropWhile (\<lambda>c. c \<in> set ''p'') (partition_device disk num) = partition_device disk num"
    using assms by (cases disk) (auto simp: partition_device_def)
  moreover have "takeWhile (\<lambda>c. c \<notin> set ''p'') (partition_device disk num) = disk"
    using assms by (simp add: takeWhile_append partition_device_def)
  ultimately show ?thesis
    using assms by (simp add: strtok_def partition_device_def)
qed

lemma suffix_partition_device:
  assumes "CHR ''p'' \<notin> set a"
  shows "suffix a (partition_device disk num) \<longleftrightarrow> suffix a num"
proof
  assume s: "suffix a (partition_device disk num)"
  have "length a \<le> length num"
  proof (rule ccontr)
    assume "\<not> length a \<le> length num"
    then have "suffix (''p'' @ num) a"
      using suffix_unique_by_length [of "''p'' @ num" "partition_device disk num" a] s
      by (simp add: partition_device_def suffix_appendI)
    then show False
      using assms by (auto simp: suffix_def)
  qed
  then show "suffix a num"
    using suffix_tail [of a "disk @ ''p''" num] s by (simp add: partition_device_def)
next
  assume "suffix a num"
  then show "suffix a (partition_device disk num)"
    by (auto simp: suffix_def partition_device_def)
qed

lemma endswith_partition:
  assumes "is_cstr disk" "is_cstr num" "is_cstr a" "CHR ''p'' \<notin> set a"
  shows "str_endswith a (partition_device disk num) = 0 \<longleftrightarrow> suffix a num"
  using assms by (simp add: str_endswith_eq_0 suffix_partition_device)

text \<open>The choice of the code, without the buffer and the allocation.\<close>

definition target_name :: "string \<Rightarrow> string \<Rightarrow> string \<Rightarrow> string option" where
  "target_name mounted b1 b2 =
     (case strtok mounted ''p'' of
        None \<Rightarrow> None
      | Some token \<Rightarrow>
          if str_endswith b1 mounted = 0 then Some (partition_device token b2)
          else if str_endswith b2 mounted = 0 then Some (partition_device token b1)
          else None)"

lemma find_target_partition_cases:
  assumes "find_target_partition dst mounted b1 b2 n w = Some ((r, buf), w')" and "wf_world w"
  shows "fs w' = fs w \<and> balanced w w' \<and> wf_world w' \<and> fault w' = fault w \<and>
    (r, buf) = (case target_name mounted b1 b2 of
                  None \<Rightarrow> (-1, dst)
                | Some out \<Rightarrow> snprintf_checked dst n out)"
  using assms
  by (auto simp: find_target_partition_def str_copy_to_new_def malloc_or_abort_def sys_defs
      wf_world_def balanced_def target_name_def partition_device_def Let_def
      split: option.splits if_splits Option.bind_splits sum.splits)

lemma find_target_partition_None:
  "find_target_partition dst mounted b1 b2 n w = None \<longleftrightarrow> fault w (length (trace w)) \<noteq> None"
  by (auto simp: find_target_partition_def str_copy_to_new_def malloc_or_abort_def sys_defs Let_def
      split: option.splits)

lemma target_name_bank1:
  "bank_layout disk b1 b2 \<Longrightarrow>
     target_name (partition_device disk b1) b1 b2 = Some (partition_device disk b2)"
  using endswith_partition [of disk b1 b1]
  by (simp add: target_name_def bank_layout_def strtok_disk)

lemma target_name_bank2:
  "bank_layout disk b1 b2 \<Longrightarrow>
     target_name (partition_device disk b2) b1 b2 = Some (partition_device disk b1)"
  using endswith_partition [of disk b2 b1] endswith_partition [of disk b2 b2]
  by (simp add: target_name_def bank_layout_def strtok_disk)

section \<open>The mounted device\<close>

text \<open>
  The first entry of the mount table for a mount point is the one that decides, and a device
  name that does not leave room for the NUL is an error.
\<close>

lemma strncpy_fits:
  assumes "0 < n" and "length src < n"
  shows "strncpy dst src n ! (n - 1) = NUL" and "is_cstr src \<Longrightarrow> cstr (strncpy dst src n) = src"
proof -
  have e: "strncpy dst src n = src @ NUL # replicate (n - length src - 1) NUL @ drop n dst"
    using assms by (cases "n - length src") (auto simp: strncpy_def)
  show "strncpy dst src n ! (n - 1) = NUL"
    using assms by (auto simp: strncpy_def nth_append)
  show "cstr (strncpy dst src n) = src" if "is_cstr src"
    using that by (simp add: e)
qed

lemma strncpy_truncates:
  assumes "0 < n" and "n \<le> length src" and "is_cstr src"
  shows "strncpy dst src n ! (n - 1) \<noteq> NUL"
  using assms by (auto simp: strncpy_def nth_append is_cstr_def list_all_length)

lemma scan_mtab_eq:
  assumes "0 < n" and "is_cstr mp" and "\<forall>(f, d) \<in> set es. is_cstr f \<and> is_cstr d"
  shows "scan_mtab dst mp n es =
    (case find (\<lambda>(f, d). d = mp) es of
       None \<Rightarrow> Some (-1, dst)
     | Some (f, d) \<Rightarrow> Some (if length f < n then 0 else -1, strncpy dst f n))"
  using assms(3)
proof (induction es)
  case (Cons e es)
  obtain f d where e: "e = (f, d)" by force
  have "strcmp mp d = 0 \<longleftrightarrow> d = mp"
    using Cons.prems assms(2) strcmp_eq_0_iff [of mp d] e by auto
  with Cons assms(1,2) show ?case
    using strncpy_fits(1) [of n f dst] strncpy_truncates [of n f dst]
    by (auto simp: e Let_def not_less)
qed simp

section \<open>Flag files\<close>

text \<open>
  The contract of a flag kept as the presence of a file: what setting and clearing promise
  when they report success and what they keep when they report failure.
\<close>

locale flag_file =
  fixes set_flag :: "'s \<Rightarrow> int \<times> 's"
    and clear_flag :: "'s \<Rightarrow> int \<times> 's"
    and present :: "'s \<Rightarrow> bool"
  assumes set_ok: "set_flag s = (0, s') \<Longrightarrow> present s'"
    and set_fails: "set_flag s = (r, s') \<Longrightarrow> r \<noteq> 0 \<Longrightarrow> r = -1 \<and> present s' = present s"
    and clear_ok: "clear_flag s = (0, s') \<Longrightarrow> \<not> present s'"
    and clear_fails: "clear_flag s = (r, s') \<Longrightarrow> r \<noteq> 0 \<Longrightarrow> r = -1 \<and> present s' = present s"
begin

text \<open>What a client that sets or clears the flag by a condition can rely on.\<close>

lemma choose_ok:
  "(if b then set_flag s else clear_flag s) = (0, s') \<Longrightarrow> present s' = b"
  using set_ok clear_ok by (auto split: if_splits)

lemma choose_fails:
  "(if b then set_flag s else clear_flag s) = (r, s') \<Longrightarrow> r \<noteq> 0 \<Longrightarrow>
     r = -1 \<and> present s' = present s"
  using set_fails clear_fails by (cases b) auto

end

text \<open>A boot flag: the file in the boot flags directory.\<close>

definition bootflag_path :: "handler_config \<Rightarrow> string \<Rightarrow> string" where
  "bootflag_path cfg filename = BOOTFLAGS_DIR cfg @ ''/'' @ filename"

definition bootflag_present :: "handler_config \<Rightarrow> string \<Rightarrow> world \<Rightarrow> bool" where
  "bootflag_present cfg filename w \<longleftrightarrow> fs w (bootflag_path cfg filename) \<noteq> None"

definition usable_path :: "string \<Rightarrow> bool" where
  "usable_path p \<longleftrightarrow> is_cstr p \<and> length p < PATH_MAX"

lemma get_bootflag_file_path_usable:
  assumes "usable_path (bootflag_path cfg f)"
  obtains buf where "get_bootflag_file_path cfg dst f PATH_MAX = (0, buf)"
    "cstr buf = bootflag_path cfg f"
  using assms snprintf_checked_path [of "bootflag_path cfg f" dst]
  by (auto simp: usable_path_def get_bootflag_file_path_def bootflag_path_def)

lemma bootflag_path_neq_dir: "bootflag_path cfg f \<noteq> BOOTFLAGS_DIR cfg"
  by (simp add: bootflag_path_def)

lemma write_bootflag_file_cases:
  assumes "write_bootflag_file cfg f w = (r, w')" and "usable_path (bootflag_path cfg f)"
  shows "(r = 0 \<and> bootflag_present cfg f w' \<or>
          r = -1 \<and> fs w' (bootflag_path cfg f) = fs w (bootflag_path cfg f)) \<and>
    (\<forall>p. p \<noteq> bootflag_path cfg f \<longrightarrow> p \<noteq> BOOTFLAGS_DIR cfg \<longrightarrow> fs w' p = fs w p) \<and>
    (wf_world w \<longrightarrow> balanced w w' \<and> wf_world w')"
proof -
  obtain buf where "get_bootflag_file_path cfg (replicate PATH_MAX NUL) f PATH_MAX = (0, buf)"
    "cstr buf = bootflag_path cfg f"
    using get_bootflag_file_path_usable [OF assms(2)] by blast
  with assms(1) show ?thesis
    by (auto simp: write_bootflag_file_def bootflag_present_def sys_defs balanced_def wf_world_def
        bootflag_path_neq_dir split: option.splits if_splits prod.splits)
qed

lemma remove_bootflag_file_cases:
  assumes "remove_bootflag_file cfg f w = (r, w')" and "usable_path (bootflag_path cfg f)"
  shows "(r = 0 \<and> \<not> bootflag_present cfg f w' \<or> r = -1 \<and> fs w' = fs w) \<and>
    (\<forall>p. p \<noteq> bootflag_path cfg f \<longrightarrow> fs w' p = fs w p) \<and>
    balanced w w' \<and> wf_world w' = wf_world w"
proof -
  obtain buf where "get_bootflag_file_path cfg (replicate PATH_MAX NUL) f PATH_MAX = (0, buf)"
    "cstr buf = bootflag_path cfg f"
    using get_bootflag_file_path_usable [OF assms(2)] by blast
  with assms(1) show ?thesis
    by (auto simp: remove_bootflag_file_def bootflag_present_def sys_defs balanced_def wf_world_def
        split: option.splits if_splits prod.splits)
qed

lemma bootflag_flag_file:
  assumes "usable_path (bootflag_path cfg f)"
  shows "flag_file (write_bootflag_file cfg f) (remove_bootflag_file cfg f) (bootflag_present cfg f)"
proof
  show "bootflag_present cfg f s'" if "write_bootflag_file cfg f s = (0, s')" for s s'
    using write_bootflag_file_cases [OF that assms] by simp
  show "r = -1 \<and> bootflag_present cfg f s' = bootflag_present cfg f s"
    if "write_bootflag_file cfg f s = (r, s')" "r \<noteq> 0" for s r s'
    using write_bootflag_file_cases [OF that(1) assms] that(2) by (auto simp: bootflag_present_def)
  show "\<not> bootflag_present cfg f s'" if "remove_bootflag_file cfg f s = (0, s')" for s s'
    using remove_bootflag_file_cases [OF that assms] by simp
  show "r = -1 \<and> bootflag_present cfg f s' = bootflag_present cfg f s"
    if "remove_bootflag_file cfg f s = (r, s')" "r \<noteq> 0" for s r s'
    using remove_bootflag_file_cases [OF that(1) assms] that(2) by (auto simp: bootflag_present_def)
qed

text \<open>The flag of the root file system handler, in the directory that CMake sets by default.\<close>

interpretation rootfs2_flag: flag_file
  "write_bootflag_file default_config ''rootfs2''"
  "remove_bootflag_file default_config ''rootfs2''"
  "bootflag_present default_config ''rootfs2''"
  by (rule bootflag_flag_file)
    (simp add: usable_path_def bootflag_path_def default_config_def is_cstr_def PATH_MAX_def)

text \<open>The flag that keeps the device from rebooting.\<close>

definition do_not_reboot_path :: "handler_config \<Rightarrow> string" where
  "do_not_reboot_path cfg = TMP_DIR cfg @ ''/'' @ ''do_not_reboot''"

lemma remove_do_not_reboot_flag_cases:
  assumes "remove_do_not_reboot_flag cfg w = (r, w')" and "usable_path (do_not_reboot_path cfg)"
  shows "(r = 0 \<and> fs w' (do_not_reboot_path cfg) = None \<or> r = -1 \<and> fs w' = fs w) \<and>
    (\<forall>p. p \<noteq> do_not_reboot_path cfg \<longrightarrow> fs w' p = fs w p) \<and>
    balanced w w' \<and> wf_world w' = wf_world w"
proof -
  obtain buf where "snprintf_checked (replicate PATH_MAX NUL) PATH_MAX (do_not_reboot_path cfg) = (0, buf)"
    "cstr buf = do_not_reboot_path cfg"
    using assms(2) snprintf_checked_path [of "do_not_reboot_path cfg"] by (auto simp: usable_path_def)
  with assms(1) show ?thesis
    by (auto simp: remove_do_not_reboot_flag_def sys_defs balanced_def wf_world_def
        do_not_reboot_path_def split: option.splits if_splits prod.splits)
qed

section \<open>Copying the image\<close>

text \<open>
  The result says whether the device could be opened and closed; whether the image was
  copied has no influence on it.
\<close>

lemma copy_image_and_sync_open_fails:
  "openfileoutput dev w = (fd, w1) \<Longrightarrow> fd < 0 \<Longrightarrow>
     copy_image_and_sync openfileoutput copyimage img dev w = (-1, w1)"
  by (simp add: copy_image_and_sync_def)

lemma copy_image_and_sync_opened:
  assumes "openfileoutput dev w = (fd, w1)" and "0 \<le> fd" and "copyimage fd img w1 = (c, w2)"
  shows "copy_image_and_sync openfileoutput copyimage img dev w =
    (case sys_close (nat fd) (if c < 0 then w2 else snd (sys_fsync (nat fd) w2)) of
       (r, w') \<Rightarrow> (if isl r then -1 else 0, w'))"
  using assms by (auto simp: copy_image_and_sync_def Let_def split: prod.splits sum.splits)

section \<open>Properties\<close>

text \<open>\<open>str_endswith\<close> returns 0 exactly when the second string ends with the first.\<close>

lemma str_endswith_correct:
  assumes "is_cstr substr" and "is_cstr fullstr"
  shows "str_endswith substr fullstr = 0 \<longleftrightarrow> (\<exists>pre. fullstr = pre @ substr)"
  using str_endswith_eq_0 [OF assms] by (simp add: suffix_def)

text \<open>\<open>read_file_to_new_str\<close> returns the content of the file with a terminating NUL, in a fresh
  block that is large enough for it, or NULL with nothing allocated; in both cases no
  descriptor stays open and the file system is unchanged.\<close>

lemma read_file_to_new_str_correct:
  assumes "read_file_to_new_str p w = Some (r, w')" and "wf_world w"
  shows "fs w' = fs w \<and> fds w' = fds w \<and>
    (case r of
       None \<Rightarrow> heap w' = heap w
     | Some (b, buf) \<Rightarrow>
         heap w b = None \<and>
         (\<exists>d. fs w p = Some (Regular d) \<and> buf = d @ [NUL]) \<and>
         heap w' = (heap w)(b := heap w' b) \<and>
         (\<exists>n. heap w' b = Some n \<and> (8 * length buf < 2 ^ 64 \<longrightarrow> length buf \<le> n)))"
  using read_file_to_new_str_cases [OF assms] by (auto split: option.splits)

lemma read_file_to_new_str_correct_example:
  "\<exists>w'. read_file_to_new_str ''/f'' (fresh_world [''/f'' \<mapsto> Regular ''12'']) = Some (Some (0, ''12'' @ [NUL]), w') \<and>
     fds w' = Map.empty \<and> fs w' = [''/f'' \<mapsto> Regular ''12'']"
proof -
  obtain w' where r: "read_file_to_new_str ''/f'' (fresh_world [''/f'' \<mapsto> Regular ''12'']) = Some (Some (0, ''12'' @ [NUL]), w')"
    by (simp add: read_file_to_new_str_def malloc_or_abort_def sys_defs fresh_world_def)
  show ?thesis
    using r read_file_to_new_str_correct [OF r wf_fresh_world] by (simp add: fresh_world_def)
qed

text \<open>\<open>get_mounted_device\<close> copies the device of the first mount table entry for the mount point
  into the buffer and returns 0 when the name and its NUL fit; it returns -1 when there is no
  entry, when the name is cut, and when the table cannot be opened.  A result of 0 is always
  a terminated string.\<close>

lemma get_mounted_device_correct:
  assumes "0 < n" and "is_cstr mp" and "\<forall>(f, d) \<in> set (mtab w). is_cstr f \<and> is_cstr d"
  shows "\<exists>r buf w'. get_mounted_device dst mp n w = Some ((r, buf), w') \<and> quiet w w' \<and>
    (if fault w (length (trace w)) = None
     then (case find (\<lambda>(f, d). d = mp) (mtab w) of
             None \<Rightarrow> r = -1 \<and> buf = dst
           | Some (f, d) \<Rightarrow> if length f < n then r = 0 \<and> cstr buf = f else r = -1)
     else r = -1 \<and> buf = dst)"
proof (cases "fault w (length (trace w))")
  case None
  have "is_cstr f" if "find (\<lambda>(f, d). d = mp) (mtab w) = Some (f, d)" for f d
    using find_SomeD [OF that] assms(3) by auto
  then show ?thesis
    using None scan_mtab_eq [OF assms, of dst] strncpy_fits(2) [OF assms(1)]
    by (auto simp: get_mounted_device_def sys_defs quiet_def split: option.splits prod.splits)
next
  case (Some e)
  then show ?thesis
    by (simp add: get_mounted_device_def sys_defs quiet_def)
qed

lemma get_mounted_device_correct_example:
  "\<exists>buf w'. get_mounted_device [] ''/'' 9 ((fresh_world Map.empty)\<lparr>mtab := [(''/dev/sda'', ''/'')]\<rparr>) =
     Some ((0, buf), w') \<and> cstr buf = ''/dev/sda''"
  using get_mounted_device_correct [of 9 "''/''" "(fresh_world Map.empty)\<lparr>mtab := [(''/dev/sda'', ''/'')]\<rparr>" "[]"]
  by (auto simp: is_cstr_def fresh_world_def)

text \<open>Partition numbers that end alike defeat the choice.  If the number of bank 1 is the end
  of the number of bank 2 (1 and 11), then from bank 2 the target is the mounted partition
  itself, which the handler would overwrite.\<close>

lemma find_target_partition_suffix_clash:
  assumes "disk \<noteq> []" and "is_cstr disk" and "is_cstr b1" and "is_cstr b2"
    and "CHR ''p'' \<notin> set disk" and "CHR ''p'' \<notin> set b1" and "suffix b1 b2"
    and "wf_world w" and "length (partition_device disk b2) < n" and "int n \<le> INT_MAX"
    and "find_target_partition dst (partition_device disk b2) b1 b2 n w = Some ((r, buf), w')"
  shows "r = 0 \<and> cstr buf = partition_device disk b2"
proof -
  have "target_name (partition_device disk b2) b1 b2 = Some (partition_device disk b2)"
    using assms by (simp add: target_name_def strtok_disk endswith_partition)
  then have e: "(r, buf) = snprintf_checked dst n (partition_device disk b2)"
    using find_target_partition_cases [OF assms(11,8)] by simp
  then have "r = 0"
    using snprintf_checked_result [of dst n "partition_device disk b2"] assms(9,10)
    by (cases "snprintf_checked dst n (partition_device disk b2)") auto
  with e snprintf_checked_ok [of dst n "partition_device disk b2" buf] assms(2,4) show ?thesis
    by simp
qed

lemma find_target_partition_suffix_clash_example:
  "\<exists>buf w'. find_target_partition [] (partition_device ''/dev/mmcblk0'' ''11'') ''1'' ''11'' 512 (fresh_world Map.empty) =
     Some ((0, buf), w') \<and> cstr buf = ''/dev/mmcblk0p11''"
proof -
  have "find_target_partition [] (partition_device ''/dev/mmcblk0'' ''11'') ''1'' ''11'' 512 (fresh_world Map.empty) \<noteq> None"
    by (simp add: find_target_partition_None fresh_world_def)
  then obtain r buf w' where run: "find_target_partition [] (partition_device ''/dev/mmcblk0'' ''11'') ''1'' ''11'' 512
      (fresh_world Map.empty) = Some ((r, buf), w')" by force
  show ?thesis
    using run find_target_partition_suffix_clash [OF _ _ _ _ _ _ _ _ _ _ run]
    by (simp add: is_cstr_def INT_MAX_def suffix_def partition_device_def)
qed

text \<open>A device name without the letter p is not refused.  \<open>strtok\<close> then yields the whole name
  and the target is the name of the mounted partition with a second number appended, which
  names no partition of that disk.\<close>

lemma find_target_partition_without_p:
  assumes "mounted \<noteq> []" and "is_cstr mounted" and "is_cstr b1" and "is_cstr b2"
    and "CHR ''p'' \<notin> set mounted" and "suffix b1 mounted"
    and "wf_world w" and "length mounted + 1 + length b2 < n" and "int n \<le> INT_MAX"
    and "find_target_partition dst mounted b1 b2 n w = Some ((r, buf), w')"
  shows "r = 0 \<and> cstr buf = mounted @ ''p'' @ b2"
proof -
  have "dropWhile (\<lambda>c. c \<in> set ''p'') mounted = mounted" "takeWhile (\<lambda>c. c \<notin> set ''p'') mounted = mounted"
    using assms(1,5) by (cases mounted, auto simp: takeWhile_id_iff)
  then have "strtok mounted ''p'' = Some mounted"
    using assms(1) by (simp add: strtok_def)
  then have "target_name mounted b1 b2 = Some (mounted @ ''p'' @ b2)"
    using assms(2,3,6) by (simp add: target_name_def str_endswith_eq_0 partition_device_def)
  then have e: "(r, buf) = snprintf_checked dst n (mounted @ ''p'' @ b2)"
    using find_target_partition_cases [OF assms(10,7)] by simp
  then have "r = 0"
    using snprintf_checked_result [of dst n "mounted @ ''p'' @ b2"] assms(8,9) by (cases "snprintf_checked dst n (mounted @ ''p'' @ b2)") auto
  with e snprintf_checked_ok [of dst n "mounted @ ''p'' @ b2" buf] assms(2,4) show ?thesis
    by (auto simp: is_cstr_def)
qed

lemma find_target_partition_without_p_example:
  "\<exists>buf w'. find_target_partition [] ''/dev/sda2'' ''2'' ''3'' 512 (fresh_world Map.empty) =
     Some ((0, buf), w') \<and> cstr buf = ''/dev/sda2p3''"
proof -
  have "find_target_partition [] ''/dev/sda2'' ''2'' ''3'' 512 (fresh_world Map.empty) \<noteq> None"
    by (simp add: find_target_partition_None fresh_world_def)
  then obtain r buf w' where run: "find_target_partition [] ''/dev/sda2'' ''2'' ''3'' 512 (fresh_world Map.empty) =
      Some ((r, buf), w')" by force
  show ?thesis
    using run find_target_partition_without_p [OF _ _ _ _ _ _ _ _ _ run]
    by (simp add: is_cstr_def INT_MAX_def suffix_def)
qed

end
