(* ===== verification/Rootfs_Handler.thy ===== *)
theory Rootfs_Handler imports Handler_Common begin

text \<open>
  \<open>firmware-management/swupdate-handlers/rootfs-handler.c\<close>: the swupdate handler that writes a
  root file system image to the bank that is not mounted, records in a boot flag which bank
  to boot next and removes the flag that keeps the device from rebooting.
\<close>

section \<open>The handler\<close>

text \<open>From the copy of the image to the label \<open>clean\<close>.\<close>

definition rootfs_install ::
    "handler_config \<Rightarrow> (string \<Rightarrow> world \<Rightarrow> int \<times> world) \<Rightarrow> (int \<Rightarrow> 'img \<Rightarrow> world \<Rightarrow> int \<times> world) \<Rightarrow>
     'img \<Rightarrow> string \<Rightarrow> string \<Rightarrow> world \<Rightarrow> int \<times> world" where
  "rootfs_install cfg openfileoutput copyimage img b2_pnum target_device_filepath w =
     (case copy_image_and_sync openfileoutput copyimage img target_device_filepath w of
        (r, w) \<Rightarrow>
          if r = -1 then (1, w)
          else
            (case (if str_endswith b2_pnum target_device_filepath = 0
                   then write_bootflag_file cfg ''rootfs2'' w
                   else remove_bootflag_file cfg ''rootfs2'' w) of
               (r, w) \<Rightarrow>
                 if r = -1 then (1, w)
                 else
                   (case remove_do_not_reboot_flag cfg w of
                      (r, w) \<Rightarrow> if r = -1 then (1, w) else (0, w))))"

text \<open>
  From the choice of the target to the end: both numbers have been read into their blocks,
  which are freed on every path.  \<open>stack\<close> is what a local buffer holds before it is written.
\<close>

definition rootfs_with_banks ::
    "handler_config \<Rightarrow> (string \<Rightarrow> world \<Rightarrow> int \<times> world) \<Rightarrow> (int \<Rightarrow> 'img \<Rightarrow> world \<Rightarrow> int \<times> world) \<Rightarrow>
     char list \<Rightarrow> 'img \<Rightarrow> string \<Rightarrow> nat \<times> char list \<Rightarrow> nat \<times> char list \<Rightarrow> world \<Rightarrow> int c" where
  "rootfs_with_banks cfg openfileoutput copyimage stack img mounted_device_filepath b1 b2 w =
     (do {
        ((found, target_device_filepath), w) \<leftarrow>
          find_target_partition stack mounted_device_filepath (cstr (snd b1)) (cstr (snd b2))
            MAX_DEVICE_FILE_PATH w;
        let (return_value, w) =
          (if found \<noteq> 0 then (1, w)
           else rootfs_install cfg openfileoutput copyimage img
                  (cstr (snd b2)) (cstr target_device_filepath) w);
        (_, w) \<leftarrow> sys_free (fst b1) w;
        (_, w) \<leftarrow> sys_free (fst b2) w;
        Some (return_value, w)
      })"

definition rootfsv4_handler ::
    "handler_config \<Rightarrow> (string \<Rightarrow> world \<Rightarrow> int \<times> world) \<Rightarrow> (int \<Rightarrow> 'img \<Rightarrow> world \<Rightarrow> int \<times> world) \<Rightarrow>
     char list \<Rightarrow> 'img \<Rightarrow> world \<Rightarrow> int c" where
  "rootfsv4_handler cfg openfileoutput copyimage stack img w =
     (do {
        ((mounted, mounted_device_filepath), w) \<leftarrow> get_mounted_device stack ''/'' MAX_DEVICE_FILE_PATH w;
        if mounted \<noteq> 0 then Some (1, w)
        else do {
          (b1_pnum, w) \<leftarrow> read_part_info_file_to_new_str cfg ''MBL_ROOT_FS_PART_NUMBER_BANK1'' w;
          (case b1_pnum of
             None \<Rightarrow> Some (1, w)
           | Some b1 \<Rightarrow>
               do {
                 (b2_pnum, w) \<leftarrow> read_part_info_file_to_new_str cfg ''MBL_ROOT_FS_PART_NUMBER_BANK2'' w;
                 (case b2_pnum of
                    None \<Rightarrow> do { (_, w) \<leftarrow> sys_free (fst b1) w; Some (1, w) }
                  | Some b2 \<Rightarrow>
                      rootfs_with_banks cfg openfileoutput copyimage stack img
                        (cstr mounted_device_filepath) b1 b2 w)
               })
        }
      })"

section \<open>What the handler relies on\<close>

text \<open>
  The documented behaviour of swupdate's two functions: a non-negative result of
  \<open>openfileoutput\<close> is a fresh descriptor on the path, \<open>copyimage\<close> writes to the file behind
  the descriptor only, and when it does not return a negative value the file holds the image.
\<close>

definition swupdate_api ::
    "(string \<Rightarrow> world \<Rightarrow> int \<times> world) \<Rightarrow> (int \<Rightarrow> 'img \<Rightarrow> world \<Rightarrow> int \<times> world) \<Rightarrow> ('img \<Rightarrow> char list) \<Rightarrow> bool" where
  "swupdate_api openfileoutput copyimage payload \<longleftrightarrow>
     (\<forall>dev w fd w'. wf_world w \<longrightarrow> openfileoutput dev w = (fd, w') \<longrightarrow>
        wf_world w' \<and> heap w' = heap w \<and> fault w' = fault w \<and>
        (\<forall>p. p \<noteq> dev \<longrightarrow> fs w' p = fs w p) \<and>
        (if fd < 0 then fds w' = fds w
         else fds w (nat fd) = None \<and> fds w' = (fds w)(nat fd \<mapsto> dev))) \<and>
     (\<forall>fd img w r w' dev. wf_world w \<longrightarrow> 0 \<le> fd \<longrightarrow> fds w (nat fd) = Some dev \<longrightarrow>
        copyimage fd img w = (r, w') \<longrightarrow>
        wf_world w' \<and> heap w' = heap w \<and> fds w' = fds w \<and> fault w' = fault w \<and>
        (\<forall>p. p \<noteq> dev \<longrightarrow> fs w' p = fs w p) \<and>
        (0 \<le> r \<longrightarrow> fs w' dev = Some (Regular (payload img))))"

lemma swupdate_open:
  assumes "swupdate_api openfileoutput copyimage payload" "openfileoutput dev w = (fd, w')" "wf_world w"
  shows "wf_world w'" "heap w' = heap w" "fault w' = fault w" "p \<noteq> dev \<Longrightarrow> fs w' p = fs w p"
    "fd < 0 \<Longrightarrow> fds w' = fds w" "0 \<le> fd \<Longrightarrow> fds w (nat fd) = None"
    "0 \<le> fd \<Longrightarrow> fds w' = (fds w)(nat fd \<mapsto> dev)"
  using assms unfolding swupdate_api_def by (blast, blast, blast, blast, metis, metis not_less, metis not_less)

lemma swupdate_copy:
  assumes "swupdate_api openfileoutput copyimage payload" "copyimage fd img w = (r, w')" "wf_world w"
    "0 \<le> fd" "fds w (nat fd) = Some dev"
  shows "wf_world w'" "heap w' = heap w" "fault w' = fault w" "fds w' = fds w"
    "p \<noteq> dev \<Longrightarrow> fs w' p = fs w p" "0 \<le> r \<Longrightarrow> fs w' dev = Some (Regular (payload img))"
  using assms unfolding swupdate_api_def by blast+

text \<open>
  The run in which the image was copied: both functions reported success in the world the
  handler called them in.
\<close>

definition image_copied ::
    "(string \<Rightarrow> world \<Rightarrow> int \<times> world) \<Rightarrow> (int \<Rightarrow> 'img \<Rightarrow> world \<Rightarrow> int \<times> world) \<Rightarrow>
     'img \<Rightarrow> string \<Rightarrow> world \<Rightarrow> bool" where
  "image_copied openfileoutput copyimage img dev w \<longleftrightarrow>
     (case openfileoutput dev w of (fd, w) \<Rightarrow> 0 \<le> fd \<and> 0 \<le> fst (copyimage fd img w))"

lemma copy_image_and_sync_cases:
  assumes "copy_image_and_sync openfileoutput copyimage img dev w = (r, w')"
    and "swupdate_api openfileoutput copyimage payload" and "wf_world w"
  shows "wf_world w' \<and> balanced w w' \<and> r \<in> {0, -1} \<and> (\<forall>p. p \<noteq> dev \<longrightarrow> fs w' p = fs w p) \<and>
    (image_copied openfileoutput copyimage img dev w \<longrightarrow> fs w' dev = Some (Regular (payload img)))"
proof (cases "openfileoutput dev w")
  case (Pair fd w1)
  note o = swupdate_open [OF assms(2) Pair assms(3)]
  show ?thesis
  proof (cases "fd < 0")
    case True
    with assms(1) Pair o show ?thesis
      by (simp add: copy_image_and_sync_open_fails balanced_def image_copied_def)
  next
    case False
    obtain c w2 where c: "copyimage fd img w1 = (c, w2)" by force
    have fd: "0 \<le> fd" "fds w1 (nat fd) = Some dev"
      using False o(7) by simp_all
    note d = swupdate_copy [OF assms(2) c o(1) fd]
    define w3 where "w3 = (if c < 0 then w2 else snd (sys_fsync (nat fd) w2))"
    have q: "quiet w2 w3"
      by (simp add: w3_def sys_fsync_quiet)
    obtain cl w4 where cl: "sys_close (nat fd) w3 = (cl, w4)" by force
    have "r = (if isl cl then -1 else 0)" "w' = w4"
      using copy_image_and_sync_opened [of openfileoutput dev w fd w1 copyimage img c w2]
        assms(1) Pair False c cl by (auto simp: w3_def)
    with o d q quiet_wf [OF q] sys_close_frame [OF cl] fd Pair c show ?thesis
      by (simp add: balanced_def quiet_def image_copied_def)
  qed
qed

text \<open>A device path is not one of the paths the handler uses for its flags.\<close>

definition not_a_flag :: "handler_config \<Rightarrow> string \<Rightarrow> bool" where
  "not_a_flag cfg dev \<longleftrightarrow>
     dev \<noteq> bootflag_path cfg ''rootfs2'' \<and> dev \<noteq> BOOTFLAGS_DIR cfg \<and> dev \<noteq> do_not_reboot_path cfg"

definition part_info_path :: "handler_config \<Rightarrow> string \<Rightarrow> string" where
  "part_info_path cfg file_name = PART_INFO_DIR cfg @ ''/'' @ file_name"

abbreviation bank1_file :: string where
  "bank1_file \<equiv> ''MBL_ROOT_FS_PART_NUMBER_BANK1''"

abbreviation bank2_file :: string where
  "bank2_file \<equiv> ''MBL_ROOT_FS_PART_NUMBER_BANK2''"

definition usable_config :: "handler_config \<Rightarrow> bool" where
  "usable_config cfg \<longleftrightarrow>
     usable_path (part_info_path cfg bank1_file) \<and> usable_path (part_info_path cfg bank2_file) \<and>
     usable_path (bootflag_path cfg ''rootfs2'') \<and> usable_path (do_not_reboot_path cfg) \<and>
     bootflag_path cfg ''rootfs2'' \<noteq> do_not_reboot_path cfg \<and>
     do_not_reboot_path cfg \<noteq> BOOTFLAGS_DIR cfg"

lemma choose_flag_frame:
  assumes "(if b then write_bootflag_file cfg f w else remove_bootflag_file cfg f w) = (r, w')"
    and "usable_path (bootflag_path cfg f)" and "wf_world w"
  shows "balanced w w' \<and> wf_world w' \<and>
    (\<forall>p. p \<noteq> bootflag_path cfg f \<longrightarrow> p \<noteq> BOOTFLAGS_DIR cfg \<longrightarrow> fs w' p = fs w p)"
  using assms write_bootflag_file_cases [of cfg f w r w'] remove_bootflag_file_cases [of cfg f w r w']
  by (cases b) auto

lemma rootfs_install_balanced:
  assumes run: "rootfs_install cfg openfileoutput copyimage img b2 dev w = (r, w')"
    and api: "swupdate_api openfileoutput copyimage payload" and wf: "wf_world w"
    and cfg: "usable_config cfg"
  shows "balanced w w' \<and> wf_world w' \<and> r \<in> {0, 1}"
proof -
  let ?b = "str_endswith b2 dev = 0"
  have up: "usable_path (bootflag_path cfg ''rootfs2'')" and ud: "usable_path (do_not_reboot_path cfg)"
    using cfg by (auto simp: usable_config_def)
  obtain r1 w1 where c: "copy_image_and_sync openfileoutput copyimage img dev w = (r1, w1)" by force
  obtain r2 w2 where f: "(if ?b then write_bootflag_file cfg ''rootfs2'' w1
      else remove_bootflag_file cfg ''rootfs2'' w1) = (r2, w2)" by force
  obtain r3 w3 where d: "remove_do_not_reboot_flag cfg w2 = (r3, w3)" by force
  note C = copy_image_and_sync_cases [OF c api wf]
  have F: "balanced w1 w2 \<and> wf_world w2"
    using choose_flag_frame [OF f up] C by blast
  note D = remove_do_not_reboot_flag_cases [OF d ud]
  have "(r, w') \<in> {(1, w1), (1, w2), (1, w3), (0, w3)}"
    using run c f d by (auto simp: rootfs_install_def split: if_splits)
  with C F D show ?thesis
    by (auto simp: balanced_def)
qed

lemma rootfs_install_cases:
  fixes w :: world
  assumes run: "rootfs_install cfg openfileoutput copyimage img b2 dev w = (r, w')"
    and api: "swupdate_api openfileoutput copyimage payload" and wf: "wf_world w"
    and cfg: "usable_config cfg" and dev: "not_a_flag cfg dev"
  shows "balanced w w' \<and> wf_world w' \<and> r \<in> {0, 1} \<and>
    (\<forall>p. p \<noteq> dev \<longrightarrow> not_a_flag cfg p \<longrightarrow> fs w' p = fs w p) \<and>
    (r = 0 \<longrightarrow> (bootflag_present cfg ''rootfs2'' w' \<longleftrightarrow> str_endswith b2 dev = 0) \<and>
              fs w' (do_not_reboot_path cfg) = None) \<and>
    (r = 0 \<longrightarrow> image_copied openfileoutput copyimage img dev w \<longrightarrow>
              fs w' dev = Some (Regular (payload img))) \<and>
    (r = 1 \<longrightarrow> bootflag_present cfg ''rootfs2'' w' = bootflag_present cfg ''rootfs2'' w \<or>
              (bootflag_present cfg ''rootfs2'' w' \<longleftrightarrow> str_endswith b2 dev = 0))"
proof -
  let ?b = "str_endswith b2 dev = 0"
  have up: "usable_path (bootflag_path cfg ''rootfs2'')" and ud: "usable_path (do_not_reboot_path cfg)"
    and ne: "bootflag_path cfg ''rootfs2'' \<noteq> do_not_reboot_path cfg"
    using cfg by (auto simp: usable_config_def)
  note flag = bootflag_flag_file [OF up]
  obtain r1 w1 where c: "copy_image_and_sync openfileoutput copyimage img dev w = (r1, w1)" by force
  obtain r2 w2 where f: "(if ?b then write_bootflag_file cfg ''rootfs2'' w1
      else remove_bootflag_file cfg ''rootfs2'' w1) = (r2, w2)" by force
  obtain r3 w3 where d: "remove_do_not_reboot_flag cfg w2 = (r3, w3)" by force
  note C = copy_image_and_sync_cases [OF c api wf]
  have F: "balanced w1 w2 \<and> wf_world w2 \<and>
      (\<forall>p. p \<noteq> bootflag_path cfg ''rootfs2'' \<longrightarrow> p \<noteq> BOOTFLAGS_DIR cfg \<longrightarrow> fs w2 p = fs w1 p)"
    using choose_flag_frame [OF f up] C by blast
  note D = remove_do_not_reboot_flag_cases [OF d ud]
  have r2: "r2 = 0 \<and> bootflag_present cfg ''rootfs2'' w2 = ?b \<or>
      r2 = -1 \<and> bootflag_present cfg ''rootfs2'' w2 = bootflag_present cfg ''rootfs2'' w1"
    using flag_file.choose_ok [OF flag, of ?b w1 w2] flag_file.choose_fails [OF flag f] f by (cases "r2 = 0") auto
  have p1: "bootflag_present cfg ''rootfs2'' w1 = bootflag_present cfg ''rootfs2'' w"
    using C dev by (auto simp: bootflag_present_def not_a_flag_def)
  have p3: "bootflag_present cfg ''rootfs2'' w3 = bootflag_present cfg ''rootfs2'' w2"
    using D ne by (auto simp: bootflag_present_def)
  consider (no_copy) "r = 1" "w' = w1" | (no_flag) "r2 = -1" "r = 1" "w' = w2"
    | (flagged) "r1 \<noteq> -1" "r2 \<noteq> -1" "r = (if r3 = -1 then 1 else 0)" "w' = w3"
    using run c f d by (auto simp: rootfs_install_def split: if_splits)
  then show ?thesis
  proof cases
    case no_copy
    then show ?thesis using C p1 by simp
  next
    case no_flag
    then show ?thesis using C F r2 p1 by (simp add: not_a_flag_def balanced_def)
  next
    case flagged
    then have "bootflag_present cfg ''rootfs2'' w' = ?b"
      using r2 p3 by auto
    moreover have "balanced w w'" "wf_world w'" "r \<in> {0, 1}"
      using flagged C F D by (auto simp: balanced_def)
    moreover have "fs w' p = fs w p" if "p \<noteq> dev" "not_a_flag cfg p" for p
      using that flagged C F D by (simp add: not_a_flag_def)
    moreover have "fs w' dev = fs w1 dev"
      using flagged F D dev by (simp add: not_a_flag_def)
    moreover have "fs w' (do_not_reboot_path cfg) = None" if "r = 0"
      using that flagged D by (auto split: if_splits)
    ultimately show ?thesis using C by simp
  qed
qed

section \<open>Runs of the handler\<close>

text \<open>The root device, as the first entry of the mount table for the root directory.\<close>

definition root_device :: "world \<Rightarrow> string option" where
  "root_device w = map_option fst (find (\<lambda>(f, d). d = ''/'') (mtab w))"

definition cstr_mtab :: "world \<Rightarrow> bool" where
  "cstr_mtab w \<longleftrightarrow> (\<forall>(f, d) \<in> set (mtab w). is_cstr f \<and> is_cstr d)"

lemma get_mounted_device_root:
  assumes "get_mounted_device stack ''/'' MAX_DEVICE_FILE_PATH w = Some ((r, buf), w')" and "cstr_mtab w"
  shows "quiet w w' \<and>
    (r = 0 \<longrightarrow> (\<exists>dev. root_device w = Some dev \<and> length dev < MAX_DEVICE_FILE_PATH \<and> cstr buf = dev))"
proof (cases "sys_setmntent w")
  case (Pair es w1)
  note q = sys_setmntent_quiet [OF Pair]
  show ?thesis
  proof (cases es)
    case (Inl e)
    with assms(1) Pair q show ?thesis by (simp add: get_mounted_device_def)
  next
    case (Inr entries)
    have "entries = mtab w"
      using sys_setmntent_Inr Pair Inr by simp
    then have e: "scan_mtab stack ''/'' MAX_DEVICE_FILE_PATH (mtab w) = Some (r, buf)" and w': "w' = sys_endmntent w1"
      using assms(1) Pair Inr by (auto simp: get_mounted_device_def split: Option.bind_splits)
    have "quiet w w'"
      using q w' quiet_trans sys_endmntent_quiet by blast
    moreover have "\<exists>dev. root_device w = Some dev \<and> length dev < MAX_DEVICE_FILE_PATH \<and> cstr buf = dev" if "r = 0"
    proof -
      have "scan_mtab stack ''/'' MAX_DEVICE_FILE_PATH (mtab w) =
          (case find (\<lambda>(f, d). d = ''/'') (mtab w) of None \<Rightarrow> Some (-1, stack)
           | Some (f, d) \<Rightarrow> Some (if length f < MAX_DEVICE_FILE_PATH then 0 else -1, strncpy stack f MAX_DEVICE_FILE_PATH))"
        using assms(2) by (intro scan_mtab_eq) (auto simp: MAX_DEVICE_FILE_PATH_def is_cstr_def cstr_mtab_def)
      with e that obtain f d where f: "find (\<lambda>(f, d). d = ''/'') (mtab w) = Some (f, d)"
        "length f < MAX_DEVICE_FILE_PATH" "buf = strncpy stack f MAX_DEVICE_FILE_PATH"
        by (auto split: option.splits if_splits)
      then have "is_cstr f"
        using assms(2) find_SomeD [OF f(1)] by (auto simp: cstr_mtab_def)
      with f show ?thesis
        using strncpy_fits(2) [of MAX_DEVICE_FILE_PATH f stack] by (simp add: root_device_def MAX_DEVICE_FILE_PATH_def)
    qed
    ultimately show ?thesis by blast
  qed
qed

lemma read_part_info_cases:
  assumes "read_part_info_file_to_new_str cfg f w = Some (r, w')" and "wf_world w"
    and "usable_path (part_info_path cfg f)"
  shows "fs w' = fs w \<and> fds w' = fds w \<and> wf_world w' \<and> fault w' = fault w \<and>
    (case r of
       None \<Rightarrow> heap w' = heap w
     | Some (b, buf) \<Rightarrow>
         heap w b = None \<and> (\<exists>d n. fs w (part_info_path cfg f) = Some (Regular d) \<and> buf = d @ [NUL] \<and>
           heap w' = (heap w)(b \<mapsto> n)))"
proof -
  obtain buf where "get_part_info_filepath cfg (replicate PATH_MAX NUL) f PATH_MAX = (0, buf)"
    "cstr buf = part_info_path cfg f"
    using assms(3) snprintf_checked_path [of "part_info_path cfg f"]
    by (auto simp: usable_path_def get_part_info_filepath_def part_info_path_def)
  then have "read_file_to_new_str (part_info_path cfg f) w = Some (r, w')"
    using assms(1) by (simp add: read_part_info_file_to_new_str_def)
  from read_file_to_new_str_cases [OF this assms(2)] show ?thesis
    by (auto split: option.splits)
qed

text \<open>
  A run that comes back either stopped before the image was copied, with the file system
  untouched, or went through \<open>rootfs_install\<close> on the target that \<open>target_name\<close> chooses; in
  both cases every descriptor and every block has been given back.
\<close>

lemma free_both:
  assumes "heap w b1 = Some n1" "heap w b2 = Some n2" "b1 \<noteq> b2" "wf_world w"
  obtains u v where "sys_free b1 w = Some ((), u)" "sys_free b2 u = Some ((), v)" "fs v = fs w" "fds v = fds w"
    "heap v = (heap w)(b1 := None, b2 := None)" "wf_world v"
proof -
  obtain u where u: "sys_free b1 w = Some ((), u)" "heap u = (heap w)(b1 := None)" "fs u = fs w"
    "fds u = fds w" "wf_world u"
    using sys_free_live [OF assms(1)] assms(4) by blast
  then have "heap u b2 = Some n2" using assms(2,3) by simp
  then obtain v where "sys_free b2 u = Some ((), v)" "heap v = (heap u)(b2 := None)" "fs v = fs u"
    "fds v = fds u" "wf_world v"
    using sys_free_live u(5) by blast
  with u show ?thesis by (intro that [of u v]) simp_all
qed

lemma target_name_is_cstr:
  assumes "target_name mounted b1 b2 = Some t" "is_cstr mounted" "is_cstr b1" "is_cstr b2"
  shows "is_cstr t"
proof -
  have "is_cstr token" if "strtok mounted ''p'' = Some token" for token
    using that assms(2) by (auto simp: strtok_def is_cstr_def list_all_iff Let_def split: if_splits
        dest!: set_takeWhileD set_dropWhileD)
  with assms show ?thesis
    by (auto simp: target_name_def split: option.splits if_splits)
qed

definition went_through_install ::
    "handler_config \<Rightarrow> (string \<Rightarrow> world \<Rightarrow> int \<times> world) \<Rightarrow> (int \<Rightarrow> 'img \<Rightarrow> world \<Rightarrow> int \<times> world) \<Rightarrow>
     'img \<Rightarrow> string \<Rightarrow> string \<Rightarrow> string \<Rightarrow> world \<Rightarrow> int \<Rightarrow> world \<Rightarrow> bool" where
  "went_through_install cfg openfileoutput copyimage img mounted b1 b2 w r w' \<longleftrightarrow>
     (\<exists>target w1 w2. target_name mounted b1 b2 = Some target \<and> fs w1 = fs w \<and>
        fault w1 = fault w \<and> wf_world w1 \<and>
        rootfs_install cfg openfileoutput copyimage img b2 target w1 = (r, w2) \<and> fs w' = fs w2)"

lemma rootfs_with_banks_run:
  assumes run: "rootfs_with_banks cfg openfileoutput copyimage stack img mounted (k1, p1) (k2, p2) w = Some (r, w')"
    and api: "swupdate_api openfileoutput copyimage payload" and wf: "wf_world w"
    and cfg: "usable_config cfg" and c: "is_cstr mounted"
    and h: "heap w k1 = Some n1" "heap w k2 = Some n2" "k1 \<noteq> k2"
  shows "fds w' = fds w \<and> heap w' = (heap w)(k1 := None, k2 := None) \<and>
    (r = 1 \<and> fs w' = fs w \<or>
     went_through_install cfg openfileoutput copyimage img mounted (cstr p1) (cstr p2) w r w')"
proof -
  obtain found buf w1 where f: "find_target_partition stack mounted (cstr p1) (cstr p2) MAX_DEVICE_FILE_PATH w = Some ((found, buf), w1)"
    using run by (auto simp: rootfs_with_banks_def split: Option.bind_splits)
  note F = find_target_partition_cases [OF f wf]
  obtain r2 w2 where i: "(if found \<noteq> 0 then (1, w1)
      else rootfs_install cfg openfileoutput copyimage img (cstr p2) (cstr buf) w1) = (r2, w2)" by force
  have b: "balanced w1 w2 \<and> wf_world w2"
    using i F rootfs_install_balanced [OF _ api _ cfg] by (auto split: if_splits)
  then have "heap w2 k1 = Some n1" "heap w2 k2 = Some n2"
    using F h by (auto simp: balanced_def)
  then obtain u v where uv: "sys_free k1 w2 = Some ((), u)" "sys_free k2 u = Some ((), v)" "fs v = fs w2" "fds v = fds w2"
    "heap v = (heap w2)(k1 := None, k2 := None)"
    using free_both [of w2 k1 n1 k2 n2] h(3) b by metis
  have e: "r = r2" "w' = v"
    using run f i uv by (auto simp: rootfs_with_banks_def Let_def split: if_splits)
  have "went_through_install cfg openfileoutput copyimage img mounted (cstr p1) (cstr p2) w r w'" if fz: "found = 0"
  proof -
    obtain t where t: "target_name mounted (cstr p1) (cstr p2) = Some t"
      "snprintf_checked stack MAX_DEVICE_FILE_PATH t = (0, buf)"
      using F fz by (auto split: option.splits)
    have "cstr buf = t"
      using snprintf_checked_ok [OF t(2)] target_name_is_cstr [OF t(1) c] by simp
    with t(1) F i fz e uv show ?thesis
      by (auto simp: went_through_install_def)
  qed
  with e i F uv b show ?thesis
    by (auto simp: balanced_def split: if_splits)
qed

lemma read_both:
  assumes "read_part_info_file_to_new_str cfg bank1_file w = Some (Some (k1, p1), w1)"
    and "read_part_info_file_to_new_str cfg bank2_file w1 = Some (Some (k2, p2), w2)"
    and "wf_world w" and "usable_config cfg"
  obtains d1 d2 n1 n2 where
    "fs w (part_info_path cfg bank1_file) = Some (Regular d1)" "cstr p1 = cstr d1"
    "fs w (part_info_path cfg bank2_file) = Some (Regular d2)" "cstr p2 = cstr d2"
    "heap w2 k1 = Some n1" "heap w2 k2 = Some n2" "k1 \<noteq> k2"
    "(heap w2)(k1 := None, k2 := None) = heap w" "fs w2 = fs w" "fds w2 = fds w" "wf_world w2" "fault w2 = fault w"
proof -
  have u: "usable_path (part_info_path cfg bank1_file)" "usable_path (part_info_path cfg bank2_file)"
    using assms(4) by (auto simp: usable_config_def)
  note P1 = read_part_info_cases [OF assms(1,3) u(1), simplified]
  have wf1: "wf_world w1" using P1 by blast
  note P2 = read_part_info_cases [OF assms(2) wf1 u(2), simplified]
  from P1 P2 obtain d1 d2 n1 n2 where
    d: "fs w (part_info_path cfg bank1_file) = Some (Regular d1)" "p1 = d1 @ [NUL]"
    "fs w (part_info_path cfg bank2_file) = Some (Regular d2)" "p2 = d2 @ [NUL]"
    "heap w2 = (heap w)(k1 \<mapsto> n1, k2 \<mapsto> n2)" "heap w k1 = None" "((heap w)(k1 \<mapsto> n1)) k2 = None"
    by auto
  then have "k1 \<noteq> k2" "heap w k2 = None"
    by (auto split: if_splits)
  with d cstr_snoc_NUL P1 P2 show ?thesis
    by (intro that [of d1 d2 n1 n2]) (auto simp: fun_upd_twist)
qed

lemma rootfsv4_handler_run:
  assumes run: "rootfsv4_handler cfg openfileoutput copyimage stack img w = Some (r, w')"
    and api: "swupdate_api openfileoutput copyimage payload" and wf: "wf_world w"
    and cfg: "usable_config cfg" and mt: "cstr_mtab w"
  shows "balanced w w' \<and>
    (r = 1 \<and> fs w' = fs w \<or>
     (\<exists>dev d1 d2. root_device w = Some dev \<and>
        fs w (part_info_path cfg bank1_file) = Some (Regular d1) \<and>
        fs w (part_info_path cfg bank2_file) = Some (Regular d2) \<and>
        went_through_install cfg openfileoutput copyimage img dev (cstr d1) (cstr d2) w r w'))"
proof -
  obtain m buf w1 where m: "get_mounted_device stack ''/'' MAX_DEVICE_FILE_PATH w = Some ((m, buf), w1)"
    using run by (auto simp: rootfsv4_handler_def split: Option.bind_splits)
  note M = get_mounted_device_root [OF m mt]
  have wf1: "wf_world w1" using M quiet_wf wf by blast
  have u: "usable_path (part_info_path cfg bank1_file)" "usable_path (part_info_path cfg bank2_file)"
    using cfg by (auto simp: usable_config_def)
  consider (no_root) "r = 1" "w' = w1"
    | (no_b1) w2 where "m = 0" "read_part_info_file_to_new_str cfg bank1_file w1 = Some (None, w2)" "r = 1" "w' = w2"
    | (b1) k1 p1 w2 b2 w3 where "m = 0" "read_part_info_file_to_new_str cfg bank1_file w1 = Some (Some (k1, p1), w2)"
      "read_part_info_file_to_new_str cfg bank2_file w2 = Some (b2, w3)"
    using run m by (auto simp: rootfsv4_handler_def split: Option.bind_splits if_splits option.splits)
  then show ?thesis
  proof cases
    case no_root
    then show ?thesis using M by (simp add: quiet_balanced quiet_fs)
  next
    case no_b1
    with read_part_info_cases [OF no_b1(2) wf1 u(1)] M show ?thesis
      by (auto simp: balanced_def quiet_def)
  next
    case (b1 k1 p1 w2 b2 w3)
    then obtain dev where dev: "root_device w = Some dev" "cstr buf = dev" using M by blast
    note P1 = read_part_info_cases [OF b1(2) wf1 u(1), simplified]
    have wf2: "wf_world w2" using P1 by blast
    note P2 = read_part_info_cases [OF b1(3) wf2 u(2)]
    show ?thesis
    proof (cases b2)
      case None
      then obtain v where "sys_free k1 w3 = Some ((), v)" "heap v = (heap w3)(k1 := None)" "fs v = fs w3" "fds v = fds w3"
        using P1 P2 sys_free_live [of w3 k1] by auto
      with None run m b1 P1 P2 M show ?thesis
        by (auto simp: rootfsv4_handler_def balanced_def quiet_def)
    next
      case (Some x)
      obtain k2 p2 where x: "x = (k2, p2)" by force
      from read_both [OF b1(2) b1(3)[unfolded Some x] wf1 cfg] obtain d1 d2 n1 n2
        where d: "fs w1 (part_info_path cfg bank1_file) = Some (Regular d1)" "cstr p1 = cstr d1"
          "fs w1 (part_info_path cfg bank2_file) = Some (Regular d2)" "cstr p2 = cstr d2"
          "heap w3 k1 = Some n1" "heap w3 k2 = Some n2" "k1 \<noteq> k2"
          "(heap w3)(k1 := None, k2 := None) = heap w1" "fs w3 = fs w1" "fds w3 = fds w1" "wf_world w3"
          "fault w3 = fault w1" .
      have "rootfs_with_banks cfg openfileoutput copyimage stack img dev (k1, p1) (k2, p2) w3 = Some (r, w')"
        using run m b1 Some x dev by (simp add: rootfsv4_handler_def)
      from rootfs_with_banks_run [OF this api d(11) cfg _ d(5-7)] dev(2)
      have "fds w' = fds w3 \<and> heap w' = heap w1 \<and>
          (r = 1 \<and> fs w' = fs w3 \<or> went_through_install cfg openfileoutput copyimage img dev (cstr d1) (cstr d2) w3 r w')"
        using is_cstr_cstr [of buf] d by simp
      with d dev(1) M show ?thesis
        by (auto simp: balanced_def went_through_install_def quiet_def)
    qed
  qed
qed

section \<open>Runs without faults\<close>

lemma get_mounted_device_no_faults:
  assumes "no_faults w" "cstr_mtab w" "root_device w = Some dev" "length dev < MAX_DEVICE_FILE_PATH"
  obtains buf w' where "get_mounted_device stack ''/'' MAX_DEVICE_FILE_PATH w = Some ((0, buf), w')"
    "cstr buf = dev" "no_faults w'" "quiet w w'"
proof -
  have "scan_mtab stack ''/'' MAX_DEVICE_FILE_PATH (mtab w) =
      (case find (\<lambda>(f, d). d = ''/'') (mtab w) of None \<Rightarrow> Some (-1, stack)
       | Some (f, d) \<Rightarrow> Some (if length f < MAX_DEVICE_FILE_PATH then 0 else -1, strncpy stack f MAX_DEVICE_FILE_PATH))"
    using assms(2) by (intro scan_mtab_eq) (auto simp: MAX_DEVICE_FILE_PATH_def is_cstr_def cstr_mtab_def)
  moreover obtain d where f: "find (\<lambda>(f, d). d = ''/'') (mtab w) = Some (dev, d)"
    using assms(3) by (auto simp: root_device_def)
  moreover have "is_cstr dev"
    using assms(2) find_SomeD [OF f] by (auto simp: cstr_mtab_def)
  ultimately show ?thesis
    using assms strncpy_fits(2) [of MAX_DEVICE_FILE_PATH dev stack]
    by (intro that [of "strncpy stack dev MAX_DEVICE_FILE_PATH" "sys_endmntent (w\<lparr>trace := trace w @ [Setmntent]\<rparr>)"])
       (auto simp: get_mounted_device_def sys_defs no_faults_def MAX_DEVICE_FILE_PATH_def quiet_def)
qed

lemma read_part_info_no_faults:
  assumes "no_faults w" "usable_path (part_info_path cfg f)" "fs w (part_info_path cfg f) = Some (Regular d)"
  obtains b w' where "read_part_info_file_to_new_str cfg f w = Some (Some (b, d @ [NUL]), w')" "no_faults w'"
proof -
  obtain buf where "get_part_info_filepath cfg (replicate PATH_MAX NUL) f PATH_MAX = (0, buf)"
    "cstr buf = part_info_path cfg f"
    using assms(2) snprintf_checked_path [of "part_info_path cfg f"]
    by (auto simp: usable_path_def get_part_info_filepath_def part_info_path_def)
  with assms show ?thesis
    by (auto intro!: that simp: read_part_info_file_to_new_str_def read_file_to_new_str_def malloc_or_abort_def
        sys_defs no_faults_def)
qed

lemma find_target_partition_no_faults:
  assumes "no_faults w" "target_name mounted b1 b2 = Some t" "length t < n" "int n \<le> INT_MAX" "is_cstr t"
  obtains buf w' where "find_target_partition dst mounted b1 b2 n w = Some ((0, buf), w')" "cstr buf = t" "no_faults w'"
proof -
  obtain buf where b: "snprintf_checked dst n t = (0, buf)"
    using snprintf_checked_result [of dst n t] assms(3,4) by (cases "snprintf_checked dst n t") auto
  from assms(2) obtain token where token: "strtok mounted ''p'' = Some token"
    by (auto simp: target_name_def split: option.splits)
  show ?thesis
    using assms(1,2) b token snprintf_checked_ok [OF b assms(5)]
    by (auto intro!: that simp: find_target_partition_def str_copy_to_new_def malloc_or_abort_def sys_defs no_faults_def
        target_name_def partition_device_def Let_def split: if_splits)
qed

lemma write_bootflag_no_faults:
  assumes "no_faults w" "usable_path (bootflag_path cfg f)"
  shows "fst (write_bootflag_file cfg f w) = 0" "no_faults (snd (write_bootflag_file cfg f w))"
proof -
  obtain buf where "get_bootflag_file_path cfg (replicate PATH_MAX NUL) f PATH_MAX = (0, buf)"
    using get_bootflag_file_path_usable [OF assms(2)] by blast
  with assms(1) show "fst (write_bootflag_file cfg f w) = 0" "no_faults (snd (write_bootflag_file cfg f w))"
    by (auto simp: write_bootflag_file_def sys_defs no_faults_def)
qed

lemma remove_bootflag_no_faults:
  assumes "no_faults w" "usable_path (bootflag_path cfg f)"
  shows "fst (remove_bootflag_file cfg f w) = 0" "no_faults (snd (remove_bootflag_file cfg f w))"
proof -
  obtain buf where "get_bootflag_file_path cfg (replicate PATH_MAX NUL) f PATH_MAX = (0, buf)"
    using get_bootflag_file_path_usable [OF assms(2)] by blast
  with assms(1) show "fst (remove_bootflag_file cfg f w) = 0" "no_faults (snd (remove_bootflag_file cfg f w))"
    by (auto simp: remove_bootflag_file_def sys_defs no_faults_def)
qed

lemma remove_do_not_reboot_no_faults:
  assumes "no_faults w" "usable_path (do_not_reboot_path cfg)"
  shows "fst (remove_do_not_reboot_flag cfg w) = 0"
proof -
  obtain buf where "snprintf_checked (replicate PATH_MAX NUL) PATH_MAX (do_not_reboot_path cfg) = (0, buf)"
    using assms(2) snprintf_checked_path [of "do_not_reboot_path cfg"] by (auto simp: usable_path_def)
  with assms(1) show ?thesis
    by (auto simp: remove_do_not_reboot_flag_def sys_defs no_faults_def do_not_reboot_path_def)
qed

definition always_opens :: "(string \<Rightarrow> world \<Rightarrow> int \<times> world) \<Rightarrow> bool" where
  "always_opens openfileoutput \<longleftrightarrow> (\<forall>dev w. no_faults w \<longrightarrow> 0 \<le> fst (openfileoutput dev w))"

lemma copy_image_no_faults:
  assumes "no_faults w" "wf_world w" "swupdate_api openfileoutput copyimage payload" "always_opens openfileoutput"
  shows "fst (copy_image_and_sync openfileoutput copyimage img dev w) = 0"
    "no_faults (snd (copy_image_and_sync openfileoutput copyimage img dev w))"
proof -
  obtain fd w1 where o: "openfileoutput dev w = (fd, w1)" by force
  obtain c w2 where c: "copyimage fd img w1 = (c, w2)" by force
  have fd: "0 \<le> fd" using assms(1,4) o by (metis always_opens_def fst_conv)
  note 1 = swupdate_open [OF assms(3) o assms(2)]
  have "fds w1 (nat fd) = Some dev" using 1(7) [OF fd] by simp
  then have "fault w2 = fault w"
    using swupdate_copy(3) [OF assms(3) c 1(1) fd] 1(3) by simp
  with assms(1) copy_image_and_sync_opened [of openfileoutput dev w fd w1 copyimage img c w2, OF o fd c]
  show "fst (copy_image_and_sync openfileoutput copyimage img dev w) = 0"
    "no_faults (snd (copy_image_and_sync openfileoutput copyimage img dev w))"
    by (auto simp: sys_defs no_faults_def split: option.splits)
qed

lemma rootfs_install_no_faults:
  assumes "no_faults w" "wf_world w" "swupdate_api openfileoutput copyimage payload" "always_opens openfileoutput"
    "usable_config cfg"
  shows "fst (rootfs_install cfg openfileoutput copyimage img b2 dev w) = 0"
proof -
  obtain w1 where c: "copy_image_and_sync openfileoutput copyimage img dev w = (0, w1)" "no_faults w1"
    using copy_image_no_faults [OF assms(1-4), of img dev]
    by (cases "copy_image_and_sync openfileoutput copyimage img dev w") auto
  obtain w2 where f: "(if str_endswith b2 dev = 0 then write_bootflag_file cfg ''rootfs2'' w1
      else remove_bootflag_file cfg ''rootfs2'' w1) = (0, w2)" "no_faults w2"
    using write_bootflag_no_faults [OF c(2), of cfg "''rootfs2''"] remove_bootflag_no_faults [OF c(2), of cfg "''rootfs2''"]
      assms(5) by (auto simp: usable_config_def prod_eq_iff)
  obtain w3 where "remove_do_not_reboot_flag cfg w2 = (0, w3)"
    using remove_do_not_reboot_no_faults [OF f(2), of cfg] assms(5)
    by (cases "remove_do_not_reboot_flag cfg w2") (auto simp: usable_config_def)
  with c f show ?thesis by (simp add: rootfs_install_def)
qed

lemma rootfs_with_banks_no_faults:
  assumes "no_faults w" "wf_world w" "swupdate_api openfileoutput copyimage payload" "always_opens openfileoutput"
    "usable_config cfg" "target_name mounted (cstr p1) (cstr p2) = Some t" "length t < MAX_DEVICE_FILE_PATH"
    "is_cstr mounted" "heap w k1 = Some n1" "heap w k2 = Some n2" "k1 \<noteq> k2"
  shows "\<exists>w'. rootfs_with_banks cfg openfileoutput copyimage stack img mounted (k1, p1) (k2, p2) w = Some (0, w')"
proof -
  have t: "is_cstr t" using target_name_is_cstr [OF assms(6,8)] by simp
  obtain buf w1 where f: "find_target_partition stack mounted (cstr p1) (cstr p2) MAX_DEVICE_FILE_PATH w = Some ((0, buf), w1)"
    "cstr buf = t" "no_faults w1"
    using find_target_partition_no_faults [OF assms(1,6,7) _ t, of stack] by (auto simp: MAX_DEVICE_FILE_PATH_def INT_MAX_def)
  note F = find_target_partition_cases [OF f(1) assms(2)]
  obtain w2 where i: "rootfs_install cfg openfileoutput copyimage img (cstr p2) t w1 = (0, w2)"
    using rootfs_install_no_faults [OF f(3) _ assms(3-5), of img "cstr p2" t] F
    by (cases "rootfs_install cfg openfileoutput copyimage img (cstr p2) t w1") auto
  have b: "balanced w1 w2 \<and> wf_world w2"
    using rootfs_install_balanced [OF i assms(3) _ assms(5)] F by blast
  then have "heap w2 k1 = Some n1" "heap w2 k2 = Some n2"
    using F assms(9,10) by (auto simp: balanced_def)
  then obtain u v where "sys_free k1 w2 = Some ((), u)" "sys_free k2 u = Some ((), v)"
    using free_both [of w2 k1 n1 k2 n2] assms(11) b by metis
  with f i show ?thesis by (simp add: rootfs_with_banks_def)
qed

lemma rootfsv4_handler_no_faults:
  assumes "no_faults w" "wf_world w" "cstr_mtab w" "usable_config cfg"
    "swupdate_api openfileoutput copyimage payload" "always_opens openfileoutput"
    "root_device w = Some dev" "length dev < MAX_DEVICE_FILE_PATH"
    "fs w (part_info_path cfg bank1_file) = Some (Regular d1)"
    "fs w (part_info_path cfg bank2_file) = Some (Regular d2)"
    "target_name dev (cstr d1) (cstr d2) = Some t" "length t < MAX_DEVICE_FILE_PATH"
  shows "\<exists>w'. rootfsv4_handler cfg openfileoutput copyimage stack img w = Some (0, w')"
proof -
  have u: "usable_path (part_info_path cfg bank1_file)" "usable_path (part_info_path cfg bank2_file)"
    using assms(4) by (auto simp: usable_config_def)
  obtain buf w1 where m: "get_mounted_device stack ''/'' MAX_DEVICE_FILE_PATH w = Some ((0, buf), w1)"
    "cstr buf = dev" "no_faults w1" "quiet w w1"
    using get_mounted_device_no_faults [OF assms(1,3,7,8)] by blast
  have wf1: "wf_world w1" and fs1: "fs w1 = fs w" using m(4) assms(2) quiet_wf quiet_fs by auto
  obtain k1 w2 where p1: "read_part_info_file_to_new_str cfg bank1_file w1 = Some (Some (k1, d1 @ [NUL]), w2)" "no_faults w2"
    using read_part_info_no_faults [OF m(3) u(1)] fs1 assms(9) by auto
  have P1: "wf_world w2" "fs w2 = fs w"
    using read_part_info_cases [OF p1(1) wf1 u(1)] fs1 by auto
  obtain k2 w3 where p2: "read_part_info_file_to_new_str cfg bank2_file w2 = Some (Some (k2, d2 @ [NUL]), w3)" "no_faults w3"
    using read_part_info_no_faults [OF p1(2) u(2)] P1(2) assms(10) by auto
  obtain n1 n2 where h: "heap w3 k1 = Some n1" "heap w3 k2 = Some n2" "k1 \<noteq> k2" "wf_world w3"
    using read_both [OF p1(1) p2(1) wf1 assms(4)] by metis
  have "is_cstr dev" using m(2) is_cstr_cstr by blast
  moreover have "target_name dev (cstr (d1 @ [NUL])) (cstr (d2 @ [NUL])) = Some t"
    using assms(11) by (simp add: cstr_snoc_NUL)
  ultimately show ?thesis
    using rootfs_with_banks_no_faults [OF p2(2) h(4) assms(5,6,4) _ assms(12) _ h(1-3)] m p1 p2
    by (auto simp: rootfsv4_handler_def)
qed

section \<open>A concrete device\<close>

text \<open>
  An instance of swupdate's functions and a device with the two banks on partitions 2 and 3,
  on which the hypotheses of the properties hold.
\<close>

definition demo_openfileoutput :: "string \<Rightarrow> world \<Rightarrow> int \<times> world" where
  "demo_openfileoutput dev w =
     (case sys_open True dev w of (Inl e, w) \<Rightarrow> (-1, w) | (Inr fd, w) \<Rightarrow> (int fd, w))"

definition demo_copyimage :: "int \<Rightarrow> string \<Rightarrow> world \<Rightarrow> int \<times> world" where
  "demo_copyimage fd img w =
     (case fds w (nat fd) of
        None \<Rightarrow> (-1, w)
      | Some p \<Rightarrow>
          (case attempt (Write p) w of
             (Some e, w) \<Rightarrow> (-1, w)
           | (None, w) \<Rightarrow> (0, w\<lparr>fs := (fs w)(p \<mapsto> Regular img)\<rparr>)))"

definition failing_copyimage :: "int \<Rightarrow> string \<Rightarrow> world \<Rightarrow> int \<times> world" where
  "failing_copyimage fd img w = (-1, w)"

definition demo_disk :: string where
  "demo_disk = ''/dev/mmcblk1''"

definition demo_world :: "bool \<Rightarrow> world" where
  "demo_world on_bank2 =
     \<lparr>fs = [part_info_path default_config bank1_file \<mapsto> Regular ''2'',
            part_info_path default_config bank2_file \<mapsto> Regular ''3'',
            partition_device demo_disk ''2'' \<mapsto> Regular ''old'',
            partition_device demo_disk ''3'' \<mapsto> Regular ''old'',
            do_not_reboot_path default_config \<mapsto> Regular []],
      mtab = [(''proc'', ''/proc''), (partition_device demo_disk (if on_bank2 then ''3'' else ''2''), ''/'')],
      fds = Map.empty, next_fd = 3, heap = Map.empty, next_block = 0,
      fault = (\<lambda>_. None), trace = []\<rparr>"

lemmas demo_defs = demo_world_def demo_disk_def default_config_def part_info_path_def
  bootflag_path_def do_not_reboot_path_def partition_device_def

lemma demo_api: "swupdate_api demo_openfileoutput demo_copyimage id"
  by (auto simp: swupdate_api_def demo_openfileoutput_def demo_copyimage_def sys_open_def attempt_def wf_world_def
      split: option.splits)

lemma failing_api: "swupdate_api demo_openfileoutput failing_copyimage id"
  by (auto simp: swupdate_api_def demo_openfileoutput_def failing_copyimage_def sys_open_def attempt_def wf_world_def
      split: option.splits)

lemma demo_opens: "always_opens demo_openfileoutput"
  by (auto simp: always_opens_def demo_openfileoutput_def sys_open_def attempt_def no_faults_def)

lemma demo_facts:
  "no_faults (demo_world b)" "wf_world (demo_world b)" "cstr_mtab (demo_world b)"
  "usable_config default_config" "bank_layout demo_disk ''2'' ''3''"
  "root_device (demo_world b) = Some (partition_device demo_disk (if b then ''3'' else ''2''))"
  "fs (demo_world b) (part_info_path default_config bank1_file) = Some (Regular ''2'')"
  "fs (demo_world b) (part_info_path default_config bank2_file) = Some (Regular ''3'')"
  "not_a_flag default_config (partition_device demo_disk num)"
  by (auto simp: demo_defs no_faults_def wf_world_def cstr_mtab_def usable_config_def usable_path_def is_cstr_def
      PATH_MAX_def bank_layout_def root_device_def not_a_flag_def suffix_def)

lemma demo_run:
  assumes "swupdate_api demo_openfileoutput copyimage payload"
  shows "\<exists>w'. rootfsv4_handler default_config demo_openfileoutput copyimage stack img (demo_world b) = Some (0, w')"
proof (rule rootfsv4_handler_no_faults [OF demo_facts(1-4) assms demo_opens demo_facts(6) _ demo_facts(7,8)])
  show "target_name (partition_device demo_disk (if b then ''3'' else ''2'')) (cstr ''2'') (cstr ''3'') =
      Some (partition_device demo_disk (if b then ''2'' else ''3''))"
    using target_name_bank1 [OF demo_facts(5)] target_name_bank2 [OF demo_facts(5)] by (simp add: cstr_def)
qed (simp_all add: demo_disk_def partition_device_def MAX_DEVICE_FILE_PATH_def)

section \<open>Properties\<close>

text \<open>The two banks alternate.  On every layout in which neither partition number ends with
  the other, \<open>find_target_partition\<close> called with the mounted bank writes the other bank of the
  same disk into the buffer and returns 0; the copy of the name is freed and the file system
  is not touched.  The only way not to return is a failed allocation.\<close>

lemma find_target_partition_alternates:
  assumes "bank_layout disk b1 b2" and "wf_world w" and "int n \<le> INT_MAX"
    and "length (partition_device disk b1) < n" and "length (partition_device disk b2) < n"
  shows "case find_target_partition dst (partition_device disk (if on2 then b2 else b1)) b1 b2 n w of
           None \<Rightarrow> fault w (length (trace w)) \<noteq> None
         | Some ((r, buf), w') \<Rightarrow>
             fault w (length (trace w)) = None \<and> r = 0 \<and>
             cstr buf = partition_device disk (if on2 then b1 else b2) \<and> balanced w w' \<and> fs w' = fs w"
    (is "case ?run of None \<Rightarrow> _ | Some _ \<Rightarrow> _")
proof (cases ?run)
  case None
  then show ?thesis
    using find_target_partition_None [of dst _ b1 b2 n w] by auto
next
  case (Some x)
  obtain r buf w' where x: "x = ((r, buf), w')" by (metis prod.exhaust)
  let ?t = "partition_device disk (if on2 then b1 else b2)"
  have t: "target_name (partition_device disk (if on2 then b2 else b1)) b1 b2 = Some ?t"
    using target_name_bank1 [OF assms(1)] target_name_bank2 [OF assms(1)] by simp
  have "fst (snprintf_checked dst n ?t) = 0"
    using assms(3-5) snprintf_checked_result [of dst n ?t] by auto
  moreover have "is_cstr ?t"
    using assms(1) by (auto simp: bank_layout_def)
  ultimately show ?thesis
    using find_target_partition_cases [OF Some [unfolded x] assms(2)] Some x t
      snprintf_checked_ok [of dst n ?t buf]
      find_target_partition_None [of dst "partition_device disk (if on2 then b2 else b1)" b1 b2 n w]
    by (auto simp: prod_eq_iff)
qed

lemma find_target_partition_alternates_example:
  "case find_target_partition [] (partition_device demo_disk ''2'') ''2'' ''3'' 512 (demo_world False) of
     None \<Rightarrow> False
   | Some ((r, buf), w') \<Rightarrow> r = 0 \<and> cstr buf = partition_device demo_disk ''3''"
  using find_target_partition_alternates [OF demo_facts(5) demo_facts(2) [of False], of 512 False "[]"]
  by (auto simp: demo_disk_def partition_device_def INT_MAX_def demo_world_def split: option.splits)

lemma rootfsv4_handler_success:
  assumes layout: "bank_layout disk b1 b2" and cfg: "usable_config cfg"
    and wf: "wf_world w" and mt: "cstr_mtab w"
    and api: "swupdate_api openfileoutput copyimage payload"
    and files: "fs w (part_info_path cfg bank1_file) = Some (Regular b1)"
      "fs w (part_info_path cfg bank2_file) = Some (Regular b2)"
    and root: "root_device w = Some (partition_device disk (if on2 then b2 else b1))"
    and target: "not_a_flag cfg (partition_device disk (if on2 then b1 else b2))"
    and run: "rootfsv4_handler cfg openfileoutput copyimage stack img w = Some (0, w')"
  shows "(bootflag_present cfg ''rootfs2'' w' \<longleftrightarrow> \<not> on2) \<and>
    fs w' (do_not_reboot_path cfg) = None \<and>
    ((\<forall>v. fs v = fs w \<longrightarrow> fault v = fault w \<longrightarrow>
         image_copied openfileoutput copyimage img (partition_device disk (if on2 then b1 else b2)) v) \<longrightarrow>
       fs w' (partition_device disk (if on2 then b1 else b2)) = Some (Regular (payload img)))"
proof -
  let ?t = "partition_device disk (if on2 then b1 else b2)"
  have c: "cstr b1 = b1" "cstr b2 = b2"
    using layout by (auto simp: bank_layout_def cstr_eq_iff)
  have t: "target_name (partition_device disk (if on2 then b2 else b1)) b1 b2 = Some ?t"
    using target_name_bank1 [OF layout] target_name_bank2 [OF layout] by simp
  obtain w1 w2 where i: "rootfs_install cfg openfileoutput copyimage img b2 ?t w1 = (0, w2)"
    "wf_world w1" "fs w' = fs w2" "fs w1 = fs w" "fault w1 = fault w"
    using rootfsv4_handler_run [OF run api wf cfg mt] files root c t by (auto simp: went_through_install_def)
  have "str_endswith b2 ?t = 0 \<longleftrightarrow> \<not> on2"
    using layout by (auto simp: bank_layout_def endswith_partition)
  with rootfs_install_cases [OF i(1) api i(2) cfg target] i(3-5) show ?thesis
    by (simp add: bootflag_present_def)
qed

text \<open>C1: a successful update selects the other bank.  When the handler returns 0 the boot flag
  \<open>rootfs2\<close> is present exactly if the device runs from bank 1, the flag that forbids a reboot is
  gone, and the target holds the image provided swupdate's calls reported, in the worlds with this file
  system and these faults, that they wrote it.\<close>

theorem rootfsv4_handler_selects_other_bank:
  assumes layout: "bank_layout disk b1 b2" and cfg: "usable_config cfg"
    and wf: "wf_world w" and mt: "cstr_mtab w"
    and api: "swupdate_api openfileoutput copyimage payload"
    and files: "fs w (part_info_path cfg bank1_file) = Some (Regular b1)"
      "fs w (part_info_path cfg bank2_file) = Some (Regular b2)"
    and root: "root_device w = Some (partition_device disk (if on2 then b2 else b1))"
    and target: "not_a_flag cfg (partition_device disk (if on2 then b1 else b2))"
    and run: "rootfsv4_handler cfg openfileoutput copyimage stack img w = Some (0, w')"
  shows "(bootflag_present cfg ''rootfs2'' w' \<longleftrightarrow> \<not> on2) \<and>
    fs w' (do_not_reboot_path cfg) = None \<and>
    ((\<forall>v. fs v = fs w \<longrightarrow> fault v = fault w \<longrightarrow>
         image_copied openfileoutput copyimage img (partition_device disk (if on2 then b1 else b2)) v) \<longrightarrow>
       fs w' (partition_device disk (if on2 then b1 else b2)) = Some (Regular (payload img)))"
  by (rule rootfsv4_handler_success [OF assms])

lemma demo_copied:
  "fault v = fault (demo_world b) \<Longrightarrow> image_copied demo_openfileoutput demo_copyimage img dev v"
  by (simp add: image_copied_def demo_openfileoutput_def demo_copyimage_def sys_open_def attempt_def demo_world_def)

theorem rootfsv4_handler_selects_other_bank_witness:
  "\<exists>w'. rootfsv4_handler default_config demo_openfileoutput demo_copyimage [] ''new'' (demo_world False) = Some (0, w') \<and>
     bootflag_present default_config ''rootfs2'' w' \<and> fs w' ''/tmp/do_not_reboot'' = None \<and>
     fs w' ''/dev/mmcblk1p3'' = Some (Regular ''new'')"
proof -
  obtain w' where run: "rootfsv4_handler default_config demo_openfileoutput demo_copyimage [] ''new'' (demo_world False) = Some (0, w')"
    using demo_run [OF demo_api, of "[]" "''new''" False] by blast
  have root: "root_device (demo_world False) = Some (partition_device demo_disk (if False then ''3'' else ''2''))"
    using demo_facts(6) [of False] .
  note * = rootfsv4_handler_selects_other_bank
    [OF demo_facts(5,4) demo_facts(2) demo_facts(3) demo_api demo_facts(7,8) root demo_facts(9) run]
  have "do_not_reboot_path default_config = ''/tmp/do_not_reboot''" "partition_device demo_disk ''3'' = ''/dev/mmcblk1p3''"
    by (simp_all add: demo_defs)
  with run * demo_copied show ?thesis by auto
qed

text \<open>C2: whatever happens, the running system is not harmed.  For every pattern of failures and
  every result, the handler gives back all descriptors and heap blocks, changes no file other
  than the target partition and its two flags (the mounted bank in particular), and when it
  reports an error the boot flag either is as it was or already names the bank that was
  written.\<close>

theorem rootfsv4_handler_safe:
  assumes layout: "bank_layout disk b1 b2" and cfg: "usable_config cfg"
    and wf: "wf_world w" and mt: "cstr_mtab w"
    and api: "swupdate_api openfileoutput copyimage payload"
    and files: "fs w (part_info_path cfg bank1_file) = Some (Regular b1)"
      "fs w (part_info_path cfg bank2_file) = Some (Regular b2)"
    and root: "root_device w = Some (partition_device disk (if on2 then b2 else b1))"
    and target: "not_a_flag cfg (partition_device disk (if on2 then b1 else b2))"
    and run: "rootfsv4_handler cfg openfileoutput copyimage stack img w = Some (r, w')"
  shows "balanced w w' \<and> r \<in> {0, 1} \<and>
    (\<forall>p. p \<noteq> partition_device disk (if on2 then b1 else b2) \<longrightarrow> not_a_flag cfg p \<longrightarrow> fs w' p = fs w p) \<and>
    (r = 1 \<longrightarrow> bootflag_present cfg ''rootfs2'' w' = bootflag_present cfg ''rootfs2'' w \<or>
               (bootflag_present cfg ''rootfs2'' w' \<longleftrightarrow> \<not> on2))"
proof -
  let ?t = "partition_device disk (if on2 then b1 else b2)"
  have c: "cstr b1 = b1" "cstr b2 = b2"
    using layout by (auto simp: bank_layout_def cstr_eq_iff)
  have t: "target_name (partition_device disk (if on2 then b2 else b1)) b1 b2 = Some ?t"
    using target_name_bank1 [OF layout] target_name_bank2 [OF layout] by simp
  have e: "str_endswith b2 ?t = 0 \<longleftrightarrow> \<not> on2"
    using layout by (auto simp: bank_layout_def endswith_partition)
  note H = rootfsv4_handler_run [OF run api wf cfg mt]
  then consider "r = 1" "fs w' = fs w"
    | w1 w2 where "rootfs_install cfg openfileoutput copyimage img b2 ?t w1 = (r, w2)"
      "wf_world w1" "fs w' = fs w2" "fs w1 = fs w"
    using files root c t by (auto simp: went_through_install_def)
  then show ?thesis
  proof cases
    case 1
    then show ?thesis using H by (simp add: bootflag_present_def)
  next
    case 2
    then show ?thesis
      using rootfs_install_cases [OF 2(1) api 2(2) cfg target] H e by (simp add: bootflag_present_def)
  qed
qed

theorem rootfsv4_handler_safe_witness:
  "\<exists>r w'. rootfsv4_handler default_config demo_openfileoutput demo_copyimage [] ''new'' (demo_world True) = Some (r, w') \<and>
     balanced (demo_world True) w' \<and> fs w' ''/dev/mmcblk1p3'' = fs (demo_world True) ''/dev/mmcblk1p3''"
proof -
  obtain w' where run: "rootfsv4_handler default_config demo_openfileoutput demo_copyimage [] ''new'' (demo_world True) = Some (0, w')"
    using demo_run [OF demo_api, of "[]" "''new''" True] by blast
  have root: "root_device (demo_world True) = Some (partition_device demo_disk (if True then ''3'' else ''2''))"
    using demo_facts(6) [of True] .
  note * = rootfsv4_handler_safe
    [OF demo_facts(5,4) demo_facts(2) demo_facts(3) demo_api demo_facts(7,8) root demo_facts(9) run]
  have "''/dev/mmcblk1p3'' \<noteq> partition_device demo_disk ''2''" "not_a_flag default_config ''/dev/mmcblk1p3''"
    using demo_facts(9) [of "''3''"] by (simp_all add: demo_disk_def partition_device_def)
  with run * show ?thesis by auto
qed

text \<open>C3: without faults an update completes.  On a device whose layout tells the banks apart and
  whose part-info files can be read, the handler returns, and returns 0.\<close>

theorem rootfsv4_handler_completes:
  assumes "bank_layout disk b1 b2" and "usable_config cfg" and "wf_world w" and "cstr_mtab w" and "no_faults w"
    and "swupdate_api openfileoutput copyimage payload" and "always_opens openfileoutput"
    and "fs w (part_info_path cfg bank1_file) = Some (Regular b1)"
    and "fs w (part_info_path cfg bank2_file) = Some (Regular b2)"
    and "root_device w = Some (partition_device disk (if on2 then b2 else b1))"
    and "length (partition_device disk b1) < MAX_DEVICE_FILE_PATH"
    and "length (partition_device disk b2) < MAX_DEVICE_FILE_PATH"
  shows "\<exists>w'. rootfsv4_handler cfg openfileoutput copyimage stack img w = Some (0, w')"
proof (rule rootfsv4_handler_no_faults [OF assms(5,3,4,2,6,7,10) _ assms(8,9)])
  have "cstr b1 = b1" "cstr b2 = b2"
    using assms(1) by (auto simp: bank_layout_def cstr_eq_iff)
  then show "target_name (partition_device disk (if on2 then b2 else b1)) (cstr b1) (cstr b2) =
      Some (partition_device disk (if on2 then b1 else b2))"
    using target_name_bank1 [OF assms(1)] target_name_bank2 [OF assms(1)] by simp
qed (use assms(11,12) in auto)

theorem rootfsv4_handler_completes_witness:
  "\<exists>w'. rootfsv4_handler default_config demo_openfileoutput demo_copyimage [] ''new'' (demo_world True) = Some (0, w')"
proof -
  have root: "root_device (demo_world True) = Some (partition_device demo_disk (if True then ''3'' else ''2''))"
    using demo_facts(6) [of True] .
  show ?thesis
    by (rule rootfsv4_handler_completes [OF demo_facts(5,4) demo_facts(2) demo_facts(3) demo_facts(1) demo_api
          demo_opens demo_facts(7,8) root])
      (simp_all add: demo_disk_def partition_device_def MAX_DEVICE_FILE_PATH_def)
qed

text \<open>A failed copy is not reported.  When \<open>copyimage\<close> fails, \<open>copy_image_and_sync\<close> returns -1
  only if closing the device fails too: the assignment of -1 stands behind the \<open>goto\<close>.\<close>

lemma copy_image_and_sync_loses_copy_error:
  assumes "openfileoutput dev w = (fd, w1)" and "0 \<le> fd"
    and "copyimage fd img w1 = (c, w2)" and "c < 0"
  shows "fst (copy_image_and_sync openfileoutput copyimage img dev w) =
    (if fault w2 (length (trace w2)) = None then 0 else -1)"
  using assms copy_image_and_sync_opened [of openfileoutput dev w fd w1 copyimage img c w2]
  by (auto simp: sys_close_def attempt_def split: option.splits)

text \<open>On the concrete device: the copy fails, the handler reports success, the next boot is from
  bank 2 and bank 2 still holds the old content.\<close>

lemma copy_image_and_sync_loses_copy_error_example:
  "fst (copy_image_and_sync demo_openfileoutput failing_copyimage ''new'' ''/dev/mmcblk1p3'' (demo_world False)) = 0 \<and>
   fs (snd (copy_image_and_sync demo_openfileoutput failing_copyimage ''new'' ''/dev/mmcblk1p3'' (demo_world False)))
     ''/dev/mmcblk1p3'' = Some (Regular ''old'')"
proof -
  obtain w1 where o: "demo_openfileoutput ''/dev/mmcblk1p3'' (demo_world False) = (3, w1)" "fault w1 = (\<lambda>_. None)"
    "fs w1 = fs (demo_world False)"
    by (simp add: demo_openfileoutput_def sys_open_def attempt_def demo_defs)
  have c: "failing_copyimage 3 ''new'' w1 = (-1, w1)"
    by (simp add: failing_copyimage_def)
  have "fst (copy_image_and_sync demo_openfileoutput failing_copyimage ''new'' ''/dev/mmcblk1p3'' (demo_world False)) = 0"
    using copy_image_and_sync_loses_copy_error
      [of demo_openfileoutput _ _ 3 w1 failing_copyimage "''new''" "-1" w1, OF o(1) _ c] o(2) by simp
  moreover have "fs (demo_world False) ''/dev/mmcblk1p3'' = Some (Regular ''old'')"
    by (simp add: demo_defs)
  ultimately show ?thesis
    using copy_image_and_sync_opened
      [of demo_openfileoutput _ _ 3 w1 failing_copyimage "''new''" "-1" w1, OF o(1) _ c] o by (simp add: sys_close_def attempt_def)
qed

text \<open>A failed copy passes for a finished update.  On the concrete device the copy fails, and
  yet the handler returns 0, the boot flag sends the next boot to bank 2, the reboot is allowed,
  although no image was written to bank 2.\<close>

lemma rootfsv4_handler_accepts_failed_copy:
  "\<exists>w'. rootfsv4_handler default_config demo_openfileoutput failing_copyimage [] ''new'' (demo_world False) = Some (0, w') \<and>
     bootflag_present default_config ''rootfs2'' w' \<and> fs w' ''/tmp/do_not_reboot'' = None \<and>
     \<not> image_copied demo_openfileoutput failing_copyimage ''new'' ''/dev/mmcblk1p3'' (demo_world False)"
proof -
  obtain w' where run: "rootfsv4_handler default_config demo_openfileoutput failing_copyimage [] ''new'' (demo_world False) = Some (0, w')"
    using demo_run [OF failing_api, of "[]" "''new''" False] by blast
  have t: "target_name (partition_device demo_disk ''2'') ''2'' ''3'' = Some (partition_device demo_disk ''3'')"
    by (rule target_name_bank1 [OF demo_facts(5)])
  have "cstr ''2'' = ''2''" "cstr ''3'' = ''3''" by (simp_all add: cstr_def)
  with rootfsv4_handler_run [OF run failing_api demo_facts(2) demo_facts(4) demo_facts(3)] t
  obtain w1 w2 where i: "rootfs_install default_config demo_openfileoutput failing_copyimage ''new'' ''3''
      (partition_device demo_disk ''3'') w1 = (0, w2)" "wf_world w1" "fs w' = fs w2"
    using demo_facts(6) [of False] demo_facts(7,8) [of False] by (auto simp: went_through_install_def)
  have "str_endswith ''3'' (partition_device demo_disk ''3'') = 0"
    by (simp add: str_endswith_def strlen_def demo_disk_def partition_device_def)
  with rootfs_install_cases [OF i(1) failing_api i(2) demo_facts(4) demo_facts(9)] i(3) run show ?thesis
    by (auto simp: bootflag_present_def do_not_reboot_path_def default_config_def image_copied_def failing_copyimage_def
        split: prod.splits)
qed

end
