(* ===== verification/Strtol.thy ===== *)
theory Strtol imports CLib begin

text \<open>
  \<open>strtol\<close> with base 0, as the C library defines it: leading white space, an optional sign, the
  base taken from the prefix (\<open>0x\<close> hexadecimal, \<open>0\<close> octal, else decimal), the longest run of
  digits, and the clipping to the range of \<open>long\<close> with \<open>ERANGE\<close>.  The width of \<open>long\<close> is a
  parameter, since the devices are both 32-bit and 64-bit.
\<close>

definition is_space :: "char \<Rightarrow> bool" where
  "is_space c \<longleftrightarrow> c \<in> {CHR '' '', CHR 0x09, CHR 0x0A, CHR 0x0B, CHR 0x0C, CHR 0x0D}"

text \<open>The value of a character as a digit in a base up to 36.\<close>

definition digit_value :: "nat \<Rightarrow> char \<Rightarrow> nat option" where
  "digit_value base c =
     (let n = of_char c;
          v = (if 48 \<le> n \<and> n \<le> 57 then Some (n - 48)
               else if 97 \<le> n \<and> n \<le> 122 then Some (n - 87)
               else if 65 \<le> n \<and> n \<le> 90 then Some (n - 55)
               else None)
      in (case v of None \<Rightarrow> None | Some d \<Rightarrow> if d < base then Some d else None))"

text \<open>The number read so far, whether a digit was read, and the rest of the text.\<close>

fun read_digits :: "nat \<Rightarrow> nat \<Rightarrow> bool \<Rightarrow> string \<Rightarrow> nat \<times> bool \<times> string" where
  "read_digits base acc any [] = (acc, any, [])"
| "read_digits base acc any (c # cs) =
     (case digit_value base c of
        None \<Rightarrow> (acc, any, c # cs)
      | Some d \<Rightarrow> read_digits base (base * acc + d) True cs)"

text \<open>The digits after the sign, with the base chosen by the prefix.\<close>

definition read_number :: "string \<Rightarrow> nat \<times> bool \<times> string" where
  "read_number s =
     (case s of
        c0 # c1 # c2 # cs \<Rightarrow>
          if c0 = CHR ''0'' \<and> (c1 = CHR ''x'' \<or> c1 = CHR ''X'') \<and> digit_value 16 c2 \<noteq> None
          then read_digits 16 0 False (c2 # cs)
          else read_digits (if c0 = CHR ''0'' then 8 else 10) 0 False s
      | c0 # cs \<Rightarrow> read_digits (if c0 = CHR ''0'' then 8 else 10) 0 False s
      | [] \<Rightarrow> (0, False, []))"

record strtol_result =
  res :: int
  endptr :: string \<comment> \<open>the text that \<open>endptr\<close> points to\<close>
  converted :: bool \<comment> \<open>\<open>endptr\<close> differs from the start of the string\<close>
  erange :: bool \<comment> \<open>\<open>errno\<close> is \<open>ERANGE\<close>\<close>

definition LONG_MAX :: "nat \<Rightarrow> int" where
  "LONG_MAX bits = 2 ^ (bits - 1) - 1"

definition LONG_MIN :: "nat \<Rightarrow> int" where
  "LONG_MIN bits = - (2 ^ (bits - 1))"

definition strtol :: "nat \<Rightarrow> string \<Rightarrow> strtol_result" where
  "strtol bits str =
     (let s = dropWhile is_space str;
          neg = (case s of c # _ \<Rightarrow> c = CHR ''-'' | [] \<Rightarrow> False);
          s = (case s of c # cs \<Rightarrow> if c = CHR ''-'' \<or> c = CHR ''+'' then cs else s | [] \<Rightarrow> s)
      in (case read_number s of
            (n, False, rest) \<Rightarrow> \<lparr>res = 0, endptr = str, converted = False, erange = False\<rparr>
          | (n, True, rest) \<Rightarrow>
              let v = (if neg then - int n else int n)
              in if v > LONG_MAX bits
                 then \<lparr>res = LONG_MAX bits, endptr = rest, converted = True, erange = True\<rparr>
                 else if v < LONG_MIN bits
                 then \<lparr>res = LONG_MIN bits, endptr = rest, converted = True, erange = True\<rparr>
                 else \<lparr>res = v, endptr = rest, converted = True, erange = False\<rparr>))"

section \<open>Decimal numerals\<close>

text \<open>The decimal notation of a number, without leading zeros.\<close>

definition digit_char :: "nat \<Rightarrow> char" where
  "digit_char d = char_of (48 + d)"

fun decimal :: "nat \<Rightarrow> string" where
  "decimal n = (if n < 10 then [digit_char n] else decimal (n div 10) @ [digit_char (n mod 10)])"

declare decimal.simps [simp del]

lemma of_char_digit_char: "d < 10 \<Longrightarrow> of_char (digit_char d) = 48 + d"
  by (simp add: digit_char_def)

lemma digit_value_digit_char [simp]: "d < 10 \<Longrightarrow> digit_value 10 (digit_char d) = Some d"
  by (simp add: digit_value_def of_char_digit_char)

lemma read_digits_decimal_aux:
  "read_digits 10 acc any (decimal n @ cs) = read_digits 10 (acc * 10 ^ length (decimal n) + n) True cs"
proof (induction n arbitrary: acc any cs rule: decimal.induct)
  case (1 n)
  show ?case
  proof (cases "n < 10")
    case True
    then show ?thesis by (simp add: decimal.simps [of n] mult.commute)
  next
    case False
    have "decimal n = decimal (n div 10) @ [digit_char (n mod 10)]"
      using False by (simp add: decimal.simps [of n])
    then have "read_digits 10 acc any (decimal n @ cs) =
        read_digits 10 (10 * (acc * 10 ^ length (decimal (n div 10)) + n div 10) + n mod 10) True cs"
      using "1.IH" [OF False] by simp
    also have "10 * (acc * 10 ^ length (decimal (n div 10)) + n div 10) + n mod 10 = acc * 10 ^ length (decimal n) + n"
      using False by (simp add: decimal.simps [of n])
    finally show ?thesis .
  qed
qed

lemma read_digits_decimal [simp]: "read_digits 10 0 False (decimal n) = (n, True, [])"
  using read_digits_decimal_aux [of 0 False n "[]"] by simp

lemma decimal_nonempty [simp]: "decimal n \<noteq> []"
  by (subst decimal.simps) simp

lemma hd_decimal: "0 < n \<Longrightarrow> \<exists>d. 0 < d \<and> d < 10 \<and> hd (decimal n) = digit_char d"
proof (induction n rule: decimal.induct)
  case (1 n)
  show ?case
  proof (cases "n < 10")
    case True
    with "1.prems" show ?thesis by (auto simp: decimal.simps [of n])
  next
    case False
    then have "0 < n div 10" by simp
    from "1.IH" [OF False this] False show ?thesis
      by (auto simp: decimal.simps [of n] hd_append)
  qed
qed

lemma digit_char_plain:
  assumes "0 < d" and "d < 10"
  shows "digit_char d \<noteq> CHR ''0''" "\<not> is_space (digit_char d)" "digit_char d \<noteq> CHR ''-''" "digit_char d \<noteq> CHR ''+''"
  using assms of_char_digit_char [OF assms(2)] by (auto simp: is_space_def)

text \<open>Reading back a decimal numeral: the base is 10, the value is the number and nothing is left.\<close>

lemma read_number_decimal: "0 < n \<Longrightarrow> read_number (decimal n) = (n, True, [])"
proof -
  assume "0 < n"
  then obtain d where d: "0 < d" "d < 10" "hd (decimal n) = digit_char d"
    using hd_decimal by blast
  then have "hd (decimal n) \<noteq> CHR ''0''"
    using digit_char_plain by simp
  moreover have "read_number s = read_digits 10 0 False s" if "s \<noteq> []" "hd s \<noteq> CHR ''0''" for s
    using that by (auto simp: read_number_def split: list.splits)
  ultimately show ?thesis by simp
qed

lemma strtol_decimal:
  assumes "0 < n" and "int n \<le> LONG_MAX bits"
  shows "strtol bits (decimal n) = \<lparr>res = int n, endptr = [], converted = True, erange = False\<rparr>"
proof -
  obtain d where d: "0 < d" "d < 10" "hd (decimal n) = digit_char d"
    using hd_decimal [OF assms(1)] by blast
  obtain cs where cs: "decimal n = digit_char d # cs"
    using d(3) decimal_nonempty [of n] by (metis list.collapse)
  have "LONG_MIN bits \<le> int n"
    by (simp add: LONG_MIN_def order.trans [of _ 0])
  with assms read_number_decimal [OF assms(1)] digit_char_plain [OF d(1,2)] show ?thesis
    by (simp add: strtol_def cs Let_def)
qed

end
