(* ===== verification/Getopt.thy ===== *)
theory Getopt imports CLib begin

text \<open>
  The GNU C library's \<open>getopt_long\<close>, which three of the programs use: the sequence of results of
  its successive calls on an argument list (without the program name).  Arguments that are no
  options are skipped, as the library permutes them behind the options.  A table of long
  options that does not end with an entry of NULLs is read past its end unless a name matches
  exactly; what happens then is undefined.
\<close>

datatype has_arg = no_argument | required_argument | optional_argument

datatype opt_result =
    Opt char "string option" \<comment> \<open>the option and \<open>optarg\<close>, None for a null pointer\<close>
  | Unrecognized \<comment> \<open>the result \<open>'?'\<close>\<close>
  | Undefined \<comment> \<open>the call has undefined behaviour\<close>

record opt_table =
  short_opts :: "(char \<times> has_arg) list"
  long_opts :: "(string \<times> has_arg \<times> char) list"
  terminated :: bool

text \<open>A cluster of short options; the flag says whether the next argument was consumed.\<close>

fun short_cluster :: "(char \<times> has_arg) list \<Rightarrow> string \<Rightarrow> string list \<Rightarrow> opt_result list \<times> bool" where
  "short_cluster opts [] rest = ([], False)"
| "short_cluster opts (c # cs) rest =
     (case map_of opts c of
        None \<Rightarrow> (let (rs, b) = short_cluster opts cs rest in (Unrecognized # rs, b))
      | Some no_argument \<Rightarrow> (let (rs, b) = short_cluster opts cs rest in (Opt c None # rs, b))
      | Some optional_argument \<Rightarrow> ([Opt c (if cs = [] then None else Some cs)], False)
      | Some required_argument \<Rightarrow>
          if cs \<noteq> [] then ([Opt c (Some cs)], False)
          else (case rest of [] \<Rightarrow> ([Unrecognized], False) | a # _ \<Rightarrow> ([Opt c (Some a)], True)))"

text \<open>The entry a long option name selects: an exact match, else the only one it abbreviates.\<close>

definition long_entry :: "opt_table \<Rightarrow> string \<Rightarrow> (opt_result + has_arg \<times> char)" where
  "long_entry tab name =
     (case find (\<lambda>(n, _). n = name) (long_opts tab) of
        Some (_, e) \<Rightarrow> Inr e
      | None \<Rightarrow>
          if \<not> terminated tab then Inl Undefined
          else (case filter (\<lambda>(n, _). take (length name) n = name) (long_opts tab) of
                  [(_, e)] \<Rightarrow> Inr e
                | _ \<Rightarrow> Inl Unrecognized))"

definition long_option :: "opt_table \<Rightarrow> string \<Rightarrow> string list \<Rightarrow> opt_result \<times> bool" where
  "long_option tab body rest =
     (let name = takeWhile (\<lambda>c. c \<noteq> CHR ''='') body;
          val = (if CHR ''='' \<in> set body then Some (drop (length name + 1) body) else None)
      in (case long_entry tab name of
            Inl r \<Rightarrow> (r, False)
          | Inr (no_argument, c) \<Rightarrow> (if val = None then Opt c None else Unrecognized, False)
          | Inr (optional_argument, c) \<Rightarrow> (Opt c val, False)
          | Inr (required_argument, c) \<Rightarrow>
              (case (val, rest) of
                 (Some v, _) \<Rightarrow> (Opt c (Some v), False)
               | (None, []) \<Rightarrow> (Unrecognized, False)
               | (None, a # _) \<Rightarrow> (Opt c (Some a), True))))"

fun getopt_long :: "opt_table \<Rightarrow> string list \<Rightarrow> opt_result list" where
  "getopt_long tab [] = []"
| "getopt_long tab (arg # rest) =
     (if arg = ''--'' then []
      else if take 2 arg = ''--''
      then (let (r, used) = long_option tab (drop 2 arg) rest
            in r # getopt_long tab (drop (if used then 1 else 0) rest))
      else if take 1 arg = ''-'' \<and> arg \<noteq> ''-''
      then (let (rs, used) = short_cluster (short_opts tab) (drop 1 arg) rest
            in rs @ getopt_long tab (drop (if used then 1 else 0) rest))
      else getopt_long tab rest)"

section \<open>Facts\<close>

lemma getopt_long_unterminated:
  assumes "\<not> terminated tab" and "find (\<lambda>(n, _). n = takeWhile (\<lambda>c. c \<noteq> CHR ''='') body) (long_opts tab) = None"
    and "body \<noteq> []"
  shows "\<exists>rs. getopt_long tab ((''--'' @ body) # rest) = Undefined # rs"
  using assms by (auto simp: long_option_def long_entry_def Let_def)

end
