(* ===== verification/Watchdog.thy ===== *)
theory Watchdog imports Posix Strtol Getopt "HOL-Library.Word" begin

text \<open>
  \<open>firmware-management/mbl-watchdog-init/mbl-watchdog-init.c\<close>: the program that opens the hardware
  watchdog before the root file system is mounted, reports why the device booted and sets the
  timeout.  The state is the operating system's world together with what the watchdog driver
  keeps and what the program has printed.
\<close>

unbundle bit_operations_syntax

section \<open>State\<close>

datatype log_line =
    Log_error string
  | Log_warning string
  | Log_info string

record wdog =
  os :: world
  boot_status :: "32 word" \<comment> \<open>what \<open>WDIOC_GETBOOTSTATUS\<close> stores\<close>
  hw_timeout :: int \<comment> \<open>the timeout the driver was given last\<close>
  printed :: "log_line list"

section \<open>Error handling and logging\<close>

definition is_err :: "int \<Rightarrow> bool" where
  "is_err ret \<longleftrightarrow> ret = -1"

definition log_error :: "string \<Rightarrow> wdog \<Rightarrow> wdog" where
  "log_error message s = s\<lparr>printed := printed s @ [Log_error message]\<rparr>"

definition log_warning :: "string \<Rightarrow> wdog \<Rightarrow> wdog" where
  "log_warning message s = s\<lparr>printed := printed s @ [Log_warning message]\<rparr>"

definition log_info :: "string \<Rightarrow> wdog \<Rightarrow> wdog" where
  "log_info message s = s\<lparr>printed := printed s @ [Log_info message]\<rparr>"

section \<open>Watchdog functions\<close>

text \<open>The two requests to the driver; a failed call leaves the driver as it is.\<close>

definition ioctl_settimeout :: "int \<Rightarrow> wdog \<Rightarrow> int \<times> wdog" where
  "ioctl_settimeout t s =
     (case attempt (Ioctl ''WDIOC_SETTIMEOUT'') (os s) of
        (Some e, w) \<Rightarrow> (-1, s\<lparr>os := w\<rparr>)
      | (None, w) \<Rightarrow> (0, s\<lparr>os := w, hw_timeout := t\<rparr>))"

definition ioctl_getbootstatus :: "wdog \<Rightarrow> (int \<times> 32 word) \<times> wdog" where
  "ioctl_getbootstatus s =
     (case attempt (Ioctl ''WDIOC_GETBOOTSTATUS'') (os s) of
        (Some e, w) \<Rightarrow> ((-1, 0), s\<lparr>os := w\<rparr>)
      | (None, w) \<Rightarrow> ((0, boot_status s), s\<lparr>os := w\<rparr>))"

definition set_watchdog_timeout :: "nat \<Rightarrow> int \<Rightarrow> wdog \<Rightarrow> int \<times> wdog" where
  "set_watchdog_timeout watchdog_fd timeout s = ioctl_settimeout timeout s"

text \<open>The status bits of \<open>linux/watchdog.h\<close>, with the message of each, in the order of the code.\<close>

definition WDIOF_OVERHEAT :: "32 word" where "WDIOF_OVERHEAT = 0x0001"
definition WDIOF_FANFAULT :: "32 word" where "WDIOF_FANFAULT = 0x0002"
definition WDIOF_EXTERN1 :: "32 word" where "WDIOF_EXTERN1 = 0x0004"
definition WDIOF_EXTERN2 :: "32 word" where "WDIOF_EXTERN2 = 0x0008"
definition WDIOF_POWERUNDER :: "32 word" where "WDIOF_POWERUNDER = 0x0010"
definition WDIOF_CARDRESET :: "32 word" where "WDIOF_CARDRESET = 0x0020"
definition WDIOF_POWEROVER :: "32 word" where "WDIOF_POWEROVER = 0x0040"

text \<open>One \<open>if\<close> statement of the function: warn when the bit is set.\<close>

definition warn_if :: "32 word \<Rightarrow> 32 word \<Rightarrow> string \<Rightarrow> wdog \<Rightarrow> wdog" where
  "warn_if status flag message s = (if status AND flag \<noteq> 0 then log_warning message s else s)"

definition print_last_boot_reason :: "32 word \<Rightarrow> wdog \<Rightarrow> wdog" where
  "print_last_boot_reason status s =
     (if status = 0 then log_info ''Normal boot.'' s
      else
        let s = warn_if status WDIOF_OVERHEAT ''The last reboot was caused by the CPU overheating.'' s;
            s = warn_if status WDIOF_CARDRESET ''The last reboot was caused by a watchdog reset.'' s;
            s = warn_if status WDIOF_FANFAULT ''The last reboot was because a system fan monitored by the watchdog card failed.'' s;
            s = warn_if status WDIOF_EXTERN1 ''The last reboot was because external monitoring relay/source 1 was triggered.'' s;
            s = warn_if status WDIOF_EXTERN2 ''The last reboot was because external monitoring relay/source 2 was triggered.'' s;
            s = warn_if status WDIOF_POWERUNDER ''The last reboot was due to the machine showing an undervoltage status.'' s;
            s = warn_if status WDIOF_POWEROVER ''The last reboot was due to the machine showing an overvoltage status.'' s
        in s)"

definition get_last_boot_status :: "nat \<Rightarrow> wdog \<Rightarrow> int \<times> wdog" where
  "get_last_boot_status watchdog_fd s =
     (case ioctl_getbootstatus s of
        ((gs_ret, flags), s) \<Rightarrow>
          if is_err gs_ret then (gs_ret, s)
          else (0, print_last_boot_reason flags s))"

section \<open>Command line\<close>

definition EXIT_SUCCESS :: int where "EXIT_SUCCESS = 0"
definition EXIT_FAILURE :: int where "EXIT_FAILURE = 1"

text \<open>
  \<open>Inl\<close> with the message is the call of \<open>exit (EXIT_FAILURE)\<close> after logging it.  \<open>errno\<close> was
  set to 0 before the call, so it is not 0 exactly when \<open>strtol\<close> reported \<open>ERANGE\<close>.
\<close>

definition numeric_string_to_positive_int :: "nat \<Rightarrow> string \<Rightarrow> string + int" where
  "numeric_string_to_positive_int bits str =
     (let r = strtol bits str
      in if (erange r \<and> (res r = LONG_MAX bits \<or> res r = LONG_MIN bits)) \<or> (erange r \<and> res r = 0)
         then Inl ''strtol failed''
         else if endptr r \<noteq> [] \<or> \<not> converted r
         then Inl ''String must contain digits only.''
         else if res r \<le> 0 \<or> res r > INT_MAX
         then Inl ''Integer not in valid range. Expecting a positive integer with maximum size INT_MAX''
         else Inr (res r))"

text \<open>
  The option string is \<open>tw:\<close>, so the short option \<open>t\<close> takes no argument although the long one
  requires it, and the table of long options has no terminating entry.
\<close>

definition wdog_opts :: opt_table where
  "wdog_opts = \<lparr>short_opts = [(CHR ''t'', no_argument), (CHR ''w'', required_argument)],
     long_opts = [(''timeout'', required_argument, CHR ''t''), (''device'', required_argument, CHR ''w'')],
     terminated = False\<rparr>"

text \<open>
  The option loop: \<open>None\<close> is undefined behaviour (\<open>strtol\<close> on a null pointer, the unterminated
  table), \<open>Inl\<close> the end of the program with an exit code.
\<close>

fun parse_options ::
    "nat \<Rightarrow> opt_result list \<Rightarrow> int \<Rightarrow> string \<Rightarrow> wdog \<Rightarrow> ((int + int \<times> string) \<times> wdog) option" where
  "parse_options bits [] timeout wdog_filename s = Some (Inr (timeout, wdog_filename), s)"
| "parse_options bits (Opt c optarg # opts) timeout wdog_filename s =
     (if c = CHR ''t''
      then (case optarg of
              None \<Rightarrow> None
            | Some a \<Rightarrow>
                (case numeric_string_to_positive_int bits a of
                   Inl msg \<Rightarrow> Some (Inl EXIT_FAILURE, log_error msg s)
                 | Inr n \<Rightarrow> parse_options bits opts n wdog_filename s))
      else if c = CHR ''w''
      then (case optarg of None \<Rightarrow> None | Some a \<Rightarrow> parse_options bits opts timeout a s)
      else Some (Inl EXIT_FAILURE, log_warning ''Only --timeout and --device should be provided. Exiting.'' s))"
| "parse_options bits (Unrecognized # opts) timeout wdog_filename s =
     Some (Inl EXIT_FAILURE, log_warning ''Only --timeout and --device should be provided. Exiting.'' s)"
| "parse_options bits (Undefined # opts) timeout wdog_filename s = None"

text \<open>\<open>main\<close> after the options: open, report, set the timeout, and close on every path.\<close>

definition run_watchdog :: "int \<Rightarrow> string \<Rightarrow> wdog \<Rightarrow> int \<times> wdog" where
  "run_watchdog timeout wdog_filename s =
     (case sys_open False wdog_filename (os s) of
        (Inl e, w) \<Rightarrow> (EXIT_FAILURE, log_error ''Failed to open watchdog device file'' (s\<lparr>os := w\<rparr>))
      | (Inr wdog_fd, w) \<Rightarrow>
          (let (gs_ret, s) = get_last_boot_status wdog_fd (s\<lparr>os := w\<rparr>);
               (ret, s) =
                 (if is_err gs_ret
                  then (EXIT_FAILURE, log_error ''Failed to get the last boot status'' s)
                  else
                    let (to_ret, s) = set_watchdog_timeout wdog_fd timeout s
                    in if is_err to_ret
                       then (EXIT_FAILURE, log_error ''Failed to set the watchdog timeout'' s)
                       else (EXIT_SUCCESS, s))
           in (case sys_close wdog_fd (os s) of
                 (Inl e, w) \<Rightarrow> (EXIT_FAILURE, log_error ''Failed to close the watchdog device file'' (s\<lparr>os := w\<rparr>))
               | (Inr _, w) \<Rightarrow> (ret, s\<lparr>os := w\<rparr>))))"

definition watchdog_main :: "nat \<Rightarrow> string list \<Rightarrow> wdog \<Rightarrow> (int \<times> wdog) option" where
  "watchdog_main bits args s =
     (case parse_options bits (getopt_long wdog_opts args) 0 ''/dev/watchdog'' s of
        None \<Rightarrow> None
      | Some (Inl code, s) \<Rightarrow> Some (code, s)
      | Some (Inr (timeout, wdog_filename), s) \<Rightarrow>
          if timeout \<le> 0
          then Some (EXIT_FAILURE, log_error ''--timeout must be passed and it must be a positive integer'' s)
          else Some (run_watchdog timeout wdog_filename s))"

section \<open>Facts\<close>

text \<open>The reference view of the boot reasons: a table of bits and messages.\<close>

definition boot_reasons :: "(32 word \<times> string) list" where
  "boot_reasons =
     [(WDIOF_OVERHEAT, ''The last reboot was caused by the CPU overheating.''),
      (WDIOF_CARDRESET, ''The last reboot was caused by a watchdog reset.''),
      (WDIOF_FANFAULT, ''The last reboot was because a system fan monitored by the watchdog card failed.''),
      (WDIOF_EXTERN1, ''The last reboot was because external monitoring relay/source 1 was triggered.''),
      (WDIOF_EXTERN2, ''The last reboot was because external monitoring relay/source 2 was triggered.''),
      (WDIOF_POWERUNDER, ''The last reboot was due to the machine showing an undervoltage status.''),
      (WDIOF_POWEROVER, ''The last reboot was due to the machine showing an overvoltage status.'')]"

lemmas wdiof_defs = WDIOF_OVERHEAT_def WDIOF_FANFAULT_def WDIOF_EXTERN1_def WDIOF_EXTERN2_def
  WDIOF_POWERUNDER_def WDIOF_CARDRESET_def WDIOF_POWEROVER_def

lemma log_frame [simp]:
  "os (log_error m s) = os s" "os (log_warning m s) = os s" "os (log_info m s) = os s"
  "hw_timeout (log_error m s) = hw_timeout s" "hw_timeout (log_warning m s) = hw_timeout s"
  "hw_timeout (log_info m s) = hw_timeout s"
  by (simp_all add: log_error_def log_warning_def log_info_def)

lemma warn_if_frame [simp]:
  "os (warn_if st m t s) = os s" "hw_timeout (warn_if st m t s) = hw_timeout s"
  "printed (warn_if st m t s) = printed s @ (if st AND m \<noteq> 0 then [Log_warning t] else [])"
  by (simp_all add: warn_if_def log_warning_def)

lemma print_last_boot_reason_frame [simp]:
  "os (print_last_boot_reason st s) = os s" "hw_timeout (print_last_boot_reason st s) = hw_timeout s"
  by (simp_all add: print_last_boot_reason_def Let_def)

lemma known_bits_zero_iff:
  "filter (\<lambda>x. st AND fst x \<noteq> 0) boot_reasons = [] \<longleftrightarrow> st AND 0x7F = 0"
proof -
  have seven: "(0x7F :: 32 word) = 0x0001 OR 0x0020 OR 0x0002 OR 0x0004 OR 0x0008 OR 0x0010 OR 0x0040"
    by simp
  have or0: "a OR b = 0 \<longleftrightarrow> a = 0 \<and> b = 0" for a b :: "32 word"
    by (auto simp: bit_eq_iff bit_or_iff)
  have "st AND 0x7F = (st AND 0x0001) OR (st AND 0x0020) OR (st AND 0x0002) OR (st AND 0x0004) OR
      (st AND 0x0008) OR (st AND 0x0010) OR (st AND 0x0040)"
    by (simp only: seven bit.conj_disj_distrib)
  then show ?thesis
    by (simp add: or0 boot_reasons_def wdiof_defs)
qed

lemma numeric_string_bounds:
  "numeric_string_to_positive_int bits str = Inr n \<Longrightarrow> 0 < n \<and> n \<le> INT_MAX"
  by (auto simp: numeric_string_to_positive_int_def Let_def split: if_splits)

lemma numeric_string_decimal:
  assumes "0 < n" and "int n \<le> INT_MAX" and "32 \<le> bits"
  shows "numeric_string_to_positive_int bits (decimal n) = Inr (int n)"
proof -
  have "(2::int) ^ 31 \<le> 2 ^ (bits - 1)"
    using assms(3) by (intro power_increasing) auto
  then have "INT_MAX \<le> LONG_MAX bits"
    by (simp add: INT_MAX_def LONG_MAX_def)
  with assms show ?thesis
    by (simp add: numeric_string_to_positive_int_def strtol_decimal)
qed

text \<open>Every path of \<open>run_watchdog\<close>, with the calls it makes in the order they are made.\<close>

lemma run_watchdog_cases:
  assumes "run_watchdog t f s = (code, s')" and "wf_world (os s)"
  shows "balanced (os s) (os s') \<and> wf_world (os s') \<and> code \<in> {EXIT_SUCCESS, EXIT_FAILURE} \<and>
    (code = EXIT_SUCCESS \<longrightarrow> hw_timeout s' = t) \<and>
    (hw_timeout s' \<noteq> hw_timeout s \<longrightarrow> hw_timeout s' = t)"
  using assms
  by (auto simp: run_watchdog_def get_last_boot_status_def ioctl_getbootstatus_def set_watchdog_timeout_def
      ioctl_settimeout_def is_err_def EXIT_SUCCESS_def EXIT_FAILURE_def sys_open_def sys_close_def attempt_def
      balanced_def wf_world_def Let_def split: option.splits if_splits)

lemma parse_options_cases:
  "parse_options bits rs t0 f0 s = Some (r, s') \<Longrightarrow>
     os s' = os s \<and> hw_timeout s' = hw_timeout s \<and>
     (case r of Inl code \<Rightarrow> code = EXIT_FAILURE
      | Inr (t, f) \<Rightarrow> t = t0 \<or> 0 < t \<and> t \<le> INT_MAX)"
proof (induction bits rs t0 f0 s rule: parse_options.induct)
  case (2 bits c optarg opts t0 f0 s)
  then show ?case
    by (auto split: if_splits option.splits sum.splits) (metis numeric_string_bounds)+
qed auto

section \<open>Properties\<close>

text \<open>C29: the watchdog is armed as asked.  With \<open>--timeout\<close> and the decimal notation of a number from
  1 to \<open>INT_MAX\<close> and \<open>--device\<close> and the path of an existing device, when no call fails, the program
  ends with \<open>EXIT_SUCCESS\<close>, the driver has been given exactly that timeout and the device has been
  closed, for a \<open>long\<close> of 32 bits or more.\<close>

theorem watchdog_main_sets_timeout:
  assumes "32 \<le> bits" and "0 < n" and "int n \<le> INT_MAX"
    and "no_faults (os s)" and "wf_world (os s)" and "fs (os s) dev \<noteq> None"
  shows "\<exists>s'. watchdog_main bits [''--timeout'', decimal n, ''--device'', dev] s = Some (EXIT_SUCCESS, s') \<and>
    hw_timeout s' = int n \<and> balanced (os s) (os s')"
proof -
  have "getopt_long wdog_opts [''--timeout'', decimal n, ''--device'', dev] =
      [Opt (CHR ''t'') (Some (decimal n)), Opt (CHR ''w'') (Some dev)]"
    by (simp add: wdog_opts_def long_option_def long_entry_def)
  then have p: "parse_options bits (getopt_long wdog_opts [''--timeout'', decimal n, ''--device'', dev]) 0 ''/dev/watchdog'' s =
      Some (Inr (int n, dev), s)"
    using assms(1-3) by (simp add: numeric_string_decimal)
  obtain s' where r: "run_watchdog (int n) dev s = (EXIT_SUCCESS, s')"
    using assms(4,6)
    by (auto simp: run_watchdog_def get_last_boot_status_def ioctl_getbootstatus_def set_watchdog_timeout_def
        ioctl_settimeout_def is_err_def sys_open_def sys_close_def attempt_def no_faults_def Let_def)
  with p assms(2) run_watchdog_cases [OF r assms(5)] show ?thesis
    by (simp add: watchdog_main_def)
qed

definition demo_wdog :: wdog where
  "demo_wdog = \<lparr>os = fresh_world [''/dev/watchdog1'' \<mapsto> Regular []], boot_status = 0, hw_timeout = 60, printed = []\<rparr>"

theorem watchdog_main_sets_timeout_witness:
  "\<exists>s'. watchdog_main 32 [''--timeout'', decimal 120, ''--device'', ''/dev/watchdog1''] demo_wdog = Some (EXIT_SUCCESS, s') \<and>
     hw_timeout s' = 120 \<and> balanced (os demo_wdog) (os s')"
  using watchdog_main_sets_timeout [of 32 120 demo_wdog "''/dev/watchdog1''"]
  by (simp add: demo_wdog_def INT_MAX_def) (simp add: no_faults_def fresh_world_def)

text \<open>Success means that a valid timeout was set.  For every argument list and every pattern of
  failures, when the program ends without undefined behaviour its exit code is \<open>EXIT_SUCCESS\<close> or
  \<open>EXIT_FAILURE\<close>, no descriptor stays open, and \<open>EXIT_SUCCESS\<close> is returned only after the driver
  accepted a timeout between 1 and \<open>INT_MAX\<close>.\<close>

lemma watchdog_main_exit_code:
  assumes "watchdog_main bits args s = Some (code, s')" and "wf_world (os s)"
  shows "code \<in> {EXIT_SUCCESS, EXIT_FAILURE} \<and> balanced (os s) (os s') \<and>
    (code = EXIT_SUCCESS \<longrightarrow> 0 < hw_timeout s' \<and> hw_timeout s' \<le> INT_MAX)"
proof -
  obtain r s1 where p: "parse_options bits (getopt_long wdog_opts args) 0 ''/dev/watchdog'' s = Some (r, s1)"
    using assms(1) by (auto simp: watchdog_main_def split: option.splits)
  note P = parse_options_cases [OF p]
  show ?thesis
  proof (cases r)
    case (Inl c)
    with assms(1) p P show ?thesis
      by (auto simp: watchdog_main_def EXIT_SUCCESS_def EXIT_FAILURE_def)
  next
    case (Inr tf)
    obtain t f where tf: "tf = (t, f)" by force
    show ?thesis
    proof (cases "t \<le> 0")
      case True
      with assms(1) p P Inr tf show ?thesis
        by (auto simp: watchdog_main_def EXIT_SUCCESS_def EXIT_FAILURE_def)
    next
      case False
      with assms(1) p Inr tf have "run_watchdog t f s1 = (code, s')"
        by (simp add: watchdog_main_def)
      from run_watchdog_cases [OF this] assms(2) P Inr tf False show ?thesis
        by auto
    qed
  qed
qed

lemma watchdog_main_exit_code_example:
  "\<exists>s'. watchdog_main 64 [''--device'', ''x''] demo_wdog = Some (EXIT_FAILURE, s') \<and> balanced (os demo_wdog) (os s')"
proof -
  obtain s' where r: "watchdog_main 64 [''--device'', ''x''] demo_wdog = Some (EXIT_FAILURE, s')"
    by (simp add: watchdog_main_def wdog_opts_def long_option_def long_entry_def)
  have "wf_world (os demo_wdog)" by (simp add: demo_wdog_def)
  from r watchdog_main_exit_code [OF r this] show ?thesis by blast
qed

text \<open>Decimal numerals are read back.  \<open>numeric_string_to_positive_int\<close> maps the decimal
  notation of each number from 1 to \<open>INT_MAX\<close> to that number, whatever the width of \<open>long\<close>.\<close>

lemma numeric_string_roundtrip:
  assumes "0 < n" and "int n \<le> INT_MAX" and "32 \<le> bits"
  shows "numeric_string_to_positive_int bits (decimal n) = Inr (int n)"
  by (rule numeric_string_decimal [OF assms])

lemma numeric_string_roundtrip_example:
  "numeric_string_to_positive_int 32 (decimal 2147483647) = Inr 2147483647"
  using numeric_string_roundtrip [of 2147483647 32] by (simp add: INT_MAX_def)

text \<open>More than digits is accepted.  The function whose error message demands digits only also
  takes a hexadecimal prefix, a sign and leading blanks, and reads a leading zero as octal.\<close>

lemma numeric_string_accepts_more:
  "numeric_string_to_positive_int 64 ''0x10'' = Inr 16 \<and> numeric_string_to_positive_int 64 ''010'' = Inr 8 \<and>
   numeric_string_to_positive_int 64 ''  +7'' = Inr 7 \<and>
   numeric_string_to_positive_int 64 ''12s'' = Inl ''String must contain digits only.'' \<and>
   numeric_string_to_positive_int 64 ''-3'' \<noteq> Inr (-3)"
  by code_simp

text \<open>C34: the reported boot reasons are exact.  For status 0 one line says that the boot was normal;
  for any other status the warnings are those of the table whose bit is set, in the order of
  the table, and nothing at all is printed when none of the seven known bits is set.\<close>

theorem print_last_boot_reason_exact:
  "printed (print_last_boot_reason st s) = printed s @
     (if st = 0 then [Log_info ''Normal boot.'']
      else map (\<lambda>x. Log_warning (snd x)) (filter (\<lambda>x. st AND fst x \<noteq> 0) boot_reasons)) \<and>
   (printed (print_last_boot_reason st s) = printed s \<longleftrightarrow> st \<noteq> 0 \<and> st AND 0x7F = 0)"
proof -
  have "printed (print_last_boot_reason st s) = printed s @
     (if st = 0 then [Log_info ''Normal boot.'']
      else map (\<lambda>x. Log_warning (snd x)) (filter (\<lambda>x. st AND fst x \<noteq> 0) boot_reasons))"
    unfolding map_filter_concat
    by (cases "st = 0")
      (simp_all add: print_last_boot_reason_def log_info_def boot_reasons_def split del: if_split cong: if_cong)
  then show ?thesis
    using known_bits_zero_iff [of st] by simp
qed

text \<open>The short option for the timeout never works.  \<open>-t\<close> is declared without an argument, so its
  handler passes a null pointer to \<open>strtol\<close>: whatever follows, the behaviour is undefined.\<close>

lemma watchdog_short_timeout_undefined:
  "watchdog_main bits (''-t'' # rest) s = None"
  by (simp add: watchdog_main_def wdog_opts_def)

text \<open>An unknown long option is not refused but undefined.  The table of long options lacks its
  terminating entry, so every long option other than \<open>--timeout\<close> and \<open>--device\<close> is looked up past
  the end of the table before the warning could be printed.\<close>

lemma watchdog_unknown_long_option_undefined:
  assumes "takeWhile (\<lambda>c. c \<noteq> CHR ''='') body \<notin> {''timeout'', ''device''}" and "body \<noteq> []"
  shows "watchdog_main bits ((''--'' @ body) # rest) s = None"
proof -
  obtain rs where "getopt_long wdog_opts ((''--'' @ body) # rest) = Undefined # rs"
    using getopt_long_unterminated [of wdog_opts body rest] assms by (auto simp: wdog_opts_def)
  then show ?thesis by (simp add: watchdog_main_def)
qed

end
