(* ===== verification/Filesystem.thy ===== *)
theory Filesystem imports Prelude begin

text \<open>
  What the update daemon uses of \<open>std::filesystem\<close>: paths as strings with the C++17 operations
  on them, and a file system as a tree of directories and files in which several names may be
  hard links to one inode.  Symbolic links and mount points are left out.  Every call may fail;
  a failure that comes from outside (a fault) leaves the tree as it is.
\<close>

section \<open>Paths\<close>

abbreviation sep :: char where "sep \<equiv> CHR ''/''"

definition is_absolute :: "string \<Rightarrow> bool" where
  "is_absolute p \<longleftrightarrow> take 1 p = [sep]"

definition root_path :: "string \<Rightarrow> string" where
  "root_path p = (if is_absolute p then [sep] else [])"

definition relative_path :: "string \<Rightarrow> string" where
  "relative_path p = dropWhile (\<lambda>c. c = sep) p"

definition filename :: "string \<Rightarrow> string" where
  "filename p = rev (takeWhile (\<lambda>c. c \<noteq> sep) (rev p))"

definition remove_filename :: "string \<Rightarrow> string" where
  "remove_filename p = rev (dropWhile (\<lambda>c. c \<noteq> sep) (rev p))"

definition parent_path :: "string \<Rightarrow> string" where
  "parent_path p =
     (if relative_path p = [] then p
      else let q = rev (dropWhile (\<lambda>c. c = sep) (rev (remove_filename p)))
           in if q = [] then root_path p else q)"

text \<open>\<open>operator/=\<close>\<close>

definition path_append :: "string \<Rightarrow> string \<Rightarrow> string" where
  "path_append p q =
     (if is_absolute q then q
      else if filename p \<noteq> [] then p @ [sep] @ q
      else p @ q)"

text \<open>The names along a path.\<close>

function (sequential) comps :: "string \<Rightarrow> string list" where
  "comps [] = []"
| "comps (c # cs) =
     (if c = sep then comps cs
      else (c # takeWhile (\<lambda>c. c \<noteq> sep) cs) # comps (dropWhile (\<lambda>c. c \<noteq> sep) cs))"
  by pat_completeness auto
termination
  by (relation "measure length") (auto intro: le_imp_less_Suc length_dropWhile_le)

section \<open>The tree\<close>

datatype entry = Dir | File nat \<comment> \<open>the inode number\<close>

type_synonym location = "string list"
type_synonym tree = "location \<rightharpoonup> entry"

datatype fs_error = No_entry | Not_directory | Already_exists | Not_permitted | Fs_fault

record fsys =
  tree :: tree
  cwd :: location
  fs_faults :: "nat \<Rightarrow> bool" \<comment> \<open>which calls fail for reasons outside the model\<close>
  fs_calls :: nat

text \<open>Walking along names; every directory passed through must exist.\<close>

fun walk :: "tree \<Rightarrow> location \<Rightarrow> string list \<Rightarrow> location option" where
  "walk t l [] = Some l"
| "walk t l (n # ns) =
     (if t l \<noteq> Some Dir then None
      else if n = ''.'' then walk t l ns
      else if n = ''..'' then walk t (butlast l) ns
      else walk t (l @ [n]) ns)"

definition start_of :: "fsys \<Rightarrow> string \<Rightarrow> location" where
  "start_of s p = (if is_absolute p then [] else cwd s)"

text \<open>The existing location a path names; a path that ends with a separator names a directory.\<close>

definition locate :: "fsys \<Rightarrow> string \<Rightarrow> location option" where
  "locate s p =
     (if p = [] then None
      else case walk (tree s) (start_of s p) (comps p) of
        None \<Rightarrow> None
      | Some l \<Rightarrow>
          (case tree s l of
             None \<Rightarrow> None
           | Some Dir \<Rightarrow> Some l
           | Some (File i) \<Rightarrow> if filename p = [] then None else Some l))"

section \<open>Calls\<close>

definition fs_attempt :: "fsys \<Rightarrow> bool \<times> fsys" where
  "fs_attempt s = (\<not> fs_faults s (fs_calls s), s\<lparr>fs_calls := fs_calls s + 1\<rparr>)"

definition fs_exists :: "string \<Rightarrow> fsys \<Rightarrow> (fs_error + bool) \<times> fsys" where
  "fs_exists p s =
     (let (ok, s) = fs_attempt s
      in (if ok then Inr (locate s p \<noteq> None) else Inl Fs_fault, s))"

text \<open>\<open>remove_all\<close> of what does not exist is no error.\<close>

definition prune :: "location \<Rightarrow> tree \<Rightarrow> tree" where
  "prune l t = (\<lambda>q. if prefix l q then None else t q)"

definition fs_remove_all :: "string \<Rightarrow> fsys \<Rightarrow> (fs_error + unit) \<times> fsys" where
  "fs_remove_all p s =
     (let (ok, s) = fs_attempt s
      in if \<not> ok then (Inl Fs_fault, s)
         else case locate s p of
           None \<Rightarrow> (Inr (), s)
         | Some l \<Rightarrow> (Inr (), s\<lparr>tree := prune l (tree s)\<rparr>))"

text \<open>\<open>create_directories\<close> makes each missing directory in turn and stops at a file.\<close>

fun mkdirs :: "tree \<Rightarrow> location \<Rightarrow> string list \<Rightarrow> bool \<times> tree" where
  "mkdirs t l [] = (True, t)"
| "mkdirs t l (n # ns) =
     (if n = ''.'' then mkdirs t l ns
      else if n = ''..'' then mkdirs t (butlast l) ns
      else case t (l @ [n]) of
        None \<Rightarrow> mkdirs (t(l @ [n] \<mapsto> Dir)) (l @ [n]) ns
      | Some Dir \<Rightarrow> mkdirs t (l @ [n]) ns
      | Some (File i) \<Rightarrow> (False, t))"

definition fs_create_directories :: "string \<Rightarrow> fsys \<Rightarrow> (fs_error + unit) \<times> fsys" where
  "fs_create_directories p s =
     (let (ok, s) = fs_attempt s
      in if \<not> ok then (Inl Fs_fault, s)
         else let (done, t) = mkdirs (tree s) (start_of s p) (comps p)
              in (if done then Inr () else Inl Not_directory, s\<lparr>tree := t\<rparr>))"

definition fs_create_hard_link :: "string \<Rightarrow> string \<Rightarrow> fsys \<Rightarrow> (fs_error + unit) \<times> fsys" where
  "fs_create_hard_link src dst s =
     (let (ok, s) = fs_attempt s
      in if \<not> ok then (Inl Fs_fault, s)
         else case locate s src of
           None \<Rightarrow> (Inl No_entry, s)
         | Some l \<Rightarrow>
             (case tree s l of
                Some (File i) \<Rightarrow>
                  if filename dst = [] then (Inl No_entry, s)
                  else (case walk (tree s) (start_of s dst) (comps dst) of
                    None \<Rightarrow> (Inl No_entry, s)
                  | Some d \<Rightarrow>
                      if tree s d \<noteq> None then (Inl Already_exists, s)
                      else if tree s (butlast d) \<noteq> Some Dir then (Inl No_entry, s)
                      else (Inr (), s\<lparr>tree := (tree s)(d \<mapsto> File i)\<rparr>))
              | _ \<Rightarrow> (Inl Not_permitted, s)))"

section \<open>Well-formed trees\<close>

definition valid_name :: "string \<Rightarrow> bool" where
  "valid_name n \<longleftrightarrow> n \<noteq> [] \<and> n \<noteq> ''.'' \<and> n \<noteq> ''..'' \<and> sep \<notin> set n"

definition wf_tree :: "tree \<Rightarrow> bool" where
  "wf_tree t \<longleftrightarrow> t [] = Some Dir \<and>
     (\<forall>l n. t (l @ [n]) \<noteq> None \<longrightarrow> t l = Some Dir \<and> valid_name n)"

definition fs_quiet :: "fsys \<Rightarrow> bool" where
  "fs_quiet s \<longleftrightarrow> (\<forall>i. \<not> fs_faults s i)"

text \<open>The absolute path of a location.\<close>

definition path_str :: "location \<Rightarrow> string" where
  "path_str l = concat (map (\<lambda>n. sep # n) l)"

section \<open>Facts on paths\<close>

lemma path_str_simps [simp]:
  "path_str [] = []" "path_str (n # l) = sep # n @ path_str l"
  "path_str (l @ m) = path_str l @ path_str m"
  by (simp_all add: path_str_def)

lemma path_str_start: "path_str l = [] \<or> (\<exists>r. path_str l = sep # r)"
  by (cases l) auto

lemma takeWhile_name: "sep \<notin> set n \<Longrightarrow> r = [] \<or> (\<exists>q. r = sep # q) \<Longrightarrow> takeWhile (\<lambda>c. c \<noteq> sep) (n @ r) = n"
  by (induction n) auto

lemma dropWhile_name: "sep \<notin> set n \<Longrightarrow> r = [] \<or> (\<exists>q. r = sep # q) \<Longrightarrow> dropWhile (\<lambda>c. c \<noteq> sep) (n @ r) = r"
  by (induction n) auto

lemma comps_name:
  assumes "valid_name n" and "r = [] \<or> (\<exists>q. r = sep # q)"
  shows "comps (n @ r) = n # comps r"
proof -
  obtain c cs where n: "n = c # cs" using assms(1) by (cases n) (auto simp: valid_name_def)
  with assms show ?thesis
    by (auto simp: valid_name_def takeWhile_name dropWhile_name)
qed

lemma comps_path_str [simp]:
  "list_all valid_name l \<Longrightarrow> comps (path_str l) = l"
  "list_all valid_name l \<Longrightarrow> comps (path_str l @ [sep]) = l"
proof -
  show "list_all valid_name l \<Longrightarrow> comps (path_str l) = l"
    using path_str_start by (induction l) (auto simp: comps_name)
  show "list_all valid_name l \<Longrightarrow> comps (path_str l @ [sep]) = l"
  proof (induction l)
    case (Cons n l)
    then have "comps (n @ path_str l @ [sep]) = n # comps (path_str l @ [sep])"
      using path_str_start [of l] by (intro comps_name) auto
    with Cons show ?case by simp
  qed simp
qed

lemma filename_last: "sep \<notin> set n \<Longrightarrow> filename (p @ sep # n) = n"
  by (simp add: filename_def takeWhile_name)

lemma remove_filename_last: "sep \<notin> set n \<Longrightarrow> remove_filename (p @ sep # n) = p @ [sep]"
  by (simp add: remove_filename_def dropWhile_name)

lemma filename_dir [simp]: "filename (p @ [sep]) = []"
  by (simp add: filename_def)

lemma is_absolute_path_str [simp]:
  "l \<noteq> [] \<Longrightarrow> is_absolute (path_str l)" "is_absolute (path_str l @ [sep])" "is_absolute (path_str l @ sep # r)"
  by (cases l; simp add: is_absolute_def)+

lemma valid_nameD: "valid_name n \<Longrightarrow> sep \<notin> set n" "valid_name n \<Longrightarrow> n \<noteq> []"
  by (simp_all add: valid_name_def)

lemma not_absolute_name: "valid_name n \<Longrightarrow> \<not> is_absolute n"
  by (cases n) (auto simp: valid_name_def is_absolute_def)

lemma append_name:
  "valid_name n \<Longrightarrow> path_append (p @ [sep]) n = p @ sep # n"
  "valid_name n \<Longrightarrow> filename p \<noteq> [] \<Longrightarrow> path_append p n = p @ sep # n"
  by (simp_all add: path_append_def not_absolute_name)

lemma dropWhile_sep_name: "valid_name n \<Longrightarrow> dropWhile (\<lambda>c. c = sep) (n @ r) = n @ r"
  by (cases n) (auto simp: valid_name_def)

lemma relative_path_str: "valid_name n \<Longrightarrow> relative_path (path_str (n # l)) = n @ path_str l"
  by (simp add: relative_path_def dropWhile_sep_name)

text \<open>The directory part of an absolute path, put together as the daemon does.\<close>

lemma root_relative_dir:
  assumes "list_all valid_name ds" and "valid_name f"
  shows "path_append (root_path (path_str (ds @ [f]))) (remove_filename (relative_path (path_str (ds @ [f])))) =
    path_str ds @ [sep]"
proof (cases ds)
  case Nil
  have "relative_path (sep # f) = f"
    using assms(2) relative_path_str [of f "[]"] by simp
  moreover have "remove_filename f = []"
    using assms(2) by (auto simp: remove_filename_def valid_name_def)
  ultimately show ?thesis
    using Nil by (simp add: root_path_def path_append_def is_absolute_def filename_def)
next
  case (Cons d dr)
  have rel: "relative_path (path_str (ds @ [f])) = d @ path_str dr @ sep # f"
    using Cons assms relative_path_str [of d "dr @ [f]"] by simp
  have "remove_filename (d @ path_str dr @ sep # f) = d @ path_str dr @ [sep]"
    using remove_filename_last [of f "d @ path_str dr"] assms(2) by (simp add: valid_nameD)
  moreover have "\<not> is_absolute (d @ path_str dr @ [sep])"
    using Cons assms(1) by (cases d) (auto simp: valid_name_def is_absolute_def)
  moreover have "root_path (path_str (ds @ [f])) = [sep]"
    using Cons by (simp add: root_path_def is_absolute_def)
  ultimately show ?thesis
    using rel Cons by (simp add: path_append_def filename_def)
qed

lemma parent_path_str:
  assumes "list_all valid_name (ds @ [n])" and "valid_name f"
  shows "parent_path (path_str (ds @ [n, f])) = path_str (ds @ [n])"
proof -
  have r: "remove_filename (path_str (ds @ [n, f])) = path_str (ds @ [n]) @ [sep]"
    using remove_filename_last [of f "path_str (ds @ [n])"] assms(2) by (simp add: valid_nameD)
  have "rev n \<noteq> []" and "hd (rev n) \<noteq> sep"
    using assms(1) hd_in_set [of "rev n"] by (auto simp: valid_name_def)
  then have "dropWhile (\<lambda>c. c = sep) (rev n @ q) = rev n @ q" for q
    by (cases "rev n") auto
  then have d: "rev (dropWhile (\<lambda>c. c = sep) (rev (path_str (ds @ [n]) @ [sep]))) = path_str (ds @ [n])"
    by simp
  have "relative_path (path_str (ds @ [n, f])) \<noteq> []"
    using assms by (cases ds) (auto simp: relative_path_str [of _ "_ @ [_, _]", simplified]
        relative_path_str [of _ "[_]", simplified] valid_name_def)
  then show ?thesis
    unfolding parent_path_def r d by simp
qed

section \<open>Facts on trees\<close>

lemma wf_tree_parent: "wf_tree t \<Longrightarrow> t (l @ m) \<noteq> None \<Longrightarrow> m \<noteq> [] \<Longrightarrow> t l = Some Dir"
proof (induction m rule: rev_induct)
  case (snoc x m)
  then have "t (l @ m) = Some Dir"
    by (metis append_assoc wf_tree_def)
  with snoc show ?case
    by (cases m) auto
qed simp

lemma wf_tree_names: "wf_tree t \<Longrightarrow> t l \<noteq> None \<Longrightarrow> list_all valid_name l"
proof (induction l rule: rev_induct)
  case (snoc x l)
  then have "t l = Some Dir \<and> valid_name x"
    by (meson wf_tree_def)
  with snoc show ?case by auto
qed simp

lemma walk_names:
  "list_all valid_name ns \<Longrightarrow> (\<And>k. k < length ns \<Longrightarrow> t (l @ take k ns) = Some Dir) \<Longrightarrow> walk t l ns = Some (l @ ns)"
proof (induction ns arbitrary: l)
  case (Cons n ns)
  have "t l = Some Dir" using Cons.prems(2) [of 0] by simp
  moreover have "walk t (l @ [n]) ns = Some ((l @ [n]) @ ns)"
  proof (rule Cons.IH)
    show "list_all valid_name ns" using Cons.prems(1) by simp
    show "t ((l @ [n]) @ take k ns) = Some Dir" if "k < length ns" for k
      using Cons.prems(2) [of "Suc k"] that by simp
  qed
  ultimately show ?case
    using Cons.prems(1) by (simp add: valid_name_def)
qed simp

lemma walk_wf:
  assumes "wf_tree t" and "t (butlast l) = Some Dir" and "list_all valid_name l"
  shows "walk t [] l = Some l"
proof -
  have "t (take k l) = Some Dir" if k: "k < length l" for k
  proof (cases "Suc k = length l")
    case True
    then show ?thesis using assms(2) by (simp add: butlast_conv_take flip: True)
  next
    case False
    then have "butlast l = take k l @ drop k (butlast l)" and "drop k (butlast l) \<noteq> []"
      using k by (auto simp: butlast_conv_take) (metis append_take_drop_id min.absorb1 take_take
          less_or_eq_imp_le Suc_pred length_greater_0_conv less_Suc_eq_le list.size(3) not_less0)
    then show ?thesis using wf_tree_parent [OF assms(1)] assms(2) by (metis option.simps(3))
  qed
  with walk_names [of l t "[]"] assms(3) show ?thesis by simp
qed

lemma locate_path:
  assumes "wf_tree (tree s)" and "tree s l = Some e" and "l \<noteq> []"
  shows "locate s (path_str l) = Some l"
proof -
  obtain ds n where l: "l = ds @ [n]" using assms(3) by (metis rev_exhaust)
  have v: "list_all valid_name l" using wf_tree_names [OF assms(1)] assms(2) by simp
  have "tree s (butlast l) = Some Dir"
    using wf_tree_parent [OF assms(1), of ds "[n]"] assms(2) l by simp
  then have "walk (tree s) [] l = Some l" by (rule walk_wf [OF assms(1) _ v])
  moreover have "filename (path_str l) = n"
    using v l filename_last [of n "path_str ds"] by (simp add: valid_name_def)
  moreover have "path_str l \<noteq> []" using l by simp
  ultimately show ?thesis
    using assms(2,3) v valid_nameD [of n] l
    by (auto simp del: path_str_simps simp: locate_def start_of_def split: entry.splits)
qed

lemma walk_plain: "list_all valid_name ns \<Longrightarrow> walk t l ns = Some m \<Longrightarrow> m = l @ ns"
proof (induction ns arbitrary: l)
  case (Cons n ns)
  then show ?case using Cons.IH [of "l @ [n]"] by (auto simp: valid_name_def split: if_splits)
qed simp

lemma locate_plain:
  assumes "list_all valid_name l" and "locate s (path_str l) = Some m"
  shows "m = l \<and> tree s l \<noteq> None"
  using assms walk_plain [OF assms(1), of "tree s" "[]"]
  by (cases "l = []") (auto simp: locate_def start_of_def split: option.splits entry.splits if_splits)

lemma locate_missing:
  assumes "wf_tree (tree s)" and "tree s l = None" and "list_all valid_name l" and "tree s (butlast l) = Some Dir"
  shows "locate s (path_str l) = None"
  using walk_wf [OF assms(1,4,3)] assms(2,3) wf_tree_def
  by (cases "l = []") (auto simp: locate_def start_of_def)

lemma locate_dir:
  assumes "wf_tree (tree s)" and "tree s l = Some Dir"
  shows "locate s (path_str l @ [sep]) = Some l"
proof -
  have v: "list_all valid_name l" using wf_tree_names [OF assms(1)] assms(2) by simp
  have "tree s (butlast l) = Some Dir"
    using wf_tree_parent [OF assms(1), of "butlast l" "[last l]"] assms
    by (cases "l = []") auto
  then have "walk (tree s) [] l = Some l" by (rule walk_wf [OF assms(1) _ v])
  with v assms(2) show ?thesis by (simp add: locate_def start_of_def)
qed

lemma prune_outside [simp]: "\<not> prefix l q \<Longrightarrow> prune l t q = t q"
  and prune_inside [simp]: "prefix l q \<Longrightarrow> prune l t q = None"
  by (simp_all add: prune_def)

lemma wf_tree_prune: "wf_tree t \<Longrightarrow> l \<noteq> [] \<Longrightarrow> wf_tree (prune l t)"
  by (auto simp: wf_tree_def prune_def)

lemma wf_tree_extend:
  assumes "wf_tree t" and "t l = Some Dir" and "valid_name n" and "t (l @ [n]) = None"
  shows "wf_tree (t(l @ [n] \<mapsto> e))"
proof -
  have "t ((l @ [n]) @ [x]) = None" for x
    using assms(1,4) wf_tree_parent [of t "l @ [n]" "[x]"] by (cases "t ((l @ [n]) @ [x])") auto
  moreover have "l @ [n] @ [x] \<noteq> l @ [n]" for x by simp
  ultimately show ?thesis
    using assms unfolding wf_tree_def by (auto simp: fun_upd_def)
qed

lemma mkdirs_last:
  assumes "wf_tree t" and "t l = Some Dir" and "list_all valid_name (l @ [n])" and "t (l @ [n]) = None"
  shows "mkdirs t [] (l @ [n]) = (True, t(l @ [n] \<mapsto> Dir))"
proof -
  have "mkdirs t p (ns @ [n]) = (True, t(p @ ns @ [n] \<mapsto> Dir))" if "p @ ns = l" for p ns
    using that
  proof (induction ns arbitrary: p)
    case Nil
    then show ?case using assms(3,4) by (simp add: valid_name_def fun_upd_def)
  next
    case (Cons x ns)
    have "t (p @ [x]) = Some Dir"
      using wf_tree_parent [OF assms(1), of "p @ [x]" ns] assms(2) Cons.prems by (cases ns) auto
    with Cons assms(3) show ?case by (auto simp: valid_name_def)
  qed
  from this [of "[]" l] show ?thesis by simp
qed

end
