(* ===== verification/Payload.thy ===== *)
theory Payload imports Filesystem begin

text \<open>
  \<open>updated/source/fileutils/payload.h\<close>: the hard link that keeps an update payload alive while the
  update runs, in a directory \<open>updated\<close> beside the payload.  Assertions are enabled, as in the
  build files; an assertion that fails and an exception that leaves a function declared
  \<open>noexcept\<close> both end the process.
\<close>

datatype 'a outcome =
    Value 'a
  | Throws fs_error \<comment> \<open>\<open>std::filesystem::filesystem_error\<close>\<close>
  | Aborted \<comment> \<open>\<open>std::abort\<close> or \<open>std::terminate\<close>\<close>

section \<open>Definitions\<close>

definition payload_dir :: "string \<Rightarrow> string" where
  "payload_dir source_path =
     path_append
       (path_append [] (path_append (root_path source_path) (remove_filename (relative_path source_path))))
       ''updated''"

text \<open>The constructor; its value is the member \<open>payload_path\<close>.\<close>

definition PayloadHardLink :: "string \<Rightarrow> fsys \<Rightarrow> string outcome \<times> fsys" where
  "PayloadHardLink source_path s =
     (if \<not> is_absolute source_path then (Aborted, s)
      else
        let payload_path = payload_dir source_path
        in case fs_exists payload_path s of
             (Inl e, s) \<Rightarrow> (Throws e, s)
           | (Inr there, s) \<Rightarrow>
               (case (if there then fs_remove_all payload_path s else (Inr (), s)) of
                  (Inl e, s) \<Rightarrow> (Throws e, s)
                | (Inr _, s) \<Rightarrow>
                    (case fs_create_directories payload_path s of
                       (Inl e, s) \<Rightarrow> (Throws e, s)
                     | (Inr _, s) \<Rightarrow>
                         (let payload_path = path_append payload_path (filename source_path)
                          in case fs_create_hard_link source_path payload_path s of
                               (Inl e, s) \<Rightarrow> (Throws e, s)
                             | (Inr _, s) \<Rightarrow> (Value payload_path, s)))))"

text \<open>The destructor, which is \<open>noexcept\<close>.\<close>

definition destroy_PayloadHardLink :: "string \<Rightarrow> fsys \<Rightarrow> unit outcome \<times> fsys" where
  "destroy_PayloadHardLink payload_path s =
     (case fs_exists (parent_path payload_path) s of
        (Inl e, s) \<Rightarrow> (Aborted, s)
      | (Inr False, s) \<Rightarrow> (Value (), s)
      | (Inr True, s) \<Rightarrow>
          (case fs_remove_all (remove_filename payload_path) s of
             (Inl e, s) \<Rightarrow> (Aborted, s)
           | (Inr _, s) \<Rightarrow> (Value (), s)))"

section \<open>Facts\<close>

abbreviation updated_name :: string where "updated_name \<equiv> ''updated''"

lemma valid_updated [simp]: "valid_name updated_name"
  by (simp add: valid_name_def)

lemma payload_dir_path:
  assumes "list_all valid_name (ds @ [f])"
  shows "payload_dir (path_str (ds @ [f])) = path_str (ds @ [updated_name])"
proof -
  have "path_append [] (path_str ds @ [sep]) = path_str ds @ [sep]"
    by (simp add: path_append_def)
  then show ?thesis
    using assms root_relative_dir [of ds f] append_name(1) [OF valid_updated, of "path_str ds"]
    by (simp del: append_assoc add: payload_dir_def)
qed

lemma prune_absent:
  assumes "wf_tree t" and "t l = None"
  shows "prune l t = t"
proof
  fix q
  show "prune l t q = t q"
  proof (cases "prefix l q")
    case True
    then obtain m where "q = l @ m" by (auto simp: prefix_def)
    then have "t q = None" using wf_tree_parent [OF assms(1), of l m] assms(2) by (cases "t q"; cases m) auto
    with True show ?thesis by simp
  qed simp
qed

text \<open>What the constructor leaves: the directory holds the link and nothing else.\<close>

definition linked :: "location \<Rightarrow> string \<Rightarrow> nat \<Rightarrow> tree \<Rightarrow> tree" where
  "linked ds f i t = (prune (ds @ [updated_name]) t)(ds @ [updated_name] \<mapsto> Dir, ds @ [updated_name, f] \<mapsto> File i)"

lemma linked_simps [simp]:
  "linked ds f i t (ds @ [updated_name]) = Some Dir"
  "linked ds f i t (ds @ [updated_name, f]) = Some (File i)"
  by (simp_all add: linked_def)

lemma linked_outside: "\<not> prefix (ds @ [updated_name]) q \<Longrightarrow> linked ds f i t q = t q"
  by (auto simp: linked_def prefix_def)

lemma prune_linked [simp]: "prune (ds @ [updated_name]) (linked ds f i t) = prune (ds @ [updated_name]) t"
  by (auto simp: prune_def linked_def prefix_def)

lemma prune_delete: "prune l (t(q := None)) = (prune l t)(q := None)"
  by (auto simp: prune_def)

lemma wf_tree_pruned_dir:
  assumes "wf_tree t" and "t ds = Some Dir"
  shows "wf_tree ((prune (ds @ [updated_name]) t)(ds @ [updated_name] \<mapsto> Dir))"
  using assms by (intro wf_tree_extend wf_tree_prune) (auto simp: prefix_def)

lemma wf_tree_linked:
  assumes "wf_tree t" and "t ds = Some Dir" and "valid_name f"
  shows "wf_tree (linked ds f i t)"
  using wf_tree_extend [OF wf_tree_pruned_dir [OF assms(1,2)], of "ds @ [updated_name]" f "File i"] assms(3)
  by (simp add: linked_def prune_def)

lemma fs_attempt_quiet:
  "fs_quiet s \<Longrightarrow> fs_attempt s = (True, s\<lparr>fs_calls := Suc (fs_calls s)\<rparr>)"
  by (simp add: fs_attempt_def fs_quiet_def)

lemma locate_calls [simp]: "locate (s\<lparr>fs_calls := n\<rparr>) p = locate s p"
  by (simp add: locate_def start_of_def cong: option.case_cong)

lemma fs_quiet_frame [simp]: "fs_quiet (s\<lparr>fs_calls := n\<rparr>) = fs_quiet s" "fs_quiet (s\<lparr>tree := t\<rparr>) = fs_quiet s"
  by (simp_all add: fs_quiet_def)

text \<open>Emptying the directory: the test and the removal together.\<close>

lemma clear_directory:
  assumes "wf_tree (tree s)" and "tree s ds = Some Dir" and "fs_quiet s"
  shows "\<exists>n b s1. fs_exists (path_str (ds @ [updated_name])) s = (Inr b, s1) \<and>
    (if b then fs_remove_all (path_str (ds @ [updated_name])) s1 else (Inr (), s1)) =
      (Inr (), s\<lparr>tree := prune (ds @ [updated_name]) (tree s), fs_calls := n\<rparr>)"
proof (cases "tree s (ds @ [updated_name])")
  case None
  have "locate s (path_str (ds @ [updated_name])) = None"
    using wf_tree_names [OF assms(1)] assms(2) by (intro locate_missing assms(1) None) auto
  with assms(3) show ?thesis
    by (intro exI [of _ "Suc (fs_calls s)"] exI [of _ False])
      (simp add: fs_exists_def fs_attempt_quiet prune_absent [OF assms(1) None])
next
  case (Some e)
  have "locate s (path_str (ds @ [updated_name])) = Some (ds @ [updated_name])"
    by (rule locate_path [OF assms(1) Some]) simp
  with assms(3) show ?thesis
    by (intro exI [of _ "Suc (Suc (fs_calls s))"] exI [of _ True])
      (simp add: fs_exists_def fs_remove_all_def fs_attempt_quiet del: path_str_simps)
qed

lemma make_directory:
  assumes "wf_tree (tree s)" and "tree s ds = Some Dir" and "fs_quiet s" and "tree s (ds @ [updated_name]) = None"
  shows "fs_create_directories (path_str (ds @ [updated_name])) s =
    (Inr (), s\<lparr>tree := (tree s)(ds @ [updated_name] \<mapsto> Dir), fs_calls := Suc (fs_calls s)\<rparr>)"
proof -
  have v: "list_all valid_name (ds @ [updated_name])"
    using wf_tree_names [OF assms(1)] assms(2) by simp
  have "start_of s' (path_str (ds @ [updated_name])) = []" for s'
    by (simp add: start_of_def del: path_str_simps)
  moreover have "comps (path_str (ds @ [updated_name])) = ds @ [updated_name]"
    using v by (rule comps_path_str(1))
  ultimately show ?thesis
    using mkdirs_last [OF assms(1,2) v assms(4)] assms(3)
    by (simp add: fs_create_directories_def fs_attempt_quiet del: path_str_simps)
qed

lemma make_link:
  assumes "wf_tree (tree s)" and "fs_quiet s" and "tree s src = Some (File i)" and "src \<noteq> []"
    and "tree s d = Some Dir" and "tree s (d @ [f]) = None" and "valid_name f"
  shows "fs_create_hard_link (path_str src) (path_str (d @ [f])) s =
    (Inr (), s\<lparr>tree := (tree s)(d @ [f] \<mapsto> File i), fs_calls := Suc (fs_calls s)\<rparr>)"
proof -
  have v: "list_all valid_name (d @ [f])"
    using wf_tree_names [OF assms(1)] assms(5,7) by simp
  have "walk (tree s) [] (d @ [f]) = Some (d @ [f])"
    by (rule walk_wf [OF assms(1) _ v]) (simp add: assms(5))
  moreover have "start_of s' (path_str (d @ [f])) = []" for s'
    by (simp add: start_of_def del: path_str_simps)
  moreover have "filename (path_str (d @ [f])) = f"
    using filename_last [of f "path_str d"] assms(7) by (simp add: valid_nameD)
  moreover have "comps (path_str (d @ [f])) = d @ [f]"
    using v by (rule comps_path_str(1))
  ultimately show ?thesis
    using assms valid_nameD(2) [OF assms(7)] locate_path [OF assms(1,3,4)]
    by (simp add: fs_create_hard_link_def fs_attempt_quiet del: path_str_simps)
qed

lemma PayloadHardLink_spec:
  assumes "wf_tree (tree s)" and "fs_quiet s" and "tree s (ds @ [f]) = Some (File i)" and "f \<noteq> updated_name"
  shows "\<exists>n. PayloadHardLink (path_str (ds @ [f])) s =
    (Value (path_str (ds @ [updated_name, f])), s\<lparr>tree := linked ds f i (tree s), fs_calls := n\<rparr>)"
proof -
  let ?d = "ds @ [updated_name]"
  have v: "list_all valid_name (ds @ [f])"
    using wf_tree_names [OF assms(1), of "ds @ [f]"] assms(3) by simp
  have ds: "tree s ds = Some Dir"
    using wf_tree_parent [OF assms(1), of ds "[f]"] assms(3) by simp
  obtain n b s1 where c: "fs_exists (path_str ?d) s = (Inr b, s1)"
    "(if b then fs_remove_all (path_str ?d) s1 else (Inr (), s1)) = (Inr (), s\<lparr>tree := prune ?d (tree s), fs_calls := n\<rparr>)"
    using clear_directory [OF assms(1) ds assms(2)] by blast
  let ?s1 = "s\<lparr>tree := prune ?d (tree s), fs_calls := n\<rparr>"
  let ?s2 = "?s1\<lparr>tree := (tree ?s1)(?d \<mapsto> Dir), fs_calls := Suc (fs_calls ?s1)\<rparr>"
  have m: "fs_create_directories (path_str ?d) ?s1 = (Inr (), ?s2)"
    proof (rule make_directory)
    show "wf_tree (tree ?s1)" using wf_tree_prune [OF assms(1), of ?d] by simp
  qed (use assms(2) ds in \<open>auto simp: prune_def\<close>)
  have l: "fs_create_hard_link (path_str (ds @ [f])) (path_str (?d @ [f])) ?s2 =
      (Inr (), ?s2\<lparr>tree := (tree ?s2)(?d @ [f] \<mapsto> File i), fs_calls := Suc (fs_calls ?s2)\<rparr>)"
  proof (rule make_link)
    show "wf_tree (tree ?s2)" using wf_tree_pruned_dir [OF assms(1) ds] by simp
    show "tree ?s2 (ds @ [f]) = Some (File i)"
      using assms(3,4) by (simp add: prune_def)
  qed (use assms(2) v in \<open>auto simp: prune_def\<close>)
  have p: "path_append (path_str ?d) (filename (path_str (ds @ [f]))) = path_str (?d @ [f])"
    using v filename_last [of f "path_str ds"] filename_last [of updated_name "path_str ds"]
      append_name(2) [of f "path_str ?d"] by (simp add: valid_nameD)
  have "is_absolute (path_str (ds @ [f]))" by (simp del: path_str_simps)
  moreover have "payload_dir (path_str (ds @ [f])) = path_str ?d" by (rule payload_dir_path [OF v])
  ultimately show ?thesis
    using c m l p by (auto simp: PayloadHardLink_def Let_def linked_def simp del: path_str_simps)
qed

lemma destroy_spec:
  assumes "wf_tree (tree s)" and "fs_quiet s" and "tree s (ds @ [updated_name]) = Some Dir" and "valid_name f"
  shows "destroy_PayloadHardLink (path_str (ds @ [updated_name, f])) s =
    (Value (), s\<lparr>tree := prune (ds @ [updated_name]) (tree s), fs_calls := fs_calls s + 2\<rparr>)"
proof -
  have v: "list_all valid_name (ds @ [updated_name])"
    using wf_tree_names [OF assms(1), of "ds @ [updated_name]"] assms(3) by simp
  have "remove_filename (path_str (ds @ [updated_name, f])) = path_str (ds @ [updated_name]) @ [sep]"
    using remove_filename_last [of f "path_str (ds @ [updated_name])"] assms(4) by (simp add: valid_nameD)
  moreover have "parent_path (path_str (ds @ [updated_name, f])) = path_str (ds @ [updated_name])"
    using parent_path_str [OF v assms(4)] by simp
  moreover have "locate s (path_str (ds @ [updated_name])) = Some (ds @ [updated_name])"
    by (rule locate_path [OF assms(1,3)]) simp
  moreover have "locate s (path_str (ds @ [updated_name]) @ [sep]) = Some (ds @ [updated_name])"
    by (rule locate_dir [OF assms(1,3)])
  ultimately show ?thesis
    using assms(2)
    by (simp add: destroy_PayloadHardLink_def fs_exists_def fs_remove_all_def fs_attempt_quiet del: path_str_simps)
qed

section \<open>The contract of the link\<close>

text \<open>
  What the coordinator relies on: a good payload gives a live handle, a live handle can be
  dropped without ending the process, and dropping it keeps every live handle that lies
  elsewhere.
\<close>

locale payload_store =
  fixes make :: "string \<Rightarrow> fsys \<Rightarrow> string outcome \<times> fsys"
    and discard :: "string \<Rightarrow> fsys \<Rightarrow> unit outcome \<times> fsys"
    and good :: "string \<Rightarrow> fsys \<Rightarrow> bool"
    and live :: "string \<Rightarrow> fsys \<Rightarrow> bool"
    and apart :: "string \<Rightarrow> string \<Rightarrow> bool"
  assumes make_live: "good p s \<Longrightarrow> \<exists>h s'. make p s = (Value h, s') \<and> live h s'"
    and discard_live: "live h s \<Longrightarrow> \<exists>s'. discard h s = (Value (), s') \<and> \<not> live h s'"
    and discard_keeps: "live h s \<Longrightarrow> live h' s \<Longrightarrow> apart h h' \<Longrightarrow> discard h s = (r, s') \<Longrightarrow> live h' s'"
begin

lemma make_discard:
  "good p s \<Longrightarrow> \<exists>h s1 s2. make p s = (Value h, s1) \<and> live h s1 \<and> discard h s1 = (Value (), s2) \<and> \<not> live h s2"
  using make_live discard_live by meson

lemma replace_live:
  assumes "good p s" and "make p s = (Value h', s1)" and "live h s1" and "apart h h'"
  shows "\<exists>s2. discard h s1 = (Value (), s2) \<and> live h' s2"
proof -
  have "live h' s1" using make_live [OF assms(1)] assms(2) by auto
  then show ?thesis using discard_live [OF assms(3)] discard_keeps [OF assms(3) _ assms(4)] by blast
qed

end

definition good_payload :: "string \<Rightarrow> fsys \<Rightarrow> bool" where
  "good_payload p s \<longleftrightarrow> wf_tree (tree s) \<and> fs_quiet s \<and>
     (\<exists>ds f i. p = path_str (ds @ [f]) \<and> tree s (ds @ [f]) = Some (File i) \<and> f \<noteq> updated_name)"

definition live_link :: "string \<Rightarrow> fsys \<Rightarrow> bool" where
  "live_link h s \<longleftrightarrow> wf_tree (tree s) \<and> fs_quiet s \<and>
     (\<exists>ds f i. h = path_str (ds @ [updated_name, f]) \<and> tree s (ds @ [updated_name, f]) = Some (File i))"

text \<open>The directory of the first handle is not above the second.\<close>

definition apart_links :: "string \<Rightarrow> string \<Rightarrow> bool" where
  "apart_links h h' \<longleftrightarrow> \<not> prefix (butlast (comps h)) (comps h')"

lemma good_payloadI:
  "wf_tree (tree s) \<Longrightarrow> fs_quiet s \<Longrightarrow> tree s (ds @ [f]) = Some (File i) \<Longrightarrow> f \<noteq> updated_name \<Longrightarrow>
     good_payload (path_str (ds @ [f])) s"
  unfolding good_payload_def by blast

lemma live_linkI:
  "wf_tree (tree s) \<Longrightarrow> fs_quiet s \<Longrightarrow> tree s (ds @ [updated_name, f]) = Some (File i) \<Longrightarrow>
     live_link (path_str (ds @ [updated_name, f])) s"
  unfolding live_link_def by blast

lemma live_linkE:
  assumes "live_link h s"
  obtains ds f i where "h = path_str (ds @ [updated_name, f])" and "tree s (ds @ [updated_name, f]) = Some (File i)"
    and "tree s (ds @ [updated_name]) = Some Dir" and "valid_name f" and "list_all valid_name (ds @ [updated_name, f])"
    and "wf_tree (tree s)" and "fs_quiet s"
proof -
  obtain ds f i where r: "h = path_str (ds @ [updated_name, f])" "tree s (ds @ [updated_name, f]) = Some (File i)"
    "wf_tree (tree s)" "fs_quiet s" using assms by (auto simp: live_link_def)
  have "tree s (ds @ [updated_name]) = Some Dir"
    using wf_tree_parent [OF r(3), of "ds @ [updated_name]" "[f]"] r(2) by simp
  moreover have "list_all valid_name (ds @ [updated_name, f])"
    using wf_tree_names [OF r(3)] r(2) by (metis option.simps(3))
  ultimately show thesis using that r by auto
qed

interpretation link: payload_store PayloadHardLink destroy_PayloadHardLink good_payload live_link apart_links
proof
  fix p s
  assume "good_payload p s"
  then obtain ds f i where g: "p = path_str (ds @ [f])" "tree s (ds @ [f]) = Some (File i)" "f \<noteq> updated_name"
    "wf_tree (tree s)" "fs_quiet s" by (auto simp: good_payload_def)
  have "tree s ds = Some Dir" and "valid_name f"
    using wf_tree_parent [OF g(4), of ds "[f]"] wf_tree_names [OF g(4), of "ds @ [f]"] g(2) by auto
  then have "wf_tree (linked ds f i (tree s))" by (rule wf_tree_linked [OF g(4)])
  with PayloadHardLink_spec [OF g(4,5,2,3)] g(1,5)
  show "\<exists>h s'. PayloadHardLink p s = (Value h, s') \<and> live_link h s'"
    by (auto simp: live_link_def simp del: path_str_simps) (metis linked_simps(2))
next
  fix h s
  assume "live_link h s"
  then show "\<exists>s'. destroy_PayloadHardLink h s = (Value (), s') \<and> \<not> live_link h s'"
  proof (cases rule: live_linkE)
    case (1 ds f i)
    let ?t = "prune (ds @ [updated_name]) (tree s)"
    have "\<not> live_link h (s\<lparr>tree := ?t, fs_calls := fs_calls s + 2\<rparr>)"
    proof
      assume "live_link h (s\<lparr>tree := ?t, fs_calls := fs_calls s + 2\<rparr>)"
      then obtain l i' where l: "h = path_str l" "?t l = Some (File i')" "wf_tree ?t"
        by (auto simp: live_link_def simp del: path_str_simps)
      then have "list_all valid_name l" by (intro wf_tree_names) auto
      then have "l = ds @ [updated_name, f]"
        using l(1) 1(1,5) by (metis comps_path_str(1))
      with l(2) show False by (simp add: prune_def)
    qed
    with destroy_spec [OF 1(6,7,3,4)] 1(1) show ?thesis by blast
  qed
next
  fix h s h' r s'
  assume l: "live_link h s" "live_link h' s" "apart_links h h'" "destroy_PayloadHardLink h s = (r, s')"
  from l(1) show "live_link h' s'"
  proof (cases rule: live_linkE)
    case (1 ds f i)
    from l(2) show ?thesis
    proof (cases rule: live_linkE)
      case (1 ds' f' i')
      note h' = 1
      have "\<not> prefix (ds @ [updated_name]) (ds' @ [updated_name, f'])"
        using l(3) \<open>h = _\<close> \<open>list_all valid_name (ds @ [updated_name, f])\<close> h'(1,5)
        by (simp add: apart_links_def comps_path_str(1) del: path_str_simps) (simp add: butlast_append)
      then have "prune (ds @ [updated_name]) (tree s) (ds' @ [updated_name, f']) = Some (File i')"
        using h'(2) by simp
      moreover have "wf_tree (prune (ds @ [updated_name]) (tree s))"
        by (rule wf_tree_prune) (use h'(6) in auto)
      moreover have "s' = s\<lparr>tree := prune (ds @ [updated_name]) (tree s), fs_calls := fs_calls s + 2\<rparr>"
        using destroy_spec [OF \<open>wf_tree (tree s)\<close> \<open>fs_quiet s\<close> \<open>tree s (ds @ [updated_name]) = Some Dir\<close> \<open>valid_name f\<close>]
          l(4) \<open>h = _\<close> by simp
      ultimately show ?thesis
        using h'(1,7) by (auto simp: live_link_def simp del: path_str_simps)
    qed
  qed
qed

section \<open>Properties\<close>

text \<open>C33: a payload is linked and the link is cleaned up.  For a file at an absolute path whose name is not
  \<open>updated\<close>, without faults, the constructor returns the path of a second name of the same inode in
  the directory \<open>updated\<close> beside it and changes nothing outside that directory; and when there was
  no such directory before, the destructor gives back exactly the original tree.\<close>

theorem PayloadHardLink_roundtrip:
  assumes "wf_tree (tree s)" and "fs_quiet s" and "tree s (ds @ [f]) = Some (File i)" and "f \<noteq> ''updated''"
  shows "\<exists>s1 s2. PayloadHardLink (path_str (ds @ [f])) s = (Value (path_str (ds @ [''updated'', f])), s1) \<and>
    tree s1 (ds @ [''updated'', f]) = Some (File i) \<and>
    (\<forall>q. \<not> prefix (ds @ [''updated'']) q \<longrightarrow> tree s1 q = tree s q) \<and>
    destroy_PayloadHardLink (path_str (ds @ [''updated'', f])) s1 = (Value (), s2) \<and>
    (tree s (ds @ [''updated'']) = None \<longrightarrow> tree s2 = tree s)"
proof -
  have ds: "tree s ds = Some Dir" and f: "valid_name f"
    using wf_tree_parent [OF assms(1), of ds "[f]"] wf_tree_names [OF assms(1), of "ds @ [f]"] assms(3) by auto
  obtain n where m: "PayloadHardLink (path_str (ds @ [f])) s =
      (Value (path_str (ds @ [updated_name, f])), s\<lparr>tree := linked ds f i (tree s), fs_calls := n\<rparr>)"
    (is "_ = (_, ?s1)") using PayloadHardLink_spec [OF assms] by blast
  have d: "destroy_PayloadHardLink (path_str (ds @ [updated_name, f])) ?s1 =
      (Value (), ?s1\<lparr>tree := prune (ds @ [updated_name]) (tree ?s1), fs_calls := fs_calls ?s1 + 2\<rparr>)"
    using wf_tree_linked [OF assms(1) ds f] assms(2) by (intro destroy_spec) (auto simp: f)
  show ?thesis
    using m d linked_outside [of ds _ f i "tree s"] prune_absent [OF assms(1), of "ds @ [updated_name]"]
    by (auto simp del: path_str_simps)
qed

definition demo_fsys :: fsys where
  "demo_fsys = \<lparr>tree = [[] \<mapsto> Dir, [''scratch''] \<mapsto> Dir, [''scratch'', ''a.swu''] \<mapsto> File 7,
     [''scratch'', ''b.swu''] \<mapsto> File 8], cwd = [], fs_faults = (\<lambda>_. False), fs_calls = 0\<rparr>"

lemma demo_fsys_wf: "wf_tree (tree demo_fsys)" "fs_quiet demo_fsys"
  by (auto simp: demo_fsys_def wf_tree_def fs_quiet_def valid_name_def append_eq_Cons_conv)

theorem PayloadHardLink_roundtrip_witness:
  "\<exists>s1 s2. PayloadHardLink ''/scratch/a.swu'' demo_fsys = (Value ''/scratch/updated/a.swu'', s1) \<and>
     tree s1 [''scratch'', ''updated'', ''a.swu''] = Some (File 7) \<and>
     destroy_PayloadHardLink ''/scratch/updated/a.swu'' s1 = (Value (), s2) \<and> tree s2 = tree demo_fsys"
proof -
  have t: "tree demo_fsys ([''scratch''] @ [''a.swu'']) = Some (File 7)"
    and n: "tree demo_fsys ([''scratch''] @ [''updated'']) = None"
    by (simp_all add: demo_fsys_def)
  show ?thesis
    using PayloadHardLink_roundtrip [OF demo_fsys_wf t] n by simp blast
qed

text \<open>A payload called \<open>updated\<close> is destroyed.  Its own path is the path of the directory that the
  constructor empties first: the file is deleted, a directory takes its place, and the link
  fails.\<close>

lemma PayloadHardLink_deletes_payload_named_updated:
  assumes "wf_tree (tree s)" and "fs_quiet s" and "tree s (ds @ [''updated'']) = Some (File i)"
  shows "\<exists>s'. PayloadHardLink (path_str (ds @ [''updated''])) s = (Throws Not_permitted, s') \<and>
    tree s' (ds @ [''updated'']) = Some Dir"
proof -
  let ?d = "ds @ [updated_name]"
  have v: "list_all valid_name ?d"
    using wf_tree_names [OF assms(1), of ?d] assms(3) by simp
  have ds: "tree s ds = Some Dir"
    using wf_tree_parent [OF assms(1), of ds "[updated_name]"] assms(3) by simp
  obtain n b s1 where c: "fs_exists (path_str ?d) s = (Inr b, s1)"
    "(if b then fs_remove_all (path_str ?d) s1 else (Inr (), s1)) = (Inr (), s\<lparr>tree := prune ?d (tree s), fs_calls := n\<rparr>)"
    using clear_directory [OF assms(1) ds assms(2)] by blast
  let ?s1 = "s\<lparr>tree := prune ?d (tree s), fs_calls := n\<rparr>"
  let ?s2 = "?s1\<lparr>tree := (tree ?s1)(?d \<mapsto> Dir), fs_calls := Suc (fs_calls ?s1)\<rparr>"
  have m: "fs_create_directories (path_str ?d) ?s1 = (Inr (), ?s2)"
  proof (rule make_directory)
    show "wf_tree (tree ?s1)" using wf_tree_prune [OF assms(1), of ?d] by simp
  qed (use assms(2) ds in \<open>auto simp: prune_def\<close>)
  have "locate ?s2 (path_str ?d) = Some ?d"
    using wf_tree_pruned_dir [OF assms(1) ds] by (intro locate_path) auto
  then have "\<exists>s3. fs_create_hard_link (path_str ?d) q ?s2 = (Inl Not_permitted, s3) \<and> tree s3 ?d = Some Dir" for q
    using assms(2) by (simp add: fs_create_hard_link_def fs_attempt_quiet del: path_str_simps)
  then obtain s3 where "fs_create_hard_link (path_str ?d)
      (path_append (path_str ?d) (filename (path_str ?d))) ?s2 = (Inl Not_permitted, s3)" "tree s3 ?d = Some Dir"
    by blast
  moreover have "is_absolute (path_str ?d)" by (simp del: path_str_simps)
  moreover have "payload_dir (path_str ?d) = path_str ?d" by (rule payload_dir_path [OF v])
  ultimately show ?thesis
    using c m by (auto simp: PayloadHardLink_def Let_def simp del: path_str_simps)
qed

lemma PayloadHardLink_deletes_payload_named_updated_example:
  "\<exists>s'. PayloadHardLink ''/updated'' (demo_fsys\<lparr>tree := [[] \<mapsto> Dir, [''updated''] \<mapsto> File 9]\<rparr>) = (Throws Not_permitted, s') \<and>
     tree s' [''updated''] = Some Dir"
proof -
  let ?s = "demo_fsys\<lparr>tree := [[] \<mapsto> Dir, [''updated''] \<mapsto> File 9]\<rparr>"
  have "wf_tree (tree ?s)" by (auto simp: wf_tree_def valid_name_def append_eq_Cons_conv)
  moreover have "fs_quiet ?s" using demo_fsys_wf by simp
  moreover have "tree ?s ([] @ [''updated'']) = Some (File 9)" by simp
  ultimately show ?thesis
    using PayloadHardLink_deletes_payload_named_updated [of ?s "[]" 9] by simp
qed

end
