(* ===== verification/Coordinator.thy ===== *)
theory Coordinator imports Payload begin

text \<open>
  \<open>updated/source/UpdateCoordinator.cpp\<close>, with the main loop of \<open>updated.cpp\<close> that calls \<open>run\<close>, the
  remote procedure calls that call \<open>start\<close> and \<open>manifest\<close> on other threads, and the signal
  handlers of \<open>signal/handlers.cpp\<close>.  Threads interleave between the operations on the mutex and
  the condition variable; what a thread does while it holds the mutex is one step.
\<close>

section \<open>State\<close>

datatype thread = Main | Rpc nat

text \<open>Where the main thread is: in the loop of \<open>main\<close>, or inside \<open>run\<close>.\<close>

datatype main_pc =
    M_loop \<comment> \<open>about to test \<open>sigint\<close>\<close>
  | M_lock \<comment> \<open>about to acquire the mutex, at first or after waking up\<close>
  | M_test \<comment> \<open>holds the mutex, about to evaluate the predicate\<close>
  | M_blocked \<comment> \<open>inside \<open>wait\<close>\<close>
  | M_work \<comment> \<open>holds the mutex, the predicate was true\<close>
  | M_unlock
  | M_exit

text \<open>Where a thread of the RPC server is: inside \<open>start\<close>, or inside \<open>manifest\<close>.\<close>

datatype rpc_pc =
    R_idle
  | R_lock string string \<comment> \<open>payload path and header data\<close>
  | R_start string string \<comment> \<open>holds the mutex\<close>
  | R_unlock
  | R_notify
  | R_manifest \<comment> \<open>copying the manifest, without the mutex\<close>

text \<open>
  \<open>handlers.h\<close> declares \<open>sigint\<close> and \<open>sighup\<close> as \<open>static\<close>, so each source file that includes it has
  variables of its own.
\<close>

datatype source_file = Updated_cpp | Init_cpp | Handlers_cpp

record coordinator =
  mutex_owner :: "thread option"
  updating :: bool
  payload_link :: "string option"
  manifest_header :: string
  cfs :: fsys
  installs :: "(string \<times> entry option) list" \<comment> \<open>the payloads handed to swupdate, with what each path named\<close>
  replies :: "string list" \<comment> \<open>the headers returned by \<open>manifest\<close>\<close>
  main_pc :: main_pc
  rpc_pc :: "nat \<Rightarrow> rpc_pc"
  sigint :: "source_file \<Rightarrow> int"
  sighup :: "source_file \<Rightarrow> int"
  crashed :: bool

section \<open>Operations\<close>

definition crash :: "fsys \<Rightarrow> coordinator \<Rightarrow> coordinator" where
  "crash f c = c\<lparr>cfs := f, crashed := True\<rparr>"

definition sigint_handler :: "int \<Rightarrow> coordinator \<Rightarrow> coordinator" where
  "sigint_handler sig c = c\<lparr>sigint := (sigint c)(Handlers_cpp := sig)\<rparr>"

definition sighup_handler :: "int \<Rightarrow> coordinator \<Rightarrow> coordinator" where
  "sighup_handler sig c = c\<lparr>sighup := (sighup c)(Handlers_cpp := sig)\<rparr>"

text \<open>Assigning to the \<open>unique_ptr\<close> destroys the link that it held.\<close>

definition reset_link :: "string option \<Rightarrow> coordinator \<Rightarrow> coordinator" where
  "reset_link new c =
     (case payload_link c of
        None \<Rightarrow> c\<lparr>payload_link := new\<rparr>
      | Some old \<Rightarrow>
          (case destroy_PayloadHardLink old (cfs c) of
             (Value _, f) \<Rightarrow> c\<lparr>payload_link := new, cfs := f\<rparr>
           | (_, f) \<Rightarrow> crash f c))"

text \<open>The part of \<open>start\<close> under the mutex; \<open>start\<close> is \<open>noexcept\<close>, so an exception ends the process.\<close>

definition start_locked :: "string \<Rightarrow> string \<Rightarrow> coordinator \<Rightarrow> coordinator" where
  "start_locked payload_path header_data c =
     (let c = c\<lparr>manifest_header := header_data\<rparr>
      in case PayloadHardLink payload_path (cfs c) of
           (Value link, f) \<Rightarrow>
             (let c = reset_link (Some link) (c\<lparr>cfs := f\<rparr>)
              in if crashed c then c else c\<lparr>updating := True\<rparr>)
         | (_, f) \<Rightarrow> crash f c)"

text \<open>The part of \<open>run\<close> after the wait.\<close>

definition link_target :: "fsys \<Rightarrow> string \<Rightarrow> entry option" where
  "link_target f p = (case locate f p of None \<Rightarrow> None | Some l \<Rightarrow> tree f l)"

definition run_locked :: "coordinator \<Rightarrow> coordinator" where
  "run_locked c =
     (case payload_link c of
        None \<Rightarrow> crash (cfs c) c
      | Some link \<Rightarrow>
          reset_link None
            (c\<lparr>installs := installs c @ [(link, link_target (cfs c) link)], updating := False\<rparr>))"

text \<open>\<open>start\<close> as a whole, when the mutex is free; \<open>run\<close> as a whole, when an update is pending.\<close>

definition start :: "string \<Rightarrow> string \<Rightarrow> coordinator \<Rightarrow> coordinator" where
  "start payload_path header_data c =
     (if payload_path = [] \<or> header_data = [] then crash (cfs c) c
      else start_locked payload_path header_data c)"

section \<open>Interleaving\<close>

datatype coord_event =
    Main_check
  | Main_lock
  | Main_test
  | Main_wakeup \<comment> \<open>a spurious wake-up\<close>
  | Main_work
  | Main_unlock
  | Rpc_start nat string string
  | Rpc_lock nat
  | Rpc_body nat
  | Rpc_unlock nat
  | Rpc_notify nat
  | Rpc_manifest nat
  | Rpc_reply nat
  | Signal_int
  | Signal_hup

inductive coord_step :: "coordinator \<Rightarrow> coord_event \<Rightarrow> coordinator \<Rightarrow> bool" where
  main_check: "\<not> crashed c \<Longrightarrow> main_pc c = M_loop \<Longrightarrow>
    coord_step c Main_check (c\<lparr>main_pc := (if sigint c Updated_cpp = 0 then M_lock else M_exit)\<rparr>)"
| main_lock: "\<not> crashed c \<Longrightarrow> main_pc c = M_lock \<Longrightarrow> mutex_owner c = None \<Longrightarrow>
    coord_step c Main_lock (c\<lparr>mutex_owner := Some Main, main_pc := M_test\<rparr>)"
| main_test: "\<not> crashed c \<Longrightarrow> main_pc c = M_test \<Longrightarrow>
    coord_step c Main_test
      (if updating c then c\<lparr>main_pc := M_work\<rparr> else c\<lparr>mutex_owner := None, main_pc := M_blocked\<rparr>)"
| main_wakeup: "\<not> crashed c \<Longrightarrow> main_pc c = M_blocked \<Longrightarrow>
    coord_step c Main_wakeup (c\<lparr>main_pc := M_lock\<rparr>)"
| main_work: "\<not> crashed c \<Longrightarrow> main_pc c = M_work \<Longrightarrow>
    coord_step c Main_work (run_locked (c\<lparr>main_pc := M_unlock\<rparr>))"
| main_unlock: "\<not> crashed c \<Longrightarrow> main_pc c = M_unlock \<Longrightarrow>
    coord_step c Main_unlock (c\<lparr>mutex_owner := None, main_pc := M_loop\<rparr>)"
| rpc_start: "\<not> crashed c \<Longrightarrow> rpc_pc c n = R_idle \<Longrightarrow>
    coord_step c (Rpc_start n p h)
      (if p = [] \<or> h = [] then crash (cfs c) c else c\<lparr>rpc_pc := (rpc_pc c)(n := R_lock p h)\<rparr>)"
| rpc_lock: "\<not> crashed c \<Longrightarrow> rpc_pc c n = R_lock p h \<Longrightarrow> mutex_owner c = None \<Longrightarrow>
    coord_step c (Rpc_lock n) (c\<lparr>mutex_owner := Some (Rpc n), rpc_pc := (rpc_pc c)(n := R_start p h)\<rparr>)"
| rpc_body: "\<not> crashed c \<Longrightarrow> rpc_pc c n = R_start p h \<Longrightarrow>
    coord_step c (Rpc_body n) (start_locked p h (c\<lparr>rpc_pc := (rpc_pc c)(n := R_unlock)\<rparr>))"
| rpc_unlock: "\<not> crashed c \<Longrightarrow> rpc_pc c n = R_unlock \<Longrightarrow>
    coord_step c (Rpc_unlock n) (c\<lparr>mutex_owner := None, rpc_pc := (rpc_pc c)(n := R_notify)\<rparr>)"
| rpc_notify: "\<not> crashed c \<Longrightarrow> rpc_pc c n = R_notify \<Longrightarrow>
    coord_step c (Rpc_notify n)
      (c\<lparr>main_pc := (if main_pc c = M_blocked then M_lock else main_pc c), rpc_pc := (rpc_pc c)(n := R_idle)\<rparr>)"
| rpc_manifest: "\<not> crashed c \<Longrightarrow> rpc_pc c n = R_idle \<Longrightarrow>
    coord_step c (Rpc_manifest n) (c\<lparr>rpc_pc := (rpc_pc c)(n := R_manifest)\<rparr>)"
| rpc_reply: "\<not> crashed c \<Longrightarrow> rpc_pc c n = R_manifest \<Longrightarrow>
    coord_step c (Rpc_reply n)
      (c\<lparr>replies := replies c @ [manifest_header c], rpc_pc := (rpc_pc c)(n := R_idle)\<rparr>)"
| signal_int: "\<not> crashed c \<Longrightarrow> coord_step c Signal_int (sigint_handler 2 c)"
| signal_hup: "\<not> crashed c \<Longrightarrow> coord_step c Signal_hup (sighup_handler 1 c)"

definition coord_init :: "fsys \<Rightarrow> coordinator" where
  "coord_init f = \<lparr>mutex_owner = None, updating = False, payload_link = None, manifest_header = [], cfs = f,
     installs = [], replies = [], main_pc = M_loop, rpc_pc = (\<lambda>_. R_idle), sigint = (\<lambda>_. 0), sighup = (\<lambda>_. 0),
     crashed = False\<rparr>"

section \<open>Invariant\<close>

definition main_holds :: "main_pc \<Rightarrow> bool" where
  "main_holds pc \<longleftrightarrow> pc \<in> {M_test, M_work, M_unlock}"

definition rpc_holds :: "rpc_pc \<Rightarrow> bool" where
  "rpc_holds pc \<longleftrightarrow> (case pc of R_start _ _ \<Rightarrow> True | R_unlock \<Rightarrow> True | _ \<Rightarrow> False)"

text \<open>
  The mutex is owned by whoever is between its acquisition and its release; the flag and the
  pointer go together; the predicate still holds when the work is done; a blocked main thread
  with a pending update is about to be notified; nothing writes the \<open>sigint\<close> of \<open>updated.cpp\<close>.
\<close>

definition coord_inv :: "coordinator \<Rightarrow> bool" where
  "coord_inv c \<longleftrightarrow>
     (mutex_owner c = Some Main \<longleftrightarrow> main_holds (main_pc c)) \<and>
     (\<forall>n. mutex_owner c = Some (Rpc n) \<longleftrightarrow> rpc_holds (rpc_pc c n)) \<and>
     (crashed c \<or> (updating c \<longleftrightarrow> payload_link c \<noteq> None)) \<and>
     (main_pc c = M_work \<longrightarrow> updating c) \<and>
     (main_pc c = M_blocked \<and> updating c \<longrightarrow> (\<exists>n. rpc_pc c n \<in> {R_unlock, R_notify})) \<and>
     sigint c Updated_cpp = 0 \<and> main_pc c \<noteq> M_exit"

lemma crash_frame [simp]:
  "mutex_owner (crash f c) = mutex_owner c" "updating (crash f c) = updating c"
  "payload_link (crash f c) = payload_link c" "main_pc (crash f c) = main_pc c" "rpc_pc (crash f c) = rpc_pc c"
  "sigint (crash f c) = sigint c" "installs (crash f c) = installs c" "crashed (crash f c)" "cfs (crash f c) = f"
  by (simp_all add: crash_def)

text \<open>What the two critical sections do to the parts the invariant speaks of.\<close>

lemma reset_link_frame [simp]:
  "mutex_owner (reset_link l c) = mutex_owner c" "updating (reset_link l c) = updating c"
  "main_pc (reset_link l c) = main_pc c" "rpc_pc (reset_link l c) = rpc_pc c" "sigint (reset_link l c) = sigint c"
  "installs (reset_link l c) = installs c"
  by (auto simp: reset_link_def split: option.splits prod.splits outcome.splits)

lemma reset_link_cases:
  "\<not> crashed c \<Longrightarrow> payload_link (reset_link l c) = (if crashed (reset_link l c) then payload_link c else l)"
  by (auto simp: reset_link_def split: option.splits prod.splits outcome.splits)

lemma start_locked_frame [simp]:
  "mutex_owner (start_locked p h c) = mutex_owner c" "main_pc (start_locked p h c) = main_pc c"
  "rpc_pc (start_locked p h c) = rpc_pc c" "sigint (start_locked p h c) = sigint c"
  by (auto simp: start_locked_def Let_def split: prod.splits outcome.splits)

lemma start_locked_cases:
  assumes "\<not> crashed c"
  shows "if crashed (start_locked p h c)
    then updating (start_locked p h c) = updating c \<and> payload_link (start_locked p h c) = payload_link c
    else updating (start_locked p h c) \<and> payload_link (start_locked p h c) \<noteq> None"
  using assms by (auto simp: start_locked_def Let_def reset_link_cases split: prod.splits outcome.splits)

lemma run_locked_frame [simp]:
  "mutex_owner (run_locked c) = mutex_owner c" "main_pc (run_locked c) = main_pc c"
  "rpc_pc (run_locked c) = rpc_pc c" "sigint (run_locked c) = sigint c"
  by (auto simp: run_locked_def split: option.splits)

lemma run_locked_cases:
  assumes "\<not> crashed c" and "payload_link c \<noteq> None" and "\<not> crashed (run_locked c)"
  shows "\<not> updating (run_locked c) \<and> payload_link (run_locked c) = None"
  using assms by (auto simp: run_locked_def reset_link_cases)

lemma holds_simps [simp]:
  "rpc_holds (R_start p h)" "rpc_holds R_unlock" "\<not> rpc_holds R_idle" "\<not> rpc_holds (R_lock p h)"
  "\<not> rpc_holds R_notify" "\<not> rpc_holds R_manifest"
  "main_holds M_test" "main_holds M_work" "main_holds M_unlock" "\<not> main_holds M_loop" "\<not> main_holds M_lock"
  "\<not> main_holds M_blocked" "\<not> main_holds M_exit"
  by (simp_all add: rpc_holds_def main_holds_def)

lemma coord_inv_init: "coord_inv (coord_init f)"
  by (simp add: coord_inv_def coord_init_def)

text \<open>The two steps on the mutex of the RPC threads.\<close>

lemma coord_inv_rpc_lock:
  assumes "coord_inv c" and "rpc_pc c n = R_lock p h" and "mutex_owner c = None"
  shows "coord_inv (c\<lparr>mutex_owner := Some (Rpc n), rpc_pc := (rpc_pc c)(n := R_start p h)\<rparr>)"
proof -
  have "\<not> rpc_holds (rpc_pc c m)" for m using assms(1,3) by (simp add: coord_inv_def)
  moreover have "m \<noteq> n" if "rpc_pc c m \<in> {R_unlock, R_notify}" for m using that assms(2) by auto
  ultimately show ?thesis using assms by (auto simp: coord_inv_def)
qed

lemma coord_inv_rpc_move:
  assumes "coord_inv c" and "\<not> rpc_holds (rpc_pc c n)" and "rpc_pc c n \<noteq> R_notify" and "\<not> rpc_holds pc"
  shows "coord_inv (c\<lparr>rpc_pc := (rpc_pc c)(n := pc)\<rparr>)"
proof -
  have "m \<noteq> n" if "rpc_pc c m \<in> {R_unlock, R_notify}" for m using that assms(2,3) by auto
  with assms show ?thesis by (auto simp: coord_inv_def)
qed

lemma coord_inv_replies [simp]: "coord_inv (c\<lparr>replies := r\<rparr>) = coord_inv c"
  by (simp add: coord_inv_def)

lemma coord_inv_crash: "coord_inv c \<Longrightarrow> coord_inv (crash f c)"
  by (auto simp: coord_inv_def)

lemma coord_inv_rpc_unlock:
  assumes "coord_inv c" and "rpc_pc c n = R_unlock"
  shows "coord_inv (c\<lparr>mutex_owner := None, rpc_pc := (rpc_pc c)(n := R_notify)\<rparr>)"
proof -
  have o: "mutex_owner c = Some (Rpc n)" using assms by (simp add: coord_inv_def)
  then have "\<not> rpc_holds (rpc_pc c m)" if "m \<noteq> n" for m
    using assms(1) that by (auto simp: coord_inv_def)
  with o assms show ?thesis by (auto simp: coord_inv_def)
qed

lemma coord_inv_step:
  assumes "coord_inv c" and "coord_step c e c'"
  shows "coord_inv c'"
  using assms(2)
proof (cases rule: coord_step.cases)
  case main_work
  then have "payload_link c \<noteq> None" using assms(1) by (auto simp: coord_inv_def)
  with run_locked_cases [of "c\<lparr>main_pc := M_unlock\<rparr>"] main_work assms(1) show ?thesis
    by (auto simp: coord_inv_def)
next
  case (rpc_body n p h)
  with start_locked_cases [of "c\<lparr>rpc_pc := (rpc_pc c)(n := R_unlock)\<rparr>" p h] assms(1) show ?thesis
    by (auto simp: coord_inv_def split: if_splits)
next
  case (rpc_lock n p h)
  with coord_inv_rpc_lock [OF assms(1)] show ?thesis by simp
next
  case (rpc_unlock n)
  with coord_inv_rpc_unlock [OF assms(1)] show ?thesis by simp
next
  case (rpc_start n p h)
  with coord_inv_rpc_move [OF assms(1), of n "R_lock p h"] coord_inv_crash [OF assms(1)] show ?thesis by simp
next
  case (rpc_manifest n)
  with coord_inv_rpc_move [OF assms(1), of n R_manifest] show ?thesis by simp
next
  case (rpc_reply n)
  with coord_inv_rpc_move [of "c\<lparr>replies := replies c @ [manifest_header c]\<rparr>" n R_idle] assms(1) show ?thesis by simp
next
  case signal_int
  with assms(1) show ?thesis by (auto simp: coord_inv_def sigint_handler_def)
next
  case signal_hup
  with assms(1) show ?thesis by (auto simp: coord_inv_def sighup_handler_def)
qed (use assms(1) in \<open>auto simp: coord_inv_def split: if_splits\<close>)

interpretation coord: safe_system coord_step "coord_init f" coord_inv
  by unfold_locales (auto intro: coord_inv_init coord_inv_step)

section \<open>Sequences of calls\<close>

lemma link_target_frame [simp]: "link_target (f\<lparr>fs_calls := n\<rparr>) p = link_target f p"
  by (simp add: link_target_def cong: option.case_cong)


text \<open>\<open>start\<close> when no link is held.\<close>

lemma start_first:
  assumes "wf_tree (tree (cfs c))" and "fs_quiet (cfs c)" and "tree (cfs c) (ds @ [f]) = Some (File i)"
    and "f \<noteq> updated_name" and "h \<noteq> []" and "payload_link c = None" and "\<not> crashed c"
  shows "\<exists>n. start (path_str (ds @ [f])) h c =
    c\<lparr>manifest_header := h, cfs := (cfs c)\<lparr>tree := linked ds f i (tree (cfs c)), fs_calls := n\<rparr>,
      payload_link := Some (path_str (ds @ [updated_name, f])), updating := True\<rparr>"
proof -
  obtain n where "PayloadHardLink (path_str (ds @ [f])) (cfs c) =
      (Value (path_str (ds @ [updated_name, f])), (cfs c)\<lparr>tree := linked ds f i (tree (cfs c)), fs_calls := n\<rparr>)"
    using PayloadHardLink_spec [OF assms(1-4)] by blast
  moreover have "path_str (ds @ [f]) \<noteq> []" by simp
  ultimately show ?thesis
    using assms(5-7) by (auto simp: start_def start_locked_def reset_link_def simp del: path_str_simps)
qed


section \<open>Properties\<close>



text \<open>A second request in the same directory loses its payload.  When \<open>start\<close> is called twice before
  \<open>run\<close> goes on, with payloads of one directory, the link of the second is made before the first link
  object is destroyed, and that destruction removes the directory with the new link: \<open>run\<close> hands over
  a path that names nothing, while the manifest already shows the second header.\<close>

lemma second_start_loses_payload:
  assumes "wf_tree (tree fsy)" and "fs_quiet fsy"
    and "tree fsy (ds @ [f1]) = Some (File i1)" and "f1 \<noteq> ''updated''" and "h1 \<noteq> []"
    and "tree fsy (ds @ [f2]) = Some (File i2)" and "f2 \<noteq> ''updated''" and "h2 \<noteq> []"
  defines "c \<equiv> start (path_str (ds @ [f2])) h2 (start (path_str (ds @ [f1])) h1 (coord_init fsy))"
  shows "\<not> crashed c \<and> updating c \<and> manifest_header c = h2 \<and>
    installs (run_locked c) = [(path_str (ds @ [''updated'', f2]), None)]"
proof -
  let ?d = "ds @ [updated_name]"
  have ds: "tree fsy ds = Some Dir" and v1: "valid_name f1" and v2: "valid_name f2"
    using wf_tree_parent [OF assms(1), of ds "[f1]"] wf_tree_names [OF assms(1), of "ds @ [f1]"]
      wf_tree_names [OF assms(1), of "ds @ [f2]"] assms(3,6) by auto
  obtain n where c1: "start (path_str (ds @ [f1])) h1 (coord_init fsy) = (coord_init fsy)\<lparr>manifest_header := h1,
      cfs := fsy\<lparr>tree := linked ds f1 i1 (tree fsy), fs_calls := n\<rparr>,
      payload_link := Some (path_str (ds @ [updated_name, f1])), updating := True\<rparr>"
    using start_first [of "coord_init fsy" ds f1 i1 h1] assms(1-5) by (auto simp: coord_init_def)
  let ?f1 = "fsy\<lparr>tree := linked ds f1 i1 (tree fsy), fs_calls := n\<rparr>"
  have w1: "wf_tree (tree ?f1)" using wf_tree_linked [OF assms(1) ds v1] by simp
  have t2: "tree ?f1 (ds @ [f2]) = Some (File i2)"
    using assms(6,7) linked_outside [of ds "ds @ [f2]"] by simp
  obtain m where m: "PayloadHardLink (path_str (ds @ [f2])) ?f1 =
      (Value (path_str (ds @ [updated_name, f2])), ?f1\<lparr>tree := linked ds f2 i2 (tree ?f1), fs_calls := m\<rparr>)"
    using PayloadHardLink_spec [OF w1 _ t2 assms(7)] assms(2) by auto
  let ?f2 = "?f1\<lparr>tree := linked ds f2 i2 (tree ?f1), fs_calls := m\<rparr>"
  have ds1: "tree ?f1 ds = Some Dir" using ds linked_outside [of ds ds] by simp
  have w2: "wf_tree (tree ?f2)" using wf_tree_linked [OF w1 ds1 v2] by simp
  have d: "destroy_PayloadHardLink (path_str (ds @ [updated_name, f1])) ?f2 =
      (Value (), ?f2\<lparr>tree := prune ?d (tree ?f2), fs_calls := fs_calls ?f2 + 2\<rparr>)"
    by (rule destroy_spec) (use w2 assms(2) v1 in simp_all)
  let ?f3 = "?f2\<lparr>tree := prune ?d (tree ?f2), fs_calls := fs_calls ?f2 + 2\<rparr>"
  have c: "c = (coord_init fsy)\<lparr>manifest_header := h2, cfs := ?f3,
      payload_link := Some (path_str (ds @ [updated_name, f2])), updating := True\<rparr>"
    unfolding c_def c1 using m d assms(8)
    by (simp add: start_def start_locked_def reset_link_def coord_init_def del: path_str_simps) simp
  have "list_all valid_name (?d @ [f2])"
    using wf_tree_names [OF assms(1), of ds] ds v2 by simp
  then have "link_target ?f3 (path_str (ds @ [updated_name, f2])) = None"
    using locate_plain [of "ds @ [updated_name, f2]" ?f3]
    by (cases "locate ?f3 (path_str (ds @ [updated_name, f2]))")
      (auto simp: link_target_def prune_def simp del: path_str_simps)
  then show ?thesis
    by (simp add: c run_locked_def coord_init_def)
qed

lemma second_start_loses_payload_example:
  "installs (run_locked (start ''/scratch/b.swu'' ''new'' (start ''/scratch/a.swu'' ''old'' (coord_init demo_fsys)))) =
     [(''/scratch/updated/b.swu'', None)]"
proof -
  have t: "tree demo_fsys ([''scratch''] @ [''a.swu'']) = Some (File 7)"
    "tree demo_fsys ([''scratch''] @ [''b.swu'']) = Some (File 8)"
    by (simp_all add: demo_fsys_def)
  show ?thesis
    using second_start_loses_payload [OF demo_fsys_wf t(1) _ _ t(2), of "''old''" "''new''"] by simp
qed

text \<open>A second request elsewhere replaces the first.  When the link that is held is live and the new one
  does not lie in the directory of the old one, \<open>start\<close> drops the old link and leaves the new link live
  and an update pending.\<close>

lemma second_start_elsewhere_keeps_payload:
  assumes "good_payload p (cfs c)" and "h \<noteq> []" and "\<not> crashed c" and "payload_link c = Some old"
    and "PayloadHardLink p (cfs c) = (Value link, f)" and "live_link old f" and "apart_links old link"
  shows "payload_link (start p h c) = Some link \<and> live_link link (cfs (start p h c)) \<and>
    updating (start p h c) \<and> \<not> crashed (start p h c)"
proof -
  have "p \<noteq> []" using assms(1) by (auto simp: good_payload_def)
  moreover obtain f' where "destroy_PayloadHardLink old f = (Value (), f')" "live_link link f'"
    using link.replace_live [OF assms(1,5,6,7)] by blast
  ultimately show ?thesis
    using assms(2-5) by (simp add: start_def start_locked_def reset_link_def)
qed

text \<open>C6: no update is lost.  In every reachable state of the daemon, for every interleaving of requests,
  spurious wake-ups and signals, when the main thread is blocked and no thread is about to notify it,
  no update is pending.\<close>

theorem coordinator_no_lost_wakeup:
  assumes "reachable_from coord_step (coord_init f) c" and "\<not> crashed c"
    and "main_pc c = M_blocked" and "\<forall>n. rpc_pc c n \<notin> {R_unlock, R_notify}"
  shows "\<not> updating c \<and> payload_link c = None"
  using coord.reachable_inv [OF assms(1)] assms(2-4) by (auto simp: coord_inv_def)

theorem coordinator_no_lost_wakeup_witness:
  "\<exists>c. reachable_from coord_step (coord_init demo_fsys) c \<and> main_pc c = M_blocked \<and> \<not> updating c"
proof -
  let ?c0 = "coord_init demo_fsys"
  have "coord_step ?c0 Main_check (?c0\<lparr>main_pc := M_lock\<rparr>)"
    using main_check [of ?c0] by (simp add: coord_init_def)
  moreover have "coord_step (?c0\<lparr>main_pc := M_lock\<rparr>) Main_lock (?c0\<lparr>main_pc := M_test, mutex_owner := Some Main\<rparr>)"
    using main_lock [of "?c0\<lparr>main_pc := M_lock\<rparr>"] by (simp add: coord_init_def)
  moreover have "coord_step (?c0\<lparr>main_pc := M_test, mutex_owner := Some Main\<rparr>) Main_test (?c0\<lparr>main_pc := M_blocked\<rparr>)"
    using main_test [of "?c0\<lparr>main_pc := M_test, mutex_owner := Some Main\<rparr>"] by (simp add: coord_init_def)
  ultimately have r: "reachable_from coord_step ?c0 (?c0\<lparr>main_pc := M_blocked\<rparr>)"
    by (metis reach_start reach_step)
  from coordinator_no_lost_wakeup [OF r] r show ?thesis
    by (intro exI [of _ "?c0\<lparr>main_pc := M_blocked\<rparr>"]) (simp add: coord_init_def)
qed

text \<open>C31: the work is done under the mutex and the assertion in \<open>run\<close> never fails.  In every reachable state in
  which the main thread goes on after the wait, a payload link is held and no other thread is inside
  the critical section of \<open>start\<close>.\<close>

theorem coordinator_assertion_holds:
  assumes "reachable_from coord_step (coord_init f) c" and "\<not> crashed c" and "main_pc c = M_work"
  shows "payload_link c \<noteq> None \<and> (\<forall>n. \<not> rpc_holds (rpc_pc c n))"
  using coord.reachable_inv [OF assms(1)] assms(2,3) by (force simp: coord_inv_def)

lemma coord_reach_step:
  "reachable_from coord_step c0 c \<Longrightarrow> coord_step c e c' \<Longrightarrow> reachable_from coord_step c0 c'"
  by (rule reach_step)

text \<open>The state in which a first request holds the mutex.\<close>

definition entered :: "fsys \<Rightarrow> string \<Rightarrow> string \<Rightarrow> coordinator" where
  "entered f p h = (coord_init f)\<lparr>rpc_pc := (\<lambda>_. R_idle)(0 := R_start p h), mutex_owner := Some (Rpc 0)\<rparr>"

lemma reachable_entered:
  assumes "p \<noteq> []" and "h \<noteq> []"
  shows "reachable_from coord_step (coord_init f) (entered f p h)"
proof -
  let ?c0 = "coord_init f" and ?c1 = "(coord_init f)\<lparr>rpc_pc := (\<lambda>_. R_idle)(0 := R_lock p h)\<rparr>"
  have "coord_step ?c0 (Rpc_start 0 p h) ?c1"
    using rpc_start [of ?c0 0 p h] assms by (simp add: coord_init_def)
  then have "reachable_from coord_step ?c0 ?c1" by (rule coord_reach_step [OF reach_start])
  moreover have "coord_step ?c1 (Rpc_lock 0) (entered f p h)"
    using rpc_lock [of ?c1 0 p h] by (simp add: coord_init_def entered_def)
  ultimately show ?thesis by (rule coord_reach_step)
qed

text \<open>A state with a pending update, reached by one request and the main thread.\<close>

lemma demo_pending:
  "\<exists>c. reachable_from coord_step (coord_init demo_fsys) c \<and> \<not> crashed c \<and> main_pc c = M_work \<and>
     rpc_pc c = (\<lambda>_. R_idle) \<and> payload_link c = Some ''/scratch/updated/a.swu'' \<and>
     live_link ''/scratch/updated/a.swu'' (cfs c)"
proof -
  let ?p = "''/scratch/a.swu''" and ?h = "''hdr''" and ?c0 = "coord_init demo_fsys" and ?q = "''/scratch/updated/a.swu''"
  have t: "tree demo_fsys ([''scratch''] @ [''a.swu'']) = Some (File 7)" by (simp add: demo_fsys_def)
  let ?c2 = "?c0\<lparr>rpc_pc := (rpc_pc ?c0)(0 := R_unlock), mutex_owner := Some (Rpc 0)\<rparr>"
  obtain n where st: "start ?p ?h ?c2 = ?c2\<lparr>manifest_header := ?h,
      cfs := demo_fsys\<lparr>tree := linked [''scratch''] ''a.swu'' 7 (tree demo_fsys), fs_calls := n\<rparr>,
      payload_link := Some ?q, updating := True\<rparr>" (is "_ = ?c3")
    using start_first [of ?c2 "[''scratch'']" "''a.swu''" 7 ?h] demo_fsys_wf t by (auto simp: coord_init_def)
  have "wf_tree (linked [''scratch''] ''a.swu'' 7 (tree demo_fsys))"
    by (rule wf_tree_linked [OF demo_fsys_wf(1)]) (simp_all add: demo_fsys_def valid_name_def)
  then have live: "live_link ?q (cfs ?c3)"
    using live_linkI [of "cfs ?c3" "[''scratch'']" "''a.swu''" 7] demo_fsys_wf(2)
      linked_simps(2) [of "[''scratch'']" "''a.swu''"] by simp
  let ?r = "reachable_from coord_step ?c0"
  have "?r (start_locked ?p ?h ((entered demo_fsys ?p ?h)\<lparr>rpc_pc := (rpc_pc (entered demo_fsys ?p ?h))(0 := R_unlock)\<rparr>))"
    by (rule coord_reach_step [OF reachable_entered rpc_body]) (simp_all add: coord_init_def entered_def)
  then have "?r ?c3" using st by (simp add: start_def entered_def coord_init_def)
  then have "?r (?c3\<lparr>mutex_owner := None, rpc_pc := (rpc_pc ?c3)(0 := R_notify)\<rparr>)" (is "reachable_from _ _ ?c4")
    by (rule coord_reach_step [OF _ rpc_unlock]) (simp_all add: coord_init_def)
  then have "?r (?c4\<lparr>main_pc := (if main_pc ?c4 = M_blocked then M_lock else main_pc ?c4), rpc_pc := (rpc_pc ?c4)(0 := R_idle)\<rparr>)" (is "reachable_from _ _ ?c5")
    by (rule coord_reach_step [OF _ rpc_notify]) (simp_all add: coord_init_def)
  then have "?r (?c5\<lparr>main_pc := (if sigint ?c5 Updated_cpp = 0 then M_lock else M_exit)\<rparr>)" (is "reachable_from _ _ ?c6")
    by (rule coord_reach_step [OF _ main_check]) (simp_all add: coord_init_def)
  then have "?r (?c6\<lparr>mutex_owner := Some Main, main_pc := M_test\<rparr>)" (is "reachable_from _ _ ?c7")
    by (rule coord_reach_step [OF _ main_lock]) (simp_all add: coord_init_def)
  then have "?r (if updating ?c7 then ?c7\<lparr>main_pc := M_work\<rparr> else ?c7\<lparr>mutex_owner := None, main_pc := M_blocked\<rparr>)"
    by (rule coord_reach_step [OF _ main_test]) (simp_all add: coord_init_def)
  then have "?r (?c7\<lparr>main_pc := M_work\<rparr>)" by simp
  with live show ?thesis
    by (intro exI [of _ "?c7\<lparr>main_pc := M_work\<rparr>"]) (auto simp: coord_init_def)
qed

theorem coordinator_assertion_holds_witness:
  "\<exists>c. reachable_from coord_step (coord_init demo_fsys) c \<and> main_pc c = M_work \<and> payload_link c \<noteq> None"
  using demo_pending coordinator_assertion_holds [of demo_fsys] by blast











text \<open>The manifest is read without the mutex.  A state is reachable in which one thread holds the
  mutex and is about to write the manifest while another is copying it: the two accesses race.\<close>

lemma manifest_race_reachable:
  "\<exists>c. reachable_from coord_step (coord_init f) c \<and> \<not> crashed c \<and>
     rpc_pc c 0 = R_start ''/p'' ''h'' \<and> mutex_owner c = Some (Rpc 0) \<and> rpc_pc c 1 = R_manifest"
proof -
  let ?c0 = "coord_init f"
  have "reachable_from coord_step ?c0 ((entered f ''/p'' ''h'')\<lparr>rpc_pc := (rpc_pc (entered f ''/p'' ''h''))(1 := R_manifest)\<rparr>)"
    (is "reachable_from _ _ ?c3")
    by (rule coord_reach_step [OF reachable_entered rpc_manifest]) (simp_all add: coord_init_def entered_def)
  then show ?thesis by (intro exI [of _ ?c3]) (simp add: coord_init_def entered_def)
qed

text \<open>SIGINT does not stop the daemon.  The handler writes the variable of \<open>handlers.cpp\<close> and the loop of
  \<open>main\<close> reads the variable of \<open>updated.cpp\<close>: whatever signals arrive, \<open>main\<close> never leaves its loop.\<close>

lemma sigint_never_ends_main:
  assumes "run_of coord_step (coord_init f) events c"
  shows "main_pc c \<noteq> M_exit"
  using coord.run_inv [OF assms coord_inv_init] by (simp add: coord_inv_def)

lemma sigint_never_ends_main_example:
  "\<exists>c. run_of coord_step (coord_init demo_fsys) [Signal_int, Main_check] c \<and> sigint c Handlers_cpp = 2 \<and>
     main_pc c = M_lock \<and> main_pc c \<noteq> M_exit"
proof -
  let ?c1 = "sigint_handler 2 (coord_init demo_fsys)"
  let ?c2 = "?c1\<lparr>main_pc := M_lock\<rparr>"
  have "coord_step (coord_init demo_fsys) Signal_int ?c1" by (rule signal_int) (simp add: coord_init_def)
  moreover have "coord_step ?c1 Main_check ?c2"
    using main_check [of ?c1] by (simp add: coord_init_def sigint_handler_def)
  ultimately have r: "run_of coord_step (coord_init demo_fsys) [Signal_int, Main_check] ?c2"
    by (auto simp only: run_of_Cons run_of_Nil)
  from sigint_never_ends_main [OF r] r show ?thesis
    by (intro exI [of _ ?c2]) (simp add: sigint_handler_def)
qed

end
