(* ===== verification/Updated_Rpc.thy ===== *)
theory Updated_Rpc imports Coordinator Getopt begin

text \<open>
  The remote procedure calls of the update daemon: the error values of \<open>updated-rpc/source/Error.cpp\<close>,
  the service of \<open>updated/source/rpc/ServiceImpl.cpp\<close>, the client of \<open>updated-client/source/rpc\<close> and the
  two client programs.  gRPC itself is a parameter, the functions that stand for the stub.
\<close>

section \<open>Error values\<close>

datatype grpc_status =
    grpc_OK | grpc_CANCELLED | grpc_UNKNOWN | grpc_DEADLINE_EXCEEDED | grpc_UNAUTHENTICATED
  | grpc_RESOURCE_EXHAUSTED | grpc_UNIMPLEMENTED | grpc_INTERNAL | grpc_UNAVAILABLE | grpc_INVALID_ARGUMENT
  | grpc_NOT_FOUND | grpc_ALREADY_EXISTS | grpc_PERMISSION_DENIED | grpc_FAILED_PRECONDITION | grpc_ABORTED
  | grpc_OUT_OF_RANGE | grpc_DATA_LOSS | grpc_DO_NOT_USE
  | grpc_other int \<comment> \<open>a code without a name\<close>

fun grpc_status_to_str :: "grpc_status \<Rightarrow> string" where
  "grpc_status_to_str grpc_OK = ''grpc::OK''"
| "grpc_status_to_str grpc_CANCELLED = ''grpc::CANCELLED''"
| "grpc_status_to_str grpc_UNKNOWN = ''grpc::UNKNOWN''"
| "grpc_status_to_str grpc_DEADLINE_EXCEEDED = ''grpc::DEADLINE_EXCEEDED''"
| "grpc_status_to_str grpc_UNAUTHENTICATED = ''grpc::UNAUTHENTICATED''"
| "grpc_status_to_str grpc_RESOURCE_EXHAUSTED = ''grpc::RESOURCE_EXHAUSTED''"
| "grpc_status_to_str grpc_UNIMPLEMENTED = ''grpc::UNIMPLEMENTED''"
| "grpc_status_to_str grpc_INTERNAL = ''grpc::INTERNAL''"
| "grpc_status_to_str grpc_UNAVAILABLE = ''grpc::UNAVAILABLE''"
| "grpc_status_to_str grpc_INVALID_ARGUMENT = ''grpc::INVALID_ARGUMENT''"
| "grpc_status_to_str grpc_NOT_FOUND = ''grpc::NOT_FOUND''"
| "grpc_status_to_str grpc_ALREADY_EXISTS = ''grpc::ALREADY_EXISTS''"
| "grpc_status_to_str grpc_PERMISSION_DENIED = ''grpc::PERMISSION_DENIED''"
| "grpc_status_to_str grpc_FAILED_PRECONDITION = ''grpc::FAILED_PRECONDITION''"
| "grpc_status_to_str grpc_ABORTED = ''grpc::ABORTED''"
| "grpc_status_to_str grpc_OUT_OF_RANGE = ''grpc::OUT_OF_RANGE''"
| "grpc_status_to_str grpc_DATA_LOSS = ''grpc::DATA_LOSS''"
| "grpc_status_to_str grpc_DO_NOT_USE = ''grpc::DO_NOT_USE''"
| "grpc_status_to_str (grpc_other code) = ''<UNRECOGNIZED GRPC STATUS>''"

text \<open>\<open>ErrorCodeMessage\<close> holds an open enumeration, whose default is 0.\<close>

definition UNKNOWN_ERROR :: int where "UNKNOWN_ERROR = 0"
definition SUCCESS :: int where "SUCCESS = 1"

definition updated_rpc_error_code_message_to_str :: "int \<Rightarrow> string" where
  "updated_rpc_error_code_message_to_str value =
     (if value = UNKNOWN_ERROR then ''UNKOWN_ERROR''
      else if value = SUCCESS then ''SUCCESS''
      else ''<UNRECOGNIZED UPDATED RPC ERROR>'')"

text \<open>The exceptions: \<open>Error\<close> itself and the two classes derived from it.\<close>

datatype rpc_exception =
    Error string
  | GrpcError grpc_status
  | UpdateDRpcError int

fun what :: "rpc_exception \<Rightarrow> string" where
  "what (Error msg) = msg"
| "what (GrpcError st) = grpc_status_to_str st"
| "what (UpdateDRpcError value) = updated_rpc_error_code_message_to_str value"

definition throw_on_grpc_error :: "grpc_status \<Rightarrow> rpc_exception + unit" where
  "throw_on_grpc_error st = (if st \<noteq> grpc_OK then Inl (GrpcError st) else Inr ())"

definition throw_on_updated_rpc_error :: "int \<Rightarrow> rpc_exception + unit" where
  "throw_on_updated_rpc_error value = (if value \<noteq> SUCCESS then Inl (UpdateDRpcError value) else Inr ())"

section \<open>The service\<close>

text \<open>
  A reply is the status with the response; None means that the process ended before it.  A
  \<open>noexcept\<close> function hands no exception to its caller, so the call of \<open>start\<close> always takes the
  first branch of the \<open>try\<close>.
\<close>

definition GetUpdateHeader :: "coordinator \<Rightarrow> grpc_status \<times> string \<times> int" where
  "GetUpdateHeader c = (grpc_OK, manifest_header c, SUCCESS)"

definition start_noexcept :: "string \<Rightarrow> string \<Rightarrow> coordinator \<Rightarrow> (string + unit) \<times> coordinator" where
  "start_noexcept payload_path header_data c = (Inr (), start payload_path header_data c)"

definition StartUpdate :: "string \<Rightarrow> string \<Rightarrow> coordinator \<Rightarrow> (grpc_status \<times> int) option \<times> coordinator" where
  "StartUpdate payload_path update_header c =
     (case start_noexcept payload_path update_header c of
        (Inr _, c) \<Rightarrow> (if crashed c then None else Some (grpc_OK, SUCCESS), c)
      | (Inl e, c) \<Rightarrow> (Some (grpc_CANCELLED, UNKNOWN_ERROR), c))"

section \<open>The client\<close>

text \<open>The stub of gRPC: what the client gets for a request, and the state of the daemon after it.\<close>

type_synonym start_stub = "string \<Rightarrow> string \<Rightarrow> coordinator \<Rightarrow> (grpc_status \<times> int) \<times> coordinator"
type_synonym header_stub = "coordinator \<Rightarrow> (grpc_status \<times> string \<times> int) \<times> coordinator"

definition create_grpc_service_stub :: "bool \<Rightarrow> bool \<Rightarrow> rpc_exception + unit" where
  "create_grpc_service_stub channel service_stub =
     (if \<not> channel then Inl (Error ''Failed to create gRPC channel'')
      else if \<not> service_stub then Inl (Error ''Failed to create gRPC service'')
      else Inr ())"

definition Client_GetUpdateHeader :: "header_stub \<Rightarrow> coordinator \<Rightarrow> (rpc_exception + string) \<times> coordinator" where
  "Client_GetUpdateHeader stub c =
     (let ((rpc_status, update_header, error_code), c) = stub c
      in case throw_on_grpc_error rpc_status of
           Inl e \<Rightarrow> (Inl e, c)
         | Inr _ \<Rightarrow>
             (case throw_on_updated_rpc_error error_code of
                Inl e \<Rightarrow> (Inl e, c)
              | Inr _ \<Rightarrow> (Inr update_header, c)))"

definition Client_StartUpdate ::
    "start_stub \<Rightarrow> string \<Rightarrow> string \<Rightarrow> coordinator \<Rightarrow> (rpc_exception + unit) \<times> coordinator" where
  "Client_StartUpdate stub payload_path update_header c =
     (let ((rpc_status, response), c) = stub payload_path update_header c
      in case throw_on_grpc_error rpc_status of
           Inl e \<Rightarrow> (Inl e, c)
         | Inr _ \<Rightarrow> (throw_on_updated_rpc_error response, c))"

section \<open>The client programs\<close>

datatype ending =
    Exit int
  | Terminate \<comment> \<open>an exception nobody catches\<close>
  | Undefined_behaviour

definition get_status_main :: "bool \<Rightarrow> bool \<Rightarrow> header_stub \<Rightarrow> coordinator \<Rightarrow> ending \<times> coordinator" where
  "get_status_main channel service_stub stub c =
     (case create_grpc_service_stub channel service_stub of
        Inl e \<Rightarrow> (Terminate, c)
      | Inr _ \<Rightarrow>
          (case Client_GetUpdateHeader stub c of
             (Inl e, c) \<Rightarrow> (Terminate, c)
           | (Inr header, c) \<Rightarrow> (if header = [] then Exit 1 else Exit 0, c)))"

datatype 'a parsed =
    Parsed 'a
  | Invalid_argument string \<comment> \<open>\<open>std::invalid_argument\<close>\<close>
  | Exit_now int \<comment> \<open>\<open>std::exit\<close>\<close>
  | Parse_undefined

definition start_update_opts :: opt_table where
  "start_update_opts = \<lparr>short_opts = [(CHR ''p'', required_argument), (CHR ''u'', required_argument), (CHR ''h'', no_argument)],
     long_opts = [(''payload-filepath'', required_argument, CHR ''p''), (''update-header'', required_argument, CHR ''u''),
       (''help'', no_argument, CHR ''h'')],
     terminated = False\<rparr>"

fun start_update_options :: "opt_result list \<Rightarrow> string \<times> string \<Rightarrow> (string \<times> string) parsed" where
  "start_update_options [] args = Parsed args"
| "start_update_options (Opt c optarg # opts) (payload, header) =
     (if c = CHR ''p'' then (case optarg of None \<Rightarrow> Parse_undefined | Some a \<Rightarrow> start_update_options opts (a, header))
      else if c = CHR ''u'' then (case optarg of None \<Rightarrow> Parse_undefined | Some a \<Rightarrow> start_update_options opts (payload, a))
      else if c = CHR ''h'' then Exit_now 0
      else start_update_options opts (payload, header))"
| "start_update_options (Unrecognized # opts) args = Invalid_argument ''Unrecognized argument!''"
| "start_update_options (Undefined # opts) args = Parse_undefined"

text \<open>The file system of the client decides whether the payload exists.\<close>

definition start_update_parse_args :: "string list \<Rightarrow> fsys \<Rightarrow> (string \<times> string) parsed" where
  "start_update_parse_args args f =
     (if args = [] then Invalid_argument ''No arguments given!''
      else case start_update_options (getopt_long start_update_opts args) ([], []) of
        Parsed (payload, header) \<Rightarrow>
          if payload = [] \<or> locate f payload = None
          then Invalid_argument ''Must provide a valid path to an update payload!''
          else if header = [] then Invalid_argument ''Must provide HEADER data!''
          else Parsed (payload, header)
      | r \<Rightarrow> r)"

definition start_update_main ::
    "string list \<Rightarrow> fsys \<Rightarrow> bool \<Rightarrow> bool \<Rightarrow> start_stub \<Rightarrow> coordinator \<Rightarrow> ending \<times> coordinator" where
  "start_update_main args f channel service_stub stub c =
     (case start_update_parse_args args f of
        Invalid_argument e \<Rightarrow> (Exit 1, c)
      | Exit_now code \<Rightarrow> (Exit code, c)
      | Parse_undefined \<Rightarrow> (Undefined_behaviour, c)
      | Parsed (payload_path, header_data) \<Rightarrow>
          (case create_grpc_service_stub channel service_stub of
             Inl e \<Rightarrow> (Terminate, c)
           | Inr _ \<Rightarrow>
               (case Client_StartUpdate stub payload_path header_data c of
                  (Inl e, c) \<Rightarrow> (Terminate, c)
                | (Inr _, c) \<Rightarrow> (Exit 0, c))))"

section \<open>What is assumed of gRPC\<close>

text \<open>
  A stub that is connected delivers the reply of the service unchanged, and when the server
  process ends before it replies, the status is \<open>UNAVAILABLE\<close> and the response is the default.
\<close>

definition start_delivered :: "start_stub \<Rightarrow> bool" where
  "start_delivered stub \<longleftrightarrow> (\<forall>p h c.
     stub p h c = (case StartUpdate p h c of
       (Some reply, c') \<Rightarrow> (reply, c')
     | (None, c') \<Rightarrow> ((grpc_UNAVAILABLE, 0), c')))"

definition header_delivered :: "header_stub \<Rightarrow> bool" where
  "header_delivered stub \<longleftrightarrow> (\<forall>c. \<not> crashed c \<longrightarrow> stub c = (GetUpdateHeader c, c))"

section \<open>Facts\<close>

lemma getopt_start_update:
  "getopt_long start_update_opts [''-p'', p, ''-u'', h] = [Opt (CHR ''p'') (Some p), Opt (CHR ''u'') (Some h)]"
  by (simp add: start_update_opts_def)

lemma start_update_parse_short:
  "p \<noteq> [] \<Longrightarrow> h \<noteq> [] \<Longrightarrow> locate f p \<noteq> None \<Longrightarrow> start_update_parse_args [''-p'', p, ''-u'', h] f = Parsed (p, h)"
  unfolding start_update_parse_args_def getopt_start_update by simp

lemma Client_StartUpdate_ok_iff:
  "Client_StartUpdate stub p h c = (Inr (), c') \<longleftrightarrow> stub p h c = ((grpc_OK, SUCCESS), c')"
  by (auto simp: Client_StartUpdate_def throw_on_grpc_error_def throw_on_updated_rpc_error_def
      split: prod.splits sum.splits if_splits)

text \<open>What reaches the client when the daemon answers, and when it ends instead.\<close>

lemma Client_StartUpdate_delivered:
  assumes "start_delivered stub"
  shows "Client_StartUpdate stub p h c =
    (if crashed (start p h c) then Inl (GrpcError grpc_UNAVAILABLE) else Inr (), start p h c)"
  using assms
  by (simp add: start_delivered_def Client_StartUpdate_def StartUpdate_def start_noexcept_def
      throw_on_grpc_error_def throw_on_updated_rpc_error_def)

text \<open>A stub that calls the service directly.\<close>

definition direct_start :: start_stub where
  "direct_start p h c = (case StartUpdate p h c of
     (Some reply, c') \<Rightarrow> (reply, c') | (None, c') \<Rightarrow> ((grpc_UNAVAILABLE, 0), c'))"

definition direct_header :: header_stub where
  "direct_header c = (GetUpdateHeader c, c)"

lemma direct_delivered: "start_delivered direct_start" "header_delivered direct_header"
  by (simp_all add: start_delivered_def header_delivered_def direct_start_def direct_header_def)

text \<open>\<open>start\<close> on a path in an existing directory that has no such file.\<close>

lemma PayloadHardLink_missing:
  assumes "wf_tree (tree s)" and "fs_quiet s" and "tree s ds = Some Dir" and "tree s (ds @ [f]) = None"
    and "valid_name f" and "f \<noteq> updated_name"
  shows "\<exists>s'. PayloadHardLink (path_str (ds @ [f])) s = (Throws No_entry, s') \<and> tree s' (ds @ [updated_name]) = Some Dir"
proof -
  let ?d = "ds @ [updated_name]"
  have v: "list_all valid_name (ds @ [f])"
    using wf_tree_names [OF assms(1), of ds] assms(3,5) by simp
  obtain n b s1 where c: "fs_exists (path_str ?d) s = (Inr b, s1)"
    "(if b then fs_remove_all (path_str ?d) s1 else (Inr (), s1)) = (Inr (), s\<lparr>tree := prune ?d (tree s), fs_calls := n\<rparr>)"
    using clear_directory [OF assms(1,3,2)] by blast
  let ?s1 = "s\<lparr>tree := prune ?d (tree s), fs_calls := n\<rparr>"
  let ?s2 = "?s1\<lparr>tree := (tree ?s1)(?d \<mapsto> Dir), fs_calls := Suc (fs_calls ?s1)\<rparr>"
  have m: "fs_create_directories (path_str ?d) ?s1 = (Inr (), ?s2)"
  proof (rule make_directory)
    show "wf_tree (tree ?s1)" using wf_tree_prune [OF assms(1), of ?d] by simp
  qed (use assms(2,3) in \<open>auto simp: prune_def\<close>)
  have "locate ?s2 (path_str (ds @ [f])) = None"
    using wf_tree_pruned_dir [OF assms(1,3)] v assms(3,4,6)
    by (intro locate_missing) (auto simp: prune_def)
  then have l: "fs_create_hard_link (path_str (ds @ [f])) q ?s2 = (Inl No_entry, ?s2\<lparr>fs_calls := Suc (fs_calls ?s2)\<rparr>)" for q
    using assms(2) by (simp add: fs_create_hard_link_def fs_attempt_quiet del: path_str_simps)
  have "is_absolute (path_str (ds @ [f]))" by (simp del: path_str_simps)
  moreover have "payload_dir (path_str (ds @ [f])) = path_str ?d" by (rule payload_dir_path [OF v])
  ultimately show ?thesis
    using c m l by (auto simp: PayloadHardLink_def Let_def simp del: path_str_simps)
qed

section \<open>Properties\<close>

text \<open>The service never reports a failure.  The only reply to \<open>StartUpdate\<close> is success; when \<open>start\<close> cannot
  do its work the process ends without a reply, and the branch that returns \<open>UNKNOWN_ERROR\<close> is dead.\<close>

lemma StartUpdate_replies:
  "fst (StartUpdate p h c) = (if crashed (snd (StartUpdate p h c)) then None else Some (grpc_OK, SUCCESS))"
  by (simp add: StartUpdate_def start_noexcept_def)

text \<open>A request for a missing payload ends the daemon.  For an absolute path in an existing directory
  without such a file, with a header and without any fault, the daemon ends without a reply and
  leaves an empty directory \<open>updated\<close> behind.\<close>

lemma StartUpdate_missing_payload_ends_daemon:
  assumes "wf_tree (tree (cfs c))" and "fs_quiet (cfs c)" and "tree (cfs c) ds = Some Dir"
    and "tree (cfs c) (ds @ [f]) = None" and "valid_name f" and "f \<noteq> ''updated''" and "h \<noteq> []"
  shows "\<exists>c'. StartUpdate (path_str (ds @ [f])) h c = (None, c') \<and> crashed c' \<and>
    tree (cfs c') (ds @ [''updated'']) = Some Dir"
proof -
  have "path_str (ds @ [f]) \<noteq> []" by simp
  then show ?thesis
    using PayloadHardLink_missing [OF assms(1-6)] assms(7)
    by (auto simp: StartUpdate_def start_noexcept_def start_def start_locked_def simp del: path_str_simps)
qed

lemma StartUpdate_missing_payload_ends_daemon_example:
  "\<exists>c'. StartUpdate ''/scratch/c.swu'' ''hdr'' (coord_init demo_fsys) = (None, c') \<and> crashed c'"
proof -
  have t: "tree (cfs (coord_init demo_fsys)) [''scratch''] = Some Dir"
    "tree (cfs (coord_init demo_fsys)) ([''scratch''] @ [''c.swu'']) = None"
    by (simp_all add: demo_fsys_def coord_init_def)
  have w: "wf_tree (tree (cfs (coord_init demo_fsys)))" "fs_quiet (cfs (coord_init demo_fsys))"
    using demo_fsys_wf by (simp_all add: coord_init_def)
  show ?thesis
    using StartUpdate_missing_payload_ends_daemon [OF w t, of "''hdr''"] by (simp add: valid_name_def) blast
qed

text \<open>The header comes back.  With a connected stub, \<open>updated-start-update -p PATH -u HEADER\<close> for a payload that
  exists at an absolute path, is not called \<open>updated\<close> and finds no other update pending ends with exit
  code 0, and the client's \<open>GetUpdateHeader\<close> then returns exactly \<open>HEADER\<close>.\<close>

lemma start_update_then_header:
  assumes "start_delivered sstub" and "header_delivered hstub"
    and "wf_tree (tree (cfs c))" and "fs_quiet (cfs c)" and "tree (cfs c) (ds @ [f]) = Some (File i)"
    and "f \<noteq> ''updated''" and "h \<noteq> []" and "payload_link c = None" and "\<not> crashed c"
  shows "\<exists>c'. start_update_main [''-p'', path_str (ds @ [f]), ''-u'', h] (cfs c) True True sstub c = (Exit 0, c') \<and>
    Client_GetUpdateHeader hstub c' = (Inr h, c')"
proof -
  have "locate (cfs c) (path_str (ds @ [f])) = Some (ds @ [f])" by (rule locate_path [OF assms(3,5)]) simp
  then have p: "start_update_parse_args [''-p'', path_str (ds @ [f]), ''-u'', h] (cfs c) = Parsed (path_str (ds @ [f]), h)"
    using assms(7) by (intro start_update_parse_short) auto
  obtain n where s: "start (path_str (ds @ [f])) h c =
    c\<lparr>manifest_header := h, cfs := (cfs c)\<lparr>tree := linked ds f i (tree (cfs c)), fs_calls := n\<rparr>,
      payload_link := Some (path_str (ds @ [updated_name, f])), updating := True\<rparr>" (is "_ = ?c'")
    using start_first [OF assms(3-9)] by blast
  have "start_update_main [''-p'', path_str (ds @ [f]), ''-u'', h] (cfs c) True True sstub c = (Exit 0, ?c')"
    using p Client_StartUpdate_delivered [OF assms(1), of "path_str (ds @ [f])" h c] s assms(9)
    by (simp add: start_update_main_def create_grpc_service_stub_def del: path_str_simps)
  moreover have "Client_GetUpdateHeader hstub ?c' = (Inr h, ?c')"
    using assms(2,9) by (simp add: header_delivered_def Client_GetUpdateHeader_def GetUpdateHeader_def
        throw_on_grpc_error_def throw_on_updated_rpc_error_def)
  ultimately show ?thesis by blast
qed

lemma start_update_then_header_example:
  "\<exists>c'. start_update_main [''-p'', ''/scratch/a.swu'', ''-u'', ''hdr''] demo_fsys True True direct_start (coord_init demo_fsys) = (Exit 0, c') \<and>
     Client_GetUpdateHeader direct_header c' = (Inr ''hdr'', c')"
proof -
  have t: "tree demo_fsys ([''scratch''] @ [''a.swu'']) = Some (File 7)" by (simp add: demo_fsys_def)
  show ?thesis
    using start_update_then_header [OF direct_delivered, of "coord_init demo_fsys" "[''scratch'']" "''a.swu''" 7 "''hdr''"]
      demo_fsys_wf t by (simp add: coord_init_def)
qed

text \<open>A relative path passes the client and ends the daemon.  The client only checks that the payload
  exists from its own working directory; the assertion that the path is absolute fails in the
  daemon, and the client ends with an exception that it does not catch.\<close>

lemma relative_payload_ends_daemon:
  assumes "start_delivered stub" and "p \<noteq> []" and "\<not> is_absolute p" and "h \<noteq> []" and "locate f p \<noteq> None"
  shows "\<exists>c'. start_update_main [''-p'', p, ''-u'', h] f True True stub c = (Terminate, c') \<and> crashed c'"
proof -
  have "start p h c = crash (cfs c) (c\<lparr>manifest_header := h\<rparr>)"
    using assms(2-4) by (simp add: start_def start_locked_def PayloadHardLink_def)
  then show ?thesis
    using start_update_parse_short [OF assms(2,4,5)] Client_StartUpdate_delivered [OF assms(1), of p h c]
    by (simp add: start_update_main_def create_grpc_service_stub_def)
qed

end
