(* ===== verification/Updated_Daemon.thy ===== *)
theory Updated_Daemon imports Updated_Rpc begin

text \<open>
  The start of the update daemon: the command line (\<open>cli/parser.h\<close>), the log level (\<open>logging/logger.cpp\<close>),
  the lock file (\<open>fileutils/LockFile.cpp\<close>), the initialisation (\<open>daemon/init.cpp\<close>), the RPC server
  (\<open>rpc/Server.cpp\<close>) and \<open>main\<close> of \<open>updated.cpp\<close> up to its loop, which \<open>Coordinator\<close> models.
\<close>

section \<open>Log levels\<close>

datatype level = CRITICAL | ERROR | WARN | INFO | DEBUG | TRACE

datatype spdlog_level = spdlog_critical | spdlog_err | spdlog_warn | spdlog_info | spdlog_debug | spdlog_trace

fun set_global_level :: "level \<Rightarrow> spdlog_level" where
  "set_global_level CRITICAL = spdlog_critical"
| "set_global_level ERROR = spdlog_err"
| "set_global_level WARN = spdlog_warn"
| "set_global_level INFO = spdlog_info"
| "set_global_level DEBUG = spdlog_debug"
| "set_global_level TRACE = spdlog_trace"

definition level_from_string :: "string \<Rightarrow> string + level" where
  "level_from_string str =
     (if str = ''CRITICAL'' then Inr CRITICAL
      else if str = ''ERROR'' then Inr ERROR
      else if str = ''WARNING'' then Inr WARN
      else if str = ''INFO'' then Inr INFO
      else if str = ''DEBUG'' then Inr DEBUG
      else if str = ''TRACE'' then Inr TRACE
      else Inl ''Unrecognized string level.'')"

section \<open>Command line\<close>

text \<open>
  The long option takes an optional argument, so \<open>optarg\<close> is a null pointer for \<open>--log-level\<close>
  without an equals sign; \<open>strcmp\<close> on it is undefined.  The table is not terminated.
\<close>

definition updated_opts :: opt_table where
  "updated_opts = \<lparr>short_opts = [(CHR ''l'', required_argument), (CHR ''h'', no_argument)],
     long_opts = [(''log-level'', optional_argument, CHR ''l''), (''help'', no_argument, CHR ''h'')],
     terminated = False\<rparr>"

definition level_names :: "string list" where
  "level_names = [''CRITICAL'', ''ERROR'', ''WARNING'', ''INFO'', ''DEBUG'', ''TRACE'']"

fun updated_options :: "opt_result list \<Rightarrow> string parsed" where
  "updated_options [] = Invalid_argument ''Unrecognized arguments!''"
| "updated_options (Opt c optarg # opts) =
     (if c = CHR ''l''
      then (case optarg of
              None \<Rightarrow> Parse_undefined
            | Some a \<Rightarrow> if a \<in> set level_names then Parsed a else Invalid_argument ''Invalid log level given!'')
      else if c = CHR ''h'' then Exit_now 0
      else updated_options opts)"
| "updated_options (Unrecognized # opts) = Invalid_argument ''Unrecognized argument!''"
| "updated_options (Undefined # opts) = Parse_undefined"

definition parse_args :: "string list \<Rightarrow> string parsed" where
  "parse_args args = (if args = [] then Parsed ''INFO'' else updated_options (getopt_long updated_opts args))"

section \<open>Lock file, initialisation and start\<close>

text \<open>
  The machine on which instances of the daemon run, as processes with numbers.  The lock of
  \<open>lockf\<close> belongs to a process and is released when that process ends.
\<close>

record machine =
  lock_owner :: "nat option" \<comment> \<open>who holds the lock on \<open>/tmp/updated_lock\<close>\<close>
  lock_fds :: "nat \<Rightarrow> nat" \<comment> \<open>descriptors of that file, by process\<close>
  serving :: "nat \<Rightarrow> spdlog_level option" \<comment> \<open>the daemons in their main loop\<close>
  notified :: "(nat \<times> string) list" \<comment> \<open>messages to systemd\<close>
  handling :: "nat \<Rightarrow> bool" \<comment> \<open>whose signal handlers are registered\<close>

text \<open>Which calls of the operating system and of gRPC succeed in one attempt to start.\<close>

record attempt_env =
  open_ok :: bool
  lockf_ok :: bool
  server_ok :: bool

text \<open>The constructor; when it throws, the destructor does not run and the descriptor stays open.\<close>

definition LockFile :: "nat \<Rightarrow> attempt_env \<Rightarrow> machine \<Rightarrow> bool \<times> machine" where
  "LockFile pid env m =
     (if \<not> open_ok env then (False, m)
      else let m = m\<lparr>lock_fds := (lock_fds m)(pid := lock_fds m pid + 1)\<rparr>
           in if \<not> lockf_ok env \<or> (lock_owner m \<noteq> None \<and> lock_owner m \<noteq> Some pid) then (False, m)
              else (True, m\<lparr>lock_owner := Some pid\<rparr>))"

datatype init_status = Started | FailedToStart

definition notify_start :: "nat \<Rightarrow> init_status \<Rightarrow> machine \<Rightarrow> machine" where
  "notify_start pid status m =
     m\<lparr>notified := notified m @
        [(pid, case status of Started \<Rightarrow> ''READY=1'' | FailedToStart \<Rightarrow> ''STATUS=Failed to start\<newline>'')]\<rparr>"

text \<open>\<open>std::signal\<close> for both signals; until then a signal ends the process.\<close>

definition register_signal_handlers :: "nat \<Rightarrow> machine \<Rightarrow> machine" where
  "register_signal_handlers pid m = m\<lparr>handling := (handling m)(pid := True)\<rparr>"

definition initialise :: "nat \<Rightarrow> string \<Rightarrow> machine \<Rightarrow> string + (init_status \<times> spdlog_level \<times> machine)" where
  "initialise pid log_level m =
     (case level_from_string log_level of
        Inl e \<Rightarrow> Inl e
      | Inr l \<Rightarrow> Inr (Started, set_global_level l, register_signal_handlers pid m))"

definition DaemonInitialiser :: "nat \<Rightarrow> attempt_env \<Rightarrow> string \<Rightarrow> machine \<Rightarrow> spdlog_level option \<times> machine" where
  "DaemonInitialiser pid env log_level m =
     (case LockFile pid env m of
        (False, m) \<Rightarrow> (None, m)
      | (True, m) \<Rightarrow>
          (case initialise pid log_level m of
             Inl e \<Rightarrow> (None, m)
           | Inr (status, l, m) \<Rightarrow> (Some l, notify_start pid status m)))"

definition create_grpc_server :: "bool \<Rightarrow> rpc_exception + unit" where
  "create_grpc_server started =
     (if \<not> started then Inl (Error ''Failed to build and start gRPC server.'') else Inr ())"

text \<open>The end of a process: its descriptors are closed and its lock is released.\<close>

definition process_exit :: "nat \<Rightarrow> machine \<Rightarrow> machine" where
  "process_exit pid m =
     m\<lparr>lock_owner := (if lock_owner m = Some pid then None else lock_owner m),
       lock_fds := (lock_fds m)(pid := 0), serving := (serving m)(pid := None),
       handling := (handling m)(pid := False)\<rparr>"

text \<open>\<open>main\<close>; None means that it reaches its loop.  \<open>main\<close> only catches the exception of \<open>parse_args\<close>.\<close>

definition updated_main :: "nat \<Rightarrow> string list \<Rightarrow> attempt_env \<Rightarrow> machine \<Rightarrow> ending option \<times> machine" where
  "updated_main pid args env m =
     (case parse_args args of
        Invalid_argument e \<Rightarrow> (Some (Exit 1), process_exit pid m)
      | Exit_now code \<Rightarrow> (Some (Exit code), process_exit pid m)
      | Parse_undefined \<Rightarrow> (Some Undefined_behaviour, process_exit pid m)
      | Parsed log_level \<Rightarrow>
          (case DaemonInitialiser pid env log_level m of
             (None, m) \<Rightarrow> (Some Terminate, process_exit pid m)
           | (Some l, m) \<Rightarrow>
               (case create_grpc_server (server_ok env) of
                  Inl e \<Rightarrow> (Some Terminate, process_exit pid m)
                | Inr _ \<Rightarrow> (None, m\<lparr>serving := (serving m)(pid := Some l)\<rparr>))))"

datatype machine_event = Launch nat "string list" attempt_env | Kill nat

inductive machine_step :: "machine \<Rightarrow> machine_event \<Rightarrow> machine \<Rightarrow> bool" where
  launch: "lock_fds m pid = 0 \<Longrightarrow> machine_step m (Launch pid args env) (snd (updated_main pid args env m))"
| kill: "machine_step m (Kill pid) (process_exit pid m)"

definition machine_init :: machine where
  "machine_init = \<lparr>lock_owner = None, lock_fds = (\<lambda>_. 0), serving = (\<lambda>_. None), notified = [],
     handling = (\<lambda>_. False)\<rparr>"

section \<open>Facts\<close>

lemma parse_args_names: "parse_args args = Parsed l \<Longrightarrow> l \<in> set level_names"
proof -
  have "updated_options rs = Parsed l \<Longrightarrow> l \<in> set level_names" for rs
    by (induction rs rule: updated_options.induct) (auto split: if_splits option.splits)
  then show "parse_args args = Parsed l \<Longrightarrow> l \<in> set level_names"
    by (auto simp: parse_args_def level_names_def split: if_splits)
qed

lemma level_names_accepted: "l \<in> set level_names \<Longrightarrow> \<exists>lv. level_from_string l = Inr lv"
  by (auto simp: level_names_def level_from_string_def)

text \<open>A daemon that serves holds the lock and handles signals; whoever holds the lock has the file open.\<close>

definition machine_inv :: "machine \<Rightarrow> bool" where
  "machine_inv m \<longleftrightarrow> (\<forall>pid. serving m pid \<noteq> None \<longrightarrow> lock_owner m = Some pid \<and> handling m pid) \<and>
     (\<forall>pid. lock_owner m = Some pid \<longrightarrow> lock_fds m pid > 0)"

lemma machine_inv_exit: "machine_inv m \<Longrightarrow> machine_inv (process_exit pid m)"
  by (auto simp: machine_inv_def process_exit_def)

lemma LockFile_cases:
  assumes "machine_inv m" and "LockFile pid env m = (ok, m')"
  shows "machine_inv m' \<and> (ok \<longrightarrow> lock_owner m' = Some pid \<and> lock_owner m \<in> {None, Some pid})"
  using assms by (auto simp: LockFile_def machine_inv_def Let_def split: if_splits)

lemma machine_inv_notify [simp]: "machine_inv (notify_start pid st m) = machine_inv m"
  by (simp add: machine_inv_def notify_start_def)

lemma machine_inv_register [simp]: "machine_inv m \<Longrightarrow> machine_inv (register_signal_handlers pid m)"
  by (simp add: machine_inv_def register_signal_handlers_def)

lemma machine_inv_serve:
  assumes "machine_inv m" and "lock_owner m = Some pid" and "handling m pid"
  shows "machine_inv (m\<lparr>serving := (serving m)(pid := l)\<rparr>)"
  using assms by (auto simp: machine_inv_def)

lemma DaemonInitialiser_cases:
  assumes "machine_inv m" and "DaemonInitialiser pid env lv m = (r, m')"
  shows "machine_inv m' \<and> (r \<noteq> None \<longrightarrow> lock_owner m' = Some pid \<and> handling m' pid)"
proof -
  obtain ok m1 where l: "LockFile pid env m = (ok, m1)" by force
  with LockFile_cases [OF assms(1) l] assms(2) show ?thesis
    by (auto simp: DaemonInitialiser_def initialise_def notify_start_def register_signal_handlers_def machine_inv_def
        split: bool.splits sum.splits)
qed

lemma machine_inv_main:
  assumes "machine_inv m"
  shows "machine_inv (snd (updated_main pid args env m))"
proof (cases "parse_args args")
  case (Parsed l)
  obtain r m1 where d: "DaemonInitialiser pid env l m = (r, m1)" by force
  with DaemonInitialiser_cases [OF assms d] machine_inv_exit [of m1 pid] Parsed show ?thesis
    by (auto simp: updated_main_def machine_inv_serve split: option.splits sum.splits)
qed (auto simp: updated_main_def machine_inv_exit assms)

lemma machine_inv_step: "machine_inv m \<Longrightarrow> machine_step m e m' \<Longrightarrow> machine_inv m'"
  by (erule machine_step.cases) (auto intro: machine_inv_main machine_inv_exit)

interpretation instances: safe_system machine_step machine_init machine_inv
proof
  show "machine_inv machine_init" by (simp add: machine_init_def machine_inv_def)
qed (rule machine_inv_step)

section \<open>Properties\<close>

text \<open>C30: one daemon at a time.  However instances are started and killed, at most one of them serves, and
  an instance started while another one serves ends with an uncaught exception; the one that serves
  has its signal handlers.\<close>

theorem updated_single_instance:
  assumes "reachable_from machine_step machine_init m" and "serving m p \<noteq> None" and "q \<noteq> p"
    and "parse_args args = Parsed l"
  shows "serving m q = None \<and> handling m p \<and> fst (updated_main q args env m) = Some Terminate"
proof -
  have inv: "machine_inv m" by (rule instances.reachable_inv [OF assms(1)])
  then have o: "lock_owner m = Some p" "handling m p" using assms(2) by (auto simp: machine_inv_def)
  then obtain m' where "LockFile q env m = (False, m')" using assms(3) o by (cases "open_ok env") (auto simp: LockFile_def Let_def)
  then have "fst (updated_main q args env m) = Some Terminate"
    using assms(4) by (simp add: updated_main_def DaemonInitialiser_def)
  with inv o assms(3) show ?thesis by (auto simp: machine_inv_def)
qed

theorem updated_single_instance_witness:
  "\<exists>m. reachable_from machine_step machine_init m \<and> serving m 1 = Some spdlog_info \<and> serving m 2 = None \<and>
     fst (updated_main 2 [''-l'', ''DEBUG''] \<lparr>open_ok = True, lockf_ok = True, server_ok = True\<rparr> m) = Some Terminate"
proof -
  let ?env = "\<lparr>open_ok = True, lockf_ok = True, server_ok = True\<rparr>"
  let ?m = "snd (updated_main 1 [] ?env machine_init)"
  have "machine_step machine_init (Launch 1 [] ?env) ?m"
    by (rule launch) (simp add: machine_init_def)
  then have r: "reachable_from machine_step machine_init ?m" by (rule reach_step [OF reach_start])
  have s: "serving ?m 1 = Some spdlog_info"
    by (simp add: updated_main_def parse_args_def DaemonInitialiser_def LockFile_def machine_init_def initialise_def
        register_signal_handlers_def level_from_string_def notify_start_def create_grpc_server_def)
  have "parse_args [''-l'', ''DEBUG''] = Parsed ''DEBUG''"
    by (simp add: parse_args_def updated_opts_def level_names_def)
  with updated_single_instance [OF r _ _ this, of 1 2] s r show ?thesis by (intro exI [of _ ?m]) auto
qed

text \<open>The daemon comes up again.  When the lock is free and the calls succeed, every command line that \<open>parse_args\<close>
  accepts leads to the main loop with the log level of that name: the names the parser accepts are
  names the logger knows, so the initialisation never throws, and systemd is told \<open>READY=1\<close>.\<close>

lemma updated_main_serves:
  assumes "parse_args args = Parsed l" and "lock_owner m = None" and "open_ok env" and "lockf_ok env" and "server_ok env"
  shows "\<exists>m' lv. updated_main pid args env m = (None, m') \<and> level_from_string l = Inr lv \<and>
    serving m' pid = Some (set_global_level lv) \<and> notified m' = notified m @ [(pid, ''READY=1'')]"
proof -
  obtain lv where "level_from_string l = Inr lv"
    using level_names_accepted [OF parse_args_names [OF assms(1)]] by blast
  with assms show ?thesis
    by (simp add: updated_main_def DaemonInitialiser_def LockFile_def initialise_def register_signal_handlers_def
        notify_start_def create_grpc_server_def)
qed

lemma updated_main_serves_example:
  "\<exists>m'. updated_main 3 [''--log-level=WARNING''] \<lparr>open_ok = True, lockf_ok = True, server_ok = True\<rparr> machine_init = (None, m') \<and>
     serving m' 3 = Some spdlog_warn"
proof -
  have "parse_args [''--log-level=WARNING''] = Parsed ''WARNING''"
    by (simp add: parse_args_def updated_opts_def long_option_def long_entry_def level_names_def)
  from updated_main_serves [OF this, of machine_init "\<lparr>open_ok = True, lockf_ok = True, server_ok = True\<rparr>" 3]
  show ?thesis by (auto simp: machine_init_def level_from_string_def)
qed

text \<open>\<open>--log-level LEVEL\<close>, with the level as an argument of its own, compares a null pointer.\<close>

lemma log_level_separate_argument_undefined: "parse_args (''--log-level'' # rest) = Parse_undefined"
  by (simp add: parse_args_def updated_opts_def long_option_def long_entry_def)

text \<open>systemd is told that the daemon is ready before there is a server: when the server cannot be
  built, the process ends after that message.\<close>

lemma ready_before_server:
  assumes "parse_args args = Parsed l" and "lock_owner m = None" and "open_ok env" and "lockf_ok env" and "\<not> server_ok env"
  shows "\<exists>m'. updated_main pid args env m = (Some Terminate, m') \<and> (pid, ''READY=1'') \<in> set (notified m')"
proof -
  obtain lv where "level_from_string l = Inr lv"
    using level_names_accepted [OF parse_args_names [OF assms(1)]] by blast
  with assms show ?thesis
    by (simp add: updated_main_def DaemonInitialiser_def LockFile_def initialise_def register_signal_handlers_def
        notify_start_def create_grpc_server_def
        process_exit_def)
qed

end
