(* ===== verification/Mailbox.thy ===== *)
theory Mailbox imports Coordinator begin

text \<open>
  What the update coordinator promises, as an abstract object: a mailbox with room for one payload.
  A request puts its payload and its header there, replacing what was there; the main thread takes
  the payload out; the header is what was put last.  The coordinator with its mutex, condition
  variable, hard links and threads refines it.
\<close>

section \<open>The mailbox\<close>

record mailbox =
  slot :: "string option"
  header :: string
  taken :: "string list"
  answered :: "string list"

datatype mailbox_op =
    Put string string \<comment> \<open>a link and a header\<close>
  | Take
  | Answer




fun puts :: "mailbox_op list \<Rightarrow> (string \<times> string) list" where
  "puts [] = []"
| "puts (Put link h # xs) = (link, h) # puts xs"
| "puts (x # xs) = puts xs"

lemma puts_append [simp]: "puts (xs @ ys) = puts xs @ puts ys"
  by (induction xs rule: puts.induct) simp_all


section \<open>The coordinator as a mailbox\<close>


definition mailbox_of :: "coordinator \<Rightarrow> mailbox" where
  "mailbox_of c = \<lparr>slot = payload_link c, header = manifest_header c, taken = map fst (installs c), answered = replies c\<rparr>"



lemma reset_link_mailbox [simp]:
  "manifest_header (reset_link l c) = manifest_header c" "replies (reset_link l c) = replies c"
  by (auto simp: reset_link_def crash_def split: option.splits prod.splits outcome.splits)



lemma mailbox_of_frame [simp]:
  "mailbox_of (c\<lparr>main_pc := m\<rparr>) = mailbox_of c" "mailbox_of (c\<lparr>rpc_pc := r\<rparr>) = mailbox_of c"
  "mailbox_of (c\<lparr>mutex_owner := x\<rparr>) = mailbox_of c" "mailbox_of (sigint_handler i c) = mailbox_of c"
  "mailbox_of (sighup_handler i c) = mailbox_of c"
  by (simp_all add: mailbox_of_def sigint_handler_def sighup_handler_def)







section \<open>Properties\<close>



end
