(* ===== verification/Mbl_Error.thy ===== *)
theory Mbl_Error imports Prelude begin

text \<open>
  \<open>mbl-cloud-client/source/MblError.h\<close> and \<open>MblError.cpp\<close>: the error codes of the cloud client, their texts,
  and the translation from the errors of the library.  \<open>None\<close> and \<open>Unknown\<close> of the source are called
  \<open>NoError\<close> and \<open>UnknownError\<close> here.
\<close>

datatype (plugins only: code) mbl_error =
    NoError | UnknownError | LogInitFopen | LogInitMutexCreate | SignalsInitSigaction | DeviceUnregistered |
    ShutdownRequested | ConnectAlreadyExists | ConnectBootstrapFailed | ConnectInvalidParameters |
    ConnectNotRegistered | ConnectTimeout | ConnectNetworkError | ConnectResponseParseFailed |
    ConnectUnknownError | ConnectMemoryConnectFail | ConnectNotAllowed | ConnectSecureConnectionFailed |
    ConnectDnsResolvingFailed | ConnectorFailedToReadCredentials | ConnectorInvalidCredentials |
    ConnectorFailedToStoreCredentials | UpdateWarningCertificateNotFound | UpdateWarningIdentityNotFound |
    UpdateWarningCertificateInvalid | UpdateWarningSignatureInvalid | UpdateWarningVendorMismatch |
    UpdateWarningClassMismatch | UpdateWarningDeviceMismatch | UpdateWarningURINotFound |
    UpdateWarningRollbackProtection | UpdateWarningAuthorizationRejected |
    UpdateWarningAuthorizationUnavailable | UpdateWarningUnknown | UpdateErrorWriteToStorage |
    UpdateWarningNoActionRequired | UpdateErrorUserActionRequired | UpdateFatalRebootRequired |
    UpdateErrorInvalidHash | UpdateWarningBadKeytable | UpdateCertificateInsertion | UpdateErrorConnection |
    EnrollmentErrorBase | EnrollmentErrorEnd

primrec error_code :: "mbl_error \<Rightarrow> int" where
  "error_code NoError = 0x0000"
| "error_code UnknownError = 0x0001"
| "error_code LogInitFopen = 0x0002"
| "error_code LogInitMutexCreate = 0x0003"
| "error_code SignalsInitSigaction = 0x0004"
| "error_code DeviceUnregistered = 0x0005"
| "error_code ShutdownRequested = 0x0006"
| "error_code ConnectAlreadyExists = 0x0100"
| "error_code ConnectBootstrapFailed = 0x0101"
| "error_code ConnectInvalidParameters = 0x0102"
| "error_code ConnectNotRegistered = 0x0103"
| "error_code ConnectTimeout = 0x0104"
| "error_code ConnectNetworkError = 0x0105"
| "error_code ConnectResponseParseFailed = 0x0106"
| "error_code ConnectUnknownError = 0x0107"
| "error_code ConnectMemoryConnectFail = 0x0108"
| "error_code ConnectNotAllowed = 0x0109"
| "error_code ConnectSecureConnectionFailed = 0x010a"
| "error_code ConnectDnsResolvingFailed = 0x010b"
| "error_code ConnectorFailedToReadCredentials = 0x010c"
| "error_code ConnectorInvalidCredentials = 0x010d"
| "error_code ConnectorFailedToStoreCredentials = 0x010e"
| "error_code UpdateWarningCertificateNotFound = 0x0200"
| "error_code UpdateWarningIdentityNotFound = 0x0201"
| "error_code UpdateWarningCertificateInvalid = 0x0202"
| "error_code UpdateWarningSignatureInvalid = 0x0203"
| "error_code UpdateWarningVendorMismatch = 0x0204"
| "error_code UpdateWarningClassMismatch = 0x0205"
| "error_code UpdateWarningDeviceMismatch = 0x0206"
| "error_code UpdateWarningURINotFound = 0x0207"
| "error_code UpdateWarningRollbackProtection = 0x0208"
| "error_code UpdateWarningAuthorizationRejected = 0x0209"
| "error_code UpdateWarningAuthorizationUnavailable = 0x020a"
| "error_code UpdateWarningUnknown = 0x020b"
| "error_code UpdateErrorWriteToStorage = 0x020c"
| "error_code UpdateWarningNoActionRequired = 0x020d"
| "error_code UpdateErrorUserActionRequired = 0x020e"
| "error_code UpdateFatalRebootRequired = 0x020f"
| "error_code UpdateErrorInvalidHash = 0x0210"
| "error_code UpdateWarningBadKeytable = 0x0211"
| "error_code UpdateCertificateInsertion = 0x0212"
| "error_code UpdateErrorConnection = 0x0213"
| "error_code EnrollmentErrorBase = 0x0300"
| "error_code EnrollmentErrorEnd = 0x0301"

primrec MblError_to_str :: "mbl_error \<Rightarrow> string" where
  "MblError_to_str NoError = ''None''"
| "MblError_to_str UnknownError = ''Unknown''"
| "MblError_to_str LogInitFopen = ''fopen failed''"
| "MblError_to_str LogInitMutexCreate = ''Failed to create mutex for logging''"
| "MblError_to_str SignalsInitSigaction = ''Failed to register signal handler''"
| "MblError_to_str DeviceUnregistered = ''Device became unregistered''"
| "MblError_to_str ShutdownRequested = ''Shutdown requested''"
| "MblError_to_str ConnectAlreadyExists = ''ConnectAlreadyExists''"
| "MblError_to_str ConnectBootstrapFailed = ''ConnectBootstrapFailed''"
| "MblError_to_str ConnectInvalidParameters = ''ConnectInvalidParameters''"
| "MblError_to_str ConnectNotRegistered = ''ConnectNotRegistered''"
| "MblError_to_str ConnectTimeout = ''ConnectTimeout''"
| "MblError_to_str ConnectNetworkError = ''ConnectNetworkError''"
| "MblError_to_str ConnectResponseParseFailed = ''ConnectResponseParseFailed''"
| "MblError_to_str ConnectUnknownError = ''ConnectUnknownError''"
| "MblError_to_str ConnectMemoryConnectFail = ''ConnectMemoryConnectFail''"
| "MblError_to_str ConnectNotAllowed = ''ConnectNotAllowed''"
| "MblError_to_str ConnectSecureConnectionFailed = ''ConnectSecureConnectionFailed''"
| "MblError_to_str ConnectDnsResolvingFailed = ''ConnectDnsResolvingFailed''"
| "MblError_to_str ConnectorFailedToReadCredentials = ''ConnectorFailedToReadCredentials''"
| "MblError_to_str ConnectorInvalidCredentials = ''ConnectorInvalidCredentials''"
| "MblError_to_str ConnectorFailedToStoreCredentials = ''ConnectorFailedToStoreCredentials''"
| "MblError_to_str UpdateWarningCertificateNotFound = ''UpdateWarningCertificateNotFound''"
| "MblError_to_str UpdateWarningIdentityNotFound = ''UpdateWarningIdentityNotFound''"
| "MblError_to_str UpdateWarningCertificateInvalid = ''UpdateWarningCertificateInvalid''"
| "MblError_to_str UpdateWarningSignatureInvalid = ''UpdateWarningSignatureInvalid''"
| "MblError_to_str UpdateWarningVendorMismatch = ''UpdateWarningVendorMismatch''"
| "MblError_to_str UpdateWarningClassMismatch = ''UpdateWarningClassMismatch''"
| "MblError_to_str UpdateWarningDeviceMismatch = ''UpdateWarningDeviceMismatch''"
| "MblError_to_str UpdateWarningURINotFound = ''UpdateWarningURINotFound''"
| "MblError_to_str UpdateWarningRollbackProtection = ''UpdateWarningRollbackProtection''"
| "MblError_to_str UpdateWarningAuthorizationRejected = ''UpdateWarningAuthorizationRejected''"
| "MblError_to_str UpdateWarningAuthorizationUnavailable = ''UpdateWarningAuthorizationUnavailable''"
| "MblError_to_str UpdateWarningUnknown = ''UpdateWarningUnknown''"
| "MblError_to_str UpdateErrorWriteToStorage = ''UpdateErrorWriteToStorage''"
| "MblError_to_str UpdateWarningNoActionRequired = ''UpdateWarningNoActionRequired''"
| "MblError_to_str UpdateErrorUserActionRequired = ''UpdateErrorUserActionRequired''"
| "MblError_to_str UpdateFatalRebootRequired = ''UpdateFatalRebootRequired''"
| "MblError_to_str UpdateErrorInvalidHash = ''UpdateErrorInvalidHash''"
| "MblError_to_str UpdateWarningBadKeytable = ''UpdateWarningBadKeytable''"
| "MblError_to_str UpdateCertificateInsertion = ''UpdateCertificateInsertion''"
| "MblError_to_str UpdateErrorConnection = ''UpdateErrorConnection''"
| "MblError_to_str EnrollmentErrorBase = ''EnrollmentErrorBase''"
| "MblError_to_str EnrollmentErrorEnd = ''EnrollmentErrorEnd''"

text \<open>The enumeration of the library, with the values the source names and all others.\<close>

datatype (plugins only: code) cloud_client_error =
    cc_ConnectErrorNone | cc_ConnectAlreadyExists | cc_ConnectBootstrapFailed | cc_ConnectInvalidParameters |
    cc_ConnectNotRegistered | cc_ConnectTimeout | cc_ConnectNetworkError | cc_ConnectResponseParseFailed |
    cc_ConnectUnknownError | cc_ConnectMemoryConnectFail | cc_ConnectNotAllowed |
    cc_ConnectSecureConnectionFailed | cc_ConnectDnsResolvingFailed | cc_ConnectorFailedToReadCredentials |
    cc_ConnectorInvalidCredentials | cc_ConnectorFailedToStoreCredentials |
    cc_UpdateWarningCertificateNotFound | cc_UpdateWarningIdentityNotFound |
    cc_UpdateWarningCertificateInvalid | cc_UpdateWarningSignatureInvalid | cc_UpdateWarningVendorMismatch |
    cc_UpdateWarningClassMismatch | cc_UpdateWarningDeviceMismatch | cc_UpdateWarningURINotFound |
    cc_UpdateWarningRollbackProtection | cc_UpdateWarningAuthorizationRejected |
    cc_UpdateWarningAuthorizationUnavailable | cc_UpdateWarningUnknown | cc_UpdateErrorWriteToStorage |
    cc_UpdateWarningNoActionRequired | cc_UpdateErrorUserActionRequired | cc_UpdateFatalRebootRequired |
    cc_UpdateErrorInvalidHash | cc_UpdateWarningBadKeytable | cc_UpdateCertificateInsertion |
    cc_UpdateErrorConnection | cc_EnrollmentErrorBase | cc_EnrollmentErrorEnd | cc_other int

primrec CloudClientError_to_MblError :: "cloud_client_error \<Rightarrow> mbl_error" where
  "CloudClientError_to_MblError cc_ConnectErrorNone = NoError"
| "CloudClientError_to_MblError cc_ConnectAlreadyExists = ConnectAlreadyExists"
| "CloudClientError_to_MblError cc_ConnectBootstrapFailed = ConnectBootstrapFailed"
| "CloudClientError_to_MblError cc_ConnectInvalidParameters = ConnectInvalidParameters"
| "CloudClientError_to_MblError cc_ConnectNotRegistered = ConnectNotRegistered"
| "CloudClientError_to_MblError cc_ConnectTimeout = ConnectTimeout"
| "CloudClientError_to_MblError cc_ConnectNetworkError = ConnectNetworkError"
| "CloudClientError_to_MblError cc_ConnectResponseParseFailed = ConnectResponseParseFailed"
| "CloudClientError_to_MblError cc_ConnectUnknownError = ConnectUnknownError"
| "CloudClientError_to_MblError cc_ConnectMemoryConnectFail = ConnectMemoryConnectFail"
| "CloudClientError_to_MblError cc_ConnectNotAllowed = ConnectNotAllowed"
| "CloudClientError_to_MblError cc_ConnectSecureConnectionFailed = ConnectSecureConnectionFailed"
| "CloudClientError_to_MblError cc_ConnectDnsResolvingFailed = ConnectDnsResolvingFailed"
| "CloudClientError_to_MblError cc_ConnectorFailedToReadCredentials = ConnectorFailedToReadCredentials"
| "CloudClientError_to_MblError cc_ConnectorInvalidCredentials = ConnectorInvalidCredentials"
| "CloudClientError_to_MblError cc_ConnectorFailedToStoreCredentials = ConnectorFailedToStoreCredentials"
| "CloudClientError_to_MblError cc_UpdateWarningCertificateNotFound = UpdateWarningCertificateNotFound"
| "CloudClientError_to_MblError cc_UpdateWarningIdentityNotFound = UpdateWarningIdentityNotFound"
| "CloudClientError_to_MblError cc_UpdateWarningCertificateInvalid = UpdateWarningCertificateInvalid"
| "CloudClientError_to_MblError cc_UpdateWarningSignatureInvalid = UpdateWarningSignatureInvalid"
| "CloudClientError_to_MblError cc_UpdateWarningVendorMismatch = UpdateWarningVendorMismatch"
| "CloudClientError_to_MblError cc_UpdateWarningClassMismatch = UpdateWarningClassMismatch"
| "CloudClientError_to_MblError cc_UpdateWarningDeviceMismatch = UpdateWarningDeviceMismatch"
| "CloudClientError_to_MblError cc_UpdateWarningURINotFound = UpdateWarningURINotFound"
| "CloudClientError_to_MblError cc_UpdateWarningRollbackProtection = UpdateWarningRollbackProtection"
| "CloudClientError_to_MblError cc_UpdateWarningAuthorizationRejected = UpdateWarningAuthorizationRejected"
| "CloudClientError_to_MblError cc_UpdateWarningAuthorizationUnavailable = UpdateWarningAuthorizationUnavailable"
| "CloudClientError_to_MblError cc_UpdateWarningUnknown = UpdateWarningUnknown"
| "CloudClientError_to_MblError cc_UpdateErrorWriteToStorage = UpdateErrorWriteToStorage"
| "CloudClientError_to_MblError cc_UpdateWarningNoActionRequired = UpdateWarningNoActionRequired"
| "CloudClientError_to_MblError cc_UpdateErrorUserActionRequired = UpdateErrorUserActionRequired"
| "CloudClientError_to_MblError cc_UpdateFatalRebootRequired = UpdateFatalRebootRequired"
| "CloudClientError_to_MblError cc_UpdateErrorInvalidHash = UpdateErrorInvalidHash"
| "CloudClientError_to_MblError cc_UpdateWarningBadKeytable = UpdateWarningBadKeytable"
| "CloudClientError_to_MblError cc_UpdateCertificateInsertion = UpdateCertificateInsertion"
| "CloudClientError_to_MblError cc_UpdateErrorConnection = UpdateErrorConnection"
| "CloudClientError_to_MblError cc_EnrollmentErrorBase = EnrollmentErrorBase"
| "CloudClientError_to_MblError cc_EnrollmentErrorEnd = EnrollmentErrorEnd"
| "CloudClientError_to_MblError (cc_other i) = UnknownError"

section \<open>The codes as an enumeration\<close>

definition all_errors :: "mbl_error list" where
  "all_errors =
    [NoError, UnknownError, LogInitFopen, LogInitMutexCreate, SignalsInitSigaction, DeviceUnregistered,
     ShutdownRequested, ConnectAlreadyExists, ConnectBootstrapFailed, ConnectInvalidParameters,
     ConnectNotRegistered, ConnectTimeout, ConnectNetworkError, ConnectResponseParseFailed,
     ConnectUnknownError, ConnectMemoryConnectFail, ConnectNotAllowed, ConnectSecureConnectionFailed,
     ConnectDnsResolvingFailed, ConnectorFailedToReadCredentials, ConnectorInvalidCredentials,
     ConnectorFailedToStoreCredentials, UpdateWarningCertificateNotFound, UpdateWarningIdentityNotFound,
     UpdateWarningCertificateInvalid, UpdateWarningSignatureInvalid, UpdateWarningVendorMismatch,
     UpdateWarningClassMismatch, UpdateWarningDeviceMismatch, UpdateWarningURINotFound,
     UpdateWarningRollbackProtection, UpdateWarningAuthorizationRejected,
     UpdateWarningAuthorizationUnavailable, UpdateWarningUnknown, UpdateErrorWriteToStorage,
     UpdateWarningNoActionRequired, UpdateErrorUserActionRequired, UpdateFatalRebootRequired,
     UpdateErrorInvalidHash, UpdateWarningBadKeytable, UpdateCertificateInsertion, UpdateErrorConnection,
     EnrollmentErrorBase, EnrollmentErrorEnd]"

lemma all_errors_complete: "e \<in> set all_errors"
  by (cases e) (simp_all add: all_errors_def)

lemma error_codes_distinct: "distinct (map error_code all_errors)"
  by (simp add: all_errors_def)

instantiation mbl_error :: linorder
begin

definition less_eq_mbl_error :: "mbl_error \<Rightarrow> mbl_error \<Rightarrow> bool" where
  "less_eq_mbl_error a b \<longleftrightarrow> error_code a \<le> error_code b"

definition less_mbl_error :: "mbl_error \<Rightarrow> mbl_error \<Rightarrow> bool" where
  "less_mbl_error a b \<longleftrightarrow> error_code a < error_code b"

instance
proof
  fix a b :: mbl_error
  have "inj_on error_code (set all_errors)"
    using error_codes_distinct by (simp add: distinct_map)
  then show "a \<le> b \<Longrightarrow> b \<le> a \<Longrightarrow> a = b"
    unfolding less_eq_mbl_error_def by (metis all_errors_complete inj_onD order_antisym)
qed (auto simp: less_eq_mbl_error_def less_mbl_error_def)

end

section \<open>Facts\<close>

lemma error_texts_distinct: "distinct (map MblError_to_str all_errors)"
  by code_simp

lemma MblError_to_str_inj: "MblError_to_str a = MblError_to_str b \<Longrightarrow> a = b"
  using error_texts_distinct all_errors_complete [of a] all_errors_complete [of b]
  by (auto simp: distinct_map inj_on_def)

text \<open>The named errors of the library keep their identity; all others become \<open>Unknown\<close>.\<close>

definition named_errors :: "cloud_client_error list" where
  "named_errors =
    [cc_ConnectErrorNone, cc_ConnectAlreadyExists, cc_ConnectBootstrapFailed, cc_ConnectInvalidParameters,
     cc_ConnectNotRegistered, cc_ConnectTimeout, cc_ConnectNetworkError, cc_ConnectResponseParseFailed,
     cc_ConnectUnknownError, cc_ConnectMemoryConnectFail, cc_ConnectNotAllowed,
     cc_ConnectSecureConnectionFailed, cc_ConnectDnsResolvingFailed, cc_ConnectorFailedToReadCredentials,
     cc_ConnectorInvalidCredentials, cc_ConnectorFailedToStoreCredentials,
     cc_UpdateWarningCertificateNotFound, cc_UpdateWarningIdentityNotFound,
     cc_UpdateWarningCertificateInvalid, cc_UpdateWarningSignatureInvalid, cc_UpdateWarningVendorMismatch,
     cc_UpdateWarningClassMismatch, cc_UpdateWarningDeviceMismatch, cc_UpdateWarningURINotFound,
     cc_UpdateWarningRollbackProtection, cc_UpdateWarningAuthorizationRejected,
     cc_UpdateWarningAuthorizationUnavailable, cc_UpdateWarningUnknown, cc_UpdateErrorWriteToStorage,
     cc_UpdateWarningNoActionRequired, cc_UpdateErrorUserActionRequired, cc_UpdateFatalRebootRequired,
     cc_UpdateErrorInvalidHash, cc_UpdateWarningBadKeytable, cc_UpdateCertificateInsertion,
     cc_UpdateErrorConnection, cc_EnrollmentErrorBase, cc_EnrollmentErrorEnd]"

lemma named_errors_complete: "e \<in> set named_errors \<or> (\<exists>i. e = cc_other i)"
  by (cases e) (simp_all add: named_errors_def)

lemma named_errors_distinct: "distinct (map (error_code \<circ> CloudClientError_to_MblError) named_errors)"
  by (simp add: named_errors_def)

lemma CloudClientError_to_MblError_other:
  "CloudClientError_to_MblError a \<noteq> UnknownError \<Longrightarrow> a \<in> set named_errors"
  using named_errors_complete [of a] by auto

lemma CloudClientError_to_MblError_inj:
  assumes "CloudClientError_to_MblError a = CloudClientError_to_MblError b"
    and "CloudClientError_to_MblError a \<noteq> UnknownError"
  shows "a = b"
proof (rule inj_onD)
  show "inj_on (error_code \<circ> CloudClientError_to_MblError) (set named_errors)"
    using named_errors_distinct by (simp add: distinct_map)
qed (use assms CloudClientError_to_MblError_other in auto)

end
