(* ===== verification/Cloud_Client.thy ===== *)
theory Cloud_Client imports Mbl_Error "HOL-Library.Word" begin

text \<open>
  \<open>mbl-cloud-client/source/MblCloudClient.cpp\<close> with \<open>MblMutex.cpp\<close>, \<open>MblScopedLock.cpp\<close>, \<open>update_handlers.cpp\<close>
  and the resource broker: the object that owns the connection to the cloud, used by the main
  thread, which runs \<open>run\<close>, and by the event loop of the library, which calls the handlers.  The
  two threads interleave between the operations on the mutex; each call of the library is
  recorded, with whether the library object still existed.
\<close>

section \<open>Update handlers\<close>

text \<open>\<open>None\<close> is the division by zero; the product is taken with 64 bits, the quotient cut to 32.\<close>

definition download_percent :: "32 word \<Rightarrow> 32 word \<Rightarrow> 32 word option" where
  "download_percent progress total_bytes =
     (if total_bytes = 0 then None
      else Some (ucast ((ucast progress * 100 :: 64 word) div ucast total_bytes)))"

datatype trace_line =
    Downloading "32 word"
  | Download_completed
  | Authorization_granted
  | Unknown_request "32 word"

definition handle_download_progress :: "32 word \<Rightarrow> 32 word \<Rightarrow> trace_line list option" where
  "handle_download_progress progress total_bytes =
     (case download_percent progress total_bytes of
        None \<Rightarrow> None
      | Some percent \<Rightarrow> Some (Downloading percent # (if progress = total_bytes then [Download_completed] else [])))"

text \<open>The two requests of the library are parameters here, since their values are its own.\<close>

definition handle_download_request :: "bool \<times> trace_line list" where
  "handle_download_request = (True, [Authorization_granted])"

definition handle_install_request :: "bool \<times> trace_line list" where
  "handle_install_request = (True, [Authorization_granted])"

definition handle_authorize_request ::
    "32 word \<Rightarrow> 32 word \<Rightarrow> 32 word \<Rightarrow> bool \<times> trace_line list" where
  "handle_authorize_request UpdateRequestDownload UpdateRequestInstall request =
     (if request = UpdateRequestDownload then handle_download_request
      else if request = UpdateRequestInstall then handle_install_request
      else (False, [Unknown_request request]))"

section \<open>Re-registration\<close>

definition MBED_CLOUD_CLIENT_LIFETIME :: int where "MBED_CLOUD_CLIENT_LIFETIME = 600"

definition reregister_period_s :: int where
  "reregister_period_s = MBED_CLOUD_CLIENT_LIFETIME div 2"

text \<open>One pass of the loop at a clock reading: whether it registers, and the next time to do so.\<close>

definition reregister :: "int \<Rightarrow> int \<Rightarrow> bool \<times> int" where
  "reregister time_s next_registration_s =
     (if time_s \<ge> next_registration_s then (True, time_s + reregister_period_s)
      else (False, next_registration_s))"

text \<open>The times at which a sequence of passes registers.\<close>

fun registrations :: "int \<Rightarrow> int list \<Rightarrow> int list" where
  "registrations next_registration_s [] = []"
| "registrations next_registration_s (t # ts) =
     (case reregister t next_registration_s of
        (True, n) \<Rightarrow> t # registrations n ts
      | (False, n) \<Rightarrow> registrations n ts)"

section \<open>State\<close>

datatype reg_state = State_Unregistered | State_CalledRegister | State_Registered

datatype cthread = Main_thread | Event_loop

text \<open>The calls of the library.\<close>

datatype lib_call =
    Lib_register_handlers
  | Lib_add_objects
  | Lib_setup
  | Lib_register_update
  | Lib_endpoint_info
  | Lib_error_description
  | Lib_update_authorize "32 word"
  | Lib_close

datatype handler =
    H_registered
  | H_unregistered
  | H_error cloud_client_error
  | H_authorize "32 word"

text \<open>Where the main thread is in \<open>run\<close> and in the destructor it ends with.\<close>

datatype client_pc =
    C_start
  | C_setup_lock
  | C_setup_state \<comment> \<open>holds the mutex\<close>
  | C_setup
  | C_signal \<comment> \<open>top of the loop\<close>
  | C_lock
  | C_state \<comment> \<open>holds the mutex\<close>
  | C_time
  | C_dtor_lock mbl_error
  | C_dtor mbl_error \<comment> \<open>holds the mutex\<close>
  | C_close mbl_error
  | C_stop mbl_error
  | C_done mbl_error

datatype loop_pc =
    E_idle
  | E_lock handler
  | E_body handler \<comment> \<open>holds the mutex\<close>

record client =
  s_mutex :: "cthread option"
  s_instance :: "reg_state option" \<comment> \<open>the null pointer, or the object's state\<close>
  library_alive :: bool \<comment> \<open>the \<open>MbedCloudClient\<close> object exists\<close>
  event_loop :: bool \<comment> \<open>the thread of the library runs\<close>
  lib_calls :: "(lib_call \<times> bool) list"
  next_registration :: int
  g_shutdown_signal :: int
  client_pc :: client_pc
  loop_pc :: loop_pc

definition client_init :: client where
  "client_init = \<lparr>s_mutex = None, s_instance = None, library_alive = False, event_loop = False, lib_calls = [],
     next_registration = 0, g_shutdown_signal = 0, client_pc = C_start, loop_pc = E_idle\<rparr>"

definition lib :: "lib_call \<Rightarrow> client \<Rightarrow> client" where
  "lib k c = c\<lparr>lib_calls := lib_calls c @ [(k, library_alive c)]\<rparr>"

section \<open>Operations\<close>

text \<open>
  \<open>MblMutex\<close> is a normal mutex: locking it again in the same thread blocks for ever, and releasing
  it unlocked is an error.  \<open>MblScopedLock\<close> locks in its constructor and unlocks in its destructor.
\<close>

definition lock_mutex :: "cthread \<Rightarrow> client \<Rightarrow> client option" where
  "lock_mutex t c = (if s_mutex c = None then Some (c\<lparr>s_mutex := Some t\<rparr>) else None)"

definition try_lock_mutex :: "cthread \<Rightarrow> client \<Rightarrow> bool \<times> client" where
  "try_lock_mutex t c = (if s_mutex c = None then (True, c\<lparr>s_mutex := Some t\<rparr>) else (False, c))"

definition unlock_mutex :: "client \<Rightarrow> client" where
  "unlock_mutex c = c\<lparr>s_mutex := None\<rparr>"

text \<open>\<open>InstanceScoper\<close> and the constructor, then \<open>register_handlers\<close> and \<open>add_resources\<close>.\<close>

definition create_instance :: "client \<Rightarrow> client" where
  "create_instance c = c\<lparr>s_instance := Some State_Unregistered, library_alive := True, event_loop := True\<rparr>"

definition register_handlers :: "client \<Rightarrow> client" where
  "register_handlers c = lib Lib_register_handlers c"

definition add_resources :: "client \<Rightarrow> client" where
  "add_resources c = lib Lib_add_objects c"

definition set_state :: "reg_state \<Rightarrow> client \<Rightarrow> client" where
  "set_state st c = (case s_instance c of None \<Rightarrow> c | Some _ \<Rightarrow> c\<lparr>s_instance := Some st\<rparr>)"

text \<open>The handlers after they have acquired the mutex; the return type is unit for all.\<close>

definition handle_client_registered :: "client \<Rightarrow> client" where
  "handle_client_registered c =
     (if s_instance c = None then c else lib Lib_endpoint_info (set_state State_Registered c))"

definition handle_client_unregistered :: "client \<Rightarrow> client" where
  "handle_client_unregistered c =
     (if s_instance c = None then c else set_state State_Unregistered c)"

definition handle_error :: "cloud_client_error \<Rightarrow> client \<Rightarrow> client" where
  "handle_error e c = (if s_instance c = None then c else lib Lib_error_description c)"

definition handle_authorize :: "32 word \<Rightarrow> client \<Rightarrow> client" where
  "handle_authorize request c =
     (if s_instance c = None then c else lib (Lib_update_authorize request) c)"

fun run_handler :: "handler \<Rightarrow> client \<Rightarrow> client" where
  "run_handler H_registered c = handle_client_registered c"
| "run_handler H_unregistered c = handle_client_unregistered c"
| "run_handler (H_error e) c = handle_error e c"
| "run_handler (H_authorize r) c = handle_authorize r c"

text \<open>Only an authorized request takes the mutex; the other handlers always do.\<close>

fun wants_mutex :: "32 word \<Rightarrow> 32 word \<Rightarrow> handler \<Rightarrow> bool" where
  "wants_mutex dl inst (H_authorize r) = fst (handle_authorize_request dl inst r)"
| "wants_mutex dl inst h = True"

definition mbl_shutdown_handler :: "int \<Rightarrow> client \<Rightarrow> client" where
  "mbl_shutdown_handler sig c = c\<lparr>g_shutdown_signal := sig\<rparr>"

text \<open>The resource broker has nothing to do yet; a failure would only be logged.\<close>

definition IpcDBus_Init :: mbl_error where "IpcDBus_Init = NoError"

definition ResourceBroker_Init :: mbl_error where "ResourceBroker_Init = IpcDBus_Init"

section \<open>Interleaving\<close>

datatype client_event =
    Ev_create
  | Ev_setup_lock
  | Ev_setup_state
  | Ev_setup bool int \<comment> \<open>the result of \<open>setup\<close> and the clock\<close>
  | Ev_signal_test
  | Ev_lock
  | Ev_state_test
  | Ev_time int \<comment> \<open>the clock\<close>
  | Ev_dtor_lock
  | Ev_dtor
  | Ev_close
  | Ev_stop
  | Ev_callback handler
  | Ev_handler_lock
  | Ev_handler
  | Ev_signal int

text \<open>
  The two requests that the library authorizes are parameters.  A callback can only begin while
  the event loop runs; the destructor stops the loop after the handler in progress has ended.
\<close>

inductive client_step :: "32 word \<Rightarrow> 32 word \<Rightarrow> client \<Rightarrow> client_event \<Rightarrow> client \<Rightarrow> bool"
  for dl inst :: "32 word" where
  c_create: "client_pc c = C_start \<Longrightarrow>
    client_step dl inst c Ev_create ((add_resources (register_handlers (create_instance c)))\<lparr>client_pc := C_setup_lock\<rparr>)"
| c_setup_lock: "client_pc c = C_setup_lock \<Longrightarrow> lock_mutex Main_thread c = Some c' \<Longrightarrow>
    client_step dl inst c Ev_setup_lock (c'\<lparr>client_pc := C_setup_state\<rparr>)"
| c_setup_state: "client_pc c = C_setup_state \<Longrightarrow>
    client_step dl inst c Ev_setup_state ((unlock_mutex (set_state State_CalledRegister c))\<lparr>client_pc := C_setup\<rparr>)"
| c_setup: "client_pc c = C_setup \<Longrightarrow>
    client_step dl inst c (Ev_setup ok t)
      ((lib Lib_setup c)\<lparr>next_registration := (if ok then t + reregister_period_s else next_registration c),
        client_pc := (if ok then C_signal else C_dtor_lock ConnectUnknownError)\<rparr>)"
| c_signal_test: "client_pc c = C_signal \<Longrightarrow>
    client_step dl inst c Ev_signal_test
      (c\<lparr>client_pc := (if g_shutdown_signal c \<noteq> 0 then C_dtor_lock ShutdownRequested else C_lock)\<rparr>)"
| c_lock: "client_pc c = C_lock \<Longrightarrow> lock_mutex Main_thread c = Some c' \<Longrightarrow>
    client_step dl inst c Ev_lock (c'\<lparr>client_pc := C_state\<rparr>)"
| c_state_test: "client_pc c = C_state \<Longrightarrow>
    client_step dl inst c Ev_state_test
      ((unlock_mutex c)\<lparr>client_pc :=
        (if s_instance c = Some State_Unregistered then C_dtor_lock DeviceUnregistered else C_time)\<rparr>)"
| c_time: "client_pc c = C_time \<Longrightarrow> reregister t (next_registration c) = (due, n) \<Longrightarrow>
    client_step dl inst c (Ev_time t)
      ((if due then lib Lib_register_update c else c)\<lparr>next_registration := n, client_pc := C_signal\<rparr>)"
| c_dtor_lock: "client_pc c = C_dtor_lock e \<Longrightarrow> lock_mutex Main_thread c = Some c' \<Longrightarrow>
    client_step dl inst c Ev_dtor_lock (c'\<lparr>client_pc := C_dtor e\<rparr>)"
| c_dtor: "client_pc c = C_dtor e \<Longrightarrow>
    client_step dl inst c Ev_dtor ((unlock_mutex (c\<lparr>s_instance := None\<rparr>))\<lparr>client_pc := C_close e\<rparr>)"
| c_close: "client_pc c = C_close e \<Longrightarrow>
    client_step dl inst c Ev_close ((lib Lib_close c)\<lparr>library_alive := False, client_pc := C_stop e\<rparr>)"
| c_stop: "client_pc c = C_stop e \<Longrightarrow> loop_pc c = E_idle \<Longrightarrow>
    client_step dl inst c Ev_stop (c\<lparr>event_loop := False, client_pc := C_done e\<rparr>)"
| c_callback: "event_loop c \<Longrightarrow> loop_pc c = E_idle \<Longrightarrow>
    client_step dl inst c (Ev_callback h) (c\<lparr>loop_pc := (if wants_mutex dl inst h then E_lock h else E_idle)\<rparr>)"
| c_handler_lock: "loop_pc c = E_lock h \<Longrightarrow> lock_mutex Event_loop c = Some c' \<Longrightarrow>
    client_step dl inst c Ev_handler_lock (c'\<lparr>loop_pc := E_body h\<rparr>)"
| c_handler: "loop_pc c = E_body h \<Longrightarrow>
    client_step dl inst c Ev_handler ((unlock_mutex (run_handler h c))\<lparr>loop_pc := E_idle\<rparr>)"
| c_signal: "0 < sig \<Longrightarrow> client_step dl inst c (Ev_signal sig) (mbl_shutdown_handler sig c)"

section \<open>Invariant\<close>

text \<open>The phases of the main thread: before the object exists, while it does, and after.\<close>

fun main_has :: "client_pc \<Rightarrow> bool" where
  "main_has C_setup_state = True"
| "main_has C_state = True"
| "main_has (C_dtor e) = True"
| "main_has pc = False"

datatype phase = Before | During | Closing | After

fun phase_of :: "client_pc \<Rightarrow> phase" where
  "phase_of C_start = Before"
| "phase_of (C_close e) = Closing"
| "phase_of (C_stop e) = After"
| "phase_of (C_done e) = After"
| "phase_of pc = During"

fun result_of :: "client_pc \<Rightarrow> mbl_error option" where
  "result_of (C_dtor_lock e) = Some e"
| "result_of (C_dtor e) = Some e"
| "result_of (C_close e) = Some e"
| "result_of (C_stop e) = Some e"
| "result_of (C_done e) = Some e"
| "result_of pc = None"

fun phase_ok :: "phase \<Rightarrow> bool \<Rightarrow> bool \<Rightarrow> bool \<Rightarrow> bool" where
  "phase_ok Before no_instance alive looping = (no_instance \<and> \<not> looping)"
| "phase_ok During no_instance alive looping = (\<not> no_instance \<and> alive)"
| "phase_ok Closing no_instance alive looping = (no_instance \<and> alive)"
| "phase_ok After no_instance alive looping = (no_instance \<and> \<not> alive)"

fun result_ok :: "mbl_error option \<Rightarrow> int \<Rightarrow> bool" where
  "result_ok None sig = True"
| "result_ok (Some e) sig =
     (e \<in> {ConnectUnknownError, DeviceUnregistered, ShutdownRequested} \<and> (e = ShutdownRequested \<longrightarrow> sig \<noteq> 0))"

definition client_inv :: "client \<Rightarrow> bool" where
  "client_inv c \<longleftrightarrow>
     (s_mutex c = Some Main_thread \<longleftrightarrow> main_has (client_pc c)) \<and>
     (s_mutex c = Some Event_loop \<longleftrightarrow> (\<exists>h. loop_pc c = E_body h)) \<and>
     phase_ok (phase_of (client_pc c)) (s_instance c = None) (library_alive c) (event_loop c) \<and>
     result_ok (result_of (client_pc c)) (g_shutdown_signal c) \<and>
     (loop_pc c \<noteq> E_idle \<longrightarrow> event_loop c) \<and>
     (\<forall>e. client_pc c = C_done e \<longrightarrow> \<not> event_loop c) \<and>
     (\<forall>k alive. (k, alive) \<in> set (lib_calls c) \<longrightarrow> alive)"

lemma lib_frame [simp]:
  "s_mutex (lib k c) = s_mutex c" "s_instance (lib k c) = s_instance c" "library_alive (lib k c) = library_alive c"
  "event_loop (lib k c) = event_loop c" "g_shutdown_signal (lib k c) = g_shutdown_signal c"
  "client_pc (lib k c) = client_pc c" "loop_pc (lib k c) = loop_pc c"
  "lib_calls (lib k c) = lib_calls c @ [(k, library_alive c)]"
  by (simp_all add: lib_def)

lemma set_state_frame [simp]:
  "s_mutex (set_state st c) = s_mutex c" "library_alive (set_state st c) = library_alive c"
  "event_loop (set_state st c) = event_loop c" "g_shutdown_signal (set_state st c) = g_shutdown_signal c"
  "client_pc (set_state st c) = client_pc c" "loop_pc (set_state st c) = loop_pc c"
  "lib_calls (set_state st c) = lib_calls c"
  "(s_instance (set_state st c) = None) = (s_instance c = None)"
  by (auto simp: set_state_def split: option.splits)

text \<open>What a handler may change: the state of an existing object, and one recorded call.\<close>

lemma run_handler_frame [simp]:
  "s_mutex (run_handler h c) = s_mutex c" "library_alive (run_handler h c) = library_alive c"
  "event_loop (run_handler h c) = event_loop c" "g_shutdown_signal (run_handler h c) = g_shutdown_signal c"
  "client_pc (run_handler h c) = client_pc c" "loop_pc (run_handler h c) = loop_pc c"
  "(s_instance (run_handler h c) = None) = (s_instance c = None)"
  by (cases h; auto simp: handle_client_registered_def handle_client_unregistered_def handle_error_def handle_authorize_def)+

lemma run_handler_calls:
  "set (lib_calls (run_handler h c)) \<subseteq> set (lib_calls c) \<union> (if s_instance c = None then {} else UNIV \<times> {library_alive c})"
  by (cases h; auto simp: handle_client_registered_def handle_client_unregistered_def handle_error_def handle_authorize_def)

lemma try_lock_mutex_lock: "try_lock_mutex t c = (case lock_mutex t c of None \<Rightarrow> (False, c) | Some c' \<Rightarrow> (True, c'))"
  by (simp add: try_lock_mutex_def lock_mutex_def)

lemma unlock_mutex_frame [simp]:
  "s_mutex (unlock_mutex c) = None" "s_instance (unlock_mutex c) = s_instance c"
  "library_alive (unlock_mutex c) = library_alive c" "event_loop (unlock_mutex c) = event_loop c"
  "g_shutdown_signal (unlock_mutex c) = g_shutdown_signal c" "client_pc (unlock_mutex c) = client_pc c"
  "loop_pc (unlock_mutex c) = loop_pc c" "lib_calls (unlock_mutex c) = lib_calls c"
  by (simp_all add: unlock_mutex_def)

lemma lock_mutex_Some: "lock_mutex t c = Some c' \<longleftrightarrow> s_mutex c = None \<and> c' = c\<lparr>s_mutex := Some t\<rparr>"
  by (auto simp: lock_mutex_def)

lemma client_inv_init: "client_inv client_init"
  by (simp add: client_inv_def client_init_def)

lemma instance_alive: "client_inv c \<Longrightarrow> s_instance c \<noteq> None \<Longrightarrow> library_alive c"
  by (cases "phase_of (client_pc c)") (auto simp: client_inv_def)

lemma client_inv_handler:
  assumes "client_inv c" and "loop_pc c = E_body h"
  shows "client_inv ((unlock_mutex (run_handler h c))\<lparr>loop_pc := E_idle\<rparr>)"
proof -
  have "alive" if "(k, alive) \<in> set (lib_calls (run_handler h c))" for k alive
    using run_handler_calls [of h c] instance_alive [OF assms(1)] assms(1) that
    by (cases "s_instance c = None") (auto simp: client_inv_def)
  then have "\<forall>k alive. (k, alive) \<in> set (lib_calls (run_handler h c)) \<longrightarrow> alive" by blast
  moreover have "s_mutex c = Some Event_loop" using assms by (simp add: client_inv_def)
  ultimately show ?thesis
    using assms by (cases "event_loop c") (auto simp: client_inv_def)
qed

lemma client_inv_step:
  assumes "client_inv c" and "client_step dl inst c e c'"
  shows "client_inv c'"
  using assms(2)
proof (cases rule: client_step.cases)
  case (c_handler h)
  then show ?thesis using client_inv_handler [OF assms(1)] by simp
next
  case (c_signal sig)
  have "result_ok r (g_shutdown_signal c) \<Longrightarrow> result_ok r sig" for r
    using c_signal(3) by (cases r) auto
  then show ?thesis using assms(1) c_signal(2) by (auto simp: client_inv_def mbl_shutdown_handler_def)
qed (use assms(1) in \<open>auto simp: client_inv_def lock_mutex_Some create_instance_def
      register_handlers_def add_resources_def split: if_splits\<close>)

interpretation cloud: safe_system "client_step dl inst" client_init client_inv
  by unfold_locales (auto intro: client_inv_init client_inv_step)

section \<open>Facts on progress and registration\<close>

lemma unat_ucast_64 [simp]: "unat (ucast (w :: 32 word) :: 64 word) = unat w"
proof -
  have "unat w < 2 ^ LENGTH(32)" by (rule unsigned_less)
  then have "unat w < 2 ^ 64" by simp
  then show ?thesis by (simp add: unsigned_ucast_eq take_bit_nat_eq_self)
qed

lemma percent_unat:
  fixes progress total_bytes :: "32 word"
  shows "unat (ucast ((ucast progress * 100 :: 64 word) div ucast total_bytes) :: 32 word) =
    (unat progress * 100 div unat total_bytes) mod 2 ^ 32"
proof -
  have "unat progress < 2 ^ LENGTH(32)" by (rule unsigned_less)
  then have "unat (ucast progress * 100 :: 64 word) = unat progress * 100"
    by (simp add: unat_word_ariths)
  then have "unat ((ucast progress * 100 :: 64 word) div ucast total_bytes) = unat progress * 100 div unat total_bytes"
    by (simp add: unat_div)
  then show ?thesis by (simp add: unsigned_ucast_eq take_bit_eq_mod)
qed

text \<open>A pass of the loop that finds \<open>total\<close> to be 0 divides by it.\<close>

lemma download_progress_zero_total: "handle_download_progress progress 0 = None"
  by (simp add: handle_download_progress_def download_percent_def)

lemma registrations_gaps:
  assumes "successively (\<lambda>a b. a \<le> b \<and> b - a \<le> d) (cur # ts)" and "r \<le> cur" and "cur < r + reregister_period_s"
  shows "successively (\<lambda>a b. reregister_period_s \<le> b - a \<and> b - a < reregister_period_s + d) (r # registrations (r + reregister_period_s) ts) \<and>
    last (cur # ts) - last (r # registrations (r + reregister_period_s) ts) < reregister_period_s"
  using assms
proof (induction ts arbitrary: cur r)
  case (Cons t ts)
  have p: "0 < reregister_period_s" by (simp add: reregister_period_s_def MBED_CLOUD_CLIENT_LIFETIME_def)
  have t: "cur \<le> t" "t - cur \<le> d" "successively (\<lambda>a b. a \<le> b \<and> b - a \<le> d) (t # ts)"
    using Cons.prems(1) by auto
  show ?case
  proof (cases "t \<ge> r + reregister_period_s")
    case True
    with Cons.IH [OF t(3), of t] p t Cons.prems(2,3) show ?thesis by (simp add: reregister_def)
  next
    case False
    with Cons.IH [OF t(3), of r] t Cons.prems(2) show ?thesis by (simp add: reregister_def)
  qed
qed simp

text \<open>The handler in progress can be finished, and then the main thread can shut down.\<close>

lemma drain_event_loop:
  assumes "client_inv c" and "\<not> main_has (client_pc c)"
  shows "\<exists>evs c'. run_of (client_step dl inst) c evs c' \<and> set evs \<subseteq> {Ev_handler_lock, Ev_handler} \<and>
    loop_pc c' = E_idle \<and> s_mutex c' = None \<and> client_pc c' = client_pc c \<and> g_shutdown_signal c' = g_shutdown_signal c"
proof -
  have body: "\<exists>c'. client_step dl inst d Ev_handler c' \<and> loop_pc c' = E_idle \<and> s_mutex c' = None \<and>
      client_pc c' = client_pc d \<and> g_shutdown_signal c' = g_shutdown_signal d" if "loop_pc d = E_body h" for d h
    using c_handler [of d h dl inst, OF that] by force
  have m: "s_mutex c \<noteq> Some Main_thread" using assms by (simp add: client_inv_def)
  show ?thesis
  proof (cases "loop_pc c")
    case E_idle
    then have "s_mutex c \<noteq> Some Event_loop" using assms(1) by (simp add: client_inv_def)
    with m have "s_mutex c = None" by (cases "s_mutex c"; metis cthread.exhaust)
    with E_idle show ?thesis by (intro exI [of _ "[]"] exI [of _ c]) (simp add: run_nil)
  next
    case (E_lock h)
    then have "s_mutex c \<noteq> Some Event_loop" using assms(1) by (simp add: client_inv_def)
    with m have n: "s_mutex c = None" by (cases "s_mutex c"; metis cthread.exhaust)
    let ?d = "c\<lparr>s_mutex := Some Event_loop, loop_pc := E_body h\<rparr>"
    have "client_step dl inst c Ev_handler_lock ?d"
      using c_handler_lock [OF E_lock, of "c\<lparr>s_mutex := Some Event_loop\<rparr>"] n by (simp add: lock_mutex_def)
    moreover obtain c' where "client_step dl inst ?d Ev_handler c'" "loop_pc c' = E_idle" "s_mutex c' = None"
        "client_pc c' = client_pc c" "g_shutdown_signal c' = g_shutdown_signal c"
      using body [of ?d h] by auto
    ultimately show ?thesis
      by (intro exI [of _ "[Ev_handler_lock, Ev_handler]"] exI [of _ c']) (auto intro: run_of.intros)
  next
    case (E_body h)
    from body [OF this] obtain c' where "client_step dl inst c Ev_handler c'" "loop_pc c' = E_idle" "s_mutex c' = None"
        "client_pc c' = client_pc c" "g_shutdown_signal c' = g_shutdown_signal c" by blast
    then show ?thesis
      by (intro exI [of _ "[Ev_handler]"] exI [of _ c']) (auto intro: run_of.intros)
  qed
qed

lemma finish_shutdown:
  assumes "client_pc c = C_signal" and "g_shutdown_signal c \<noteq> 0" and "loop_pc c = E_idle" and "s_mutex c = None"
  shows "\<exists>evs c'. run_of (client_step dl inst) c evs c' \<and> client_pc c' = C_done ShutdownRequested \<and>
    set evs \<subseteq> {Ev_signal_test, Ev_dtor_lock, Ev_dtor, Ev_close, Ev_stop}"
proof -
  let ?e = ShutdownRequested
  let ?c1 = "c\<lparr>client_pc := C_dtor_lock ?e\<rparr>"
  let ?c2 = "?c1\<lparr>s_mutex := Some Main_thread, client_pc := C_dtor ?e\<rparr>"
  let ?c3 = "(unlock_mutex (?c2\<lparr>s_instance := None\<rparr>))\<lparr>client_pc := C_close ?e\<rparr>"
  let ?c4 = "(lib Lib_close ?c3)\<lparr>library_alive := False, client_pc := C_stop ?e\<rparr>"
  let ?c5 = "?c4\<lparr>event_loop := False, client_pc := C_done ?e\<rparr>"
  have "client_step dl inst c Ev_signal_test ?c1" using c_signal_test [OF assms(1)] assms(2) by simp
  moreover have "client_step dl inst ?c1 Ev_dtor_lock ?c2"
    using c_dtor_lock [of ?c1 ?e "?c1\<lparr>s_mutex := Some Main_thread\<rparr>"] assms(4) by (simp add: lock_mutex_def)
  moreover have "client_step dl inst ?c2 Ev_dtor ?c3" by (rule c_dtor) simp
  moreover have "client_step dl inst ?c3 Ev_close ?c4" by (rule c_close) simp
  moreover have "client_step dl inst ?c4 Ev_stop ?c5" by (rule c_stop) (simp_all add: assms(3))
  ultimately have "run_of (client_step dl inst) c [Ev_signal_test, Ev_dtor_lock, Ev_dtor, Ev_close, Ev_stop] ?c5"
    by (blast intro: run_of.intros)
  moreover have "client_pc ?c5 = C_done ?e" by simp
  ultimately show ?thesis
    by (intro exI [of _ "[Ev_signal_test, Ev_dtor_lock, Ev_dtor, Ev_close, Ev_stop]"] exI [of _ ?c5] conjI) auto
qed

section \<open>Properties\<close>


text \<open>A state at the top of the loop after SIGTERM, with three calls of the library behind it.\<close>

lemma demo_at_loop:
  "\<exists>c. reachable_from (client_step 1 2) client_init c \<and> client_pc c = C_signal \<and> g_shutdown_signal c = 15 \<and>
     map fst (lib_calls c) = [Lib_register_handlers, Lib_add_objects, Lib_setup]"
proof -
  let ?c1 = "(add_resources (register_handlers (create_instance client_init)))\<lparr>client_pc := C_setup_lock\<rparr>"
  let ?c2 = "?c1\<lparr>s_mutex := Some Main_thread, client_pc := C_setup_state\<rparr>"
  let ?c3 = "(unlock_mutex (set_state State_CalledRegister ?c2))\<lparr>client_pc := C_setup\<rparr>"
  let ?c4 = "(lib Lib_setup ?c3)\<lparr>next_registration := 5 + reregister_period_s, client_pc := C_signal\<rparr>"
  have "client_step 1 2 client_init Ev_create ?c1" by (rule c_create) (simp add: client_init_def)
  moreover have "client_step 1 2 ?c1 Ev_setup_lock ?c2"
    using c_setup_lock [of ?c1 "?c1\<lparr>s_mutex := Some Main_thread\<rparr>" 1 2]
    by (simp add: lock_mutex_def add_resources_def register_handlers_def create_instance_def client_init_def)
  moreover have "client_step 1 2 ?c2 Ev_setup_state ?c3" by (rule c_setup_state) simp
  moreover have "client_step 1 2 ?c3 (Ev_setup True 5) ?c4" using c_setup [of ?c3 1 2 True 5] by simp
  moreover have "client_step 1 2 ?c4 (Ev_signal 15) (mbl_shutdown_handler 15 ?c4)" by (rule c_signal) simp
  ultimately have "reachable_from (client_step 1 2) client_init (mbl_shutdown_handler 15 ?c4)"
    by (meson reach_start reach_step)
  then show ?thesis
    by (intro exI [of _ "mbl_shutdown_handler 15 ?c4"])
      (simp add: mbl_shutdown_handler_def add_resources_def register_handlers_def create_instance_def client_init_def)
qed


text \<open>\<open>run\<close> ends cleanly.  In every reachable state in which \<open>run\<close> has returned, the result is one of three
  errors, \<open>ShutdownRequested\<close> only after a signal; the instance pointer is cleared, the library object
  is deleted, the event loop has stopped and no thread holds the mutex.\<close>

lemma client_run_result:
  assumes "reachable_from (client_step dl inst) client_init c" and "client_pc c = C_done e"
  shows "e \<in> {ConnectUnknownError, DeviceUnregistered, ShutdownRequested} \<and>
    (e = ShutdownRequested \<longrightarrow> g_shutdown_signal c \<noteq> 0) \<and>
    s_instance c = None \<and> \<not> library_alive c \<and> \<not> event_loop c \<and> s_mutex c = None"
proof -
  have inv: "client_inv c" by (rule cloud.reachable_inv [OF assms(1)])
  then have "s_mutex c \<noteq> Some Main_thread" and "s_mutex c \<noteq> Some Event_loop"
    using assms(2) by (auto simp: client_inv_def)
  then have "s_mutex c = None" by (cases "s_mutex c"; metis cthread.exhaust)
  with inv assms(2) show ?thesis by (auto simp: client_inv_def)
qed



text \<open>The same run, without the theorem above, ends with the mutex free.\<close>

lemma client_run_result_example:
  "\<exists>c. reachable_from (client_step 1 2) client_init c \<and> client_pc c = C_done ShutdownRequested \<and> s_mutex c = None \<and>
     \<not> event_loop c"
proof -
  obtain c where c: "reachable_from (client_step 1 2) client_init c" "client_pc c = C_signal" "g_shutdown_signal c = 15"
    using demo_at_loop by blast
  have inv: "client_inv c" by (rule cloud.reachable_inv [OF c(1)])
  obtain evs c1 where d: "run_of (client_step 1 2) c evs c1" "loop_pc c1 = E_idle" "s_mutex c1 = None"
    "client_pc c1 = C_signal" "g_shutdown_signal c1 = 15"
    using drain_event_loop [OF inv, of 1 2] c(2,3) by auto
  obtain evs' c2 where f: "run_of (client_step 1 2) c1 evs' c2" "client_pc c2 = C_done ShutdownRequested"
    using finish_shutdown [of c1 1 2] d by auto
  have "reachable_from (client_step 1 2) client_init c2"
    using run_of_reachable [OF f(1) run_of_reachable [OF d(1) c(1)]] .
  with client_run_result [OF this f(2)] f(2) show ?thesis by blast
qed

text \<open>C35: the registration does not lapse.  If the clock readings of the loop never go back and are at most \<open>d\<close>
  seconds apart, with \<open>d\<close> at most half the lifetime, the updates of the registration are at least
  half a lifetime and less than a lifetime apart, and at every moment the last one is less than half
  a lifetime old when the loop goes to sleep.\<close>

theorem registration_never_lapses:
  assumes "successively (\<lambda>a b. a \<le> b \<and> b - a \<le> d) (t0 # ts)" and "d \<le> reregister_period_s"
  shows "successively (\<lambda>a b. reregister_period_s \<le> b - a \<and> b - a < MBED_CLOUD_CLIENT_LIFETIME)
      (t0 # registrations (t0 + reregister_period_s) ts) \<and>
    last (t0 # ts) - last (t0 # registrations (t0 + reregister_period_s) ts) < reregister_period_s"
proof -
  have p: "0 < reregister_period_s" "reregister_period_s + d \<le> MBED_CLOUD_CLIENT_LIFETIME"
    using assms(2) by (simp_all add: reregister_period_s_def MBED_CLOUD_CLIENT_LIFETIME_def)
  have m: "successively (\<lambda>a b. reregister_period_s \<le> b - a \<and> b - a < reregister_period_s + d) xs \<Longrightarrow>
      successively (\<lambda>a b. reregister_period_s \<le> b - a \<and> b - a < MBED_CLOUD_CLIENT_LIFETIME) xs" for xs :: "int list"
    by (erule successively_mono) (use p(2) in auto)
  show ?thesis using registrations_gaps [OF assms(1), of t0] p(1) m by auto
qed

theorem registration_never_lapses_witness:
  "registrations (5 + reregister_period_s) [105, 304, 305, 500, 700] = [305, 700]"
  using registration_never_lapses [of 300 5 "[105, 304, 305, 500, 700]"]
  by (simp add: reregister_period_s_def MBED_CLOUD_CLIENT_LIFETIME_def reregister_def)

text \<open>C36: the percentage is right.  For a total that is not 0 and a progress up to it, the 64-bit product does not
  wrap and the cut to 32 bits loses nothing: the number printed is the rounded-down percentage, and
  it is 100 exactly at the end.\<close>

theorem download_percent_correct:
  assumes "progress \<le> total_bytes" and "total_bytes \<noteq> 0"
  shows "\<exists>p. download_percent progress total_bytes = Some p \<and> unat p = 100 * unat progress div unat total_bytes \<and>
    unat p \<le> 100 \<and> (unat p = 100 \<longleftrightarrow> progress = total_bytes)"
proof -
  have t: "0 < unat total_bytes" and le: "unat progress \<le> unat total_bytes"
    using assms by (simp_all add: unat_gt_0 word_le_nat_alt)
  have b: "unat progress * 100 div unat total_bytes \<le> 100"
    using le t div_le_mono [of "unat progress * 100" "unat total_bytes * 100" "unat total_bytes"] by simp
  have "unat progress * 100 div unat total_bytes = 100 \<longleftrightarrow> unat progress = unat total_bytes"
  proof
    assume "unat progress * 100 div unat total_bytes = 100"
    then have "100 * unat total_bytes \<le> unat progress * 100"
      using div_times_less_eq_dividend [of "unat progress * 100" "unat total_bytes"] by (simp add: mult.commute)
    with le show "unat progress = unat total_bytes" by simp
  qed (use t in simp)
  with b assms(2) show ?thesis
    by (intro exI [of _ "ucast ((ucast progress * 100 :: 64 word) div ucast total_bytes)"])
      (simp add: download_percent_def percent_unat mult.commute word_unat_eq_iff)
qed

theorem download_percent_correct_witness:
  "\<exists>p. download_percent 0xFFFFFFFE 0xFFFFFFFF = Some p \<and> unat p = 99"
  using download_percent_correct [of "0xFFFFFFFE" "0xFFFFFFFF"] by auto

end
