(* ===== verification/Cloud_Main.thy ===== *)
theory Cloud_Main imports Mbl_Error Posix Strtol begin

text \<open>
  The rest of \<open>mbl-cloud-client/source\<close> and its \<open>main.cpp\<close>: the log file (\<open>log.cpp\<close>), the signal handlers
  (\<open>signals.cpp\<close>), the initialisation of the library (\<open>application_init.cpp\<close>), the reboot callback
  (\<open>callbacks.cpp\<close>) and \<open>main\<close>.
\<close>

section \<open>Log\<close>

text \<open>What \<open>localtime_r\<close> fills in, and the offset of the time zone in minutes.\<close>

record tm =
  tm_year :: nat \<comment> \<open>the year itself\<close>
  tm_mon :: nat \<comment> \<open>from 1\<close>
  tm_mday :: nat
  tm_hour :: nat
  tm_min :: nat
  tm_sec :: nat
  tm_east :: bool
  tm_offset :: nat

definition two_digits :: "nat \<Rightarrow> string" where
  "two_digits n = (if n < 10 then ''0'' @ decimal n else decimal n)"

text \<open>The output of the format \<open>%FT%T%z\<close> with a blank.\<close>

definition time_text :: "tm \<Rightarrow> string" where
  "time_text t =
     decimal (tm_year t) @ ''-'' @ two_digits (tm_mon t) @ ''-'' @ two_digits (tm_mday t) @ ''T'' @
     two_digits (tm_hour t) @ '':'' @ two_digits (tm_min t) @ '':'' @ two_digits (tm_sec t) @
     (if tm_east t then ''+'' else ''-'') @ two_digits (tm_offset t div 60) @ two_digits (tm_offset t mod 60) @ '' ''"

text \<open>
  \<open>strftime\<close>: the length when the text and its NUL fit, otherwise 0 with an indeterminate buffer
  (the parameter \<open>junk\<close>).
\<close>

definition strftime :: "char list \<Rightarrow> nat \<Rightarrow> string \<Rightarrow> char list \<Rightarrow> nat \<times> char list" where
  "strftime buffer n txt junk =
     (if length txt < n then (length txt, txt @ NUL # drop (length txt + 1) buffer) else (0, junk))"

definition time_prefix_buffer_size :: nat where "time_prefix_buffer_size = 26"

text \<open>None is a failed assertion.\<close>

definition strncpy_with_nul :: "char list \<Rightarrow> string \<Rightarrow> nat \<Rightarrow> char list option" where
  "strncpy_with_nul dest src n =
     (if n < 1 then None else Some ((strncpy dest src (n - 1))[n - 1 := NUL]))"

definition make_time_prefix ::
    "char list \<Rightarrow> nat \<Rightarrow> bool \<Rightarrow> tm option \<Rightarrow> char list \<Rightarrow> char list option" where
  "make_time_prefix buffer buffer_size gettimeofday_ok time_info junk =
     (if buffer_size < time_prefix_buffer_size then None
      else
        let fail_str = ''TIME UNAVAILABLE ''
        in if \<not> gettimeofday_ok then strncpy_with_nul buffer fail_str buffer_size
           else case time_info of
             None \<Rightarrow> strncpy_with_nul buffer fail_str buffer_size
           | Some t \<Rightarrow>
               (case strftime buffer buffer_size (time_text t) junk of
                  (n, buffer) \<Rightarrow> if n = 0 then strncpy_with_nul buffer fail_str buffer_size else Some buffer))"

text \<open>The trace library's callback, over the buffer of the calling thread.\<close>

definition mbl_trace_prefix_handler :: "char list \<Rightarrow> bool \<Rightarrow> tm option \<Rightarrow> char list \<Rightarrow> char list option" where
  "mbl_trace_prefix_handler buffer gettimeofday_ok time_info junk =
     make_time_prefix buffer (length buffer) gettimeofday_ok time_info junk"

text \<open>
  The log: which stream is open, by number, how many were opened and closed, and the lines written
  to each stream.
\<close>

record log_state =
  g_log_stream :: "nat option"
  g_log_need_reopen :: bool
  opened :: nat
  closed :: nat
  log_lines :: "nat \<Rightarrow> string list"

definition log_fopen :: "bool \<Rightarrow> log_state \<Rightarrow> log_state" where
  "log_fopen ok s =
     (if ok then s\<lparr>g_log_stream := Some (opened s), opened := opened s + 1\<rparr> else s\<lparr>g_log_stream := None\<rparr>)"

definition log_fclose :: "log_state \<Rightarrow> log_state" where
  "log_fclose s = s\<lparr>closed := closed s + 1\<rparr>"

definition log_write :: "string \<Rightarrow> log_state \<Rightarrow> log_state" where
  "log_write line s =
     (case g_log_stream s of
        None \<Rightarrow> s
      | Some f \<Rightarrow> s\<lparr>log_lines := (log_lines s)(f := log_lines s f @ [line])\<rparr>)"

definition mbl_log_reopen_signal_handler :: "log_state \<Rightarrow> log_state" where
  "mbl_log_reopen_signal_handler s = s\<lparr>g_log_need_reopen := True\<rparr>"

text \<open>\<open>signal_in_between\<close> says whether the signal arrives after \<open>fopen\<close> and before the flag is reset.\<close>

definition mbl_trace_print_handler :: "bool \<Rightarrow> bool \<Rightarrow> string \<Rightarrow> string \<Rightarrow> log_state \<Rightarrow> log_state" where
  "mbl_trace_print_handler fopen_ok signal_in_between prefix_str str s =
     (let s = (if g_log_stream s = None \<or> g_log_need_reopen s
        then
          let s = (if g_log_stream s \<noteq> None then log_fclose s else s);
              s = log_fopen fopen_ok s;
              s = (if signal_in_between then mbl_log_reopen_signal_handler s else s);
              s = s\<lparr>g_log_need_reopen := False\<rparr>
          in log_write (prefix_str @ ''[INFO][mbl ]: Log file reopened'') s
        else s)
      in log_write str s)"

text \<open>None is a failed assertion.\<close>

definition log_init :: "bool \<Rightarrow> bool \<Rightarrow> log_state \<Rightarrow> (mbl_error \<times> log_state) option" where
  "log_init fopen_ok mutex_ok s =
     (if g_log_stream s \<noteq> None then None
      else
        let s = log_fopen fopen_ok s
        in if g_log_stream s = None then Some (LogInitFopen, s)
           else if \<not> mutex_ok then Some (LogInitMutexCreate, s)
           else Some (NoError, s))"

section \<open>Signals\<close>

datatype signal_name = SIGTERM | SIGINT | SIGHUP

datatype signal_action = Default_action | Shutdown_handler | Log_reopen_handler

type_synonym dispositions = "signal_name \<Rightarrow> signal_action"

definition signals_init :: "(signal_name \<Rightarrow> bool) \<Rightarrow> dispositions \<Rightarrow> mbl_error \<times> dispositions" where
  "signals_init sigaction_ok d =
     (if \<not> sigaction_ok SIGTERM then (SignalsInitSigaction, d)
      else let d = d(SIGTERM := Shutdown_handler)
        in if \<not> sigaction_ok SIGINT then (SignalsInitSigaction, d)
           else let d = d(SIGINT := Shutdown_handler)
             in if \<not> sigaction_ok SIGHUP then (SignalsInitSigaction, d)
                else (NoError, d(SIGHUP := Log_reopen_handler)))"

section \<open>Initialisation of the library\<close>

datatype fcc_status = FCC_STATUS_SUCCESS | FCC_STATUS_KCM_FILE_EXIST_ERROR | FCC_other int

text \<open>The result is a \<open>bool\<close> of which true means failure.\<close>

definition application_init_fcc :: "bool \<Rightarrow> fcc_status \<Rightarrow> fcc_status \<Rightarrow> fcc_status \<Rightarrow> bool" where
  "application_init_fcc developer_mode fcc_init fcc_developer_flow fcc_verify =
     (if fcc_init \<noteq> FCC_STATUS_SUCCESS then True
      else if developer_mode \<and> fcc_developer_flow \<noteq> FCC_STATUS_KCM_FILE_EXIST_ERROR \<and>
        fcc_developer_flow \<noteq> FCC_STATUS_SUCCESS then True
      else if fcc_verify \<noteq> FCC_STATUS_SUCCESS then True
      else False)"

definition application_init :: "bool \<Rightarrow> fcc_status \<Rightarrow> fcc_status \<Rightarrow> fcc_status \<Rightarrow> bool" where
  "application_init developer_mode fcc_init fcc_developer_flow fcc_verify =
     (if application_init_fcc developer_mode fcc_init fcc_developer_flow fcc_verify \<noteq> False then False else True)"

section \<open>Reboot callback\<close>

text \<open>The result says whether the system is rebooted.\<close>

definition pal_plat_osApplicationReboot :: "world \<Rightarrow> bool \<times> world" where
  "pal_plat_osApplicationReboot w =
     (case sys_open False ''/tmp/do_not_reboot'' w of
        (Inr fd, w) \<Rightarrow> (case sys_close fd w of (_, w) \<Rightarrow> (False, w))
      | (Inl e, w) \<Rightarrow> (True, w))"

section \<open>Main\<close>

text \<open>What each step of \<open>main\<close> meets; the last field is the result of \<open>MblCloudClient::run\<close>.\<close>

record startup =
  daemon_ok :: bool
  fopen_ok :: bool
  trace_mutex_ok :: bool
  sigaction_ok :: "signal_name \<Rightarrow> bool"
  developer_mode :: bool
  fcc_init_status :: fcc_status
  fcc_developer_status :: fcc_status
  fcc_verify_status :: fcc_status
  run_result :: mbl_error

definition cloud_client_main ::
    "startup \<Rightarrow> log_state \<Rightarrow> dispositions \<Rightarrow> (int \<times> log_state \<times> dispositions) option" where
  "cloud_client_main e s d =
     (if \<not> daemon_ok e then Some (1, s, d)
      else case log_init (fopen_ok e) (trace_mutex_ok e) s of
        None \<Rightarrow> None
      | Some (log_err, s) \<Rightarrow>
          if log_err \<noteq> NoError then Some (1, s, d)
          else case signals_init (sigaction_ok e) d of
            (sig_err, d) \<Rightarrow>
              if sig_err \<noteq> NoError then Some (1, s, d)
              else if \<not> application_init (developer_mode e) (fcc_init_status e) (fcc_developer_status e) (fcc_verify_status e)
              then Some (1, s, d)
              else Some (if run_result e = ShutdownRequested then 0 else 1, s, d))"

section \<open>Facts\<close>

text \<open>The fields a calendar date can have.\<close>

definition calendar :: "tm \<Rightarrow> bool" where
  "calendar t \<longleftrightarrow> tm_year t \<le> 9999 \<and> tm_mon t \<le> 12 \<and> tm_mday t \<le> 31 \<and> tm_hour t \<le> 23 \<and> tm_min t \<le> 59 \<and>
     tm_sec t \<le> 60 \<and> tm_offset t < 100 * 60"

lemma length_decimal_le: "n < 10 ^ k \<Longrightarrow> 0 < k \<Longrightarrow> length (decimal n) \<le> k"
proof (induction n arbitrary: k rule: decimal.induct)
  case (1 n)
  show ?case
  proof (cases "n < 10")
    case False
    then obtain j where k: "k = Suc j" "0 < j"
      using 1(2,3) by (cases k; cases "k - 1") auto
    have "n div 10 < 10 ^ j" using 1(2) k by (simp add: less_mult_imp_div_less mult.commute)
    with 1(1) False k show ?thesis by (subst decimal.simps) simp
  qed (use 1(3) in \<open>subst decimal.simps, simp\<close>)
qed

lemma is_cstr_decimal: "is_cstr (decimal n)"
proof (induction n rule: decimal.induct)
  case (1 n)
  have "digit_char d \<noteq> NUL" if "d < 10" for d
  proof
    assume "digit_char d = NUL"
    then have "(of_char (digit_char d) :: nat) = of_char NUL" by simp
    with that show False by (simp add: of_char_digit_char)
  qed
  with 1 show ?case by (subst decimal.simps) (auto simp: is_cstr_def)
qed

lemma two_digits_facts: "length (two_digits n) \<le> (if n < 100 then 2 else 1 + length (decimal n))" "is_cstr (two_digits n)"
  using length_decimal_le [of n 1] length_decimal_le [of n 2] is_cstr_decimal [of n]
  by (auto simp: two_digits_def is_cstr_def)

lemma length_time_text:
  assumes "calendar t"
  shows "length (time_text t) \<le> 25"
proof -
  have "length (decimal (tm_year t)) \<le> 4"
    using assms length_decimal_le [of "tm_year t" 4] by (simp add: calendar_def)
  moreover have d: "length (two_digits n) \<le> 2" if "n < 100" for n
    using two_digits_facts(1) [of n] that by simp
  have "tm_offset t div 60 < 100" using assms by (simp add: calendar_def less_mult_imp_div_less)
  then have "length (two_digits (tm_offset t div 60)) \<le> 2" "length (two_digits (tm_offset t mod 60)) \<le> 2"
    using d by (auto intro: less_trans [OF mod_less_divisor])
  moreover have "length (two_digits (tm_mon t)) \<le> 2" "length (two_digits (tm_mday t)) \<le> 2"
    "length (two_digits (tm_hour t)) \<le> 2" "length (two_digits (tm_min t)) \<le> 2" "length (two_digits (tm_sec t)) \<le> 2"
    using d assms by (auto simp: calendar_def)
  ultimately show ?thesis
    by (simp add: time_text_def)
qed

lemma is_cstr_time_text: "is_cstr (time_text t)"
  using is_cstr_decimal two_digits_facts(2) by (simp add: time_text_def) (simp add: is_cstr_def)

lemma strncpy_with_nul_fits:
  assumes "length dest = n" and "length src < n" and "is_cstr src"
  shows "\<exists>b. strncpy_with_nul dest src n = Some b \<and> length b = n \<and> cstr b = src"
proof -
  let ?r = "replicate (n - 1 - length src) NUL @ drop (n - 1) dest"
  have r: "length ?r = n - length src" using assms(1,2) by simp
  have b: "(strncpy dest src (n - 1))[n - 1 := NUL] = src @ ?r[n - 1 - length src := NUL]"
    using assms(2) by (auto simp: strncpy_def list_update_append)
  obtain q where q: "?r[n - 1 - length src := NUL] = NUL # q"
    using assms(1,2) by (cases "n - 1 - length src"; cases "drop (n - 1) dest") auto
  have "length (src @ NUL # q) = n" using r assms(2) arg_cong [OF q, of length] by simp
  with b q assms(2,3) show ?thesis by (auto simp: strncpy_with_nul_def)
qed

lemma strftime_fits:
  assumes "length buffer = n" and "length junk = n" and "is_cstr txt" and "strftime buffer n txt junk = (k, b)" and "txt \<noteq> []"
  shows "length b = n \<and> (k \<noteq> 0 \<longrightarrow> cstr b = txt) \<and> (k = 0 \<longleftrightarrow> n \<le> length txt)"
  using assms by (auto simp: strftime_def split: if_splits)

lemma time_text_nonempty: "time_text t \<noteq> []"
  by (simp add: time_text_def)

text \<open>At most one log stream is open, whatever the calls and the signals.\<close>

definition log_inv :: "log_state \<Rightarrow> bool" where
  "log_inv s \<longleftrightarrow> opened s = closed s + (if g_log_stream s = None then 0 else 1)"

lemma log_write_frame [simp]:
  "opened (log_write l s) = opened s" "closed (log_write l s) = closed s" "g_log_stream (log_write l s) = g_log_stream s"
  "g_log_need_reopen (log_write l s) = g_log_need_reopen s"
  by (auto simp: log_write_def split: option.splits)

lemma log_inv_print: "log_inv s \<Longrightarrow> log_inv (mbl_trace_print_handler ok between p str s)"
  by (auto simp: log_inv_def mbl_trace_print_handler_def log_fopen_def log_fclose_def mbl_log_reopen_signal_handler_def Let_def)

text \<open>A request to reopen that arrives while the file is being reopened is forgotten.\<close>

lemma log_reopen_request_lost:
  assumes "g_log_need_reopen s"
  shows "\<not> g_log_need_reopen (mbl_trace_print_handler ok True p str s)"
  using assms by (simp add: mbl_trace_print_handler_def Let_def)

section \<open>Properties\<close>

text \<open>C37: the time prefix fits its buffer.  With buffers of 26 characters the prefix is always a terminated string
  that is either the replacement text or the time, and it is the time for every date up to the year
  9999; 25 characters and the NUL are enough.\<close>

theorem make_time_prefix_fits:
  assumes "length buffer = time_prefix_buffer_size" and "length junk = time_prefix_buffer_size"
  shows "\<exists>b. make_time_prefix buffer time_prefix_buffer_size ok ti junk = Some b \<and>
    length b = time_prefix_buffer_size \<and>
    cstr b = (case ti of Some t \<Rightarrow> if ok \<and> length (time_text t) \<le> 25 then time_text t else ''TIME UNAVAILABLE ''
              | None \<Rightarrow> ''TIME UNAVAILABLE '') \<and>
    (\<forall>t. calendar t \<longrightarrow> length (time_text t) \<le> 25)"
proof -
  have fb: "\<exists>b. strncpy_with_nul b0 ''TIME UNAVAILABLE '' time_prefix_buffer_size = Some b \<and>
      length b = time_prefix_buffer_size \<and> cstr b = ''TIME UNAVAILABLE ''" if "length b0 = time_prefix_buffer_size" for b0
    using that by (intro strncpy_with_nul_fits) (auto simp: time_prefix_buffer_size_def is_cstr_def)
  have "\<exists>b. make_time_prefix buffer time_prefix_buffer_size ok ti junk = Some b \<and> length b = time_prefix_buffer_size \<and>
    cstr b = (case ti of Some t \<Rightarrow> if ok \<and> length (time_text t) \<le> 25 then time_text t else ''TIME UNAVAILABLE ''
              | None \<Rightarrow> ''TIME UNAVAILABLE '')"
  proof (cases "ok \<and> ti \<noteq> None")
    case True
    then obtain t where t: "ok" "ti = Some t" by auto
    obtain k b where k: "strftime buffer time_prefix_buffer_size (time_text t) junk = (k, b)" by force
    note f = strftime_fits [OF assms is_cstr_time_text k time_text_nonempty]
    show ?thesis
      using t k f fb [of b] by (cases "k = 0") (auto simp: make_time_prefix_def time_prefix_buffer_size_def)
  next
    case False
    with fb [OF assms(1)] show ?thesis
      by (cases ok) (auto simp: make_time_prefix_def Let_def split: option.splits)
  qed
  with length_time_text show ?thesis by blast
qed

definition demo_tm :: tm where
  "demo_tm = \<lparr>tm_year = 2019, tm_mon = 7, tm_mday = 31, tm_hour = 9, tm_min = 5, tm_sec = 60, tm_east = True, tm_offset = 90\<rparr>"

theorem make_time_prefix_fits_witness:
  "\<exists>b. make_time_prefix (replicate 26 CHR ''x'') 26 True (Some demo_tm) (replicate 26 CHR ''y'') = Some b \<and>
     cstr b = ''2019-07-31T09:05:60+0130 ''"
proof -
  have "time_text demo_tm = ''2019-07-31T09:05:60+0130 ''" by code_simp
  then show ?thesis
    using make_time_prefix_fits [of "replicate 26 CHR ''x''" "replicate 26 CHR ''y''" True "Some demo_tm"]
    by (auto simp: time_prefix_buffer_size_def)
qed

text \<open>The exit code of the client.  Started without a log stream, as it is, \<open>main\<close> always
  returns, with 0 exactly when every initialisation succeeded and \<open>run\<close> ended with
  \<open>ShutdownRequested\<close>, otherwise 1; with 0 the handlers of all three signals are installed.\<close>

lemma cloud_client_main_exit_code:
  assumes "g_log_stream s = None"
  shows "\<exists>code s' d'. cloud_client_main e s d = Some (code, s', d') \<and>
    (code = 0 \<longleftrightarrow> daemon_ok e \<and> fopen_ok e \<and> trace_mutex_ok e \<and> sigaction_ok e = (\<lambda>_. True) \<and>
      fcc_init_status e = FCC_STATUS_SUCCESS \<and> fcc_verify_status e = FCC_STATUS_SUCCESS \<and>
      (developer_mode e \<longrightarrow> fcc_developer_status e \<in> {FCC_STATUS_SUCCESS, FCC_STATUS_KCM_FILE_EXIST_ERROR}) \<and>
      run_result e = ShutdownRequested) \<and>
    (code \<noteq> 0 \<longrightarrow> code = 1) \<and>
    (code = 0 \<longrightarrow> d' = (\<lambda>_. Default_action)(SIGTERM := Shutdown_handler, SIGINT := Shutdown_handler, SIGHUP := Log_reopen_handler))"
proof -
  have all: "sigaction_ok e = (\<lambda>_. True) \<longleftrightarrow> sigaction_ok e SIGTERM \<and> sigaction_ok e SIGINT \<and> sigaction_ok e SIGHUP"
    by (auto simp: fun_eq_iff) (metis signal_name.exhaust)
  have d: "d(SIGTERM := Shutdown_handler, SIGINT := Shutdown_handler, SIGHUP := Log_reopen_handler) =
      (\<lambda>_. Default_action)(SIGTERM := Shutdown_handler, SIGINT := Shutdown_handler, SIGHUP := Log_reopen_handler)"
    by (rule ext, rename_tac n, case_tac n) auto
  show ?thesis
    using assms unfolding all cloud_client_main_def
    by (simp add: log_init_def log_fopen_def signals_init_def application_init_def application_init_fcc_def Let_def d) blast
qed

lemma cloud_client_main_exit_code_example:
  "\<exists>s' d'. cloud_client_main \<lparr>daemon_ok = True, fopen_ok = True, trace_mutex_ok = True, sigaction_ok = (\<lambda>_. True),
       developer_mode = True, fcc_init_status = FCC_STATUS_SUCCESS, fcc_developer_status = FCC_STATUS_KCM_FILE_EXIST_ERROR,
       fcc_verify_status = FCC_STATUS_SUCCESS, run_result = ShutdownRequested\<rparr>
     \<lparr>g_log_stream = None, g_log_need_reopen = False, opened = 0, closed = 0, log_lines = (\<lambda>_. [])\<rparr> (\<lambda>_. Default_action) = Some (0, s', d') \<and>
     d' SIGHUP = Log_reopen_handler"
proof -
  let ?e = "\<lparr>daemon_ok = True, fopen_ok = True, trace_mutex_ok = True, sigaction_ok = (\<lambda>_. True),
       developer_mode = True, fcc_init_status = FCC_STATUS_SUCCESS, fcc_developer_status = FCC_STATUS_KCM_FILE_EXIST_ERROR,
       fcc_verify_status = FCC_STATUS_SUCCESS, run_result = ShutdownRequested\<rparr>"
  let ?s = "\<lparr>g_log_stream = None, g_log_need_reopen = False, opened = 0, closed = 0, log_lines = (\<lambda>_. [])\<rparr>"
  have "g_log_stream ?s = None" by simp
  from cloud_client_main_exit_code [OF this, of ?e "\<lambda>_. Default_action"] show ?thesis by auto
qed

end
