(* ===== verification/Provisioning.thy ===== *)
theory Provisioning imports Prelude begin

text \<open>
  \<open>mbl-cloud-client/cloud-provisioning\<close>: the program that reads the developer credentials from binary files and
  puts them into the key store of the factory configurator client.  The key store (KCM) and the
  configurator (FCC) are libraries, so their functions and constants are parameters.
\<close>

section \<open>Parameters\<close>

datatype kcm_item_type = KCM_CERTIFICATE_ITEM | KCM_CONFIG_ITEM | KCM_PRIVATE_KEY_ITEM

datatype kcm_status = KCM_STATUS_SUCCESS | KCM_STATUS_ITEM_NOT_FOUND | KCM_other int

datatype fcc_result = FCC_SUCCESS | FCC_error int

text \<open>The names of the parameters of the configurator, which are its constants.\<close>

datatype fcc_constant =
    g_fcc_update_authentication_certificate_name | g_fcc_vendor_id_name | g_fcc_class_id_name |
    g_fcc_use_bootstrap_parameter_name | g_fcc_endpoint_parameter_name |
    g_fcc_bootstrap_device_certificate_name | g_fcc_bootstrap_server_ca_certificate_name |
    g_fcc_bootstrap_device_private_key_name | g_fcc_bootstrap_server_uri_name |
    g_fcc_manufacturer_parameter_name | g_fcc_model_number_parameter_name |
    g_fcc_device_serial_number_parameter_name | g_fcc_device_type_parameter_name |
    g_fcc_hardware_version_parameter_name | g_fcc_memory_size_parameter_name

text \<open>The key store: its state is any type, its functions take the name and the type of an item.\<close>

record 's kcm =
  kcm_item_delete :: "string \<Rightarrow> kcm_item_type \<Rightarrow> 's \<Rightarrow> kcm_status \<times> 's"
  kcm_item_store :: "string \<Rightarrow> kcm_item_type \<Rightarrow> string \<Rightarrow> 's \<Rightarrow> kcm_status \<times> 's"
  kcm_lookup :: "'s \<Rightarrow> string \<Rightarrow> kcm_item_type \<Rightarrow> string option"

section \<open>Reading the files\<close>

datatype ProvisionedStatusCode = success | failure

record KCMItem =
  item_name :: string
  item_type :: kcm_item_type
  data_blob :: string

text \<open>What opening and reading a file meets.\<close>

datatype file_state =
    Missing \<comment> \<open>or a file that cannot be opened\<close>
  | No_position \<comment> \<open>the stream is not good after \<open>tellg\<close> or \<open>seekg\<close>\<close>
  | Short nat \<comment> \<open>of this size, but reading fails\<close>
  | Contents string

type_synonym disk = "string \<Rightarrow> file_state"

text \<open>
  None is undefined behaviour: the address of the first element of a vector without elements, for
  an empty file.
\<close>

definition binary_file_to_bytes :: "string \<Rightarrow> disk \<Rightarrow> string \<Rightarrow> (string \<times> ProvisionedStatusCode) option" where
  "binary_file_to_bytes provisioning_cert_path disk file_name =
     (let path = provisioning_cert_path;
          path = (if path \<noteq> [] \<and> last path \<noteq> CHR ''/'' then path @ ''/'' else path);
          path = path @ file_name
      in case disk path of
           Missing \<Rightarrow> Some ([], failure)
         | No_position \<Rightarrow> Some ([], failure)
         | Short size' \<Rightarrow> if size' = 0 then None else Some (replicate size' CHR 0x00, failure)
         | Contents bytes \<Rightarrow> if bytes = [] then None else Some (bytes, success))"

text \<open>Reading several files in turn.\<close>

fun read_files :: "string \<Rightarrow> disk \<Rightarrow> string list \<Rightarrow> (string \<times> ProvisionedStatusCode) list option" where
  "read_files dir disk [] = Some []"
| "read_files dir disk (f # fs) =
     (case binary_file_to_bytes dir disk f of
        None \<Rightarrow> None
      | Some r \<Rightarrow> (case read_files dir disk fs of None \<Rightarrow> None | Some rs \<Rightarrow> Some (r # rs)))"

definition update_files :: "(string \<times> fcc_constant \<times> kcm_item_type) list" where
  "update_files =
     [(''arm_uc_default_certificate.bin'', g_fcc_update_authentication_certificate_name, KCM_CERTIFICATE_ITEM),
      (''arm_uc_vendor_id.bin'', g_fcc_vendor_id_name, KCM_CONFIG_ITEM),
      (''arm_uc_class_id.bin'', g_fcc_class_id_name, KCM_CONFIG_ITEM)]"

definition credential_files :: "(string \<times> fcc_constant \<times> kcm_item_type) list" where
  "credential_files =
     [(''MBED_CLOUD_DEV_BOOTSTRAP_ENDPOINT_NAME.bin'', g_fcc_endpoint_parameter_name, KCM_CONFIG_ITEM),
      (''MBED_CLOUD_DEV_BOOTSTRAP_DEVICE_CERTIFICATE.bin'', g_fcc_bootstrap_device_certificate_name, KCM_CERTIFICATE_ITEM),
      (''MBED_CLOUD_DEV_BOOTSTRAP_SERVER_ROOT_CA_CERTIFICATE.bin'', g_fcc_bootstrap_server_ca_certificate_name, KCM_CERTIFICATE_ITEM),
      (''MBED_CLOUD_DEV_BOOTSTRAP_DEVICE_PRIVATE_KEY.bin'', g_fcc_bootstrap_device_private_key_name, KCM_PRIVATE_KEY_ITEM),
      (''MBED_CLOUD_DEV_BOOTSTRAP_SERVER_URI.bin'', g_fcc_bootstrap_server_uri_name, KCM_CONFIG_ITEM),
      (''MBED_CLOUD_DEV_MANUFACTURER.bin'', g_fcc_manufacturer_parameter_name, KCM_CONFIG_ITEM),
      (''MBED_CLOUD_DEV_MODEL_NUMBER.bin'', g_fcc_model_number_parameter_name, KCM_CONFIG_ITEM),
      (''MBED_CLOUD_DEV_SERIAL_NUMBER.bin'', g_fcc_device_serial_number_parameter_name, KCM_CONFIG_ITEM),
      (''MBED_CLOUD_DEV_DEVICE_TYPE.bin'', g_fcc_device_type_parameter_name, KCM_CONFIG_ITEM),
      (''MBED_CLOUD_DEV_HARDWARE_VERSION.bin'', g_fcc_hardware_version_parameter_name, KCM_CONFIG_ITEM),
      (''MBED_CLOUD_DEV_MEMORY_TOTAL_KB.bin'', g_fcc_memory_size_parameter_name, KCM_CONFIG_ITEM)]"

text \<open>The items of a table of files with their bytes, named by the constants.\<close>

definition items_of ::
    "(fcc_constant \<Rightarrow> string) \<Rightarrow> (string \<times> fcc_constant \<times> kcm_item_type) list \<Rightarrow> string list \<Rightarrow> KCMItem list" where
  "items_of names table blobs =
     map (\<lambda>((_, c, t), b). \<lparr>item_name = names c, item_type = t, data_blob = b\<rparr>) (zip table blobs)"

definition load_developer_update_certificate ::
    "(fcc_constant \<Rightarrow> string) \<Rightarrow> string \<Rightarrow> disk \<Rightarrow> (KCMItem list \<times> ProvisionedStatusCode) option" where
  "load_developer_update_certificate names dir disk =
     (case read_files dir disk (map fst update_files) of
        None \<Rightarrow> None
      | Some pairs \<Rightarrow>
          if \<not> list_all (\<lambda>p. snd p = success) pairs then Some ([], failure)
          else Some (items_of names update_files (map fst pairs), success))"

text \<open>The bytes of the number 1 in the byte order of the device.\<close>

definition bootstrap_mode_flag :: "bool \<Rightarrow> string" where
  "bootstrap_mode_flag little_endian =
     (if little_endian then [CHR 0x01, CHR 0x00, CHR 0x00, CHR 0x00] else [CHR 0x00, CHR 0x00, CHR 0x00, CHR 0x01])"

definition load_developer_cloud_credentials ::
    "(fcc_constant \<Rightarrow> string) \<Rightarrow> bool \<Rightarrow> string \<Rightarrow> disk \<Rightarrow> (KCMItem list \<times> ProvisionedStatusCode) option" where
  "load_developer_cloud_credentials names little_endian dir disk =
     (case read_files dir disk (map fst credential_files) of
        None \<Rightarrow> None
      | Some pairs \<Rightarrow>
          if \<not> list_all (\<lambda>p. snd p = success) pairs then Some ([], failure)
          else Some
            (\<lparr>item_name = names g_fcc_use_bootstrap_parameter_name, item_type = KCM_CONFIG_ITEM,
               data_blob = bootstrap_mode_flag little_endian\<rparr> #
             items_of names credential_files (map fst pairs), success))"

section \<open>The provisioner\<close>

definition provisioner_init :: "fcc_result \<Rightarrow> ProvisionedStatusCode" where
  "provisioner_init fcc_status = (if fcc_status \<noteq> FCC_SUCCESS then failure else success)"

text \<open>The loop over the items ends at the first one that cannot be deleted or stored.\<close>

fun provisioner_store :: "'s kcm \<Rightarrow> KCMItem list \<Rightarrow> 's \<Rightarrow> ProvisionedStatusCode \<times> 's" where
  "provisioner_store k [] s = (success, s)"
| "provisioner_store k (item # items) s =
     (case kcm_item_delete k (item_name item) (item_type item) s of
        (kcm_delete_status, s) \<Rightarrow>
          if kcm_delete_status \<noteq> KCM_STATUS_SUCCESS \<and> kcm_delete_status \<noteq> KCM_STATUS_ITEM_NOT_FOUND
          then (failure, s)
          else (case kcm_item_store k (item_name item) (item_type item) (data_blob item) s of
            (kcm_store_status, s) \<Rightarrow>
              if kcm_store_status \<noteq> KCM_STATUS_SUCCESS then (failure, s)
              else provisioner_store k items s))"

definition get_provisioned_status :: "fcc_result \<Rightarrow> ProvisionedStatusCode" where
  "get_provisioned_status fcc_verify = (if fcc_verify \<noteq> FCC_SUCCESS then failure else success)"

section \<open>The program\<close>

datatype ExitCode = exit_success | exit_failure | exit_incorrect_args

text \<open>Where the libraries and the files come from, for one run.\<close>

record 's environment =
  env_kcm :: "'s kcm"
  env_names :: "fcc_constant \<Rightarrow> string"
  env_little_endian :: bool
  env_dir :: string
  env_disk :: disk
  env_fcc_init :: fcc_result
  env_fcc_verify :: fcc_result
  env_fcc_finalize :: "'s \<Rightarrow> fcc_result \<times> 's"

text \<open>
  The destructor of \<open>PelionProvisioner\<close>: it also finalises the key store, and an error is only printed.  Both commands have
  a provisioner on the stack, so it runs at each of their ends, also after an initialisation that failed.
\<close>

definition destroy_PelionProvisioner :: "'s environment \<Rightarrow> 's \<Rightarrow> 's" where
  "destroy_PelionProvisioner e s = snd (env_fcc_finalize e s)"

definition at_exit :: "('s \<Rightarrow> 's) \<Rightarrow> (ExitCode \<times> 's) option \<Rightarrow> (ExitCode \<times> 's) option" where
  "at_exit destroy r = map_option (\<lambda>(code, s). (code, destroy s)) r"

definition handle_store_command :: "'s environment \<Rightarrow> 's \<Rightarrow> (ExitCode \<times> 's) option" where
  "handle_store_command e s = at_exit (destroy_PelionProvisioner e)
     (if provisioner_init (env_fcc_init e) \<noteq> success then Some (exit_failure, s)
      else case load_developer_cloud_credentials (env_names e) (env_little_endian e) (env_dir e) (env_disk e) of
        None \<Rightarrow> None
      | Some (dev_items, dev_status) \<Rightarrow>
          (case load_developer_update_certificate (env_names e) (env_dir e) (env_disk e) of
             None \<Rightarrow> None
           | Some (update_items, update_status) \<Rightarrow>
               if \<not> (dev_status = success \<and> update_status = success) then Some (exit_failure, s)
               else (case provisioner_store (env_kcm e) dev_items s of
                 (dev_ret_val, s) \<Rightarrow>
                   (case provisioner_store (env_kcm e) update_items s of
                      (uc_ret_val, s) \<Rightarrow>
                        if dev_ret_val \<noteq> success then Some (exit_failure, s)
                        else if uc_ret_val \<noteq> success then Some (exit_failure, s)
                        else Some (exit_success, s)))))"

definition handle_status_command :: "'s environment \<Rightarrow> 's \<Rightarrow> (ExitCode \<times> 's) option" where
  "handle_status_command e s = at_exit (destroy_PelionProvisioner e)
     (if provisioner_init (env_fcc_init e) \<noteq> success then Some (exit_failure, s)
      else if get_provisioned_status (env_fcc_verify e) \<noteq> success then Some (exit_failure, s)
      else Some (exit_success, s))"

text \<open>The loop of \<open>main\<close> over all arguments, the program's name included.\<close>

fun command_loop :: "'s environment \<Rightarrow> string list \<Rightarrow> 's \<Rightarrow> (ExitCode \<times> 's) option" where
  "command_loop e [] s = Some (exit_incorrect_args, s)"
| "command_loop e (arg # args) s =
     (if arg = ''--provision'' then handle_store_command e s
      else if arg = ''--get-pelion-status'' then handle_status_command e s
      else if arg = ''--help'' then Some (exit_success, s)
      else command_loop e args s)"

definition provisioning_main :: "'s environment \<Rightarrow> string list \<Rightarrow> 's \<Rightarrow> (ExitCode \<times> 's) option" where
  "provisioning_main e argv s =
     (if length argv > 2 then Some (exit_incorrect_args, s) else command_loop e argv s)"

section \<open>What is assumed of the key store\<close>

text \<open>
  An operation on one item leaves all others alone; a successful deletion, or one that finds
  nothing, leaves no item; a successful store leaves exactly the bytes given; an operation that
  fails changes nothing.
\<close>

definition kcm_contract :: "'s kcm \<Rightarrow> bool" where
  "kcm_contract k \<longleftrightarrow>
     (\<forall>n t s st s'. kcm_item_delete k n t s = (st, s') \<longrightarrow>
        kcm_lookup k s' n t = (if st = KCM_STATUS_SUCCESS \<or> st = KCM_STATUS_ITEM_NOT_FOUND then None else kcm_lookup k s n t) \<and>
        (\<forall>n' t'. (n', t') \<noteq> (n, t) \<longrightarrow> kcm_lookup k s' n' t' = kcm_lookup k s n' t')) \<and>
     (\<forall>n t b s st s'. kcm_item_store k n t b s = (st, s') \<longrightarrow>
        kcm_lookup k s' n t = (if st = KCM_STATUS_SUCCESS then Some b else kcm_lookup k s n t) \<and>
        (\<forall>n' t'. (n', t') \<noteq> (n, t) \<longrightarrow> kcm_lookup k s' n' t' = kcm_lookup k s n' t'))"

text \<open>The finalisation leaves the items in the key store.\<close>

definition finalize_contract :: "'s environment \<Rightarrow> bool" where
  "finalize_contract e \<longleftrightarrow>
     (\<forall>s n t. kcm_lookup (env_kcm e) (snd (env_fcc_finalize e s)) n t = kcm_lookup (env_kcm e) s n t)"

section \<open>Facts\<close>

lemma at_exit_eq_Some: "at_exit destroy r = Some (code, s') \<longleftrightarrow> (\<exists>s. r = Some (code, s) \<and> s' = destroy s)"
  by (cases r) (auto simp: at_exit_def)

definition cert_path :: "string \<Rightarrow> string \<Rightarrow> string" where
  "cert_path dir f = (if dir \<noteq> [] \<and> last dir \<noteq> CHR ''/'' then dir @ ''/'' else dir) @ f"

lemma binary_file_to_bytes_success:
  "binary_file_to_bytes dir disk f = Some (bytes, success) \<longleftrightarrow> disk (cert_path dir f) = Contents bytes \<and> bytes \<noteq> []"
  by (auto simp: binary_file_to_bytes_def cert_path_def Let_def split: file_state.splits if_splits)

text \<open>An empty file is not refused: the vector it is read into has no first element.\<close>

lemma binary_file_to_bytes_empty: "disk (cert_path dir f) = Contents [] \<Longrightarrow> binary_file_to_bytes dir disk f = None"
  by (simp add: binary_file_to_bytes_def cert_path_def Let_def)

lemma read_files_success:
  "read_files dir disk fs = Some pairs \<and> list_all (\<lambda>p. snd p = success) pairs \<longleftrightarrow>
     list_all2 (\<lambda>f p. disk (cert_path dir f) = Contents (fst p) \<and> fst p \<noteq> [] \<and> snd p = success) fs pairs"
proof (induction fs arbitrary: pairs)
  case (Cons f fs)
  show ?case
  proof (cases pairs)
    case (Cons q qs)
    obtain b st where q: "q = (b, st)" by force
    show ?thesis
      using Cons.IH [of qs] binary_file_to_bytes_success [of dir disk f b]
      by (auto simp: Cons q split: option.splits)
  qed (auto split: option.splits)
qed auto

abbreviation key_of :: "KCMItem \<Rightarrow> string \<times> kcm_item_type" where
  "key_of item \<equiv> (item_name item, item_type item)"

lemma kcm_deleteD:
  assumes "kcm_contract k" and "kcm_item_delete k n t s = (st, s')"
  shows "kcm_lookup k s' n t = (if st = KCM_STATUS_SUCCESS \<or> st = KCM_STATUS_ITEM_NOT_FOUND then None else kcm_lookup k s n t)"
    and "(n', t') \<noteq> (n, t) \<Longrightarrow> kcm_lookup k s' n' t' = kcm_lookup k s n' t'"
  using assms unfolding kcm_contract_def by blast+

lemma kcm_storeD:
  assumes "kcm_contract k" and "kcm_item_store k n t b s = (st, s')"
  shows "kcm_lookup k s' n t = (if st = KCM_STATUS_SUCCESS then Some b else kcm_lookup k s n t)"
    and "(n', t') \<noteq> (n, t) \<Longrightarrow> kcm_lookup k s' n' t' = kcm_lookup k s n' t'"
  using assms unfolding kcm_contract_def by blast+

text \<open>What the loop leaves: all items, or those before the one that failed.\<close>

definition lookup_item :: "'s kcm \<Rightarrow> 's \<Rightarrow> KCMItem \<Rightarrow> string option" where
  "lookup_item k s item = kcm_lookup k s (item_name item) (item_type item)"

lemma provisioner_store_outside:
  "kcm_contract k \<Longrightarrow> provisioner_store k items s = (st, s') \<Longrightarrow> (n, t) \<notin> key_of ` set items \<Longrightarrow>
     kcm_lookup k s' n t = kcm_lookup k s n t"
proof (induction items arbitrary: s)
  case (Cons item items)
  obtain d s1 where d: "kcm_item_delete k (item_name item) (item_type item) s = (d, s1)" by force
  obtain r s2 where r: "kcm_item_store k (item_name item) (item_type item) (data_blob item) s1 = (r, s2)" by force
  have ne: "(n, t) \<noteq> (item_name item, item_type item)" using Cons.prems(3) by auto
  have "kcm_lookup k s2 n t = kcm_lookup k s n t" "kcm_lookup k s1 n t = kcm_lookup k s n t"
    using kcm_deleteD(2) [OF Cons.prems(1) d ne] kcm_storeD(2) [OF Cons.prems(1) r ne] by simp_all
  then show ?case
    using Cons.IH [OF Cons.prems(1), of s2] Cons.prems(2,3) d r by (auto split: if_splits)
qed simp

lemma provisioner_store_cases:
  assumes "kcm_contract k" and "distinct (map key_of items)" and "provisioner_store k items s = (st, s')"
  shows "\<exists>j \<le> length items. (\<forall>item \<in> set (take j items). lookup_item k s' item = Some (data_blob item)) \<and>
    (\<forall>item \<in> set (drop (Suc j) items). lookup_item k s' item = lookup_item k s item) \<and>
    (if st = success then j = length items
     else j < length items \<and> lookup_item k s' (items ! j) \<in> {None, lookup_item k s (items ! j)})"
  using assms(2,3)
proof (induction items arbitrary: s)
  case (Cons item items)
  obtain d s1 where d: "kcm_item_delete k (item_name item) (item_type item) s = (d, s1)" by force
  obtain r s2 where r: "kcm_item_store k (item_name item) (item_type item) (data_blob item) s1 = (r, s2)" by force
  have later: "lookup_item k s1 i = lookup_item k s i" "lookup_item k s2 i = lookup_item k s i" if "i \<in> set items" for i
    using that Cons.prems(1) kcm_deleteD(2) [OF assms(1) d, of "item_name i" "item_type i"]
      kcm_storeD(2) [OF assms(1) r, of "item_name i" "item_type i"] by (auto simp: lookup_item_def image_iff)
  consider (fail_delete) "st = failure" "s' = s1" "d \<noteq> KCM_STATUS_SUCCESS" "d \<noteq> KCM_STATUS_ITEM_NOT_FOUND"
    | (fail_store) "st = failure" "s' = s2" "r \<noteq> KCM_STATUS_SUCCESS" "d = KCM_STATUS_SUCCESS \<or> d = KCM_STATUS_ITEM_NOT_FOUND"
    | (ok) "provisioner_store k items s2 = (st, s')" "r = KCM_STATUS_SUCCESS"
  proof (cases "d \<noteq> KCM_STATUS_SUCCESS \<and> d \<noteq> KCM_STATUS_ITEM_NOT_FOUND")
    case True
    with Cons.prems(2) d show ?thesis by (intro fail_delete) simp_all
  next
    case False
    with Cons.prems(2) d r show ?thesis
      by (cases "r = KCM_STATUS_SUCCESS") (simp_all add: fail_store ok)
  qed
  then show ?case
  proof cases
    case fail_delete
    then show ?thesis
      using kcm_deleteD(1) [OF assms(1) d] later(1) by (intro exI [of _ 0]) (auto simp: lookup_item_def)
  next
    case fail_store
    then show ?thesis
      using kcm_deleteD(1) [OF assms(1) d] kcm_storeD(1) [OF assms(1) r] later(2)
      by (intro exI [of _ 0]) (auto simp: lookup_item_def)
  next
    case ok
    have "distinct (map key_of items)" and nin: "key_of item \<notin> key_of ` set items" using Cons.prems(1) by auto
    from Cons.IH [OF this(1) ok(1)] obtain j where j: "j \<le> length items"
      "\<forall>i \<in> set (take j items). lookup_item k s' i = Some (data_blob i)"
      "\<forall>i \<in> set (drop (Suc j) items). lookup_item k s' i = lookup_item k s2 i"
      "if st = success then j = length items
       else j < length items \<and> lookup_item k s' (items ! j) \<in> {None, lookup_item k s2 (items ! j)}" by blast
    have "lookup_item k s' item = Some (data_blob item)"
      using provisioner_store_outside [OF assms(1) ok(1) nin] kcm_storeD(1) [OF assms(1) r] ok(2)
      by (simp add: lookup_item_def)
    then have "\<forall>i \<in> set (take (Suc j) (item # items)). lookup_item k s' i = Some (data_blob i)"
      using j(2) by simp
    moreover have "\<forall>i \<in> set (drop (Suc (Suc j)) (item # items)). lookup_item k s' i = lookup_item k s i"
      using j(3) later(2) by (auto dest: in_set_dropD)
    moreover have "if st = success then Suc j = length (item # items)
       else Suc j < length (item # items) \<and>
         lookup_item k s' ((item # items) ! Suc j) \<in> {None, lookup_item k s ((item # items) ! Suc j)}"
      using j(4) later(2) [of "items ! j"] by (cases "st = success") auto
    moreover have "Suc j \<le> length (item # items)" using j(1) by simp
    ultimately show ?thesis by blast
  qed
qed simp

definition fcc_constants :: "fcc_constant list" where
  "fcc_constants =
     [g_fcc_update_authentication_certificate_name, g_fcc_vendor_id_name, g_fcc_class_id_name,
      g_fcc_use_bootstrap_parameter_name, g_fcc_endpoint_parameter_name,
      g_fcc_bootstrap_device_certificate_name, g_fcc_bootstrap_server_ca_certificate_name,
      g_fcc_bootstrap_device_private_key_name, g_fcc_bootstrap_server_uri_name,
      g_fcc_manufacturer_parameter_name, g_fcc_model_number_parameter_name,
      g_fcc_device_serial_number_parameter_name, g_fcc_device_type_parameter_name,
      g_fcc_hardware_version_parameter_name, g_fcc_memory_size_parameter_name]"

lemma provisioner_store_success:
  assumes "kcm_contract k" and "distinct (map key_of items)" and "provisioner_store k items s = (success, s')"
    and "item \<in> set items"
  shows "lookup_item k s' item = Some (data_blob item)"
  using provisioner_store_cases [OF assms(1-3)] assms(4) by auto

lemma items_of_keys:
  "length blobs = length table \<Longrightarrow> map key_of (items_of names table blobs) = map (\<lambda>(_, c, t). (names c, t)) table"
  by (rule nth_equalityI) (auto simp: items_of_def split: prod.splits)

lemma items_of_member:
  assumes "read_files dir disk (map fst table) = Some pairs" and "list_all (\<lambda>p. snd p = success) pairs"
    and "(f, c, t) \<in> set table"
  shows "\<exists>item \<in> set (items_of names table (map fst pairs)). item_name item = names c \<and> item_type item = t \<and>
    disk (cert_path dir f) = Contents (data_blob item) \<and> data_blob item \<noteq> []"
proof -
  have r: "list_all2 (\<lambda>f p. disk (cert_path dir f) = Contents (fst p) \<and> fst p \<noteq> [] \<and> snd p = success) (map fst table) pairs"
    using assms(1,2) read_files_success [of dir disk "map fst table" pairs] by blast
  obtain i where i: "i < length table" "table ! i = (f, c, t)" using assms(3) by (auto simp: in_set_conv_nth)
  have l: "length pairs = length table" using list_all2_lengthD [OF r] by simp
  let ?item = "\<lparr>item_name = names c, item_type = t, data_blob = fst (pairs ! i)\<rparr>"
  have "items_of names table (map fst pairs) ! i = ?item" using i l by (simp add: items_of_def)
  moreover have "i < length (items_of names table (map fst pairs))" using i l by (simp add: items_of_def)
  ultimately have "?item \<in> set (items_of names table (map fst pairs))" by (metis nth_mem)
  moreover have "disk (cert_path dir f) = Contents (fst (pairs ! i)) \<and> fst (pairs ! i) \<noteq> []"
    using list_all2_nthD [OF r, of i] i by simp
  ultimately show ?thesis by force
qed

lemma items_of_distinct:
  assumes "read_files dir disk (map fst table) = Some pairs" and "list_all (\<lambda>p. snd p = success) pairs"
    and "distinct (map (\<lambda>(_, c, _). names c) table)"
  shows "map key_of (items_of names table (map fst pairs)) = map (\<lambda>(_, c, t). (names c, t)) table"
    and "distinct (map key_of (items_of names table (map fst pairs)))"
proof -
  have "list_all2 (\<lambda>f p. disk (cert_path dir f) = Contents (fst p) \<and> fst p \<noteq> [] \<and> snd p = success) (map fst table) pairs"
    using assms(1,2) read_files_success [of dir disk "map fst table" pairs] by blast
  then have "length pairs = length table" using list_all2_lengthD by fastforce
  then show k: "map key_of (items_of names table (map fst pairs)) = map (\<lambda>(_, c, t). (names c, t)) table"
    by (simp add: items_of_keys)
  have "distinct (map fst (map (\<lambda>(_, c, t). (names c, t)) table))"
    using assms(3) by (simp add: comp_def case_prod_unfold)
  then show "distinct (map key_of (items_of names table (map fst pairs)))"
    unfolding k distinct_map [of fst] by blast
qed

text \<open>A table of files that was read and stored.\<close>

definition table_stored :: "'s environment \<Rightarrow> (string \<times> fcc_constant \<times> kcm_item_type) list \<Rightarrow> 's \<Rightarrow> bool" where
  "table_stored e table s \<longleftrightarrow>
     (\<forall>(f, c, t) \<in> set table. \<exists>bytes. env_disk e (cert_path (env_dir e) f) = Contents bytes \<and> bytes \<noteq> [] \<and>
        kcm_lookup (env_kcm e) s (env_names e c) t = Some bytes)"

lemma table_storedI:
  assumes "kcm_contract (env_kcm e)" and "read_files (env_dir e) (env_disk e) (map fst table) = Some pairs"
    and "list_all (\<lambda>p. snd p = success) pairs" and "set (items_of (env_names e) table (map fst pairs)) \<subseteq> set items"
    and "distinct (map key_of items)" and "provisioner_store (env_kcm e) items s = (success, s')"
  shows "table_stored e table s'"
  unfolding table_stored_def
proof clarify
  fix f c t assume "(f, c, t) \<in> set table"
  then obtain item where "item \<in> set items" "item_name item = env_names e c" "item_type item = t"
    "env_disk e (cert_path (env_dir e) f) = Contents (data_blob item)" "data_blob item \<noteq> []"
    using items_of_member [OF assms(2,3), of f c t "env_names e"] assms(4) by blast
  then show "\<exists>bytes. env_disk e (cert_path (env_dir e) f) = Contents bytes \<and> bytes \<noteq> [] \<and>
      kcm_lookup (env_kcm e) s' (env_names e c) t = Some bytes"
    using provisioner_store_success [OF assms(1,5,6), of item] by (auto simp: lookup_item_def)
qed

lemma table_stored_same:
  assumes "table_stored e table s" and "\<And>f c t. (f, c, t) \<in> set table \<Longrightarrow>
    kcm_lookup (env_kcm e) s' (env_names e c) t = kcm_lookup (env_kcm e) s (env_names e c) t"
  shows "table_stored e table s'"
  using assms unfolding table_stored_def by force

text \<open>A run of the store command that succeeds: both lists were read and both loops ended well.\<close>

lemma handle_store_command_success:
  assumes "handle_store_command e s = Some (exit_success, s')"
  obtains ps qs s1 s2 where
    "read_files (env_dir e) (env_disk e) (map fst credential_files) = Some ps" "list_all (\<lambda>p. snd p = success) ps"
    "read_files (env_dir e) (env_disk e) (map fst update_files) = Some qs" "list_all (\<lambda>p. snd p = success) qs"
    "provisioner_store (env_kcm e)
       (\<lparr>item_name = env_names e g_fcc_use_bootstrap_parameter_name, item_type = KCM_CONFIG_ITEM,
          data_blob = bootstrap_mode_flag (env_little_endian e)\<rparr> #
        items_of (env_names e) credential_files (map fst ps)) s = (success, s1)"
    "provisioner_store (env_kcm e) (items_of (env_names e) update_files (map fst qs)) s1 = (success, s2)"
    "s' = destroy_PelionProvisioner e s2"
proof -
  obtain dev upd s1 s2 where l:
    "load_developer_cloud_credentials (env_names e) (env_little_endian e) (env_dir e) (env_disk e) = Some (dev, success)"
    "load_developer_update_certificate (env_names e) (env_dir e) (env_disk e) = Some (upd, success)"
    "provisioner_store (env_kcm e) dev s = (success, s1)" "provisioner_store (env_kcm e) upd s1 = (success, s2)"
    "s' = destroy_PelionProvisioner e s2"
    using assms unfolding handle_store_command_def at_exit_eq_Some
    by (elim exE conjE) (simp split: option.splits prod.splits if_splits)
  from l(1) obtain ps where "read_files (env_dir e) (env_disk e) (map fst credential_files) = Some ps"
    "list_all (\<lambda>p. snd p = success) ps"
    "dev = \<lparr>item_name = env_names e g_fcc_use_bootstrap_parameter_name, item_type = KCM_CONFIG_ITEM,
          data_blob = bootstrap_mode_flag (env_little_endian e)\<rparr> #
        items_of (env_names e) credential_files (map fst ps)"
    unfolding load_developer_cloud_credentials_def by (simp split: option.splits if_splits)
  moreover from l(2) obtain qs where "read_files (env_dir e) (env_disk e) (map fst update_files) = Some qs"
    "list_all (\<lambda>p. snd p = success) qs" "upd = items_of (env_names e) update_files (map fst qs)"
    unfolding load_developer_update_certificate_def by (simp split: option.splits if_splits)
  ultimately show thesis using that l(3-5) by simp
qed

text \<open>The items of the second list do not overwrite those of the first.\<close>

lemma update_keys_apart:
  assumes "distinct (map names fcc_constants)" and "map key_of items = map (\<lambda>(_, c, t). (names c, t)) update_files"
    and "c \<in> set (g_fcc_use_bootstrap_parameter_name # map (fst \<circ> snd) credential_files)"
  shows "(names c, t) \<notin> key_of ` set items"
proof -
  have "key_of ` set items = set (map (\<lambda>(_, c, t). (names c, t)) update_files)"
    using arg_cong [OF assms(2), of set] by simp
  moreover have "names c \<noteq> names c'" if "c' \<in> set (map (fst \<circ> snd) update_files)" for c'
  proof -
    have "inj_on names (set fcc_constants)" using assms(1) by (simp only: distinct_map)
    moreover have "c \<in> set fcc_constants" "c \<notin> set (map (fst \<circ> snd) update_files)"
      using assms(3) by (auto simp: fcc_constants_def credential_files_def update_files_def)
    moreover have "c' \<in> set fcc_constants" using that by (auto simp: fcc_constants_def update_files_def)
    ultimately show ?thesis using that by (metis inj_onD)
  qed
  ultimately show ?thesis by force
qed

section \<open>Properties\<close>

text \<open>C15: the outcome of storing a list of items.  For a key store that keeps its contract and items with different
  keys, success means that every item is stored with its bytes; on a failure the items before some
  position are stored, those after it are as they were, and the one at that position is as it was or
  gone, so that an old credential can be lost.  All other keys are as they were in any case.\<close>

theorem provisioner_store_outcome:
  assumes "kcm_contract k" and "distinct (map key_of items)" and "provisioner_store k items s = (st, s')"
  shows "(\<exists>j \<le> length items. (\<forall>item \<in> set (take j items). lookup_item k s' item = Some (data_blob item)) \<and>
      (\<forall>item \<in> set (drop (Suc j) items). lookup_item k s' item = lookup_item k s item) \<and>
      (if st = success then j = length items
       else j < length items \<and> lookup_item k s' (items ! j) \<in> {None, lookup_item k s (items ! j)})) \<and>
    (\<forall>n t. (n, t) \<notin> key_of ` set items \<longrightarrow> kcm_lookup k s' n t = kcm_lookup k s n t)"
  using provisioner_store_cases [OF assms] provisioner_store_outside [OF assms(1,3)] by blast

text \<open>A key store that refuses items of more than a number of bytes.\<close>

definition demo_kcm :: "nat \<Rightarrow> (string \<Rightarrow> kcm_item_type \<Rightarrow> string option) kcm" where
  "demo_kcm limit = \<lparr>kcm_item_delete = (\<lambda>n t s. (if s n t = None then KCM_STATUS_ITEM_NOT_FOUND else KCM_STATUS_SUCCESS,
       s(n := (s n)(t := None)))),
     kcm_item_store = (\<lambda>n t b s. if length b > limit then (KCM_other 1, s) else (KCM_STATUS_SUCCESS, s(n := (s n)(t := Some b)))),
     kcm_lookup = (\<lambda>s n t. s n t)\<rparr>"

lemma demo_kcm_contract: "kcm_contract (demo_kcm limit)"
  by (auto simp: kcm_contract_def demo_kcm_def)

theorem provisioner_store_outcome_witness:
  "\<exists>s'. provisioner_store (demo_kcm 3)
       [\<lparr>item_name = ''a'', item_type = KCM_CONFIG_ITEM, data_blob = ''x''\<rparr>,
        \<lparr>item_name = ''b'', item_type = KCM_CONFIG_ITEM, data_blob = ''too long''\<rparr>]
       (\<lambda>n t. if n = ''b'' then Some ''old'' else None) = (failure, s') \<and>
     s' ''a'' KCM_CONFIG_ITEM = Some ''x'' \<and> s' ''b'' KCM_CONFIG_ITEM = None \<and> s' ''c'' KCM_CONFIG_ITEM = None"
proof -
  let ?items = "[\<lparr>item_name = ''a'', item_type = KCM_CONFIG_ITEM, data_blob = ''x''\<rparr>,
        \<lparr>item_name = ''b'', item_type = KCM_CONFIG_ITEM, data_blob = ''too long''\<rparr>]"
  let ?s = "\<lambda>n (t :: kcm_item_type). if n = ''b'' then Some ''old'' else None :: string option"
  obtain s' where r: "provisioner_store (demo_kcm 3) ?items ?s = (failure, s')"
    and b: "s' ''a'' KCM_CONFIG_ITEM = Some ''x''" "s' ''b'' KCM_CONFIG_ITEM = None"
    by (simp add: demo_kcm_def)
  have "kcm_lookup (demo_kcm 3) s' ''c'' KCM_CONFIG_ITEM = kcm_lookup (demo_kcm 3) ?s ''c'' KCM_CONFIG_ITEM"
    using provisioner_store_outcome [OF demo_kcm_contract _ r] by simp
  with r b show ?thesis by (simp add: demo_kcm_def)
qed

text \<open>C16: a device reported as provisioned has all its credentials.  When the program called with \<open>--provision\<close> ends
  with success, every one of the fourteen files existed and was not empty, the key store holds its
  bytes under the name and type of that item, and the bootstrap flag is set.\<close>

theorem provisioning_main_success:
  assumes "kcm_contract (env_kcm e)" and "finalize_contract e" and "distinct (map (env_names e) fcc_constants)"
    and "prog \<notin> {''--provision'', ''--get-pelion-status'', ''--help''}"
    and "provisioning_main e [prog, ''--provision''] s = Some (exit_success, s')"
  shows "(\<forall>(f, c, t) \<in> set (credential_files @ update_files). \<exists>bytes.
      env_disk e (cert_path (env_dir e) f) = Contents bytes \<and> bytes \<noteq> [] \<and>
      kcm_lookup (env_kcm e) s' (env_names e c) t = Some bytes) \<and>
    kcm_lookup (env_kcm e) s' (env_names e g_fcc_use_bootstrap_parameter_name) KCM_CONFIG_ITEM =
      Some (bootstrap_mode_flag (env_little_endian e))"
proof -
  let ?k = "env_kcm e" and ?N = "env_names e" and ?dir = "env_dir e" and ?disk = "env_disk e"
  let ?flag = "\<lparr>item_name = ?N g_fcc_use_bootstrap_parameter_name, item_type = KCM_CONFIG_ITEM,
     data_blob = bootstrap_mode_flag (env_little_endian e)\<rparr>"
  have "handle_store_command e s = Some (exit_success, s')"
    using assms(4,5) by (simp add: provisioning_main_def)
  then obtain ps qs s1 s2 where p: "read_files ?dir ?disk (map fst credential_files) = Some ps" "list_all (\<lambda>p. snd p = success) ps"
    and q: "read_files ?dir ?disk (map fst update_files) = Some qs" "list_all (\<lambda>p. snd p = success) qs"
    and d: "provisioner_store ?k (?flag # items_of ?N credential_files (map fst ps)) s = (success, s1)"
    and u: "provisioner_store ?k (items_of ?N update_files (map fst qs)) s1 = (success, s2)"
    and f: "s' = destroy_PelionProvisioner e s2"
    by (rule handle_store_command_success)
  have same: "kcm_lookup ?k s' n t = kcm_lookup ?k s2 n t" for n t
    using assms(2) by (simp add: f destroy_PelionProvisioner_def finalize_contract_def)
  have dn: "distinct (map (\<lambda>(_, c, _). ?N c) credential_files)" "distinct (map (\<lambda>(_, c, _). ?N c) update_files)"
    using assms(3) by (auto simp: fcc_constants_def credential_files_def update_files_def)
  note pk = items_of_distinct [OF p dn(1)] and uk = items_of_distinct [OF q dn(2)]
  have dd: "distinct (map key_of (?flag # items_of ?N credential_files (map fst ps)))"
    using pk assms(3) arg_cong [OF pk(1), of set] by (auto simp: fcc_constants_def credential_files_def)
  have keep: "kcm_lookup ?k s' (?N c) t = kcm_lookup ?k s1 (?N c) t"
    if "c \<in> set (g_fcc_use_bootstrap_parameter_name # map (fst \<circ> snd) credential_files)" for c t
    using provisioner_store_outside [OF assms(1) u update_keys_apart [OF assms(3) uk(1) that]] same by simp
  have "table_stored e credential_files s1" by (rule table_storedI [OF assms(1) p _ dd d]) auto
  then have "table_stored e credential_files s'" by (rule table_stored_same) (rule keep, force)
  moreover have "table_stored e update_files s2" by (rule table_storedI [OF assms(1) q _ uk(2) u]) simp
  then have "table_stored e update_files s'" by (rule table_stored_same) (rule same)
  moreover have "kcm_lookup ?k s' (?N g_fcc_use_bootstrap_parameter_name) KCM_CONFIG_ITEM = Some (bootstrap_mode_flag (env_little_endian e))"
    using provisioner_store_success [OF assms(1) dd d, of ?flag] keep [of g_fcc_use_bootstrap_parameter_name KCM_CONFIG_ITEM]
    by (simp add: lookup_item_def)
  ultimately show ?thesis by (auto simp: table_stored_def)
qed

lemma demo_store_success:
  "\<forall>item \<in> set items. length (data_blob item) \<le> limit \<Longrightarrow> \<exists>s'. provisioner_store (demo_kcm limit) items s = (success, s')"
  by (induction items arbitrary: s) (auto simp: demo_kcm_def)

lemma read_files_constant:
  "read_files dir (\<lambda>_. Contents ''v'') fs = Some (map (\<lambda>_. (''v'', success)) fs)"
  by (induction fs) (auto simp: binary_file_to_bytes_def Let_def)

fun demo_names :: "fcc_constant \<Rightarrow> string" where
  "demo_names g_fcc_update_authentication_certificate_name = ''a''"
| "demo_names g_fcc_vendor_id_name = ''b''"
| "demo_names g_fcc_class_id_name = ''c''"
| "demo_names g_fcc_use_bootstrap_parameter_name = ''d''"
| "demo_names g_fcc_endpoint_parameter_name = ''e''"
| "demo_names g_fcc_bootstrap_device_certificate_name = ''f''"
| "demo_names g_fcc_bootstrap_server_ca_certificate_name = ''g''"
| "demo_names g_fcc_bootstrap_device_private_key_name = ''h''"
| "demo_names g_fcc_bootstrap_server_uri_name = ''i''"
| "demo_names g_fcc_manufacturer_parameter_name = ''j''"
| "demo_names g_fcc_model_number_parameter_name = ''k''"
| "demo_names g_fcc_device_serial_number_parameter_name = ''l''"
| "demo_names g_fcc_device_type_parameter_name = ''m''"
| "demo_names g_fcc_hardware_version_parameter_name = ''n''"
| "demo_names g_fcc_memory_size_parameter_name = ''o''"

definition demo_environment :: "(string \<Rightarrow> kcm_item_type \<Rightarrow> string option) environment" where
  "demo_environment = \<lparr>env_kcm = demo_kcm 4, env_names = demo_names, env_little_endian = True, env_dir = ''/certs'',
     env_disk = (\<lambda>_. Contents ''v''), env_fcc_init = FCC_SUCCESS, env_fcc_verify = FCC_SUCCESS, env_fcc_finalize = (\<lambda>s. (FCC_SUCCESS, s))\<rparr>"

theorem provisioning_main_success_witness:
  "\<exists>s'. provisioning_main demo_environment [''util'', ''--provision''] (\<lambda>_ _. None) = Some (exit_success, s') \<and>
     s' ''h'' KCM_PRIVATE_KEY_ITEM = Some ''v'' \<and> s' ''d'' KCM_CONFIG_ITEM = Some [CHR 0x01, CHR 0x00, CHR 0x00, CHR 0x00]"
proof -
  let ?e = demo_environment
  let ?blobs = "\<lambda>fs. map fst (map (\<lambda>_. (''v'', success)) fs)"
  define dev where "dev = \<lparr>item_name = demo_names g_fcc_use_bootstrap_parameter_name, item_type = KCM_CONFIG_ITEM,
     data_blob = bootstrap_mode_flag True\<rparr> # items_of demo_names credential_files (?blobs (map fst credential_files))"
  define upd where "upd = items_of demo_names update_files (?blobs (map fst update_files))"
  have short: "length (data_blob item) \<le> 4" if "item \<in> set (items_of demo_names table (?blobs fs))" for item table fs
    using that by (auto simp: items_of_def set_zip)
  have l: "load_developer_cloud_credentials demo_names True ''/certs'' (\<lambda>_. Contents ''v'') = Some (dev, success)"
    "load_developer_update_certificate demo_names ''/certs'' (\<lambda>_. Contents ''v'') = Some (upd, success)"
    by (simp_all add: load_developer_cloud_credentials_def load_developer_update_certificate_def read_files_constant
        dev_def upd_def list_all_iff)
  have d: "\<forall>item \<in> set dev. length (data_blob item) \<le> 4" "\<forall>item \<in> set upd. length (data_blob item) \<le> 4"
    using short by (auto simp: dev_def upd_def bootstrap_mode_flag_def simp del: map_map)
  obtain s1 where s1: "provisioner_store (demo_kcm 4) dev (\<lambda>_ _. None) = (success, s1)"
    using demo_store_success [OF d(1)] by blast
  obtain s' where s': "provisioner_store (demo_kcm 4) upd s1 = (success, s')"
    using demo_store_success [OF d(2)] by blast
  have r: "provisioning_main ?e [''util'', ''--provision''] (\<lambda>_ _. None) = Some (exit_success, s')"
    using l(1,2) s1 s' by (simp add: provisioning_main_def handle_store_command_def provisioner_init_def demo_environment_def at_exit_def
        destroy_PelionProvisioner_def)
  have "kcm_contract (env_kcm ?e)" "finalize_contract ?e" "distinct (map (env_names ?e) fcc_constants)"
    using demo_kcm_contract by (simp_all add: demo_environment_def fcc_constants_def finalize_contract_def)
  from provisioning_main_success [OF this _ r] r show ?thesis
    by (auto simp: demo_environment_def credential_files_def bootstrap_mode_flag_def) (simp_all add: demo_kcm_def)
qed

end
