(* ===== verification/Tls_Config.thy ===== *)
theory Tls_Config imports Prelude begin

text \<open>
  The configurations of mbed TLS: \<open>pal-platform/Middleware/mbedtls/pal_mbedtls_config.h\<close> as the table of its
  options, in the order of the file, with what their comments say they require and which
  ciphersuites they enable; and \<open>mbedtls_mbed_client_config.h\<close> as the list of its directives.  Names are
  given without the common prefix \<open>MBEDTLS_\<close>.  The theory shows which requirements and which ciphersuites
  the first one misses, and what the second one makes of any configuration it is read after.
\<close>

section \<open>Options\<close>

text \<open>
  One \<open>#define\<close>, active or commented out; a requirement is a list of alternatives, of which one must
  be active.
\<close>

datatype tls_option =
  Option (opt_name: string) (opt_active: bool) (opt_value: string) (opt_requires: "string list list")
    (opt_enables: "string list")

definition pal_options_28 :: "tls_option list" where
  "pal_options_28 =
     [Option ''HAVE_ASM'' True '''' [] [],
      Option ''HAVE_SSE2'' False '''' [] [],
      Option ''HAVE_TIME'' True '''' [] [],
      Option ''HAVE_TIME_DATE'' False '''' [] [],
      Option ''PLATFORM_MEMORY'' False '''' [[''PLATFORM_C'']] [],
      Option ''PLATFORM_NO_STD_FUNCTIONS'' False '''' [[''PLATFORM_C'']] [],
      Option ''PLATFORM_EXIT_ALT'' False '''' [] [],
      Option ''PLATFORM_TIME_ALT'' False '''' [[''HAVE_TIME'']] [],
      Option ''PLATFORM_FPRINTF_ALT'' False '''' [] [],
      Option ''PLATFORM_PRINTF_ALT'' False '''' [] [],
      Option ''PLATFORM_SNPRINTF_ALT'' False '''' [] [],
      Option ''PLATFORM_NV_SEED_ALT'' False '''' [] []]"

definition pal_options_167 :: "tls_option list" where
  "pal_options_167 =
     [Option ''DEPRECATED_WARNING'' False '''' [] [],
      Option ''DEPRECATED_REMOVED'' False '''' [] [],
      Option ''TIMING_ALT'' False '''' [] [],
      Option ''AES_ALT'' False '''' [] [],
      Option ''ARC4_ALT'' False '''' [] [],
      Option ''BLOWFISH_ALT'' False '''' [] [],
      Option ''CAMELLIA_ALT'' False '''' [] [],
      Option ''DES_ALT'' False '''' [] [],
      Option ''XTEA_ALT'' False '''' [] [],
      Option ''MD2_ALT'' False '''' [] [],
      Option ''MD4_ALT'' False '''' [] [],
      Option ''MD5_ALT'' False '''' [] [],
      Option ''RIPEMD160_ALT'' False '''' [] [],
      Option ''SHA1_ALT'' False '''' [] [],
      Option ''SHA256_ALT'' False '''' [] [],
      Option ''SHA512_ALT'' False '''' [] [],
      Option ''ECP_ALT'' False '''' [] [],
      Option ''MD2_PROCESS_ALT'' False '''' [] [],
      Option ''MD4_PROCESS_ALT'' False '''' [] [],
      Option ''MD5_PROCESS_ALT'' False '''' [] [],
      Option ''RIPEMD160_PROCESS_ALT'' False '''' [] [],
      Option ''SHA1_PROCESS_ALT'' False '''' [] [],
      Option ''SHA256_PROCESS_ALT'' False '''' [] [],
      Option ''SHA512_PROCESS_ALT'' False '''' [] [],
      Option ''DES_SETKEY_ALT'' False '''' [] [],
      Option ''DES_CRYPT_ECB_ALT'' False '''' [] [],
      Option ''DES3_CRYPT_ECB_ALT'' False '''' [] [],
      Option ''AES_SETKEY_ENC_ALT'' False '''' [] [],
      Option ''AES_SETKEY_DEC_ALT'' False '''' [] [],
      Option ''AES_ENCRYPT_ALT'' False '''' [] [],
      Option ''AES_DECRYPT_ALT'' False '''' [] []]"

definition pal_options_338 :: "tls_option list" where
  "pal_options_338 =
     [Option ''ECP_INTERNAL_ALT'' False '''' [] [],
      Option ''ECP_RANDOMIZE_JAC_ALT'' False '''' [] [],
      Option ''ECP_ADD_MIXED_ALT'' False '''' [] [],
      Option ''ECP_DOUBLE_JAC_ALT'' False '''' [] [],
      Option ''ECP_NORMALIZE_JAC_MANY_ALT'' False '''' [] [],
      Option ''ECP_NORMALIZE_JAC_ALT'' False '''' [] [],
      Option ''ECP_DOUBLE_ADD_MXZ_ALT'' False '''' [] [],
      Option ''ECP_RANDOMIZE_MXZ_ALT'' False '''' [] [],
      Option ''ECP_NORMALIZE_MXZ_ALT'' False '''' [] [],
      Option ''TEST_NULL_ENTROPY'' False '''' [[''ENTROPY_C''], [''NO_DEFAULT_ENTROPY_SOURCES'']] [],
      Option ''ENTROPY_HARDWARE_ALT'' False '''' [] [],
      Option ''AES_ROM_TABLES'' False '''' [] [],
      Option ''CAMELLIA_SMALL_MEMORY'' False '''' [] [],
      Option ''CIPHER_MODE_CBC'' True '''' [] [],
      Option ''CIPHER_MODE_CFB'' False '''' [] [],
      Option ''CIPHER_MODE_CTR'' True '''' [] [],
      Option ''CIPHER_NULL_CIPHER'' False '''' [[''ENABLE_WEAK_CIPHERSUITES'']] [''TLS_ECDH_ECDSA_WITH_NULL_SHA'',
        ''TLS_ECDH_RSA_WITH_NULL_SHA'', ''TLS_ECDHE_ECDSA_WITH_NULL_SHA'', ''TLS_ECDHE_RSA_WITH_NULL_SHA'',
        ''TLS_ECDHE_PSK_WITH_NULL_SHA384'', ''TLS_ECDHE_PSK_WITH_NULL_SHA256'', ''TLS_ECDHE_PSK_WITH_NULL_SHA'',
        ''TLS_DHE_PSK_WITH_NULL_SHA384'', ''TLS_DHE_PSK_WITH_NULL_SHA256'', ''TLS_DHE_PSK_WITH_NULL_SHA'',
        ''TLS_RSA_WITH_NULL_SHA256'', ''TLS_RSA_WITH_NULL_SHA'', ''TLS_RSA_WITH_NULL_MD5'',
        ''TLS_RSA_PSK_WITH_NULL_SHA384'', ''TLS_RSA_PSK_WITH_NULL_SHA256'', ''TLS_RSA_PSK_WITH_NULL_SHA'',
        ''TLS_PSK_WITH_NULL_SHA384'', ''TLS_PSK_WITH_NULL_SHA256'', ''TLS_PSK_WITH_NULL_SHA''],
      Option ''CIPHER_PADDING_PKCS7'' True '''' [] [],
      Option ''CIPHER_PADDING_ONE_AND_ZEROS'' False '''' [] [],
      Option ''CIPHER_PADDING_ZEROS_AND_LEN'' False '''' [] [],
      Option ''CIPHER_PADDING_ZEROS'' False '''' [] [],
      Option ''ENABLE_WEAK_CIPHERSUITES'' False '''' [] [''TLS_RSA_WITH_DES_CBC_SHA'',
        ''TLS_DHE_RSA_WITH_DES_CBC_SHA'']]"

definition pal_options_484 :: "tls_option list" where
  "pal_options_484 =
     [Option ''REMOVE_ARC4_CIPHERSUITES'' True '''' [] [],
      Option ''ECP_DP_SECP192R1_ENABLED'' False '''' [] [],
      Option ''ECP_DP_SECP224R1_ENABLED'' False '''' [] [],
      Option ''ECP_DP_SECP256R1_ENABLED'' True '''' [] [],
      Option ''ECP_DP_SECP384R1_ENABLED'' True '''' [] [],
      Option ''ECP_DP_SECP521R1_ENABLED'' False '''' [] [],
      Option ''ECP_DP_SECP192K1_ENABLED'' False '''' [] [],
      Option ''ECP_DP_SECP224K1_ENABLED'' False '''' [] [],
      Option ''ECP_DP_SECP256K1_ENABLED'' False '''' [] [],
      Option ''ECP_DP_BP256R1_ENABLED'' False '''' [] [],
      Option ''ECP_DP_BP384R1_ENABLED'' False '''' [] [],
      Option ''ECP_DP_BP512R1_ENABLED'' False '''' [] [],
      Option ''ECP_DP_CURVE25519_ENABLED'' False '''' [] [],
      Option ''ECP_NIST_OPTIM'' True '''' [] [],
      Option ''ECDSA_DETERMINISTIC'' True '''' [[''HMAC_DRBG_C'']] [],
      Option ''KEY_EXCHANGE_PSK_ENABLED'' False '''' [] [''TLS_PSK_WITH_AES_256_GCM_SHA384'',
        ''TLS_PSK_WITH_AES_256_CBC_SHA384'', ''TLS_PSK_WITH_AES_256_CBC_SHA'',
        ''TLS_PSK_WITH_CAMELLIA_256_GCM_SHA384'', ''TLS_PSK_WITH_CAMELLIA_256_CBC_SHA384'',
        ''TLS_PSK_WITH_AES_128_GCM_SHA256'', ''TLS_PSK_WITH_AES_128_CBC_SHA256'', ''TLS_PSK_WITH_AES_128_CBC_SHA'',
        ''TLS_PSK_WITH_CAMELLIA_128_GCM_SHA256'', ''TLS_PSK_WITH_CAMELLIA_128_CBC_SHA256'',
        ''TLS_PSK_WITH_3DES_EDE_CBC_SHA'', ''TLS_PSK_WITH_RC4_128_SHA''],
      Option ''KEY_EXCHANGE_DHE_PSK_ENABLED'' False '''' [[''DHM_C'']] [''TLS_DHE_PSK_WITH_AES_256_GCM_SHA384'',
        ''TLS_DHE_PSK_WITH_AES_256_CBC_SHA384'', ''TLS_DHE_PSK_WITH_AES_256_CBC_SHA'',
        ''TLS_DHE_PSK_WITH_CAMELLIA_256_GCM_SHA384'', ''TLS_DHE_PSK_WITH_CAMELLIA_256_CBC_SHA384'',
        ''TLS_DHE_PSK_WITH_AES_128_GCM_SHA256'', ''TLS_DHE_PSK_WITH_AES_128_CBC_SHA256'',
        ''TLS_DHE_PSK_WITH_AES_128_CBC_SHA'', ''TLS_DHE_PSK_WITH_CAMELLIA_128_GCM_SHA256'',
        ''TLS_DHE_PSK_WITH_CAMELLIA_128_CBC_SHA256'', ''TLS_DHE_PSK_WITH_3DES_EDE_CBC_SHA'',
        ''TLS_DHE_PSK_WITH_RC4_128_SHA''],
      Option ''KEY_EXCHANGE_ECDHE_PSK_ENABLED'' True '''' [[''ECDH_C'']] [''TLS_ECDHE_PSK_WITH_AES_256_CBC_SHA384'',
        ''TLS_ECDHE_PSK_WITH_AES_256_CBC_SHA'', ''TLS_ECDHE_PSK_WITH_CAMELLIA_256_CBC_SHA384'',
        ''TLS_ECDHE_PSK_WITH_AES_128_CBC_SHA256'', ''TLS_ECDHE_PSK_WITH_AES_128_CBC_SHA'',
        ''TLS_ECDHE_PSK_WITH_CAMELLIA_128_CBC_SHA256'', ''TLS_ECDHE_PSK_WITH_3DES_EDE_CBC_SHA'',
        ''TLS_ECDHE_PSK_WITH_RC4_128_SHA''],
      Option ''KEY_EXCHANGE_RSA_PSK_ENABLED'' False '''' [[''RSA_C''], [''PKCS1_V15''], [''X509_CRT_PARSE_C'']]
        [''TLS_RSA_PSK_WITH_AES_256_GCM_SHA384'', ''TLS_RSA_PSK_WITH_AES_256_CBC_SHA384'',
        ''TLS_RSA_PSK_WITH_AES_256_CBC_SHA'', ''TLS_RSA_PSK_WITH_CAMELLIA_256_GCM_SHA384'',
        ''TLS_RSA_PSK_WITH_CAMELLIA_256_CBC_SHA384'', ''TLS_RSA_PSK_WITH_AES_128_GCM_SHA256'',
        ''TLS_RSA_PSK_WITH_AES_128_CBC_SHA256'', ''TLS_RSA_PSK_WITH_AES_128_CBC_SHA'',
        ''TLS_RSA_PSK_WITH_CAMELLIA_128_GCM_SHA256'', ''TLS_RSA_PSK_WITH_CAMELLIA_128_CBC_SHA256'',
        ''TLS_RSA_PSK_WITH_3DES_EDE_CBC_SHA'', ''TLS_RSA_PSK_WITH_RC4_128_SHA'']]"

definition pal_options_634 :: "tls_option list" where
  "pal_options_634 =
     [Option ''KEY_EXCHANGE_RSA_ENABLED'' False '''' [[''RSA_C''], [''PKCS1_V15''], [''X509_CRT_PARSE_C'']]
        [''TLS_RSA_WITH_AES_256_GCM_SHA384'', ''TLS_RSA_WITH_AES_256_CBC_SHA256'', ''TLS_RSA_WITH_AES_256_CBC_SHA'',
        ''TLS_RSA_WITH_CAMELLIA_256_GCM_SHA384'', ''TLS_RSA_WITH_CAMELLIA_256_CBC_SHA256'',
        ''TLS_RSA_WITH_CAMELLIA_256_CBC_SHA'', ''TLS_RSA_WITH_AES_128_GCM_SHA256'',
        ''TLS_RSA_WITH_AES_128_CBC_SHA256'', ''TLS_RSA_WITH_AES_128_CBC_SHA'',
        ''TLS_RSA_WITH_CAMELLIA_128_GCM_SHA256'', ''TLS_RSA_WITH_CAMELLIA_128_CBC_SHA256'',
        ''TLS_RSA_WITH_CAMELLIA_128_CBC_SHA'', ''TLS_RSA_WITH_3DES_EDE_CBC_SHA'', ''TLS_RSA_WITH_RC4_128_SHA'',
        ''TLS_RSA_WITH_RC4_128_MD5''],
      Option ''KEY_EXCHANGE_DHE_RSA_ENABLED'' False '''' [[''DHM_C''], [''RSA_C''], [''PKCS1_V15''],
        [''X509_CRT_PARSE_C'']] [''TLS_DHE_RSA_WITH_AES_256_GCM_SHA384'', ''TLS_DHE_RSA_WITH_AES_256_CBC_SHA256'',
        ''TLS_DHE_RSA_WITH_AES_256_CBC_SHA'', ''TLS_DHE_RSA_WITH_CAMELLIA_256_GCM_SHA384'',
        ''TLS_DHE_RSA_WITH_CAMELLIA_256_CBC_SHA256'', ''TLS_DHE_RSA_WITH_CAMELLIA_256_CBC_SHA'',
        ''TLS_DHE_RSA_WITH_AES_128_GCM_SHA256'', ''TLS_DHE_RSA_WITH_AES_128_CBC_SHA256'',
        ''TLS_DHE_RSA_WITH_AES_128_CBC_SHA'', ''TLS_DHE_RSA_WITH_CAMELLIA_128_GCM_SHA256'',
        ''TLS_DHE_RSA_WITH_CAMELLIA_128_CBC_SHA256'', ''TLS_DHE_RSA_WITH_CAMELLIA_128_CBC_SHA'',
        ''TLS_DHE_RSA_WITH_3DES_EDE_CBC_SHA''],
      Option ''KEY_EXCHANGE_ECDHE_RSA_ENABLED'' False '''' [[''ECDH_C''], [''RSA_C''], [''PKCS1_V15''],
        [''X509_CRT_PARSE_C'']] [''TLS_ECDHE_RSA_WITH_AES_256_GCM_SHA384'',
        ''TLS_ECDHE_RSA_WITH_AES_256_CBC_SHA384'', ''TLS_ECDHE_RSA_WITH_AES_256_CBC_SHA'',
        ''TLS_ECDHE_RSA_WITH_CAMELLIA_256_GCM_SHA384'', ''TLS_ECDHE_RSA_WITH_CAMELLIA_256_CBC_SHA384'',
        ''TLS_ECDHE_RSA_WITH_AES_128_GCM_SHA256'', ''TLS_ECDHE_RSA_WITH_AES_128_CBC_SHA256'',
        ''TLS_ECDHE_RSA_WITH_AES_128_CBC_SHA'', ''TLS_ECDHE_RSA_WITH_CAMELLIA_128_GCM_SHA256'',
        ''TLS_ECDHE_RSA_WITH_CAMELLIA_128_CBC_SHA256'', ''TLS_ECDHE_RSA_WITH_3DES_EDE_CBC_SHA'',
        ''TLS_ECDHE_RSA_WITH_RC4_128_SHA''],
      Option ''KEY_EXCHANGE_ECDHE_ECDSA_ENABLED'' True '''' [[''ECDH_C''], [''ECDSA_C''], [''X509_CRT_PARSE_C'']]
        [''TLS_ECDHE_ECDSA_WITH_AES_256_GCM_SHA384'', ''TLS_ECDHE_ECDSA_WITH_AES_256_CBC_SHA384'',
        ''TLS_ECDHE_ECDSA_WITH_AES_256_CBC_SHA'', ''TLS_ECDHE_ECDSA_WITH_CAMELLIA_256_GCM_SHA384'',
        ''TLS_ECDHE_ECDSA_WITH_CAMELLIA_256_CBC_SHA384'', ''TLS_ECDHE_ECDSA_WITH_AES_128_GCM_SHA256'',
        ''TLS_ECDHE_ECDSA_WITH_AES_128_CBC_SHA256'', ''TLS_ECDHE_ECDSA_WITH_AES_128_CBC_SHA'',
        ''TLS_ECDHE_ECDSA_WITH_CAMELLIA_128_GCM_SHA256'', ''TLS_ECDHE_ECDSA_WITH_CAMELLIA_128_CBC_SHA256'',
        ''TLS_ECDHE_ECDSA_WITH_3DES_EDE_CBC_SHA'', ''TLS_ECDHE_ECDSA_WITH_RC4_128_SHA''],
      Option ''KEY_EXCHANGE_ECDH_ECDSA_ENABLED'' False '''' [[''ECDH_C''], [''X509_CRT_PARSE_C'']]
        [''TLS_ECDH_ECDSA_WITH_RC4_128_SHA'', ''TLS_ECDH_ECDSA_WITH_3DES_EDE_CBC_SHA'',
        ''TLS_ECDH_ECDSA_WITH_AES_128_CBC_SHA'', ''TLS_ECDH_ECDSA_WITH_AES_256_CBC_SHA'',
        ''TLS_ECDH_ECDSA_WITH_AES_128_CBC_SHA256'', ''TLS_ECDH_ECDSA_WITH_AES_256_CBC_SHA384'',
        ''TLS_ECDH_ECDSA_WITH_AES_128_GCM_SHA256'', ''TLS_ECDH_ECDSA_WITH_AES_256_GCM_SHA384'',
        ''TLS_ECDH_ECDSA_WITH_CAMELLIA_128_CBC_SHA256'', ''TLS_ECDH_ECDSA_WITH_CAMELLIA_256_CBC_SHA384'',
        ''TLS_ECDH_ECDSA_WITH_CAMELLIA_128_GCM_SHA256'', ''TLS_ECDH_ECDSA_WITH_CAMELLIA_256_GCM_SHA384''],
      Option ''KEY_EXCHANGE_ECDH_RSA_ENABLED'' False '''' [[''ECDH_C''], [''X509_CRT_PARSE_C'']]
        [''TLS_ECDH_RSA_WITH_RC4_128_SHA'', ''TLS_ECDH_RSA_WITH_3DES_EDE_CBC_SHA'',
        ''TLS_ECDH_RSA_WITH_AES_128_CBC_SHA'', ''TLS_ECDH_RSA_WITH_AES_256_CBC_SHA'',
        ''TLS_ECDH_RSA_WITH_AES_128_CBC_SHA256'', ''TLS_ECDH_RSA_WITH_AES_256_CBC_SHA384'',
        ''TLS_ECDH_RSA_WITH_AES_128_GCM_SHA256'', ''TLS_ECDH_RSA_WITH_AES_256_GCM_SHA384'',
        ''TLS_ECDH_RSA_WITH_CAMELLIA_128_CBC_SHA256'', ''TLS_ECDH_RSA_WITH_CAMELLIA_256_CBC_SHA384'',
        ''TLS_ECDH_RSA_WITH_CAMELLIA_128_GCM_SHA256'', ''TLS_ECDH_RSA_WITH_CAMELLIA_256_GCM_SHA384'']]"

definition pal_options_785 :: "tls_option list" where
  "pal_options_785 =
     [Option ''KEY_EXCHANGE_ECJPAKE_ENABLED'' False '''' [[''ECJPAKE_C''], [''SHA256_C''],
        [''ECP_DP_SECP256R1_ENABLED'']] [''TLS_ECJPAKE_WITH_AES_128_CCM_8''],
      Option ''PK_PARSE_EC_EXTENDED'' False '''' [] [],
      Option ''ERROR_STRERROR_DUMMY'' False '''' [] [],
      Option ''GENPRIME'' False '''' [[''BIGNUM_C'']] [],
      Option ''FS_IO'' False '''' [] [],
      Option ''NO_DEFAULT_ENTROPY_SOURCES'' False '''' [] [],
      Option ''NO_PLATFORM_ENTROPY'' False '''' [] [],
      Option ''ENTROPY_FORCE_SHA256'' False '''' [[''SHA256_C'']] [],
      Option ''ENTROPY_NV_SEED'' False '''' [[''ENTROPY_C''], [''PLATFORM_C'']] [],
      Option ''MEMORY_DEBUG'' False '''' [[''MEMORY_BUFFER_ALLOC_C'']] []]"

definition pal_options_930 :: "tls_option list" where
  "pal_options_930 =
     [Option ''MEMORY_BACKTRACE'' False '''' [[''MEMORY_BUFFER_ALLOC_C'']] [],
      Option ''PK_RSA_ALT_SUPPORT'' False '''' [] [],
      Option ''PKCS1_V15'' True '''' [[''RSA_C'']] [],
      Option ''PKCS1_V21'' True '''' [[''MD_C''], [''RSA_C'']] [],
      Option ''RSA_NO_CRT'' False '''' [] [],
      Option ''SELF_TEST'' False '''' [] [],
      Option ''SHA256_SMALLER'' False '''' [] [],
      Option ''SSL_ALL_ALERT_MESSAGES'' True '''' [] [],
      Option ''SSL_DEBUG_ALL'' False '''' [] [],
      Option ''SSL_ENCRYPT_THEN_MAC'' True '''' [[''SSL_PROTO_TLS1'', ''SSL_PROTO_TLS1_1'', ''SSL_PROTO_TLS1_2'']] [],
      Option ''SSL_EXTENDED_MASTER_SECRET'' True '''' [[''SSL_PROTO_TLS1'', ''SSL_PROTO_TLS1_1'',
        ''SSL_PROTO_TLS1_2'']] []]"

definition pal_options_1072 :: "tls_option list" where
  "pal_options_1072 =
     [Option ''SSL_FALLBACK_SCSV'' False '''' [] [],
      Option ''SSL_HW_RECORD_ACCEL'' False '''' [] [],
      Option ''SSL_CBC_RECORD_SPLITTING'' False '''' [] [],
      Option ''SSL_RENEGOTIATION'' True '''' [] [],
      Option ''SSL_SRV_SUPPORT_SSLV2_CLIENT_HELLO'' False '''' [] [],
      Option ''SSL_SRV_RESPECT_CLIENT_PREFERENCE'' False '''' [] [],
      Option ''SSL_MAX_FRAGMENT_LENGTH'' True '''' [] [],
      Option ''SSL_PROTO_SSL3'' False '''' [[''MD5_C''], [''SHA1_C'']] [],
      Option ''SSL_PROTO_TLS1'' False '''' [[''MD5_C''], [''SHA1_C'']] [],
      Option ''SSL_PROTO_TLS1_1'' False '''' [[''MD5_C''], [''SHA1_C'']] [],
      Option ''SSL_PROTO_TLS1_2'' True '''' [[''SHA1_C'', ''SHA256_C'', ''SHA512_C'']] [],
      Option ''SSL_PROTO_DTLS'' True '''' [[''SSL_PROTO_TLS1_1'', ''SSL_PROTO_TLS1_2'']] []]"

definition pal_options_1218 :: "tls_option list" where
  "pal_options_1218 =
     [Option ''SSL_ALPN'' True '''' [] [],
      Option ''SSL_DTLS_ANTI_REPLAY'' True '''' [[''SSL_TLS_C''], [''SSL_PROTO_DTLS'']] [],
      Option ''SSL_DTLS_HELLO_VERIFY'' True '''' [[''SSL_PROTO_DTLS'']] [],
      Option ''SSL_DTLS_CLIENT_PORT_REUSE'' True '''' [[''SSL_DTLS_HELLO_VERIFY'']] [],
      Option ''SSL_DTLS_BADMAC_LIMIT'' True '''' [[''SSL_PROTO_DTLS'']] [],
      Option ''SSL_SESSION_TICKETS'' True '''' [] [],
      Option ''SSL_EXPORT_KEYS'' True '''' [] [],
      Option ''SSL_SERVER_NAME_INDICATION'' True '''' [[''X509_CRT_PARSE_C'']] [],
      Option ''SSL_TRUNCATED_HMAC'' False '''' [] [],
      Option ''THREADING_ALT'' False '''' [[''THREADING_C'']] [],
      Option ''THREADING_PTHREAD'' False '''' [[''THREADING_C'']] [],
      Option ''VERSION_FEATURES'' False '''' [[''VERSION_C'']] []]"

definition pal_options_1366 :: "tls_option list" where
  "pal_options_1366 =
     [Option ''X509_ALLOW_EXTENSIONS_NON_V3'' False '''' [] [],
      Option ''X509_ALLOW_UNSUPPORTED_CRITICAL_EXTENSION'' False '''' [] [],
      Option ''X509_CHECK_KEY_USAGE'' True '''' [] [],
      Option ''X509_CHECK_EXTENDED_KEY_USAGE'' True '''' [] [],
      Option ''X509_RSASSA_PSS_SUPPORT'' False '''' [] [],
      Option ''ZLIB_SUPPORT'' False '''' [] [],
      Option ''AESNI_C'' False '''' [[''HAVE_ASM'']] []]"

definition pal_options_1469 :: "tls_option list" where
  "pal_options_1469 =
     [Option ''AES_C'' True '''' [] [''TLS_ECDH_ECDSA_WITH_AES_128_CBC_SHA'',
        ''TLS_ECDH_ECDSA_WITH_AES_256_CBC_SHA'', ''TLS_ECDH_RSA_WITH_AES_128_CBC_SHA'',
        ''TLS_ECDH_RSA_WITH_AES_256_CBC_SHA'', ''TLS_ECDH_ECDSA_WITH_AES_128_CBC_SHA256'',
        ''TLS_ECDH_ECDSA_WITH_AES_256_CBC_SHA384'', ''TLS_ECDH_RSA_WITH_AES_128_CBC_SHA256'',
        ''TLS_ECDH_RSA_WITH_AES_256_CBC_SHA384'', ''TLS_ECDH_ECDSA_WITH_AES_128_GCM_SHA256'',
        ''TLS_ECDH_ECDSA_WITH_AES_256_GCM_SHA384'', ''TLS_ECDH_RSA_WITH_AES_128_GCM_SHA256'',
        ''TLS_ECDH_RSA_WITH_AES_256_GCM_SHA384'', ''TLS_ECDHE_ECDSA_WITH_AES_256_GCM_SHA384'',
        ''TLS_ECDHE_RSA_WITH_AES_256_GCM_SHA384'', ''TLS_DHE_RSA_WITH_AES_256_GCM_SHA384'',
        ''TLS_ECDHE_ECDSA_WITH_AES_256_CBC_SHA384'', ''TLS_ECDHE_RSA_WITH_AES_256_CBC_SHA384'',
        ''TLS_DHE_RSA_WITH_AES_256_CBC_SHA256'', ''TLS_ECDHE_ECDSA_WITH_AES_256_CBC_SHA'',
        ''TLS_ECDHE_RSA_WITH_AES_256_CBC_SHA'', ''TLS_DHE_RSA_WITH_AES_256_CBC_SHA'',
        ''TLS_ECDHE_ECDSA_WITH_AES_128_GCM_SHA256'', ''TLS_ECDHE_RSA_WITH_AES_128_GCM_SHA256'',
        ''TLS_DHE_RSA_WITH_AES_128_GCM_SHA256'', ''TLS_ECDHE_ECDSA_WITH_AES_128_CBC_SHA256'',
        ''TLS_ECDHE_RSA_WITH_AES_128_CBC_SHA256'', ''TLS_DHE_RSA_WITH_AES_128_CBC_SHA256'',
        ''TLS_ECDHE_ECDSA_WITH_AES_128_CBC_SHA'', ''TLS_ECDHE_RSA_WITH_AES_128_CBC_SHA'',
        ''TLS_DHE_RSA_WITH_AES_128_CBC_SHA'', ''TLS_DHE_PSK_WITH_AES_256_GCM_SHA384'',
        ''TLS_ECDHE_PSK_WITH_AES_256_CBC_SHA384'', ''TLS_DHE_PSK_WITH_AES_256_CBC_SHA384'',
        ''TLS_ECDHE_PSK_WITH_AES_256_CBC_SHA'', ''TLS_DHE_PSK_WITH_AES_256_CBC_SHA'',
        ''TLS_DHE_PSK_WITH_AES_128_GCM_SHA256'', ''TLS_ECDHE_PSK_WITH_AES_128_CBC_SHA256'',
        ''TLS_DHE_PSK_WITH_AES_128_CBC_SHA256'', ''TLS_ECDHE_PSK_WITH_AES_128_CBC_SHA'',
        ''TLS_DHE_PSK_WITH_AES_128_CBC_SHA'', ''TLS_RSA_WITH_AES_256_GCM_SHA384'',
        ''TLS_RSA_WITH_AES_256_CBC_SHA256'', ''TLS_RSA_WITH_AES_256_CBC_SHA'', ''TLS_RSA_WITH_AES_128_GCM_SHA256'',
        ''TLS_RSA_WITH_AES_128_CBC_SHA256'', ''TLS_RSA_WITH_AES_128_CBC_SHA'',
        ''TLS_RSA_PSK_WITH_AES_256_GCM_SHA384'', ''TLS_RSA_PSK_WITH_AES_256_CBC_SHA384'',
        ''TLS_RSA_PSK_WITH_AES_256_CBC_SHA'', ''TLS_RSA_PSK_WITH_AES_128_GCM_SHA256'',
        ''TLS_RSA_PSK_WITH_AES_128_CBC_SHA256'', ''TLS_RSA_PSK_WITH_AES_128_CBC_SHA'',
        ''TLS_PSK_WITH_AES_256_GCM_SHA384'', ''TLS_PSK_WITH_AES_256_CBC_SHA384'', ''TLS_PSK_WITH_AES_256_CBC_SHA'',
        ''TLS_PSK_WITH_AES_128_GCM_SHA256'', ''TLS_PSK_WITH_AES_128_CBC_SHA256'', ''TLS_PSK_WITH_AES_128_CBC_SHA''],
      Option ''ARC4_C'' False '''' [] [''TLS_ECDH_ECDSA_WITH_RC4_128_SHA'', ''TLS_ECDH_RSA_WITH_RC4_128_SHA'',
        ''TLS_ECDHE_ECDSA_WITH_RC4_128_SHA'', ''TLS_ECDHE_RSA_WITH_RC4_128_SHA'', ''TLS_ECDHE_PSK_WITH_RC4_128_SHA'',
        ''TLS_DHE_PSK_WITH_RC4_128_SHA'', ''TLS_RSA_WITH_RC4_128_SHA'', ''TLS_RSA_WITH_RC4_128_MD5'',
        ''TLS_RSA_PSK_WITH_RC4_128_SHA'', ''TLS_PSK_WITH_RC4_128_SHA''],
      Option ''ASN1_PARSE_C'' True '''' [] [],
      Option ''ASN1_WRITE_C'' True '''' [] [],
      Option ''BASE64_C'' False '''' [] []]"

definition pal_options_1607 :: "tls_option list" where
  "pal_options_1607 =
     [Option ''BIGNUM_C'' True '''' [] [],
      Option ''BLOWFISH_C'' False '''' [] [],
      Option ''CAMELLIA_C'' False '''' [] [''TLS_ECDH_ECDSA_WITH_CAMELLIA_128_CBC_SHA256'',
        ''TLS_ECDH_ECDSA_WITH_CAMELLIA_256_CBC_SHA384'', ''TLS_ECDH_RSA_WITH_CAMELLIA_128_CBC_SHA256'',
        ''TLS_ECDH_RSA_WITH_CAMELLIA_256_CBC_SHA384'', ''TLS_ECDH_ECDSA_WITH_CAMELLIA_128_GCM_SHA256'',
        ''TLS_ECDH_ECDSA_WITH_CAMELLIA_256_GCM_SHA384'', ''TLS_ECDH_RSA_WITH_CAMELLIA_128_GCM_SHA256'',
        ''TLS_ECDH_RSA_WITH_CAMELLIA_256_GCM_SHA384'', ''TLS_ECDHE_ECDSA_WITH_CAMELLIA_256_GCM_SHA384'',
        ''TLS_ECDHE_RSA_WITH_CAMELLIA_256_GCM_SHA384'', ''TLS_DHE_RSA_WITH_CAMELLIA_256_GCM_SHA384'',
        ''TLS_ECDHE_ECDSA_WITH_CAMELLIA_256_CBC_SHA384'', ''TLS_ECDHE_RSA_WITH_CAMELLIA_256_CBC_SHA384'',
        ''TLS_DHE_RSA_WITH_CAMELLIA_256_CBC_SHA256'', ''TLS_DHE_RSA_WITH_CAMELLIA_256_CBC_SHA'',
        ''TLS_ECDHE_ECDSA_WITH_CAMELLIA_128_GCM_SHA256'', ''TLS_ECDHE_RSA_WITH_CAMELLIA_128_GCM_SHA256'',
        ''TLS_DHE_RSA_WITH_CAMELLIA_128_GCM_SHA256'', ''TLS_ECDHE_ECDSA_WITH_CAMELLIA_128_CBC_SHA256'',
        ''TLS_ECDHE_RSA_WITH_CAMELLIA_128_CBC_SHA256'', ''TLS_DHE_RSA_WITH_CAMELLIA_128_CBC_SHA256'',
        ''TLS_DHE_RSA_WITH_CAMELLIA_128_CBC_SHA'', ''TLS_DHE_PSK_WITH_CAMELLIA_256_GCM_SHA384'',
        ''TLS_ECDHE_PSK_WITH_CAMELLIA_256_CBC_SHA384'', ''TLS_DHE_PSK_WITH_CAMELLIA_256_CBC_SHA384'',
        ''TLS_DHE_PSK_WITH_CAMELLIA_128_GCM_SHA256'', ''TLS_DHE_PSK_WITH_CAMELLIA_128_CBC_SHA256'',
        ''TLS_ECDHE_PSK_WITH_CAMELLIA_128_CBC_SHA256'', ''TLS_RSA_WITH_CAMELLIA_256_GCM_SHA384'',
        ''TLS_RSA_WITH_CAMELLIA_256_CBC_SHA256'', ''TLS_RSA_WITH_CAMELLIA_256_CBC_SHA'',
        ''TLS_RSA_WITH_CAMELLIA_128_GCM_SHA256'', ''TLS_RSA_WITH_CAMELLIA_128_CBC_SHA256'',
        ''TLS_RSA_WITH_CAMELLIA_128_CBC_SHA'', ''TLS_RSA_PSK_WITH_CAMELLIA_256_GCM_SHA384'',
        ''TLS_RSA_PSK_WITH_CAMELLIA_256_CBC_SHA384'', ''TLS_RSA_PSK_WITH_CAMELLIA_128_GCM_SHA256'',
        ''TLS_RSA_PSK_WITH_CAMELLIA_128_CBC_SHA256'', ''TLS_PSK_WITH_CAMELLIA_256_GCM_SHA384'',
        ''TLS_PSK_WITH_CAMELLIA_256_CBC_SHA384'', ''TLS_PSK_WITH_CAMELLIA_128_GCM_SHA256'',
        ''TLS_PSK_WITH_CAMELLIA_128_CBC_SHA256''],
      Option ''CCM_C'' True '''' [[''AES_C'', ''CAMELLIA_C'']] [],
      Option ''CERTS_C'' False '''' [] [],
      Option ''CIPHER_C'' True '''' [] [],
      Option ''CMAC_C'' True '''' [[''AES_C'', ''DES_C'']] [],
      Option ''CTR_DRBG_C'' True '''' [[''AES_C'']] []]"

definition pal_options_1752 :: "tls_option list" where
  "pal_options_1752 =
     [Option ''DEBUG_C'' False '''' [] [],
      Option ''DES_C'' False '''' [] [''TLS_ECDH_ECDSA_WITH_3DES_EDE_CBC_SHA'',
        ''TLS_ECDH_RSA_WITH_3DES_EDE_CBC_SHA'', ''TLS_ECDHE_ECDSA_WITH_3DES_EDE_CBC_SHA'',
        ''TLS_ECDHE_RSA_WITH_3DES_EDE_CBC_SHA'', ''TLS_DHE_RSA_WITH_3DES_EDE_CBC_SHA'',
        ''TLS_ECDHE_PSK_WITH_3DES_EDE_CBC_SHA'', ''TLS_DHE_PSK_WITH_3DES_EDE_CBC_SHA'',
        ''TLS_RSA_WITH_3DES_EDE_CBC_SHA'', ''TLS_RSA_PSK_WITH_3DES_EDE_CBC_SHA'', ''TLS_PSK_WITH_3DES_EDE_CBC_SHA''],
      Option ''DHM_C'' False '''' [] [],
      Option ''ECDH_C'' True '''' [[''ECP_C'']] [],
      Option ''ECDSA_C'' True '''' [[''ECP_C''], [''ASN1_WRITE_C''], [''ASN1_PARSE_C'']] [],
      Option ''ECJPAKE_C'' False '''' [[''ECP_C''], [''MD_C'']] [],
      Option ''ECP_C'' True '''' [[''BIGNUM_C''], [''ECP_DP_SECP192R1_ENABLED'', ''ECP_DP_SECP224R1_ENABLED'',
        ''ECP_DP_SECP256R1_ENABLED'', ''ECP_DP_SECP384R1_ENABLED'', ''ECP_DP_SECP521R1_ENABLED'',
        ''ECP_DP_SECP192K1_ENABLED'', ''ECP_DP_SECP224K1_ENABLED'', ''ECP_DP_SECP256K1_ENABLED'',
        ''ECP_DP_BP256R1_ENABLED'', ''ECP_DP_BP384R1_ENABLED'', ''ECP_DP_BP512R1_ENABLED'',
        ''ECP_DP_CURVE25519_ENABLED'']] [],
      Option ''ENTROPY_C'' True '''' [[''SHA512_C'', ''SHA256_C'']] [],
      Option ''ERROR_C'' False '''' [] []]"

definition pal_options_1896 :: "tls_option list" where
  "pal_options_1896 =
     [Option ''GCM_C'' False '''' [[''AES_C'', ''CAMELLIA_C'']] [],
      Option ''HAVEGE_C'' False '''' [[''TIMING_C'']] [],
      Option ''HMAC_DRBG_C'' True '''' [[''MD_C'']] [],
      Option ''MD_C'' True '''' [] [],
      Option ''MD2_C'' False '''' [] [],
      Option ''MD4_C'' False '''' [] [],
      Option ''MD5_C'' False '''' [] [],
      Option ''MEMORY_BUFFER_ALLOC_C'' False '''' [[''PLATFORM_C''], [''PLATFORM_MEMORY'']] [],
      Option ''NET_C'' False '''' [] []]"

definition pal_options_2033 :: "tls_option list" where
  "pal_options_2033 =
     [Option ''OID_C'' True '''' [] [],
      Option ''PADLOCK_C'' False '''' [[''HAVE_ASM'']] [],
      Option ''PEM_PARSE_C'' False '''' [[''BASE64_C'']] [],
      Option ''PEM_WRITE_C'' False '''' [[''BASE64_C'']] [],
      Option ''PK_C'' True '''' [[''RSA_C'', ''ECP_C'']] [],
      Option ''PK_PARSE_C'' True '''' [[''PK_C'']] [],
      Option ''PK_WRITE_C'' True '''' [[''PK_C'']] [],
      Option ''PKCS5_C'' False '''' [[''MD_C'']] [],
      Option ''PKCS11_C'' False '''' [] []]"

definition pal_options_2177 :: "tls_option list" where
  "pal_options_2177 =
     [Option ''PKCS12_C'' False '''' [[''ASN1_PARSE_C''], [''CIPHER_C''], [''MD_C'']] [],
      Option ''PLATFORM_C'' True '''' [] [],
      Option ''RIPEMD160_C'' False '''' [] [],
      Option ''RSA_C'' False '''' [[''BIGNUM_C''], [''OID_C'']] [],
      Option ''SHA1_C'' False '''' [] [],
      Option ''SHA256_C'' True '''' [] [],
      Option ''SHA512_C'' False '''' [] [],
      Option ''SSL_CACHE_C'' True '''' [[''SSL_CACHE_C'']] [],
      Option ''SSL_COOKIE_C'' True '''' [] [],
      Option ''SSL_TICKET_C'' True '''' [[''CIPHER_C'']] []]"

definition pal_options_2324 :: "tls_option list" where
  "pal_options_2324 =
     [Option ''SSL_CLI_C'' True '''' [[''SSL_TLS_C'']] [],
      Option ''SSL_SRV_C'' False '''' [[''SSL_TLS_C'']] [],
      Option ''SSL_TLS_C'' True '''' [[''CIPHER_C''], [''MD_C''], [''SSL_PROTO_SSL3'', ''SSL_PROTO_TLS1'',
        ''SSL_PROTO_TLS1_1'', ''SSL_PROTO_TLS1_2'']] [],
      Option ''THREADING_C'' False '''' [] [],
      Option ''TIMING_C'' False '''' [] [],
      Option ''VERSION_C'' True '''' [] [],
      Option ''X509_USE_C'' True '''' [[''ASN1_PARSE_C''], [''BIGNUM_C''], [''OID_C''], [''PK_PARSE_C'']] [],
      Option ''X509_CRT_PARSE_C'' True '''' [[''X509_USE_C'']] [],
      Option ''X509_CRL_PARSE_C'' True '''' [[''X509_USE_C'']] []]"

definition pal_options_2471 :: "tls_option list" where
  "pal_options_2471 =
     [Option ''X509_CSR_PARSE_C'' True '''' [[''X509_USE_C'']] [],
      Option ''X509_CREATE_C'' True '''' [[''BIGNUM_C''], [''OID_C''], [''PK_WRITE_C'']] [],
      Option ''X509_CRT_WRITE_C'' False '''' [[''X509_CREATE_C'']] [],
      Option ''X509_CSR_WRITE_C'' True '''' [[''X509_CREATE_C'']] [],
      Option ''XTEA_C'' False '''' [] [],
      Option ''MPI_WINDOW_SIZE'' False ''6'' [] [],
      Option ''MPI_MAX_SIZE'' False ''1024'' [] [],
      Option ''CTR_DRBG_ENTROPY_LEN'' False ''48'' [] [],
      Option ''CTR_DRBG_RESEED_INTERVAL'' False ''10000'' [] [],
      Option ''CTR_DRBG_MAX_INPUT'' False ''256'' [] [],
      Option ''CTR_DRBG_MAX_REQUEST'' False ''1024'' [] [],
      Option ''CTR_DRBG_MAX_SEED_INPUT'' False ''384'' [] [],
      Option ''HMAC_DRBG_RESEED_INTERVAL'' False ''10000'' [] [],
      Option ''HMAC_DRBG_MAX_INPUT'' False ''256'' [] [],
      Option ''HMAC_DRBG_MAX_REQUEST'' False ''1024'' [] [],
      Option ''HMAC_DRBG_MAX_SEED_INPUT'' False ''384'' [] [],
      Option ''ECP_MAX_BITS'' False ''521'' [] [],
      Option ''ECP_WINDOW_SIZE'' False ''6'' [] [],
      Option ''ECP_FIXED_POINT_OPTIM'' False ''1'' [] [],
      Option ''ENTROPY_MAX_SOURCES'' False ''20'' [] [],
      Option ''ENTROPY_MAX_GATHER'' False ''128'' [] [],
      Option ''ENTROPY_MIN_HARDWARE'' False ''32'' [] [],
      Option ''MEMORY_ALIGN_MULTIPLE'' False ''4'' [] [],
      Option ''PLATFORM_STD_MEM_HDR'' False ''<stdlib.h>'' [] [],
      Option ''PLATFORM_STD_CALLOC'' False ''calloc'' [] [],
      Option ''PLATFORM_STD_FREE'' False ''free'' [] [],
      Option ''PLATFORM_STD_EXIT'' False ''exit'' [] [],
      Option ''PLATFORM_STD_TIME'' False ''time'' [] [],
      Option ''PLATFORM_STD_FPRINTF'' False ''fprintf'' [] [],
      Option ''PLATFORM_STD_PRINTF'' False ''printf'' [] [],
      Option ''PLATFORM_STD_SNPRINTF'' False ''snprintf'' [] [],
      Option ''PLATFORM_STD_EXIT_SUCCESS'' False ''0'' [] [],
      Option ''PLATFORM_STD_EXIT_FAILURE'' False ''1'' [] [],
      Option ''PLATFORM_STD_NV_SEED_READ'' False ''mbedtls_platform_std_nv_seed_read'' [] [],
      Option ''PLATFORM_STD_NV_SEED_WRITE'' False ''mbedtls_platform_std_nv_seed_write'' [] [],
      Option ''PLATFORM_STD_NV_SEED_FILE'' False ''seedfile'' [] [],
      Option ''PLATFORM_CALLOC_MACRO'' False ''calloc'' [] [],
      Option ''PLATFORM_FREE_MACRO'' False ''free'' [] [],
      Option ''PLATFORM_EXIT_MACRO'' False ''exit'' [] [],
      Option ''PLATFORM_TIME_MACRO'' False ''time'' [] [],
      Option ''PLATFORM_TIME_TYPE_MACRO'' False ''time_t'' [] [],
      Option ''PLATFORM_FPRINTF_MACRO'' False ''fprintf'' [] [],
      Option ''PLATFORM_PRINTF_MACRO'' False ''printf'' [] [],
      Option ''PLATFORM_SNPRINTF_MACRO'' False ''snprintf'' [] [],
      Option ''PLATFORM_NV_SEED_READ_MACRO'' False ''mbedtls_platform_std_nv_seed_read'' [] [],
      Option ''PLATFORM_NV_SEED_WRITE_MACRO'' False ''mbedtls_platform_std_nv_seed_write'' [] [],
      Option ''SSL_CACHE_DEFAULT_TIMEOUT'' False ''86400'' [] [],
      Option ''SSL_CACHE_DEFAULT_MAX_ENTRIES'' False ''50'' [] [],
      Option ''SSL_MAX_CONTENT_LEN'' True ''4096'' [] [],
      Option ''SSL_DEFAULT_TICKET_LIFETIME'' False ''86400'' [] [],
      Option ''PSK_MAX_LEN'' False ''32'' [] [],
      Option ''SSL_COOKIE_TIMEOUT'' False ''60'' [] []]"

definition pal_options_2621 :: "tls_option list" where
  "pal_options_2621 =
     [Option ''SSL_CIPHERSUITES'' False
        ''TLS_ECDHE_ECDSA_WITH_AES_256_GCM_SHA384 TLS_ECDHE_ECDSA_WITH_AES_128_GCM_SHA256'' [] [],
      Option ''SSL_CIPHERSUITES'' True
        ''TLS_ECDHE_ECDSA_WITH_AES_128_CCM_8 TLS_PSK_WITH_AES_128_CBC_SHA256 TLS_PSK_WITH_AES_256_CCM_8 TLS_PSK_WITH_AES_128_CCM_8 TLS_ECDHE_ECDSA_WITH_AES_256_GCM_SHA384 TLS_ECDHE_ECDSA_WITH_AES_128_GCM_SHA256''
        [] [],
      Option ''X509_MAX_INTERMEDIATE_CA'' False ''8'' [] [],
      Option ''X509_MAX_FILE_PATH_LEN'' False ''512'' [] [],
      Option ''YOTTA_CFG_MBEDTLS_TARGET_CONFIG_FILE'' False ''mbedtls/target_config.h'' [] []]"

definition pal_options :: "tls_option list" where
  "pal_options =
     pal_options_28 @ pal_options_167 @ pal_options_338 @ pal_options_484 @
     pal_options_634 @ pal_options_785 @ pal_options_930 @ pal_options_1072 @
     pal_options_1218 @ pal_options_1366 @ pal_options_1469 @ pal_options_1607 @
     pal_options_1752 @ pal_options_1896 @ pal_options_2033 @ pal_options_2177 @
     pal_options_2324 @ pal_options_2471 @ pal_options_2621"

lemmas pal_options_defs = pal_options_def
  pal_options_28_def pal_options_167_def pal_options_338_def pal_options_484_def pal_options_634_def
    pal_options_785_def pal_options_930_def pal_options_1072_def pal_options_1218_def pal_options_1366_def
    pal_options_1469_def pal_options_1607_def pal_options_1752_def pal_options_1896_def pal_options_2033_def
    pal_options_2177_def pal_options_2324_def pal_options_2471_def pal_options_2621_def

section \<open>Preprocessing\<close>





section \<open>What a configuration provides\<close>

definition active_names :: "tls_option list \<Rightarrow> string list" where
  "active_names opts = map opt_name (filter opt_active opts)"

text \<open>The active options one of whose requirements has no active alternative.\<close>

definition unmet_in :: "(string \<Rightarrow> bool) \<Rightarrow> tls_option list \<Rightarrow> string list" where
  "unmet_in active opts =
     map opt_name (filter (\<lambda>opt. opt_active opt \<and> \<not> list_all (list_ex active) (opt_requires opt)) opts)"

definition unmet :: "tls_option list \<Rightarrow> string list" where
  "unmet opts = unmet_in (\<lambda>n. n \<in> set (active_names opts)) opts"

text \<open>The words of a value, for the list of ciphersuites.\<close>

fun words_of :: "string \<Rightarrow> string list" where
  "words_of [] = [[]]"
| "words_of (c # cs) =
     (case words_of cs of
        [] \<Rightarrow> [[c]]
      | w # ws \<Rightarrow> if c = CHR '' '' then [] # w # ws else (c # w) # ws)"

text \<open>
  What a suite needs: the module of its mode (\<open>CCM\<close>, \<open>GCM\<close> or \<open>CBC\<close>), of its hash (SHA-384 comes with
  \<open>SHA512_C\<close>; SHA-256 is also the function of TLS 1.2 for suites that name no hash), the cipher, and
  the key exchange its name starts with.
\<close>

definition suite_needs :: "string \<Rightarrow> string list" where
  "suite_needs s =
     (let kx = (if prefix ''TLS_ECDHE_ECDSA_WITH_'' s then ''KEY_EXCHANGE_ECDHE_ECDSA_ENABLED''
                else if prefix ''TLS_ECDHE_PSK_WITH_'' s then ''KEY_EXCHANGE_ECDHE_PSK_ENABLED''
                else ''KEY_EXCHANGE_PSK_ENABLED'');
          mode = (if suffix ''_CCM_8'' s then ''CCM_C''
                  else if suffix ''_GCM_SHA384'' s \<or> suffix ''_GCM_SHA256'' s then ''GCM_C''
                  else ''CIPHER_MODE_CBC'');
          hash = (if suffix ''_SHA384'' s then ''SHA512_C'' else ''SHA256_C'')
      in [kx, ''AES_C'', mode, hash])"

definition suite_values :: "tls_option list \<Rightarrow> string list" where
  "suite_values opts = map opt_value (filter (\<lambda>opt. opt_active opt \<and> opt_name opt = ''SSL_CIPHERSUITES'') opts)"

definition pal_ciphersuites :: "string list" where
  "pal_ciphersuites = concat (map words_of (suite_values pal_options))"

definition usable_suites :: "(string \<Rightarrow> bool) \<Rightarrow> string list \<Rightarrow> string list" where
  "usable_suites active suites = filter (\<lambda>s. list_all active (suite_needs s)) suites"

section \<open>The options of \<open>pal_mbedtls_config.h\<close>\<close>

lemma active_names_append: "active_names (xs @ ys) = active_names xs @ active_names ys"
  by (simp add: active_names_def)

lemma active_names_Cons:
  "active_names (opt # opts) = (if opt_active opt then [opt_name opt] else []) @ active_names opts"
  by (simp add: active_names_def)

lemma active_names_Nil: "active_names [] = []"
  by (simp add: active_names_def)

lemmas active_names_simps = active_names_append active_names_Cons active_names_Nil tls_option.sel
  if_True if_False append.simps

lemma active_names_pal:
  "active_names pal_options =
     [''HAVE_ASM'', ''HAVE_TIME'', ''CIPHER_MODE_CBC'', ''CIPHER_MODE_CTR'', ''CIPHER_PADDING_PKCS7'',
      ''REMOVE_ARC4_CIPHERSUITES'', ''ECP_DP_SECP256R1_ENABLED'', ''ECP_DP_SECP384R1_ENABLED'',
      ''ECP_NIST_OPTIM'', ''ECDSA_DETERMINISTIC'', ''KEY_EXCHANGE_ECDHE_PSK_ENABLED'',
      ''KEY_EXCHANGE_ECDHE_ECDSA_ENABLED'', ''PKCS1_V15'', ''PKCS1_V21'', ''SSL_ALL_ALERT_MESSAGES'',
      ''SSL_ENCRYPT_THEN_MAC'', ''SSL_EXTENDED_MASTER_SECRET'', ''SSL_RENEGOTIATION'',
      ''SSL_MAX_FRAGMENT_LENGTH'', ''SSL_PROTO_TLS1_2'', ''SSL_PROTO_DTLS'', ''SSL_ALPN'',
      ''SSL_DTLS_ANTI_REPLAY'', ''SSL_DTLS_HELLO_VERIFY'', ''SSL_DTLS_CLIENT_PORT_REUSE'',
      ''SSL_DTLS_BADMAC_LIMIT'', ''SSL_SESSION_TICKETS'', ''SSL_EXPORT_KEYS'',
      ''SSL_SERVER_NAME_INDICATION'', ''X509_CHECK_KEY_USAGE'', ''X509_CHECK_EXTENDED_KEY_USAGE'',
      ''AES_C'', ''ASN1_PARSE_C'', ''ASN1_WRITE_C'', ''BIGNUM_C'', ''CCM_C'', ''CIPHER_C'', ''CMAC_C'',
      ''CTR_DRBG_C'', ''ECDH_C'', ''ECDSA_C'', ''ECP_C'', ''ENTROPY_C'', ''HMAC_DRBG_C'', ''MD_C'',
      ''OID_C'', ''PK_C'', ''PK_PARSE_C'', ''PK_WRITE_C'', ''PLATFORM_C'', ''SHA256_C'', ''SSL_CACHE_C'',
      ''SSL_COOKIE_C'', ''SSL_TICKET_C'', ''SSL_CLI_C'', ''SSL_TLS_C'', ''VERSION_C'', ''X509_USE_C'',
      ''X509_CRT_PARSE_C'', ''X509_CRL_PARSE_C'', ''X509_CSR_PARSE_C'', ''X509_CREATE_C'',
      ''X509_CSR_WRITE_C'', ''SSL_MAX_CONTENT_LEN'', ''SSL_CIPHERSUITES'']"
  by (simp only: pal_options_defs active_names_simps)

definition active_pal :: "string \<Rightarrow> bool" where
  "active_pal name = (name \<in> set (active_names pal_options))"

text \<open>The options that the others require, decided once.\<close>

lemma active_pal_on:
  "active_pal ''HMAC_DRBG_C''" "active_pal ''ECDH_C''" "active_pal ''ECDSA_C''"
    "active_pal ''X509_CRT_PARSE_C''" "active_pal ''MD_C''" "active_pal ''SSL_PROTO_TLS1_2''"
    "active_pal ''SHA256_C''" "active_pal ''SSL_TLS_C''" "active_pal ''SSL_PROTO_DTLS''"
    "active_pal ''SSL_DTLS_HELLO_VERIFY''" "active_pal ''AES_C''" "active_pal ''ECP_C''"
    "active_pal ''ASN1_WRITE_C''" "active_pal ''ASN1_PARSE_C''" "active_pal ''BIGNUM_C''"
    "active_pal ''ECP_DP_SECP256R1_ENABLED''" "active_pal ''PK_C''" "active_pal ''CIPHER_C''"
    "active_pal ''SSL_CACHE_C''" "active_pal ''OID_C''" "active_pal ''PK_PARSE_C''"
    "active_pal ''PK_WRITE_C''" "active_pal ''X509_USE_C''" "active_pal ''X509_CREATE_C''"
  unfolding active_pal_def active_names_pal by (simp_all only: list.set insert_iff simp_thms)

lemma active_pal_off: "\<not> active_pal ''RSA_C''"
  unfolding active_pal_def active_names_pal by simp

lemma unmet_in_append: "unmet_in active (xs @ ys) = unmet_in active xs @ unmet_in active ys"
  by (simp add: unmet_in_def)

lemma unmet_in_Cons:
  "unmet_in active (opt # opts) =
     (if opt_active opt \<and> \<not> list_all (list_ex active) (opt_requires opt) then [opt_name opt] else []) @
     unmet_in active opts"
  by (simp add: unmet_in_def)

lemma unmet_in_Nil: "unmet_in active [] = []"
  by (simp add: unmet_in_def)

lemma list_ex_Cons_Nil: "list_ex P (x # xs) = (P x \<or> list_ex P xs)" "list_ex P [] = False"
  by simp_all

lemmas unmet_in_simps = unmet_in_append unmet_in_Cons unmet_in_Nil tls_option.sel list.pred_inject
  list_ex_Cons_Nil if_True if_False simp_thms append.simps

text \<open>In \<open>pal_mbedtls_config.h\<close> every active option has what its comment requires, except the two
  PKCS#1 options: both require \<open>MBEDTLS_RSA_C\<close>, which is commented out.\<close>

lemma pal_options_requirements: "unmet pal_options = [''PKCS1_V15'', ''PKCS1_V21'']"
proof -
  have "unmet pal_options = unmet_in active_pal pal_options"
    by (simp only: unmet_def active_pal_def [abs_def])
  also have "\<dots> = [''PKCS1_V15'', ''PKCS1_V21'']"
    unfolding pal_options_defs by (simp only: unmet_in_simps active_pal_on active_pal_off)
  finally show ?thesis .
qed

lemma suite_values_append: "suite_values (xs @ ys) = suite_values xs @ suite_values ys"
  by (simp add: suite_values_def)

lemma suite_values_Cons:
  "suite_values (opt # opts) =
     (if opt_active opt \<and> opt_name opt = ''SSL_CIPHERSUITES'' then [opt_value opt] else []) @ suite_values opts"
  by (simp add: suite_values_def)

lemma suite_values_Nil: "suite_values [] = []"
  by (simp add: suite_values_def)

lemmas suite_values_simps = suite_values_append suite_values_Cons suite_values_Nil

lemma pal_ciphersuites_eq:
  "pal_ciphersuites =
     [''TLS_ECDHE_ECDSA_WITH_AES_128_CCM_8'', ''TLS_PSK_WITH_AES_128_CBC_SHA256'',
      ''TLS_PSK_WITH_AES_256_CCM_8'', ''TLS_PSK_WITH_AES_128_CCM_8'',
      ''TLS_ECDHE_ECDSA_WITH_AES_256_GCM_SHA384'', ''TLS_ECDHE_ECDSA_WITH_AES_128_GCM_SHA256'']"
proof -
  have "suite_values pal_options =
    [''TLS_ECDHE_ECDSA_WITH_AES_128_CCM_8 TLS_PSK_WITH_AES_128_CBC_SHA256 TLS_PSK_WITH_AES_256_CCM_8 TLS_PSK_WITH_AES_128_CCM_8 TLS_ECDHE_ECDSA_WITH_AES_256_GCM_SHA384 TLS_ECDHE_ECDSA_WITH_AES_128_GCM_SHA256'']"
    unfolding pal_options_defs by (simp add: suite_values_simps)
  then show ?thesis by (simp add: pal_ciphersuites_def)
qed

lemma active_pal_suites:
  "active_pal ''KEY_EXCHANGE_ECDHE_ECDSA_ENABLED''" "active_pal ''CCM_C''"
  "\<not> active_pal ''KEY_EXCHANGE_PSK_ENABLED''" "\<not> active_pal ''GCM_C''" "\<not> active_pal ''SHA512_C''"
  unfolding active_pal_def active_names_pal by simp_all

text \<open>Of the six ciphersuites \<open>pal_mbedtls_config.h\<close> lists, only the first one has the modules it
  needs: there is no pre-shared key exchange, and neither GCM nor SHA-512.\<close>

lemma pal_ciphersuites_usable:
  "usable_suites (\<lambda>n. n \<in> set (active_names pal_options)) pal_ciphersuites =
     [''TLS_ECDHE_ECDSA_WITH_AES_128_CCM_8'']"
proof -
  have "usable_suites active_pal pal_ciphersuites = [''TLS_ECDHE_ECDSA_WITH_AES_128_CCM_8'']"
    by (simp add: usable_suites_def pal_ciphersuites_eq suite_needs_def Let_def suffix_def active_pal_on active_pal_suites)
  then show ?thesis by (simp only: active_pal_def [abs_def])
qed

section \<open>The user configuration of the client\<close>













end
