(* ===== verification/Hello_World.thy ===== *)
theory Hello_World imports Prelude begin

text \<open>
  \<open>tutorials/helloworld/src/hello_world.c\<close>, the sample application: what it does, in order, and its exit code.
\<close>

datatype hello_event =
    Printed string
  | Flushed
  | Slept int

definition NUM_OF_PRINTS :: int where "NUM_OF_PRINTS = 10"

definition DELAY_SEC_BETWEEN_PRINTS :: int where "DELAY_SEC_BETWEEN_PRINTS = 2"

function hello_loop :: "int \<Rightarrow> hello_event list" where
  "hello_loop i =
     (if i < NUM_OF_PRINTS
      then Printed ''Hello, world\<newline>'' # Flushed # Slept DELAY_SEC_BETWEEN_PRINTS # hello_loop (i + 1)
      else [])"
  by pat_completeness auto

termination
  by (relation "measure (\<lambda>i. nat (NUM_OF_PRINTS - i))") auto

declare hello_loop.simps [simp del]

definition hello_main :: "hello_event list \<times> int" where
  "hello_main = (hello_loop 0, 0)"

lemma hello_loop_rounds:
  assumes "i \<le> NUM_OF_PRINTS"
  shows "hello_loop i = concat (replicate (nat (NUM_OF_PRINTS - i))
    [Printed ''Hello, world\<newline>'', Flushed, Slept DELAY_SEC_BETWEEN_PRINTS])"
  using assms
proof (induction i rule: hello_loop.induct)
  case (1 i)
  show ?case
  proof (cases "i < NUM_OF_PRINTS")
    case True
    then have "nat (NUM_OF_PRINTS - i) = Suc (nat (NUM_OF_PRINTS - (i + 1)))" by simp
    with True 1 show ?thesis by (subst hello_loop.simps) simp
  next
    case False
    with 1 show ?thesis by (subst hello_loop.simps) simp
  qed
qed

lemma hello_main_rounds:
  "hello_main = (concat (replicate 10 [Printed ''Hello, world\<newline>'', Flushed, Slept 2]), 0)"
  using hello_loop_rounds [of 0] by (simp add: hello_main_def NUM_OF_PRINTS_def DELAY_SEC_BETWEEN_PRINTS_def)

end
