(* ===== verification/Python.thy ===== *)
theory Python imports Strtol Filesystem begin

text \<open>
  What the Python programs use of their language and its standard library: exceptions as values,
  statements as functions on the state of the machine, \<open>try\<close>, \<open>for\<close>, \<open>subprocess.run\<close>, the decoded documents
  of \<open>json\<close>, and the files and directories that \<open>os\<close> and \<open>shutil\<close> reach.  A statement that does not
  come back is \<open>None\<close>.  The last section gives the rules by which the programs are verified: \<open>wp m Q E h\<close> holds
  when \<open>m\<close> comes back from \<open>h\<close>, with \<open>Q\<close> where it returns and with \<open>E\<close> where it raises.
\<close>

section \<open>Exceptions\<close>

text \<open>
  The classes the programs tell apart.  The texts of three of them are looked at, so they are kept;
  \<open>Raised_from e c\<close> is \<open>raise e from c\<close>.  \<open>Exit n\<close> is the end of a shell script with the status \<open>n\<close>.
\<close>

datatype exn =
    ContainerStateError
  | ContainerAlreadyExistError
  | ContainerCreationError
  | ContainerStartError
  | ContainerKillError string
  | ContainerDeleteError string
  | AppStopTimeoutError string
  | AppNotInstalled
  | AppInfoParserError
  | AppIdError
  | AppInstallError
  | AppUninstallError
  | AppPathInexistent
  | AppListingError
  | IllegalPackage
  | HeaderFileError
  | FmwInstallError
  | TarError
  | OSError
  | ValueError
  | TypeError
  | KeyError
  | EOFError
  | StopIteration
  | StructError
  | Exit int
  | FormatError
  | Raised_from exn exn

section \<open>The machine\<close>

datatype document = Folder | Document string

type_synonym files = "(location \<times> document) list"

text \<open>
  The files, the clock of \<open>time.monotonic\<close> in nanoseconds and that of \<open>time.time\<close> in seconds, the lines that wait at the standard
  input, the commands run so far, and what other programs keep for themselves.
\<close>

record 'x host =
  files :: files
  clock :: int
  epoch :: int
  answers :: "string list"
  history :: "string list list"
  outside :: 'x

datatype json = JNull | JBool bool | JNumber string | JString string | JArray "json list" | JObject "(string \<times> json) list"

record tar_info =
  tar_name :: string
  tar_isfile :: bool
  tar_data :: string

datatype os_call = Rmtree location | Listdir location | Makedirs location | Open_file location | Remove_file location | Untar string

text \<open>
  What is outside the source: the commands (which may fail to start, or end with a return code and an
  output), the decoding of JSON and of tar archives, the operations on files that the system refuses, and what
  happens to the machine during a sleep.
\<close>

record 'x platform =
  exec :: "string list \<Rightarrow> 'x host \<Rightarrow> (int \<times> string) option \<times> 'x host"
  loads :: "string \<Rightarrow> json option"
  tar_members :: "string \<Rightarrow> tar_info list option"
  refuses :: "os_call \<Rightarrow> 'x host \<Rightarrow> bool"
  sleep :: "int \<Rightarrow> 'x host \<Rightarrow> 'x host"

section \<open>Statements\<close>

type_synonym ('a, 'x) py = "'x host \<Rightarrow> ((exn + 'a) \<times> 'x host) option"

definition ret :: "'a \<Rightarrow> ('a, 'x) py" where
  "ret a h = Some (Inr a, h)"

definition raise :: "exn \<Rightarrow> ('a, 'x) py" where
  "raise e h = Some (Inl e, h)"

definition and_then :: "('a, 'x) py \<Rightarrow> ('a \<Rightarrow> ('b, 'x) py) \<Rightarrow> ('b, 'x) py" where
  "and_then m f h =
     (case m h of
        None \<Rightarrow> None
      | Some (Inl e, h) \<Rightarrow> Some (Inl e, h)
      | Some (Inr a, h) \<Rightarrow> f a h)"

text \<open>\<open>try: m except P as e: handler e else: rest\<close>\<close>

definition try_else :: "('a, 'x) py \<Rightarrow> (exn \<Rightarrow> bool) \<Rightarrow> (exn \<Rightarrow> ('b, 'x) py) \<Rightarrow> ('a \<Rightarrow> ('b, 'x) py) \<Rightarrow> ('b, 'x) py" where
  "try_else m P handler rest h =
     (case m h of
        None \<Rightarrow> None
      | Some (Inl e, h) \<Rightarrow> if P e then handler e h else Some (Inl e, h)
      | Some (Inr a, h) \<Rightarrow> rest a h)"

text \<open>What \<open>finally\<close> raises replaces the result of the statement.\<close>

definition try_finally :: "('a, 'x) py \<Rightarrow> (unit, 'x) py \<Rightarrow> ('a, 'x) py" where
  "try_finally m final h =
     (case m h of
        None \<Rightarrow> None
      | Some (r, h) \<Rightarrow>
          (case final h of
             None \<Rightarrow> None
           | Some (Inl e, h) \<Rightarrow> Some (Inl e, h)
           | Some (Inr _, h) \<Rightarrow> Some (r, h)))"

primrec for_each :: "('a \<Rightarrow> (unit, 'x) py) \<Rightarrow> 'a list \<Rightarrow> (unit, 'x) py" where
  "for_each f [] = ret ()"
| "for_each f (x # xs) = and_then (f x) (\<lambda>_. for_each f xs)"

definition look :: "('x host \<Rightarrow> 'a) \<Rightarrow> ('a, 'x) py" where
  "look f h = Some (Inr (f h), h)"

definition lift :: "exn + 'a \<Rightarrow> ('a, 'x) py" where
  "lift r h = Some (r, h)"

section \<open>Paths and files\<close>

text \<open>
  An absolute path is the list of its names.  \<open>os.path.join\<close> with a string that may hold separators; names
  \<open>.\<close> and \<open>..\<close> are not followed.
\<close>

definition path_join :: "location \<Rightarrow> string \<Rightarrow> location" where
  "path_join p s = (if is_absolute s then comps s else p @ comps s)"

definition isdir :: "files \<Rightarrow> location \<Rightarrow> bool" where
  "isdir fs p \<longleftrightarrow> map_of fs p = Some Folder"

definition isfile_at :: "files \<Rightarrow> location \<Rightarrow> bool" where
  "isfile_at fs p \<longleftrightarrow> (case map_of fs p of Some (Document _) \<Rightarrow> True | _ \<Rightarrow> False)"

definition children :: "files \<Rightarrow> location \<Rightarrow> string list" where
  "children fs p = map last (filter (\<lambda>q. q \<noteq> [] \<and> butlast q = p) (map fst fs))"

definition dirnames :: "files \<Rightarrow> location \<Rightarrow> string list" where
  "dirnames fs p = filter (\<lambda>n. isdir fs (p @ [n])) (children fs p)"

definition filenames :: "files \<Rightarrow> location \<Rightarrow> string list" where
  "filenames fs p = filter (\<lambda>n. isfile_at fs (p @ [n])) (children fs p)"

text \<open>The directories that \<open>os.walk\<close> comes through.\<close>

definition walk_dirs :: "files \<Rightarrow> location \<Rightarrow> location list" where
  "walk_dirs fs p = filter (\<lambda>q. prefix p q \<and> isdir fs q) (map fst fs)"

definition without_tree :: "location \<Rightarrow> files \<Rightarrow> files" where
  "without_tree p fs = filter (\<lambda>(q, d). \<not> prefix p q) fs"

definition os_guard :: "'x platform \<Rightarrow> os_call \<Rightarrow> (unit, 'x) py" where
  "os_guard p c h = (if refuses p c h then raise OSError h else ret () h)"

definition set_files :: "('x host \<Rightarrow> files) \<Rightarrow> (unit, 'x) py" where
  "set_files f h = Some (Inr (), h\<lparr>files := f h\<rparr>)"

definition rmtree :: "'x platform \<Rightarrow> location \<Rightarrow> (unit, 'x) py" where
  "rmtree p d = and_then (os_guard p (Rmtree d)) (\<lambda>_.
     and_then (look (\<lambda>h. isdir (files h) d)) (\<lambda>there.
       if there then set_files (\<lambda>h. without_tree d (files h)) else raise OSError))"

definition listdir :: "'x platform \<Rightarrow> location \<Rightarrow> (string list, 'x) py" where
  "listdir p d = and_then (os_guard p (Listdir d)) (\<lambda>_.
     and_then (look (\<lambda>h. isdir (files h) d)) (\<lambda>there.
       if there then look (\<lambda>h. children (files h) d) else raise OSError))"

text \<open>\<open>os.makedirs\<close> with \<open>exist_ok\<close>: it stops at a file before anything is made.\<close>

fun make_path :: "files \<Rightarrow> location \<Rightarrow> string list \<Rightarrow> files option" where
  "make_path fs p [] = Some fs"
| "make_path fs p (n # ns) =
     (case map_of fs (p @ [n]) of
        None \<Rightarrow> make_path ((p @ [n], Folder) # fs) (p @ [n]) ns
      | Some Folder \<Rightarrow> make_path fs (p @ [n]) ns
      | Some (Document _) \<Rightarrow> None)"

definition makedirs :: "'x platform \<Rightarrow> location \<Rightarrow> (unit, 'x) py" where
  "makedirs p d = and_then (os_guard p (Makedirs d)) (\<lambda>_.
     and_then (look (\<lambda>h. make_path (files h) [] d)) (\<lambda>made.
       case made of None \<Rightarrow> raise OSError | Some fs \<Rightarrow> set_files (\<lambda>_. fs)))"

text \<open>A file opened to write its whole contents, or to append: the parent has to be a directory.\<close>

definition put_file :: "'x platform \<Rightarrow> location \<Rightarrow> (string option \<Rightarrow> string) \<Rightarrow> (unit, 'x) py" where
  "put_file p f contents = and_then (os_guard p (Open_file f)) (\<lambda>_.
     and_then (look files) (\<lambda>fs.
       if f = [] \<or> \<not> isdir fs (butlast f) \<or> isdir fs f then raise OSError
       else set_files (\<lambda>_. (f, Document (contents (case map_of fs f of Some (Document s) \<Rightarrow> Some s | _ \<Rightarrow> None)))
              # filter (\<lambda>(q, d). q \<noteq> f) fs)))"

definition read_file :: "'x platform \<Rightarrow> location \<Rightarrow> (string, 'x) py" where
  "read_file p f = and_then (os_guard p (Open_file f)) (\<lambda>_.
     and_then (look (\<lambda>h. map_of (files h) f)) (\<lambda>d.
       case d of Some (Document s) \<Rightarrow> ret s | _ \<Rightarrow> raise OSError))"

definition os_remove :: "'x platform \<Rightarrow> location \<Rightarrow> (unit, 'x) py" where
  "os_remove p f = and_then (os_guard p (Remove_file f)) (\<lambda>_.
     and_then (look (\<lambda>h. isfile_at (files h) f)) (\<lambda>there.
       if there then set_files (\<lambda>h. filter (\<lambda>(q, d). q \<noteq> f) (files h)) else raise OSError))"

text \<open>\<open>str\<close> of an exception, where a program looks at it.\<close>

fun exn_text :: "exn \<Rightarrow> string" where
  "exn_text (ContainerKillError m) = m"
| "exn_text (ContainerDeleteError m) = m"
| "exn_text (AppStopTimeoutError m) = m"
| "exn_text e = []"

section \<open>Commands and documents\<close>

definition subprocess_run :: "'x platform \<Rightarrow> string list \<Rightarrow> (int \<times> string, 'x) py" where
  "subprocess_run p cmd h =
     (case exec p cmd h of
        (None, h') \<Rightarrow> raise OSError (h'\<lparr>history := history h\<rparr>)
      | (Some r, h') \<Rightarrow> ret r (h'\<lparr>history := history h @ [cmd]\<rparr>))"

definition time_sleep :: "'x platform \<Rightarrow> int \<Rightarrow> (unit, 'x) py" where
  "time_sleep p duration h = ret () ((sleep p duration h)\<lparr>history := history h\<rparr>)"

text \<open>\<open>str\<close> of a number, and what the error texts show: the output, or the return code if there is none.\<close>

definition str_int :: "int \<Rightarrow> string" where
  "str_int i = (if i < 0 then CHR ''-'' # decimal (nat (- i)) else decimal (nat i))"

definition output_or_code :: "int \<Rightarrow> string \<Rightarrow> string" where
  "output_or_code rc out = (if out = [] then str_int rc else out)"

abbreviation quote :: char where "quote \<equiv> CHR 0x27"

text \<open>\<open>key in doc\<close> and \<open>doc[key]\<close> for a string as the key\<close>

definition json_in :: "string \<Rightarrow> json \<Rightarrow> exn + bool" where
  "json_in key doc =
     (case doc of
        JObject m \<Rightarrow> Inr (key \<in> fst ` set m)
      | JArray xs \<Rightarrow> Inr (JString key \<in> set xs)
      | JString s \<Rightarrow> Inr (sublist key s)
      | _ \<Rightarrow> Inl TypeError)"

definition json_get :: "json \<Rightarrow> string \<Rightarrow> exn + json" where
  "json_get doc key =
     (case doc of
        JObject m \<Rightarrow> (case map_of m key of Some v \<Rightarrow> Inr v | None \<Rightarrow> Inl KeyError)
      | _ \<Rightarrow> Inl TypeError)"

section \<open>Rules\<close>

named_theorems wp_simps \<open>what a statement establishes\<close>

definition wp :: "('a, 'x) py \<Rightarrow> ('a \<Rightarrow> 'x host \<Rightarrow> bool) \<Rightarrow> (exn \<Rightarrow> 'x host \<Rightarrow> bool) \<Rightarrow> 'x host \<Rightarrow> bool" where
  "wp m Q E h = (case m h of None \<Rightarrow> False | Some (Inl e, h) \<Rightarrow> E e h | Some (Inr a, h) \<Rightarrow> Q a h)"

lemma wp_ret [wp_simps]: "wp (ret a) Q E h = Q a h"
  by (simp add: wp_def ret_def)

lemma wp_raise [wp_simps]: "wp (raise e) Q E h = E e h"
  by (simp add: wp_def raise_def)

lemma wp_look [wp_simps]: "wp (look f) Q E h = Q (f h) h"
  by (simp add: wp_def look_def)

lemma wp_set_files [wp_simps]: "wp (set_files f) Q E h = Q () (h\<lparr>files := f h\<rparr>)"
  by (simp add: wp_def set_files_def)

lemma wp_lift [wp_simps]: "wp (lift r) Q E h = (case r of Inl e \<Rightarrow> E e h | Inr a \<Rightarrow> Q a h)"
  by (simp add: wp_def lift_def split: sum.split)

lemma wp_and_then [wp_simps]: "wp (and_then m f) Q E h = wp m (\<lambda>a. wp (f a) Q E) E h"
  by (simp add: wp_def and_then_def split: option.splits sum.splits)

lemma wp_then_look: "wp (and_then (look f) g) Q E h = wp (g (f h)) Q E h"
  by (simp add: wp_and_then wp_look)

lemma wp_try_else [wp_simps]:
  "wp (try_else m P handler rest) Q E h = wp m (\<lambda>a. wp (rest a) Q E) (\<lambda>e h. if P e then wp (handler e) Q E h else E e h) h"
  by (auto simp: wp_def try_else_def split: option.splits sum.splits)

lemma wp_try_finally [wp_simps]:
  "wp (try_finally m final) Q E h = wp m (\<lambda>a. wp final (\<lambda>_. Q a) E) (\<lambda>e. wp final (\<lambda>_. E e) E) h"
  by (auto simp: wp_def try_finally_def split: option.splits sum.splits)

lemma wp_for_each [wp_simps]:
  "wp (for_each f []) Q E h = Q () h"
  "wp (for_each f (x # xs)) Q E h = wp (f x) (\<lambda>_. wp (for_each f xs) Q E) E h"
  by (simp_all add: wp_simps)

lemma wp_if [wp_simps]: "wp (if b then m else n) Q E h = (if b then wp m Q E h else wp n Q E h)"
  by simp

lemma wp_case_option [wp_simps]:
  "wp (case x of None \<Rightarrow> m | Some a \<Rightarrow> f a) Q E h = (case x of None \<Rightarrow> wp m Q E h | Some a \<Rightarrow> wp (f a) Q E h)"
  by (simp split: option.split)

lemma wp_case_prod [wp_simps]: "wp (case x of (a, b) \<Rightarrow> f a b) Q E h = (case x of (a, b) \<Rightarrow> wp (f a b) Q E h)"
  by (simp split: prod.split)

lemma wp_iff: "wp m Q E h \<longleftrightarrow> (\<exists>r h'. m h = Some (r, h') \<and> (case r of Inl e \<Rightarrow> E e h' | Inr a \<Rightarrow> Q a h'))"
proof (cases "m h")
  case (Some x)
  then show ?thesis by (cases x; cases "fst x") (auto simp: wp_def)
qed (simp add: wp_def)

lemma wp_mono:
  assumes "wp m Q E h" and "\<And>a h'. Q a h' \<Longrightarrow> Q' a h'" and "\<And>e h'. E e h' \<Longrightarrow> E' e h'"
  shows "wp m Q' E' h"
  using assms by (auto simp: wp_def split: option.splits sum.splits)

lemma wp_conj: "wp m Q E h \<Longrightarrow> wp m Q' E' h \<Longrightarrow> wp m (\<lambda>a h. Q a h \<and> Q' a h) (\<lambda>e h. E e h \<and> E' e h) h"
  by (auto simp: wp_def split: option.splits sum.splits)

lemma wp_result: "wp m Q E h \<Longrightarrow> m h = Some (Inr a, h') \<Longrightarrow> Q a h'"
  and wp_error: "wp m Q E h \<Longrightarrow> m h = Some (Inl e, h') \<Longrightarrow> E e h'"
  and wp_returns: "wp m Q E h \<Longrightarrow> \<exists>r h'. m h = Some (r, h')"
  by (auto simp: wp_def split: option.splits sum.splits)

lemma wp_os_guard [wp_simps]: "wp (os_guard p c) Q E h = (if refuses p c h then E OSError h else Q () h)"
  by (simp add: wp_def os_guard_def ret_def raise_def)

lemma wp_run [wp_simps]:
  "wp (subprocess_run p cmd) Q E h =
     (case exec p cmd h of (None, h') \<Rightarrow> E OSError (h'\<lparr>history := history h\<rparr>) | (Some r, h') \<Rightarrow> Q r (h'\<lparr>history := history h @ [cmd]\<rparr>))"
  by (simp add: wp_def subprocess_run_def ret_def raise_def split: option.splits prod.splits)

lemma wp_time_sleep [wp_simps]: "wp (time_sleep p d) Q E h = Q () ((sleep p d h)\<lparr>history := history h\<rparr>)"
  by (simp add: wp_def time_sleep_def ret_def)

text \<open>
  A loop that does something for each of its items: what one round does for its item is kept by the
  rounds of the other items, so that after the loop it holds for all.
\<close>

locale item_loop =
  fixes inv :: "'x host \<Rightarrow> bool" and item :: "'a \<Rightarrow> bool" and step :: "'a \<Rightarrow> (unit, 'x) py"
    and achieved :: "'a \<Rightarrow> 'x host \<Rightarrow> bool" and apart :: "'a \<Rightarrow> 'a \<Rightarrow> bool" and err :: "exn \<Rightarrow> 'x host \<Rightarrow> bool"
  assumes step_achieves: "inv h \<Longrightarrow> item a \<Longrightarrow> (\<And>b. b \<in> S \<Longrightarrow> item b \<and> apart a b \<and> achieved b h) \<Longrightarrow>
    wp (step a) (\<lambda>_ h'. inv h' \<and> achieved a h' \<and> (\<forall>b \<in> S. achieved b h')) err h"
begin

lemma loop_achieves_aux:
  assumes "inv h" and "\<And>a b. a \<in> set xs \<Longrightarrow> b \<in> S \<Longrightarrow> apart a b" and "\<And>b. b \<in> S \<Longrightarrow> item b \<and> achieved b h"
    and "sorted_wrt (\<lambda>a b. apart b a) xs" and "\<And>a. a \<in> set xs \<Longrightarrow> item a"
  shows "wp (for_each step xs) (\<lambda>_ h'. inv h' \<and> (\<forall>b \<in> S \<union> set xs. achieved b h')) err h"
  using assms
proof (induction xs arbitrary: h S)
  case (Cons a xs)
  have "wp (step a) (\<lambda>_ h'. inv h' \<and> achieved a h' \<and> (\<forall>b \<in> S. achieved b h')) err h"
    using Cons.prems by (intro step_achieves) auto
  then show ?case
    unfolding wp_for_each
  proof (rule wp_mono)
    fix r h' assume h': "inv h' \<and> achieved a h' \<and> (\<forall>b \<in> S. achieved b h')"
    have "wp (for_each step xs) (\<lambda>_ h'. inv h' \<and> (\<forall>b \<in> insert a S \<union> set xs. achieved b h')) err h'"
      using h' Cons.prems by (intro Cons.IH) auto
    then show "wp (for_each step xs) (\<lambda>_ h'. inv h' \<and> (\<forall>b \<in> S \<union> set (a # xs). achieved b h')) err h'"
      by simp
  qed
qed (simp add: wp_simps)

lemma loop_achieves:
  assumes "inv h" and "sorted_wrt (\<lambda>a b. apart b a) xs" and "\<And>a. a \<in> set xs \<Longrightarrow> item a"
  shows "wp (for_each step xs) (\<lambda>_ h'. inv h' \<and> (\<forall>b \<in> set xs. achieved b h')) err h"
  using loop_achieves_aux [of h xs "{}"] assms by simp

end

lemma and_then_result:
  "and_then m f h = Some (Inr b, h') \<longleftrightarrow> (\<exists>a h1. m h = Some (Inr a, h1) \<and> f a h1 = Some (Inr b, h'))"
  by (cases "m h") (auto simp: and_then_def split: sum.splits)

section \<open>Facts on files and texts\<close>

lemma map_of_without_tree [simp]: "map_of (without_tree d fs) q = (if prefix d q then None else map_of fs q)"
  by (induction fs) (auto simp: without_tree_def)

lemma map_of_filter_key [simp]: "map_of (filter (\<lambda>(q, d). q \<noteq> f) fs) q = (if q = f then None else map_of fs q)"
  by (induction fs) auto

lemma isdir_without_tree [simp]: "isdir (without_tree d fs) q \<longleftrightarrow> \<not> prefix d q \<and> isdir fs q"
  by (simp add: isdir_def)

lemma decimal_digits: "c \<in> set (decimal n) \<Longrightarrow> of_char c \<in> {48 .. 57 :: nat}"
proof (induction n rule: decimal.induct)
  case (1 n)
  then show ?case by (subst (asm) decimal.simps) (auto simp: digit_char_def split: if_splits)
qed

lemma set_str_int: "c \<in> set (str_int i) \<Longrightarrow> c \<noteq> CHR '' ''"
  by (auto simp: str_int_def split: if_splits dest: decimal_digits)

text \<open>A phrase without a certain character lies on one side of it.\<close>

lemma sublist_around:
  assumes "c \<notin> set w"
  shows "sublist w (xs @ c # ys) \<longleftrightarrow> sublist w xs \<or> sublist w ys"
proof
  assume "sublist w (xs @ c # ys)"
  then obtain u v where uv: "xs @ c # ys = u @ w @ v" by (auto simp: sublist_def)
  show "sublist w xs \<or> sublist w ys"
  proof (cases "length u \<le> length xs")
    case True
    then obtain t where t: "xs = u @ t" "t @ c # ys = w @ v"
      using uv by (metis append_eq_append_conv_if append_take_drop_id append_eq_conv_conj)
    have "length w \<le> length t"
    proof (rule ccontr)
      assume "\<not> length w \<le> length t"
      then have "c = w ! length t" using t(2) by (metis nth_append nth_append_length not_le)
      with assms \<open>\<not> length w \<le> length t\<close> show False by simp
    qed
    then have "t = w @ drop (length w) t"
      using t(2) by (metis append_eq_append_conv_if append_take_drop_id)
    then show ?thesis using t(1) by (metis sublist_appendI)
  next
    case False
    have "ys = drop (Suc (length xs)) (u @ w @ v)" using arg_cong [OF uv, of "drop (Suc (length xs))"] by simp
    also have "\<dots> = drop (Suc (length xs)) u @ w @ v" using False by simp
    finally show ?thesis by (metis sublist_appendI)
  qed
next
  assume "sublist w xs \<or> sublist w ys"
  then show "sublist w (xs @ c # ys)"
    using sublist_appendI [of ys "xs @ [c]" "[]"] by (auto intro: sublist_order.order_trans)
qed

end
