(* ===== verification/App_Container.thy ===== *)
theory App_Container imports Python begin

text \<open>
  \<open>container.py\<close> of the application lifecycle manager: the containers of \<open>runc\<close>, seen through its commands.  What
  the programs rely on is \<open>runc_contract\<close>, over a view that tells for each container the bundle it was made from and
  whether its process was started.  (Whether a started process still runs is not part of the view: it may end at any time.)
\<close>

section \<open>States\<close>

datatype container_state = CREATED | RUNNING | STOPPED | DOES_NOT_EXIST | UNRECOGNIZED | ALREADY_STOPPED | NOT_RUNNING

fun state_value :: "container_state \<Rightarrow> string" where
  "state_value CREATED = ''created''"
| "state_value RUNNING = ''running''"
| "state_value STOPPED = ''stopped''"
| "state_value DOES_NOT_EXIST = ''does not exist''"
| "state_value UNRECOGNIZED = ''unrecognized''"
| "state_value ALREADY_STOPPED = ''process already finished''"
| "state_value NOT_RUNNING = ''not running''"

text \<open>\<open>ContainerState(v)\<close>, with the \<open>ValueError\<close> of a value that no member has turned into \<open>UNRECOGNIZED\<close>.\<close>

definition container_state_of :: "json \<Rightarrow> container_state" where
  "container_state_of v =
     (case v of
        JString s \<Rightarrow>
          (case find (\<lambda>m. state_value m = s) [CREATED, RUNNING, STOPPED, DOES_NOT_EXIST, UNRECOGNIZED, ALREADY_STOPPED, NOT_RUNNING] of
             Some m \<Rightarrow> m
           | None \<Rightarrow> UNRECOGNIZED)
      | _ \<Rightarrow> UNRECOGNIZED)"

section \<open>Commands\<close>

definition get_state :: "'x platform \<Rightarrow> string \<Rightarrow> (container_state, 'x) py" where
  "get_state p container_id =
     and_then (subprocess_run p [''runc'', ''state'', container_id]) (\<lambda>(returncode, stdout).
       if returncode \<noteq> 0 then
         if sublist (state_value DOES_NOT_EXIST) stdout then ret DOES_NOT_EXIST else raise ContainerStateError
       else case loads p stdout of
         None \<Rightarrow> raise ContainerStateError
       | Some state_info_json_doc \<Rightarrow>
           and_then (lift (json_in ''status'' state_info_json_doc)) (\<lambda>found.
             if \<not> found then raise ContainerStateError
             else and_then (lift (json_get state_info_json_doc ''status'')) (\<lambda>status. ret (container_state_of status))))"

definition DEFAULT_CONTAINER_LOG_DIR :: location where
  "DEFAULT_CONTAINER_LOG_DIR = [''var'', ''log'', ''app'']"

text \<open>\<open>ContainerLogFile.__enter__\<close>: whether there is a log file; no error leaves it.\<close>

definition container_log_enter :: "'x platform \<Rightarrow> string \<Rightarrow> (bool, 'x) py" where
  "container_log_enter p container_id =
     try_else (makedirs p DEFAULT_CONTAINER_LOG_DIR) (\<lambda>e. e = OSError)
       (\<lambda>_. ret False)
       (\<lambda>_. try_else (put_file p (path_join DEFAULT_CONTAINER_LOG_DIR (container_id @ ''.log''))
                       (\<lambda>old. case old of None \<Rightarrow> [] | Some s \<Rightarrow> s))
              (\<lambda>e. e = OSError) (\<lambda>_. ret False) (\<lambda>_. ret True))"

definition create :: "'x platform \<Rightarrow> string \<Rightarrow> location \<Rightarrow> (unit, 'x) py" where
  "create p container_id bundle_path =
     and_then (get_state p container_id) (\<lambda>container_state.
       if container_state \<noteq> DOES_NOT_EXIST then raise ContainerAlreadyExistError
       else and_then (look (\<lambda>h. isdir (files h) bundle_path)) (\<lambda>there.
         if \<not> there then raise ContainerCreationError
         else and_then (container_log_enter p container_id) (\<lambda>_.
           and_then (subprocess_run p [''runc'', ''create'', ''--bundle'', path_str bundle_path, container_id]) (\<lambda>(returncode, _).
             if returncode \<noteq> 0 then raise ContainerCreationError else ret ()))))"

definition start_container :: "'x platform \<Rightarrow> string \<Rightarrow> (unit, 'x) py" where
  "start_container p container_id =
     and_then (subprocess_run p [''runc'', ''start'', container_id]) (\<lambda>(returncode, _).
       if returncode \<noteq> 0 then raise ContainerStartError else ret ())"

definition kill_message :: "string \<Rightarrow> string \<Rightarrow> string" where
  "kill_message container_id detail =
     ''Killing container '' @ quote # container_id @ quote # '' failed, error: '' @ quote # detail @ [quote]"

definition kill :: "'x platform \<Rightarrow> string \<Rightarrow> string \<Rightarrow> (unit, 'x) py" where
  "kill p container_id signal =
     and_then (subprocess_run p [''runc'', ''kill'', container_id, signal]) (\<lambda>(returncode, stdout).
       if returncode \<noteq> 0 then raise (ContainerKillError (kill_message container_id (output_or_code returncode stdout)))
       else ret ())"

definition delete_message :: "string \<Rightarrow> string \<Rightarrow> string" where
  "delete_message container_id detail =
     ''Deleting container '' @ quote # container_id @ quote # '' failed, error: '' @ quote # detail @ [quote]"

definition delete :: "'x platform \<Rightarrow> string \<Rightarrow> (unit, 'x) py" where
  "delete p container_id =
     and_then (subprocess_run p [''runc'', ''delete'', container_id]) (\<lambda>(returncode, stdout).
       if returncode \<noteq> 0 then raise (ContainerDeleteError (delete_message container_id (output_or_code returncode stdout)))
       else ret ())"

section \<open>Bundles\<close>

definition OCI_BUNDLE_CONFIGURATION :: string where "OCI_BUNDLE_CONFIGURATION = ''config.json''"

text \<open>Whether the decoded configuration makes the directory with these subdirectories a bundle.\<close>

definition is_bundle_config :: "json \<Rightarrow> string list \<Rightarrow> exn + bool" where
  "is_bundle_config config dirs =
     (case json_in ''ociVersion'' config of Inl e \<Rightarrow> Inl e
      | Inr False \<Rightarrow> Inr False
      | Inr True \<Rightarrow>
     (case json_in ''root'' config of Inl e \<Rightarrow> Inl e
      | Inr False \<Rightarrow> Inr False
      | Inr True \<Rightarrow>
     (case json_get config ''root'' of Inl e \<Rightarrow> Inl e
      | Inr root \<Rightarrow>
     (case json_in ''path'' root of Inl e \<Rightarrow> Inl e
      | Inr False \<Rightarrow> Inr False
      | Inr True \<Rightarrow>
     (case json_get root ''path'' of Inl e \<Rightarrow> Inl e
      | Inr path \<Rightarrow> Inr (case path of JString s \<Rightarrow> s \<in> set dirs | _ \<Rightarrow> False))))))"

fun collect_bundles :: "'x platform \<Rightarrow> location list \<Rightarrow> (location list, 'x) py" where
  "collect_bundles p [] = ret []"
| "collect_bundles p (dirpath # dirpaths) =
     and_then (look files) (\<lambda>fs.
       and_then
         (if OCI_BUNDLE_CONFIGURATION \<in> set (filenames fs dirpath) then
            and_then (read_file p (dirpath @ [OCI_BUNDLE_CONFIGURATION])) (\<lambda>text.
              case loads p text of
                None \<Rightarrow> raise ValueError
              | Some config \<Rightarrow> lift (is_bundle_config config (dirnames fs dirpath)))
          else ret False)
         (\<lambda>found. and_then (collect_bundles p dirpaths) (\<lambda>more. ret (if found then dirpath # more else more))))"

definition get_oci_bundle_paths :: "'x platform \<Rightarrow> location \<Rightarrow> (location list, 'x) py" where
  "get_oci_bundle_paths p path = and_then (look (\<lambda>h. walk_dirs (files h) path)) (collect_bundles p)"

section \<open>The contract of \<open>runc\<close>\<close>

type_synonym 'x container_view = "'x \<Rightarrow> string \<Rightarrow> (string \<times> bool) option"

text \<open>A command for one container leaves the files, the other containers, and does not turn back the clock.\<close>

definition only_container :: "'x platform \<Rightarrow> 'x container_view \<Rightarrow> string list \<Rightarrow> string \<Rightarrow> 'x host \<Rightarrow> bool" where
  "only_container p view cmd n h \<longleftrightarrow>
     (let h' = snd (exec p cmd h)
      in files h' = files h \<and> clock h \<le> clock h' \<and> (\<forall>m. m \<noteq> n \<longrightarrow> view (outside h') m = view (outside h) m))"

definition state_law :: "'x platform \<Rightarrow> 'x container_view \<Rightarrow> bool" where
  "state_law p view \<longleftrightarrow> (\<forall>n h. only_container p view [''runc'', ''state'', n] n h \<and>
     (case exec p [''runc'', ''state'', n] h of (r, h') \<Rightarrow>
        view (outside h') n = view (outside h) n \<and>
        (\<forall>rc out. r = Some (rc, out) \<longrightarrow> rc \<noteq> 0 \<longrightarrow> sublist ''does not exist'' out \<longrightarrow> view (outside h) n = None)))"

definition create_law :: "'x platform \<Rightarrow> 'x container_view \<Rightarrow> bool" where
  "create_law p view \<longleftrightarrow> (\<forall>b n h. only_container p view [''runc'', ''create'', ''--bundle'', b, n] n h \<and>
     (case exec p [''runc'', ''create'', ''--bundle'', b, n] h of (r, h') \<Rightarrow>
        \<forall>out. r = Some (0, out) \<longrightarrow> view (outside h') n = Some (b, False)))"

definition start_law :: "'x platform \<Rightarrow> 'x container_view \<Rightarrow> bool" where
  "start_law p view \<longleftrightarrow> (\<forall>n h. only_container p view [''runc'', ''start'', n] n h \<and>
     (case exec p [''runc'', ''start'', n] h of (r, h') \<Rightarrow>
        \<forall>out. r = Some (0, out) \<longrightarrow> view (outside h') n = map_option (\<lambda>(b, _). (b, True)) (view (outside h) n)))"

definition kill_law :: "'x platform \<Rightarrow> 'x container_view \<Rightarrow> bool" where
  "kill_law p view \<longleftrightarrow> (\<forall>n sig h. only_container p view [''runc'', ''kill'', n, sig] n h \<and>
     (case exec p [''runc'', ''kill'', n, sig] h of (r, h') \<Rightarrow>
        \<forall>rc out. r = Some (rc, out) \<longrightarrow> rc \<noteq> 0 \<longrightarrow> sublist ''does not exist'' out \<longrightarrow> view (outside h') n = None))"

definition delete_law :: "'x platform \<Rightarrow> 'x container_view \<Rightarrow> bool" where
  "delete_law p view \<longleftrightarrow> (\<forall>n h. only_container p view [''runc'', ''delete'', n] n h \<and>
     (case exec p [''runc'', ''delete'', n] h of (r, h') \<Rightarrow>
        \<forall>rc out. r = Some (rc, out) \<longrightarrow> rc = 0 \<or> sublist ''does not exist'' out \<longrightarrow> view (outside h') n = None))"

definition runc_contract :: "'x platform \<Rightarrow> 'x container_view \<Rightarrow> bool" where
  "runc_contract p view \<longleftrightarrow> state_law p view \<and> create_law p view \<and> start_law p view \<and> kill_law p view \<and> delete_law p view"

text \<open>The identifiers that \<open>runc\<close> accepts have no blank, no separator and no colon in them.\<close>

definition plain_name :: "string \<Rightarrow> bool" where
  "plain_name n \<longleftrightarrow> CHR '' '' \<notin> set n \<and> sep \<notin> set n \<and> CHR '':'' \<notin> set n"

text \<open>
  What a command keeps that is for the containers \<open>ns\<close>: the other containers, the files under \<open>/home\<close> (the logs are
  elsewhere) and the order of time.
\<close>

definition kept :: "'x container_view \<Rightarrow> string set \<Rightarrow> 'x host \<Rightarrow> 'x host \<Rightarrow> bool" where
  "kept view ns h h' \<longleftrightarrow> clock h \<le> clock h' \<and> (\<forall>m. m \<notin> ns \<longrightarrow> view (outside h') m = view (outside h) m) \<and>
     (\<forall>q. prefix [''home''] q \<longrightarrow> map_of (files h') q = map_of (files h) q)"

section \<open>Facts\<close>

lemma kept_refl [simp]: "kept view ns h h"
  by (simp add: kept_def)

lemma kept_trans [trans]: "kept view ns h h' \<Longrightarrow> kept view ns h' h'' \<Longrightarrow> kept view ns h h''"
  by (auto simp: kept_def)

lemma kept_mono: "kept view ns h h' \<Longrightarrow> ns \<subseteq> ms \<Longrightarrow> kept view ms h h'"
  by (auto simp: kept_def)

lemma kept_view: "kept view ns h h' \<Longrightarrow> m \<notin> ns \<Longrightarrow> view (outside h') m = view (outside h) m"
  by (simp add: kept_def)

lemma kept_isdir: "kept view ns h h' \<Longrightarrow> prefix [''home''] q \<Longrightarrow> isdir (files h') q = isdir (files h) q"
  by (simp add: kept_def isdir_def)

lemma only_container_kept:
  "only_container p view cmd n h \<Longrightarrow> exec p cmd h = (r, h') \<Longrightarrow> kept view {n} h h' \<and> kept view {n} h (h'\<lparr>history := x\<rparr>)"
  by (simp add: only_container_def kept_def Let_def)

text \<open>The clauses of the contract, one command at a time.\<close>

lemma only_container_law:
  assumes "only_container p view cmd n h \<and> (case exec p cmd h of (r, h') \<Rightarrow> P r h')" and "exec p cmd h = (r, h')"
  shows "kept view {n} h (h'\<lparr>history := x\<rparr>)" and "kept view {n} h h'" and "P r h'"
  using assms only_container_kept [of p view cmd n h r h' x] by simp_all

lemma runc_state:
  assumes "runc_contract p view" and "exec p [''runc'', ''state'', n] h = (r, h')"
  shows "kept view {} h (h'\<lparr>history := x\<rparr>)" and "kept view {} h h'"
    and "r = Some (rc, out) \<Longrightarrow> rc \<noteq> 0 \<Longrightarrow> sublist ''does not exist'' out \<Longrightarrow> view (outside h) n = None"
proof -
  note l = only_container_law [OF assms(1) [unfolded runc_contract_def state_law_def, THEN conjunct1, rule_format] assms(2)]
  show "kept view {} h h'" and "kept view {} h (h'\<lparr>history := x\<rparr>)" using l(2,3) by (auto simp: kept_def)
  show "r = Some (rc, out) \<Longrightarrow> rc \<noteq> 0 \<Longrightarrow> sublist ''does not exist'' out \<Longrightarrow> view (outside h) n = None" using l(3) by blast
qed

lemmas runc_laws = runc_contract_def [THEN iffD1, THEN conjunct2]

lemmas runc_create = only_container_law
  [OF runc_laws [THEN conjunct1, unfolded create_law_def, rule_format]]

lemmas runc_start = only_container_law
  [OF runc_laws [THEN conjunct2, THEN conjunct1, unfolded start_law_def, rule_format]]

lemmas runc_kill = only_container_law
  [OF runc_laws [THEN conjunct2, THEN conjunct2, THEN conjunct1, unfolded kill_law_def, rule_format]]

lemmas runc_delete = only_container_law
  [OF runc_laws [THEN conjunct2, THEN conjunct2, THEN conjunct2, unfolded delete_law_def, rule_format]]

text \<open>What the operations establish.\<close>

lemma wp_get_state:
  assumes "runc_contract p view"
  shows "wp (get_state p n) (\<lambda>_ h'. kept view {} h h')
    (\<lambda>e h'. kept view {} h h' \<and> e \<in> {ContainerStateError, OSError, TypeError}) h"
  using runc_state(1,2) [OF assms]
  by (auto simp: get_state_def wp_simps json_in_def json_get_def map_of_eq_None_iff image_iff
        split: prod.splits option.splits sum.splits json.splits)

lemma make_path_keeps:
  "make_path fs p ns = Some fs' \<Longrightarrow> \<not> (prefix p q \<and> p \<noteq> q) \<Longrightarrow> map_of fs' q = map_of fs q"
proof (induction fs p ns arbitrary: fs' rule: make_path.induct)
  case (2 fs p n ns)
  have "\<not> (prefix (p @ [n]) q \<and> p @ [n] \<noteq> q)" and "q \<noteq> p @ [n]"
    using "2.prems"(2) by (auto simp: prefix_def)
  with 2 show ?case by (auto split: option.splits document.splits)
qed simp

lemma comps_plain: "sep \<notin> set s \<Longrightarrow> s \<noteq> [] \<Longrightarrow> comps s = [s]"
proof (cases s)
  case (Cons c cs)
  moreover assume "sep \<notin> set s"
  ultimately have c: "c \<noteq> sep" "dropWhile (\<lambda>c. c \<noteq> sep) cs = []" "takeWhile (\<lambda>c. c \<noteq> sep) cs = cs"
    by (auto simp: dropWhile_eq_Nil_conv takeWhile_eq_all_conv)
  show ?thesis unfolding Cons comps.simps(2) c(2,3) using c(1) by simp
qed simp

lemma path_join_plain: "sep \<notin> set s \<Longrightarrow> s \<noteq> [] \<Longrightarrow> path_join p s = p @ [s]"
  by (cases s) (auto simp: path_join_def is_absolute_def comps_plain simp del: comps.simps)

lemma makedirs_logs:
  "wp (makedirs p DEFAULT_CONTAINER_LOG_DIR) (\<lambda>_ h'. kept view {} h h') (\<lambda>e h'. kept view {} h h' \<and> e = OSError) h"
proof -
  have "map_of fs' q = map_of (files h) q"
    if "make_path (files h) [] DEFAULT_CONTAINER_LOG_DIR = Some fs'" and "prefix [''home''] q" for fs' q
  proof (cases "map_of (files h) [''var'']")
    case None
    then have "make_path (([''var''], Folder) # files h) [''var''] [''log'', ''app''] = Some fs'"
      using that(1) by (simp add: DEFAULT_CONTAINER_LOG_DIR_def)
    from make_path_keeps [OF this, of q] that(2) show ?thesis by (auto simp: prefix_def)
  next
    case (Some d)
    then have "make_path (files h) [''var''] [''log'', ''app''] = Some fs'"
      using that(1) by (simp add: DEFAULT_CONTAINER_LOG_DIR_def split: document.splits)
    from make_path_keeps [OF this, of q] that(2) show ?thesis by (auto simp: prefix_def)
  qed
  then show ?thesis by (auto simp: makedirs_def wp_simps kept_def split: option.splits)
qed

lemma wp_container_log_enter:
  assumes "plain_name n"
  shows "wp (container_log_enter p n) (\<lambda>_ h'. kept view {} h h') (\<lambda>_ _. False) h"
proof -
  have "path_join DEFAULT_CONTAINER_LOG_DIR (n @ ''.log'') = [''var'', ''log'', ''app'', n @ ''.log'']"
    using assms by (simp add: path_join_plain plain_name_def DEFAULT_CONTAINER_LOG_DIR_def)
  then have w: "wp (put_file p (path_join DEFAULT_CONTAINER_LOG_DIR (n @ ''.log'')) f)
      (\<lambda>_ h''. kept view {} h h'') (\<lambda>e h''. kept view {} h h'' \<and> e = OSError) h'" if "kept view {} h h'" for f h'
    using that by (auto simp: put_file_def wp_simps kept_def)
  show ?thesis
    unfolding container_log_enter_def wp_try_else
    by (rule wp_mono [OF makedirs_logs [of _ view]]) (auto simp: wp_simps intro: wp_mono [OF w])
qed

lemma wp_create:
  assumes "runc_contract p view" and "plain_name n"
  shows "wp (create p n b)
    (\<lambda>_ h'. kept view {n} h h' \<and> view (outside h') n = Some (path_str b, False) \<and> (prefix [''home''] b \<longrightarrow> isdir (files h') b))
    (\<lambda>e h'. kept view {n} h h' \<and>
       e \<in> {ContainerStateError, ContainerAlreadyExistError, ContainerCreationError, OSError, TypeError}) h"
proof -
  let ?Q = "\<lambda>h'. kept view {n} h h' \<and> view (outside h') n = Some (path_str b, False) \<and> (prefix [''home''] b \<longrightarrow> isdir (files h') b)"
  let ?E = "\<lambda>e h'. kept view {n} h h' \<and>
       e \<in> {ContainerStateError, ContainerAlreadyExistError, ContainerCreationError, OSError, TypeError}"
  have up: "kept view {} g g' \<Longrightarrow> kept view {n} g g'" for g g' by (rule kept_mono) auto
  have run: "wp (and_then (subprocess_run p [''runc'', ''create'', ''--bundle'', path_str b, n])
        (\<lambda>(returncode, _). if returncode \<noteq> 0 then raise ContainerCreationError else ret ())) (\<lambda>_. ?Q) ?E h1"
    if h1: "kept view {n} h h1" "prefix [''home''] b \<longrightarrow> isdir (files h1) b" for h1
  proof -
    obtain r g where ex: "exec p [''runc'', ''create'', ''--bundle'', path_str b, n] h1 = (r, g)" by (metis surj_pair)
    have k: "kept view {n} h (g\<lparr>history := x\<rparr>)" for x
      using kept_trans [OF h1(1) runc_create(1) [OF assms(1) ex]] .
    have d: "prefix [''home''] b \<Longrightarrow> isdir (files g) b"
      using kept_isdir [OF runc_create(2) [OF assms(1) ex]] h1(2) by blast
    show ?thesis
      using k d runc_create(3) [OF assms(1) ex] by (auto simp: wp_simps ex split: option.splits)
  qed
  have log: "wp (and_then (container_log_enter p n) (\<lambda>_.
        and_then (subprocess_run p [''runc'', ''create'', ''--bundle'', path_str b, n])
          (\<lambda>(returncode, _). if returncode \<noteq> 0 then raise ContainerCreationError else ret ()))) (\<lambda>_. ?Q) ?E h1"
    if h1: "kept view {n} h h1" "isdir (files h1) b" for h1
    unfolding wp_and_then [of "container_log_enter p n"]
  proof (rule wp_mono [OF wp_container_log_enter [OF assms(2), of _ view]], rule run)
    fix g assume g: "kept view {} h1 g"
    show "kept view {n} h g" using kept_trans [OF h1(1) up [OF g]] .
    show "prefix [''home''] b \<longrightarrow> isdir (files g) b" using kept_isdir [OF g] h1(2) by blast
  qed simp
  show ?thesis
    unfolding create_def wp_and_then
    by (rule wp_mono [OF wp_get_state [OF assms(1)]])
      (auto simp: wp_ret wp_raise wp_if wp_then_look intro!: log [simplified] dest: up)
qed

lemma wp_start:
  assumes "runc_contract p view"
  shows "wp (start_container p n)
    (\<lambda>_ h'. kept view {n} h h' \<and> view (outside h') n = map_option (\<lambda>(b, _). (b, True)) (view (outside h) n))
    (\<lambda>e h'. kept view {n} h h' \<and> e \<in> {ContainerStartError, OSError}) h"
  using runc_start [OF assms] by (auto simp: start_container_def wp_simps split: prod.splits option.splits)

text \<open>
  What the text of an error shows: a phrase that has a blank in it and neither a quote nor a place in the fixed parts of
  the text comes from the output of the command.
\<close>

lemma sublist_set: "sublist w s \<Longrightarrow> set w \<subseteq> set s"
  by (auto simp: sublist_def)

lemma sublist_output_or_code: "CHR '' '' \<in> set w \<Longrightarrow> sublist w (output_or_code rc out) \<longleftrightarrow> sublist w out"
  using set_str_int [of "CHR '' ''" rc] sublist_set [of w "str_int rc"]
  by (cases "out = []") (auto simp: output_or_code_def)

lemma sublist_message:
  assumes "quote \<notin> set w" and "CHR '' '' \<in> set w" and "plain_name n" and "\<not> sublist w a" and "\<not> sublist w b"
  shows "sublist w (a @ quote # n @ quote # b @ quote # d @ [quote]) \<longleftrightarrow> sublist w d"
proof -
  have n: "\<not> sublist w n" using assms(2,3) sublist_set [of w n] by (auto simp: plain_name_def)
  have "w \<noteq> []" using assms(2) by auto
  then show ?thesis
    using n assms(4,5) sublist_around [OF assms(1), of d "[]"]
    by (simp add: sublist_around [OF assms(1)])
qed

definition absence :: string where "absence = ''does not exist''"

lemma absence_in_messages:
  assumes "plain_name n"
  shows "sublist absence (kill_message n d) \<longleftrightarrow> sublist absence d"
    and "sublist absence (delete_message n d) \<longleftrightarrow> sublist absence d"
  using assms unfolding kill_message_def delete_message_def
  by (subst sublist_message; simp add: absence_def sublist_code)+

lemma wp_kill:
  assumes "runc_contract p view" and "plain_name n"
  shows "wp (kill p n sig) (\<lambda>_ h'. kept view {n} h h')
    (\<lambda>e h'. kept view {n} h h' \<and>
       (e = OSError \<or> (\<exists>m. e = ContainerKillError m \<and> (sublist absence m \<longrightarrow> view (outside h') n = None)))) h"
  using runc_kill [OF assms(1)] absence_in_messages(1) [OF assms(2)] sublist_output_or_code [of absence]
  by (auto simp: kill_def wp_simps absence_def split: prod.splits option.splits)

lemma wp_delete:
  assumes "runc_contract p view" and "plain_name n"
  shows "wp (delete p n) (\<lambda>_ h'. kept view {n} h h' \<and> view (outside h') n = None)
    (\<lambda>e h'. kept view {n} h h' \<and>
       (e = OSError \<or> (\<exists>m. e = ContainerDeleteError m \<and> (sublist absence m \<longrightarrow> view (outside h') n = None)))) h"
  using runc_delete [OF assms(1)] absence_in_messages(2) [OF assms(2)] sublist_output_or_code [of absence]
  by (auto simp: delete_def wp_simps absence_def split: prod.splits option.splits)

section \<open>A simulated machine\<close>

text \<open>
  A machine that keeps the contracts: its containers are a list, \<open>opkg\<close> puts a bundle into the directory it installs to, and the commands listed in
  \<open>failing\<close> fail.  It shows that the hypotheses of the theorems can hold, and runs the programs on examples.
\<close>

type_synonym containers = "(string \<times> string \<times> bool) list"

definition set_container :: "string \<Rightarrow> string \<times> bool \<Rightarrow> containers \<Rightarrow> containers" where
  "set_container n c cs = (n, c) # filter (\<lambda>(m, _). m \<noteq> n) cs"

definition simulate_runc :: "string \<Rightarrow> string \<Rightarrow> containers host \<Rightarrow> (int \<times> string) option \<times> containers host" where
  "simulate_runc op n h =
     (case map_of (outside h) n of
        None \<Rightarrow> (Some (1, ''container does not exist''), h)
      | Some (b, s) \<Rightarrow>
          if op = ''state'' then (Some (0, ''stopped''), h)
          else if op = ''start'' then (Some (0, []), h\<lparr>outside := set_container n (b, True) (outside h)\<rparr>)
          else if op = ''delete'' then (Some (0, []), h\<lparr>outside := filter (\<lambda>(m, _). m \<noteq> n) (outside h)\<rparr>)
          else (Some (0, []), h))"

text \<open>A bundle in place of what was below the directory.\<close>

definition install_tree :: "location \<Rightarrow> files \<Rightarrow> files" where
  "install_tree d fs =
     (d @ [OCI_BUNDLE_CONFIGURATION], Document ''bundle'') # (d @ [''rootfs''], Folder) # filter (\<lambda>(q, _). \<not> strict_prefix d q) fs"

definition simulate_opkg :: "string list \<Rightarrow> containers host \<Rightarrow> (int \<times> string) option \<times> containers host" where
  "simulate_opkg args h =
     (case args of
        [_, pkg] \<Rightarrow> (Some (0, if sublist ''/b.'' pkg then ''Package: b'' else ''Package: a''), h)
      | [_, dest, op, _] \<Rightarrow>
          if op = ''install'' then
            (case make_path (files h) [] (comps (tl (dropWhile (\<lambda>c. c \<noteq> CHR '':'') dest))) of
               None \<Rightarrow> (Some (1, ''not a directory''), h)
             | Some fs \<Rightarrow> (Some (0, []), h\<lparr>files := install_tree (comps (tl (dropWhile (\<lambda>c. c \<noteq> CHR '':'') dest))) fs\<rparr>))
          else (Some (0, []), h)
      | _ \<Rightarrow> (None, h))"

definition simulate :: "string list list \<Rightarrow> string list \<Rightarrow> containers host \<Rightarrow> (int \<times> string) option \<times> containers host" where
  "simulate failing cmd h =
     (if cmd \<in> set failing then (Some (1, ''failed''), h)
      else if hd cmd = ''opkg'' then simulate_opkg (tl cmd) h
      else case cmd of
        [_, op, n] \<Rightarrow> simulate_runc op n h
      | [_, op, n, sig] \<Rightarrow> simulate_runc op n h
      | [_, op, _, b, n] \<Rightarrow>
          if map_of (outside h) n = None then (Some (0, []), h\<lparr>outside := set_container n (b, False) (outside h)\<rparr>) else (Some (1, ''exists''), h)
      | _ \<Rightarrow> (None, h))"

definition simulated :: "string list list \<Rightarrow> containers platform" where
  "simulated failing =
     \<lparr>exec = simulate failing,
      loads = (\<lambda>text. Some (if text = ''bundle''
         then JObject [(''ociVersion'', JString ''1.0''), (''root'', JObject [(''path'', JString ''rootfs'')])]
         else JObject [(''status'', JString text)])),
      tar_members = (\<lambda>text. if text = ''archive'' then Some [\<lparr>tar_name = ''README'', tar_isfile = True, tar_data = []\<rparr>,
         \<lparr>tar_name = ''a.ipk'', tar_isfile = True, tar_data = ''A''\<rparr>, \<lparr>tar_name = ''b.IPK'', tar_isfile = True, tar_data = ''B''\<rparr>] else None),
      refuses = (\<lambda>_ _. False),
      sleep = (\<lambda>d h. h\<lparr>clock := clock h + \<bar>d\<bar>\<rparr>)\<rparr>"

lemma simulated_simps [simp]: "exec (simulated failing) = simulate failing" "refuses (simulated failing) c h = False"
  "sleep (simulated failing) d h = h\<lparr>clock := clock h + \<bar>d\<bar>\<rparr>"
  by (simp_all add: simulated_def)

lemma make_path_changes:
  "make_path fs p ns = Some fs' \<Longrightarrow> map_of fs' q \<noteq> map_of fs q \<Longrightarrow> map_of fs q = None \<and> prefix q (p @ ns)"
proof (induction fs p ns rule: make_path.induct)
  case (2 fs p n ns)
  show ?case
  proof (cases "q = p @ [n]")
    case True
    have "prefix (p @ [n]) (p @ n # ns)" by simp
    with True 2 make_path_keeps [of fs "p @ [n]" ns fs' q] show ?thesis by (auto split: option.splits document.splits)
  next
    case False
    with 2 show ?thesis by (auto split: option.splits document.splits)
  qed
qed simp

lemma map_of_install_tree:
  "map_of (install_tree d fs) q =
     (if q = d @ [OCI_BUNDLE_CONFIGURATION] then Some (Document ''bundle'')
      else if q = d @ [''rootfs''] then Some Folder else if strict_prefix d q then None else map_of fs q)"
proof -
  have "map_of (filter (\<lambda>(q, _). \<not> strict_prefix d q) fs) q = (if strict_prefix d q then None else map_of fs q)"
    by (induction fs) auto
  then show ?thesis by (simp add: install_tree_def)
qed

lemma map_of_filter_other [simp]: "map_of (filter (\<lambda>(m, _). m \<noteq> n) cs) k = (if k = n then None else map_of cs k)"
  by (induction cs) auto

lemma map_of_set_container [simp]: "map_of (set_container n c cs) k = (if k = n then Some c else map_of cs k)"
  by (simp add: set_container_def)

lemma simulated_runc: "runc_contract (simulated failing) map_of"
  unfolding runc_contract_def state_law_def create_law_def start_law_def kill_law_def delete_law_def
  by (auto simp: simulate_def simulate_runc_def only_container_def Let_def sublist_code split: option.splits if_splits)

end
