(* ===== verification/App_Lifecycle.thy ===== *)
theory App_Lifecycle imports App_Container begin

text \<open>
  \<open>manager.py\<close> of the application lifecycle manager: an application is run, terminated and killed through its container.
  The wait for the end of a process polls its state; that it comes to an end rests on the clock, which a sleep moves by
  at least its duration.
\<close>

section \<open>The manager\<close>

definition DEFAULT_TIMEOUT_AFTER_SIGTERM :: int where "DEFAULT_TIMEOUT_AFTER_SIGTERM = 3"
definition DEFAULT_TIMEOUT_AFTER_SIGKILL :: int where "DEFAULT_TIMEOUT_AFTER_SIGKILL = 1"

text \<open>A tenth of a second, in nanoseconds.\<close>

definition WAIT_SLEEP_INTERVAL :: int where "WAIT_SLEEP_INTERVAL = 100000000"

definition seconds :: "int \<Rightarrow> int" where "seconds s = s * 1000000000"

definition run_app :: "'x platform \<Rightarrow> string \<Rightarrow> location \<Rightarrow> (unit, 'x) py" where
  "run_app p app_name app_path = and_then (create p app_name app_path) (\<lambda>_. start_container p app_name)"

text \<open>The loop of \<open>_wait_for_app_stop\<close>: whether the application was seen stopped before the end of the time.\<close>

partial_function (option) poll_until_stopped :: "'x platform \<Rightarrow> string \<Rightarrow> int \<Rightarrow> 'x host \<Rightarrow> ((exn + bool) \<times> 'x host) option" where
  "poll_until_stopped p app_name endtime h =
     (if endtime > clock h then
        (case get_state p app_name h of
           None \<Rightarrow> None
         | Some (Inl e, h) \<Rightarrow> Some (Inl e, h)
         | Some (Inr app_state, h) \<Rightarrow>
             if app_state = STOPPED then Some (Inr True, h)
             else poll_until_stopped p app_name endtime ((sleep p WAIT_SLEEP_INTERVAL h)\<lparr>history := history h\<rparr>))
      else Some (Inr False, h))"

declare poll_until_stopped.simps [code]

definition timeout_message :: "string \<Rightarrow> int \<Rightarrow> string" where
  "timeout_message app_name timeout =
     quote # app_name @ quote # '' was not stopped after '' @ quote # str_int timeout @ quote # '' seconds''"

definition wait_for_app_stop :: "'x platform \<Rightarrow> string \<Rightarrow> int \<Rightarrow> (unit, 'x) py" where
  "wait_for_app_stop p app_name timeout =
     and_then (look (\<lambda>h. clock h + seconds timeout)) (\<lambda>endtime.
       and_then (poll_until_stopped p app_name endtime) (\<lambda>stopped.
         if stopped then ret ()
         else and_then (get_state p app_name) (\<lambda>app_state.
           if app_state = STOPPED then ret ()
           else raise (AppStopTimeoutError (timeout_message app_name timeout)))))"

definition already_stopped :: "exn \<Rightarrow> bool" where
  "already_stopped error \<longleftrightarrow>
     sublist (state_value ALREADY_STOPPED) (exn_text error) \<or> sublist (state_value NOT_RUNNING) (exn_text error)"

definition is_kill_error :: "exn \<Rightarrow> bool" where
  "is_kill_error e \<longleftrightarrow> (case e of ContainerKillError _ \<Rightarrow> True | _ \<Rightarrow> False)"

definition is_timeout_error :: "exn \<Rightarrow> bool" where
  "is_timeout_error e \<longleftrightarrow> (case e of AppStopTimeoutError _ \<Rightarrow> True | _ \<Rightarrow> False)"

definition kill_app :: "'x platform \<Rightarrow> string \<Rightarrow> int \<Rightarrow> (unit, 'x) py" where
  "kill_app p app_name timeout =
     try_else (kill p app_name ''SIGKILL'') is_kill_error
       (\<lambda>error. if already_stopped error then delete p app_name else raise error)
       (\<lambda>_. and_then (wait_for_app_stop p app_name timeout) (\<lambda>_. delete p app_name))"

definition terminate_app :: "'x platform \<Rightarrow> string \<Rightarrow> int \<Rightarrow> int \<Rightarrow> (unit, 'x) py" where
  "terminate_app p app_name sigterm_timeout sigkill_timeout =
     try_else (kill p app_name ''SIGTERM'') is_kill_error
       (\<lambda>error.
          if already_stopped error then delete p app_name
          else if sublist (state_value DOES_NOT_EXIST) (exn_text error) then ret ()
          else raise error)
       (\<lambda>_. try_else (wait_for_app_stop p app_name sigterm_timeout) is_timeout_error
          (\<lambda>_. kill_app p app_name sigkill_timeout)
          (\<lambda>_. delete p app_name))"

section \<open>The wait\<close>

definition sleep_contract :: "'x platform \<Rightarrow> 'x container_view \<Rightarrow> bool" where
  "sleep_contract p view \<longleftrightarrow> (\<forall>d h. kept view {} h (sleep p d h) \<and> clock h + d \<le> clock (sleep p d h))"

text \<open>How often a statement asked for the state.\<close>

definition polled :: "string \<Rightarrow> nat \<Rightarrow> 'x host \<Rightarrow> 'x host \<Rightarrow> bool" where
  "polled n k h h' \<longleftrightarrow> (\<exists>j \<le> k. history h' = history h @ replicate j [''runc'', ''state'', n])"

lemma polled_trans: "polled n i h h' \<Longrightarrow> polled n j h' h'' \<Longrightarrow> polled n (i + j) h h''"
proof -
  assume "polled n i h h'" and "polled n j h' h''"
  then obtain a b where "a \<le> i" "b \<le> j" "history h'' = history h @ replicate (a + b) [''runc'', ''state'', n]"
    by (auto simp: polled_def replicate_add)
  moreover from this have "a + b \<le> i + j" by simp
  ultimately show ?thesis unfolding polled_def by blast
qed

lemma polled_Suc: "polled n (Suc 0) h h' \<Longrightarrow> polled n k h' h'' \<Longrightarrow> polled n (Suc k) h h''"
  using polled_trans [of n 1 h h' k h''] by simp

lemma polled_refl [simp]: "polled n k h h"
  by (auto simp: polled_def intro: exI [of _ 0])

lemma get_state_polls:
  "runc_contract p view \<Longrightarrow> wp (get_state p n) (\<lambda>_ h'. polled n (Suc 0) h h') (\<lambda>_ h'. polled n (Suc 0) h h') h"
  by (auto simp: get_state_def wp_simps json_in_def json_get_def polled_def
        split: prod.splits option.splits sum.splits json.splits intro: exI [of _ "Suc 0"] exI [of _ 0])

lemma wp_get_state_polled:
  assumes "runc_contract p view"
  shows "wp (get_state p n) (\<lambda>_ h'. kept view {} h h' \<and> polled n (Suc 0) h h')
    (\<lambda>e h'. (kept view {} h h' \<and> e \<in> {ContainerStateError, OSError, TypeError}) \<and> polled n (Suc 0) h h') h"
  using wp_conj [OF wp_get_state [OF assms, of n h] get_state_polls [OF assms, of n h]] .

lemma wp_poll_until_stopped:
  assumes "runc_contract p view" and "sleep_contract p view" and "endtime - clock h \<le> int k * WAIT_SLEEP_INTERVAL"
  shows "wp (poll_until_stopped p n endtime) (\<lambda>_ h'. kept view {} h h' \<and> polled n k h h')
    (\<lambda>e h'. (kept view {} h h' \<and> e \<in> {ContainerStateError, OSError, TypeError}) \<and> polled n k h h') h"
  using assms(3)
proof (induction k arbitrary: h)
  case 0
  then show ?case by (subst wp_def, subst poll_until_stopped.simps) simp
next
  case (Suc k)
  show ?case
  proof (cases "endtime > clock h")
    case False
    then show ?thesis by (subst wp_def, subst poll_until_stopped.simps) simp
  next
    case True
    let ?s = "\<lambda>h'. (sleep p WAIT_SLEEP_INTERVAL h')\<lparr>history := history h'\<rparr>"
    have eq: "poll_until_stopped p n endtime h = and_then (get_state p n) (\<lambda>app_state.
        if app_state = STOPPED then ret True else and_then (time_sleep p WAIT_SLEEP_INTERVAL) (\<lambda>_. poll_until_stopped p n endtime)) h"
      using True by (subst poll_until_stopped.simps)
        (auto simp: and_then_def ret_def time_sleep_def split: option.splits sum.splits)
    have later: "wp (poll_until_stopped p n endtime) (\<lambda>_ h''. kept view {} h h'' \<and> polled n (Suc k) h h'')
       (\<lambda>e h''. (kept view {} h h'' \<and> e \<in> {ContainerStateError, OSError, TypeError}) \<and> polled n (Suc k) h h'') (?s h')"
      if h': "kept view {} h h'" "polled n (Suc 0) h h'" for h'
    proof -
      have s: "kept view {} h' (?s h')" "clock h' + WAIT_SLEEP_INTERVAL \<le> clock (?s h')"
        using assms(2) by (simp_all add: sleep_contract_def kept_def)
      have "endtime - clock (?s h') \<le> int k * WAIT_SLEEP_INTERVAL"
        using Suc.prems h'(1) s(2) by (simp add: kept_def algebra_simps)
      have "polled n (Suc 0) h (?s h')" using h'(2) by (simp add: polled_def)
      note up = kept_trans [OF kept_trans [OF h'(1) s(1)]] polled_Suc [OF this]
      from Suc.IH [OF \<open>endtime - clock (?s h') \<le> int k * WAIT_SLEEP_INTERVAL\<close>] show ?thesis
        by (rule wp_mono) (auto intro: up)
    qed
    have one: "polled n (Suc 0) h h' \<Longrightarrow> polled n (Suc k) h h'" for h'
      using polled_Suc [of n h h' k h'] by simp
    have "wp (and_then (get_state p n) (\<lambda>app_state. if app_state = STOPPED then ret True
        else and_then (time_sleep p WAIT_SLEEP_INTERVAL) (\<lambda>_. poll_until_stopped p n endtime)))
        (\<lambda>_ h'. kept view {} h h' \<and> polled n (Suc k) h h')
        (\<lambda>e h'. (kept view {} h h' \<and> e \<in> {ContainerStateError, OSError, TypeError}) \<and> polled n (Suc k) h h') h"
      unfolding wp_and_then
      by (rule wp_mono [OF wp_get_state_polled [OF assms(1)]]) (use later one in \<open>auto simp: wp_simps\<close>)
    then show ?thesis by (simp add: wp_def eq)
  qed
qed

lemma absence_not_in_timeout:
  assumes "plain_name n"
  shows "\<not> sublist absence (timeout_message n t)"
proof -
  have q: "quote \<notin> set absence" and blank: "CHR '' '' \<in> set absence" by (simp_all add: absence_def)
  have around: "\<not> sublist w a \<Longrightarrow> \<not> sublist w b \<Longrightarrow> \<not> sublist w c \<Longrightarrow> \<not> sublist w d \<Longrightarrow> w = absence \<Longrightarrow>
      \<not> sublist w (quote # a @ quote # b @ quote # c @ quote # d)" for a b c d w
    using sublist_around [OF q, of "[]"] by (simp add: sublist_around [OF q]) (simp add: absence_def)
  then have "\<not> sublist absence n" and "\<not> sublist absence (str_int t)"
    using assms blank sublist_set [of absence n] sublist_set [of absence "str_int t"] set_str_int [of "CHR '' ''" t]
    by (auto simp: plain_name_def subset_iff)
  then show ?thesis
    unfolding timeout_message_def by (intro around) (simp_all add: absence_def sublist_code)
qed

text \<open>How the stop of an application may fail; the text of the error says that there is no container only if there is none.\<close>

definition stop_error :: "'x container_view \<Rightarrow> string \<Rightarrow> exn \<Rightarrow> 'x host \<Rightarrow> bool" where
  "stop_error view n e h \<longleftrightarrow>
     (case e of
        ContainerKillError m \<Rightarrow> True | ContainerDeleteError m \<Rightarrow> True | AppStopTimeoutError m \<Rightarrow> True
      | _ \<Rightarrow> e \<in> {ContainerStateError, OSError, TypeError}) \<and>
     (sublist absence (exn_text e) \<longrightarrow> view (outside h) n = None)"

lemma stop_error_simps [simp]:
  "stop_error view n (ContainerKillError m) h \<longleftrightarrow> (sublist absence m \<longrightarrow> view (outside h) n = None)"
  "stop_error view n (ContainerDeleteError m) h \<longleftrightarrow> (sublist absence m \<longrightarrow> view (outside h) n = None)"
  "stop_error view n (AppStopTimeoutError m) h \<longleftrightarrow> (sublist absence m \<longrightarrow> view (outside h) n = None)"
  "stop_error view n ContainerStateError h" "stop_error view n OSError h" "stop_error view n TypeError h"
  by (simp_all add: stop_error_def) (simp_all add: absence_def)

lemma wp_wait_for_app_stop:
  assumes "runc_contract p view" and "sleep_contract p view"
  shows "wp (wait_for_app_stop p n t)
    (\<lambda>_ h'. kept view {} h h' \<and> polled n (nat (10 * t) + 1) h h')
    (\<lambda>e h'. kept view {} h h' \<and> polled n (nat (10 * t) + 1) h h' \<and>
       (e \<in> {ContainerStateError, OSError, TypeError} \<or> e = AppStopTimeoutError (timeout_message n t))) h"
proof -
  let ?k = "nat (10 * t)"
  have b: "(clock h + seconds t) - clock h \<le> int ?k * WAIT_SLEEP_INTERVAL"
    by (simp add: seconds_def WAIT_SLEEP_INTERVAL_def)
  have last: "wp (get_state p n) (\<lambda>_ h''. kept view {} h h'' \<and> polled n (?k + 1) h h'')
      (\<lambda>e h''. kept view {} h h'' \<and> polled n (?k + 1) h h'' \<and> e \<in> {ContainerStateError, OSError, TypeError}) h'"
    if "kept view {} h h'" "polled n ?k h h'" for h'
  proof -
    have "polled n (Suc 0) h' h'' \<Longrightarrow> polled n (?k + 1) h h''" for h''
      using polled_trans [OF that(2), of "Suc 0" h''] by simp
    with that(1) show ?thesis
      by (intro wp_mono [OF wp_get_state_polled [OF assms(1), of n h']]) (auto intro: kept_trans)
  qed
  have more: "polled n ?k h h' \<Longrightarrow> polled n (?k + 1) h h'" for h'
    by (auto simp: polled_def intro: le_SucI)
  show ?thesis
    unfolding wait_for_app_stop_def wp_and_then wp_look
    by (rule wp_mono [OF wp_poll_until_stopped [OF assms(1,2) b]])
      (auto simp: wp_simps more [simplified] intro!: wp_mono [OF last])
qed

section \<open>Running and stopping\<close>

lemma wp_run_app:
  assumes "runc_contract p view" and "plain_name n"
  shows "wp (run_app p n b)
    (\<lambda>_ h'. kept view {n} h h' \<and> view (outside h') n = Some (path_str b, True) \<and> (prefix [''home''] b \<longrightarrow> isdir (files h') b))
    (\<lambda>e h'. kept view {n} h h' \<and> e \<in> {ContainerStateError, ContainerAlreadyExistError, ContainerCreationError,
       ContainerStartError, OSError, TypeError}) h"
  unfolding run_app_def wp_and_then
  by (rule wp_mono [OF wp_create [OF assms]], rule wp_mono [OF wp_start [OF assms(1)]])
    (auto intro: kept_trans simp: kept_isdir)

lemma kept_up: "kept view {} h h' \<Longrightarrow> kept view ns h h'"
  by (rule kept_mono) auto

lemma wp_delete_after:
  assumes "runc_contract p view" and "plain_name n" and "kept view {n} h h'"
  shows "wp (delete p n) (\<lambda>_ h''. kept view {n} h h'' \<and> view (outside h'') n = None)
    (\<lambda>e h''. kept view {n} h h'' \<and> stop_error view n e h'') h'"
  by (rule wp_mono [OF wp_delete [OF assms(1,2)]])
    (use assms(3) in \<open>auto intro: kept_trans\<close>)

lemma wp_kill_app:
  assumes "runc_contract p view" and "sleep_contract p view" and "plain_name n"
  shows "wp (kill_app p n t) (\<lambda>_ h'. kept view {n} h h' \<and> view (outside h') n = None)
    (\<lambda>e h'. kept view {n} h h' \<and> stop_error view n e h') h"
proof -
  note del = wp_delete_after [OF assms(1,3)]
  have wait: "wp (wait_for_app_stop p n t) (\<lambda>_. wp (delete p n)
        (\<lambda>_ h'. kept view {n} h h' \<and> view (outside h') n = None) (\<lambda>e h'. kept view {n} h h' \<and> stop_error view n e h'))
      (\<lambda>e h'. kept view {n} h h' \<and> stop_error view n e h') h'" if "kept view {n} h h'" for h'
    by (rule wp_mono [OF wp_wait_for_app_stop [OF assms(1,2)]])
      (use that in \<open>auto intro!: del intro: kept_trans kept_up simp: absence_not_in_timeout [OF assms(3)]\<close>)
  show ?thesis
    unfolding kill_app_def wp_try_else wp_and_then
    by (rule wp_mono [OF wp_kill [OF assms(1,3)]])
      (auto simp: wp_simps is_kill_error_def intro!: wait del)
qed

lemma wp_terminate_app:
  assumes "runc_contract p view" and "sleep_contract p view" and "plain_name n"
  shows "wp (terminate_app p n t k) (\<lambda>_ h'. kept view {n} h h' \<and> view (outside h') n = None)
    (\<lambda>e h'. kept view {n} h h' \<and> stop_error view n e h') h"
proof -
  note del = wp_delete_after [OF assms(1,3)]
  have again: "wp (kill_app p n k) (\<lambda>_ h''. kept view {n} h h'' \<and> view (outside h'') n = None)
      (\<lambda>e h''. kept view {n} h h'' \<and> stop_error view n e h'') h'" if "kept view {n} h h'" for h'
    by (rule wp_mono [OF wp_kill_app [OF assms]]) (use that in \<open>auto intro: kept_trans\<close>)
  have wait: "wp (try_else (wait_for_app_stop p n t) is_timeout_error (\<lambda>_. kill_app p n k) (\<lambda>_. delete p n))
      (\<lambda>_ h''. kept view {n} h h'' \<and> view (outside h'') n = None)
      (\<lambda>e h''. kept view {n} h h'' \<and> stop_error view n e h'') h'" if "kept view {n} h h'" for h'
    unfolding wp_try_else
    by (rule wp_mono [OF wp_wait_for_app_stop [OF assms(1,2)]])
      (use that in \<open>auto intro!: del again intro: kept_trans kept_up simp: is_timeout_error_def\<close>)
  show ?thesis
    unfolding terminate_app_def by (subst wp_try_else, rule wp_mono [OF wp_kill [OF assms(1,3)]])
      (auto simp: wp_simps(1-3,9-13) is_kill_error_def absence_def intro!: wait [unfolded wp_try_else] wait del)
qed

section \<open>Properties\<close>

lemma simulated_sleep: "sleep_contract (simulated failing) map_of"
  by (simp add: sleep_contract_def kept_def abs_ge_self)

text \<open>C18: the wait for the end of a process comes to an end.  Whatever \<open>runc\<close> answers and however often it fails, the wait
  returns or raises, and it asks for the state at most ten times for each second of the timeout and once more.\<close>

theorem wait_for_app_stop_terminates:
  assumes "runc_contract p view" and "sleep_contract p view"
  shows "\<exists>r h' k. wait_for_app_stop p n timeout h = Some (r, h') \<and> k \<le> nat (10 * timeout) + 1 \<and>
    history h' = history h @ replicate k [''runc'', ''state'', n]"
proof -
  have "wp (wait_for_app_stop p n timeout) (\<lambda>_. polled n (nat (10 * timeout) + 1) h)
      (\<lambda>_. polled n (nat (10 * timeout) + 1) h) h"
    by (rule wp_mono [OF wp_wait_for_app_stop [OF assms]]) auto
  then show ?thesis by (auto simp: wp_def polled_def split: option.splits sum.splits)
qed

theorem wait_for_app_stop_terminates_witness:
  "\<exists>r h' k. wait_for_app_stop (simulated []) ''a'' 3
      \<lparr>files = [], clock = 0, epoch = 0, answers = [], history = [], outside = [(''a'', ''/b'', True)]\<rparr> = Some (r, h') \<and>
    k \<le> 31 \<and> history h' = replicate k [''runc'', ''state'', ''a'']"
  using wait_for_app_stop_terminates [OF simulated_runc simulated_sleep, of "[]" "''a''" 3
      "\<lparr>files = [], clock = 0, epoch = 0, answers = [], history = [], outside = [(''a'', ''/b'', True)]\<rparr>"] by simp

text \<open>C17: the termination of an application.  \<open>terminate_app\<close> always comes back; when it returns there is no container of
  the application any more, whichever of its paths it took (the process ended in time, had to be killed, had ended before,
  or there was no container); when it raises, then one of six errors whose text says that there is no container only if
  there is none.  The other containers and the files of the applications are as before.\<close>

theorem terminate_app_outcome:
  assumes "runc_contract p view" and "sleep_contract p view" and "plain_name n"
  shows "\<exists>r h'. terminate_app p n sigterm_timeout sigkill_timeout h = Some (r, h') \<and> kept view {n} h h' \<and>
    (case r of Inr _ \<Rightarrow> view (outside h') n = None | Inl e \<Rightarrow> stop_error view n e h')"
proof -
  obtain r h' where "terminate_app p n sigterm_timeout sigkill_timeout h = Some (r, h')"
    and "case r of Inl e \<Rightarrow> kept view {n} h h' \<and> stop_error view n e h' | Inr _ \<Rightarrow> kept view {n} h h' \<and> view (outside h') n = None"
    using wp_terminate_app [OF assms, of sigterm_timeout sigkill_timeout h] unfolding wp_iff by blast
  then show ?thesis by (intro exI [of _ r] exI [of _ h']) (auto split: sum.splits)
qed

theorem terminate_app_outcome_witness:
  "\<exists>r h'. terminate_app (simulated [[''runc'', ''kill'', ''a'', ''SIGTERM'']]) ''a'' 3 1
      \<lparr>files = [], clock = 0, epoch = 0, answers = [], history = [], outside = [(''a'', ''/b'', True)]\<rparr> = Some (r, h') \<and>
    (case r of Inr _ \<Rightarrow> map_of (outside h') ''a'' = None | Inl e \<Rightarrow> stop_error map_of ''a'' e h')"
  using terminate_app_outcome [OF simulated_runc simulated_sleep, of "''a''" "[[''runc'', ''kill'', ''a'', ''SIGTERM'']]" 3 1
      "\<lparr>files = [], clock = 0, epoch = 0, answers = [], history = [], outside = [(''a'', ''/b'', True)]\<rparr>"]
  by (auto simp: plain_name_def)

text \<open>The paths, run on the simulated machine: a process that ends, one that had ended, one without a container.\<close>

lemma terminate_app_runs:
  "map_option fst (terminate_app (simulated []) ''a'' 3 1
      \<lparr>files = [], clock = 0, epoch = 0, answers = [], history = [], outside = [(''a'', ''/b'', True)]\<rparr>) = Some (Inr ())"
  "map_option fst (terminate_app (simulated []) ''a'' 3 1
      \<lparr>files = [], clock = 0, epoch = 0, answers = [], history = [], outside = []\<rparr>) = Some (Inr ())"
  by code_simp+

end
