(* ===== verification/App_Manager.thy ===== *)
theory App_Manager imports App_Container begin

text \<open>
  \<open>parser.py\<close> and \<open>manager.py\<close> of the application manager: the control data of a package, and the installation and
  removal of applications with \<open>opkg\<close>, whose contract is \<open>opkg_contract\<close>.  The constructor of \<open>AppManager\<close> sets an
  environment variable that only \<open>opkg\<close> looks at; it is not part of the model.
\<close>

section \<open>Control data\<close>

fun split_at :: "char \<Rightarrow> string \<Rightarrow> string list" where
  "split_at c [] = [[]]"
| "split_at c (x # xs) =
     (if x = c then [] # split_at c xs
      else case split_at c xs of y # ys \<Rightarrow> (x # y) # ys | [] \<Rightarrow> [[x]])"

text \<open>What \<open>str.strip\<close> takes for white space\<close>

definition py_space :: "char \<Rightarrow> bool" where
  "py_space c \<longleftrightarrow> of_char c \<in> {9 .. 13 :: nat} \<union> {28 .. 32} \<union> {0x85, 0xA0}"

definition lstrip :: "string \<Rightarrow> string" where "lstrip s = dropWhile py_space s"
definition rstrip :: "string \<Rightarrow> string" where "rstrip s = rev (dropWhile py_space (rev s))"

text \<open>The loop over the lines: the entries of the dictionary, or the \<open>ValueError\<close> of a line with more than one colon.\<close>

fun parse_lines :: "string list \<Rightarrow> (string \<rightharpoonup> string) \<Rightarrow> exn + (string \<rightharpoonup> string)" where
  "parse_lines [] pkg_info = Inr pkg_info"
| "parse_lines (line # lines) pkg_info =
     (case split_at (CHR '':'') line of
        [field, value] \<Rightarrow> parse_lines lines (pkg_info(rstrip field \<mapsto> lstrip value))
      | [_] \<Rightarrow> parse_lines lines pkg_info
      | _ \<Rightarrow> Inl ValueError)"

definition parse_app_info :: "'x platform \<Rightarrow> location \<Rightarrow> (string \<rightharpoonup> string, 'x) py" where
  "parse_app_info p app_pkg =
     and_then (subprocess_run p [''opkg'', ''info'', path_str app_pkg]) (\<lambda>(returncode, app_ctrl_data).
       if returncode \<noteq> 0 then raise AppInfoParserError
       else and_then (lift (parse_lines (split_at (CHR 0x0A) app_ctrl_data) Map.empty)) (\<lambda>pkg_info.
         if pkg_info ''Package'' = None then raise AppInfoParserError else ret pkg_info))"

section \<open>The manager\<close>

definition APPS_PATH :: location where "APPS_PATH = [''home'', ''app'']"

definition get_app_name :: "'x platform \<Rightarrow> location \<Rightarrow> (string, 'x) py" where
  "get_app_name p app_pkg =
     try_else
       (and_then (parse_app_info p app_pkg) (\<lambda>pkg_info.
          case pkg_info ''Package'' of None \<Rightarrow> raise KeyError | Some app_name \<Rightarrow> ret app_name))
       (\<lambda>e. e = AppInfoParserError) (\<lambda>_. raise AppIdError) ret"

definition opkg_dest :: "string \<Rightarrow> location \<Rightarrow> string" where
  "opkg_dest app_name app_path = app_name @ CHR '':'' # path_str app_path"

definition remove_app :: "'x platform \<Rightarrow> string \<Rightarrow> location \<Rightarrow> (unit, 'x) py" where
  "remove_app p app_name app_path =
     and_then (look (\<lambda>h. isdir (files h) app_path)) (\<lambda>there.
       if \<not> there then raise AppPathInexistent
       else and_then (subprocess_run p [''opkg'', ''--add-dest'', opkg_dest app_name app_path, ''remove'', app_name])
         (\<lambda>(returncode, _).
           if returncode \<noteq> 0 then raise AppUninstallError
           else and_then (rmtree p app_path) (\<lambda>_.
             and_then (listdir p (butlast app_path)) (\<lambda>entries.
               if entries = [] \<and> butlast app_path \<noteq> APPS_PATH then rmtree p (butlast app_path) else ret ()))))"

definition install_app :: "'x platform \<Rightarrow> location \<Rightarrow> location \<Rightarrow> (unit, 'x) py" where
  "install_app p app_pkg app_path =
     and_then (get_app_name p app_pkg) (\<lambda>app_name.
       and_then (subprocess_run p [''opkg'', ''--add-dest'', opkg_dest app_name app_path, ''install'', path_str app_pkg])
         (\<lambda>(returncode, _).
           if returncode \<noteq> 0 then
             and_then (look (\<lambda>h. map_of (files h) app_path \<noteq> None)) (\<lambda>there.
               and_then (if there then remove_app p app_name app_path else ret ()) (\<lambda>_. raise AppInstallError))
           else ret ()))"

definition force_install_app :: "'x platform \<Rightarrow> location \<Rightarrow> location \<Rightarrow> (unit, 'x) py" where
  "force_install_app p app_pkg app_path =
     and_then (look (\<lambda>h. isdir (files h) app_path)) (\<lambda>there.
       and_then
         (if there then and_then (get_app_name p app_pkg) (\<lambda>app_name. remove_app p app_name app_path) else ret ())
         (\<lambda>_. install_app p app_pkg app_path))"

definition list_installed_apps :: "'x platform \<Rightarrow> location \<Rightarrow> (unit, 'x) py" where
  "list_installed_apps p apps_path =
     and_then (get_oci_bundle_paths p apps_path) (for_each (\<lambda>app_bundle.
       let app_name = (if butlast app_bundle = [] then [] else last (butlast app_bundle))
       in and_then (subprocess_run p [''opkg'', ''--add-dest'', opkg_dest app_name app_bundle, ''list-installed''])
            (\<lambda>(returncode, _). if returncode \<noteq> 0 then raise AppListingError else ret ())))"

text \<open>The command line: the action of the first argument, and the exit code.\<close>

datatype manager_action =
    Install_action location location
  | Force_install_action location location
  | Remove_action string location
  | List_action location

fun run_manager_action :: "'x platform \<Rightarrow> manager_action \<Rightarrow> (unit, 'x) py" where
  "run_manager_action p (Install_action app_package app_path) = install_app p app_package app_path"
| "run_manager_action p (Force_install_action app_package app_path) = force_install_app p app_package app_path"
| "run_manager_action p (Remove_action app_name app_path) = remove_app p app_name app_path"
| "run_manager_action p (List_action apps_path) = list_installed_apps p apps_path"

definition app_manager_main :: "'x platform \<Rightarrow> manager_action \<Rightarrow> (int, 'x) py" where
  "app_manager_main p action = try_else (run_manager_action p action) (\<lambda>_. True) (\<lambda>_. ret 1) (\<lambda>_. ret 0)"

section \<open>The contract of \<open>opkg\<close>\<close>

text \<open>
  The names of packages are plain words, and a command for a destination changes files of that destination only (an installation may make the directories on the
  way to it), and no container.
\<close>

definition only_files :: "'x platform \<Rightarrow> 'x container_view \<Rightarrow> string list \<Rightarrow> (location \<Rightarrow> bool) \<Rightarrow> 'x host \<Rightarrow> bool" where
  "only_files p view cmd free h \<longleftrightarrow>
     (let h' = snd (exec p cmd h)
      in clock h \<le> clock h' \<and> view (outside h') = view (outside h) \<and>
         (\<forall>q. \<not> free q \<longrightarrow> map_of (files h') q = map_of (files h) q))"

definition package_names :: "'x platform \<Rightarrow> bool" where
  "package_names p \<longleftrightarrow>
     (\<forall>pkg h h' out info n. exec p [''opkg'', ''info'', pkg] h = (Some (0, out), h') \<longrightarrow>
        parse_lines (split_at (CHR 0x0A) out) Map.empty = Inr info \<longrightarrow> info ''Package'' = Some n \<longrightarrow> plain_name n \<and> valid_name n)"

definition opkg_contract :: "'x platform \<Rightarrow> 'x container_view \<Rightarrow> bool" where
  "opkg_contract p view \<longleftrightarrow>
     package_names p \<and>
     (\<forall>pkg h. only_files p view [''opkg'', ''info'', pkg] (\<lambda>_. False) h) \<and>
     (\<forall>n d pkg h. plain_name n \<longrightarrow> list_all valid_name d \<longrightarrow> only_files p view [''opkg'', ''--add-dest'', opkg_dest n d, ''install'', pkg]
        (\<lambda>q. prefix d q \<or> prefix q d \<and> map_of (files h) q = None) h) \<and>
     (\<forall>n d h. plain_name n \<longrightarrow> list_all valid_name d \<longrightarrow> only_files p view [''opkg'', ''--add-dest'', opkg_dest n d, ''remove'', n] (prefix d) h)"

section \<open>Facts\<close>

lemma opkg_contractD:
  assumes "opkg_contract p view"
  shows "package_names p" "only_files p view [''opkg'', ''info'', pkg] (\<lambda>_. False) h"
    "plain_name n \<Longrightarrow> list_all valid_name d \<Longrightarrow> only_files p view [''opkg'', ''--add-dest'', opkg_dest n d, ''install'', pkg]
      (\<lambda>q. prefix d q \<or> prefix q d \<and> map_of (files h) q = None) h"
    "plain_name n \<Longrightarrow> list_all valid_name d \<Longrightarrow> only_files p view [''opkg'', ''--add-dest'', opkg_dest n d, ''remove'', n] (prefix d) h"
  using assms unfolding opkg_contract_def by blast+

text \<open>What a removal does: the directory is gone, and with it at most its parent, if nothing else was in there.\<close>

definition removal :: "'x container_view \<Rightarrow> location \<Rightarrow> 'x host \<Rightarrow> 'x host \<Rightarrow> bool" where
  "removal view d h h' \<longleftrightarrow>
     clock h \<le> clock h' \<and> view (outside h') = view (outside h) \<and>
     (\<forall>q. isdir (files h') q \<longrightarrow> isdir (files h) q \<and> \<not> prefix d q) \<and>
     (\<forall>q. \<not> prefix (butlast d) q \<longrightarrow> map_of (files h') q = map_of (files h) q) \<and>
     (\<forall>m. butlast d @ [m] \<noteq> d \<longrightarrow> isdir (files h) (butlast d @ [m]) \<longrightarrow> isdir (files h') (butlast d @ [m]))"

lemma children_iff: "n \<in> set (children fs d) \<longleftrightarrow> map_of fs (d @ [n]) \<noteq> None"
proof
  assume "n \<in> set (children fs d)"
  then show "map_of fs (d @ [n]) \<noteq> None"
    by (auto simp: children_def map_of_eq_None_iff) (metis append_butlast_last_id fst_conv image_eqI)
next
  assume "map_of fs (d @ [n]) \<noteq> None"
  then have "d @ [n] \<in> set (filter (\<lambda>q. q \<noteq> [] \<and> butlast q = d) (map fst fs))"
    by (simp add: map_of_eq_None_iff)
  then have "last (d @ [n]) \<in> last ` set (filter (\<lambda>q. q \<noteq> [] \<and> butlast q = d) (map fst fs))" by (rule imageI)
  then show "n \<in> set (children fs d)" by (simp add: children_def)
qed

lemma only_filesD:
  assumes "only_files p view cmd free h" and "exec p cmd h = (r, h')"
  shows "clock h \<le> clock h'" "view (outside h') = view (outside h)"
    "\<not> free q \<Longrightarrow> map_of (files h') q = map_of (files h) q"
  using assms by (auto simp: only_files_def Let_def)

lemma prefix_sibling: "prefix d (butlast d @ [m]) \<Longrightarrow> d \<noteq> [] \<Longrightarrow> butlast d @ [m] = d"
  by (cases d rule: rev_cases) (auto simp: prefix_def)

lemma removal_after_opkg:
  assumes "d \<noteq> []" and free: "\<And>q. \<not> prefix d q \<Longrightarrow> map_of (files g) q = map_of (files h) q"
    and "clock h \<le> clock g" and "view (outside g) = view (outside h)"
  shows "removal view d h (g\<lparr>history := x, files := without_tree d (files g)\<rparr>)"
    and "children (without_tree d (files g)) (butlast d) = [] \<Longrightarrow>
      removal view d h (g\<lparr>history := x, files := without_tree (butlast d) (without_tree d (files g))\<rparr>)"
proof -
  have up: "prefix d q \<Longrightarrow> prefix (butlast d) q" for q
    by (meson prefix_order.trans prefixeq_butlast)
  have sib: "butlast d @ [m] \<noteq> d \<Longrightarrow> \<not> prefix d (butlast d @ [m])" for m
    using prefix_sibling [OF _ assms(1)] by blast
  show "removal view d h (g\<lparr>history := x, files := without_tree d (files g)\<rparr>)"
    using assms(3,4) up sib by (auto simp: removal_def isdir_def free)
  assume e: "children (without_tree d (files g)) (butlast d) = []"
  have none: "map_of (without_tree d (files g)) (butlast d @ [m]) = None" for m
    using children_iff [of m "without_tree d (files g)" "butlast d"] unfolding e by auto
  have gone: "\<not> isdir (files h) (butlast d @ [m])" if "butlast d @ [m] \<noteq> d" for m
    using none [of m] sib [OF that] by (simp add: isdir_def free)
  show "removal view d h (g\<lparr>history := x, files := without_tree (butlast d) (without_tree d (files g))\<rparr>)"
    using assms(3,4) up gone by (auto simp: removal_def isdir_def free)
qed

lemma wp_remove_app:
  assumes "opkg_contract p view" and "d \<noteq> []" and "plain_name n" and "list_all valid_name d"
  shows "wp (remove_app p n d) (\<lambda>_ h'. removal view d h h') (\<lambda>e h'. e \<in> {AppPathInexistent, AppUninstallError, OSError}) h"
proof -
  have o: "only_files p view [''opkg'', ''--add-dest'', opkg_dest n d, ''remove'', n] (prefix d) h"
    using opkg_contractD(4) [OF assms(1,3,4)] .
  note after = removal_after_opkg [OF assms(2), of _ h view, OF only_filesD(3) [OF o] only_filesD(1,2) [OF o]]
  show ?thesis
    using after
    by (auto simp: remove_app_def rmtree_def listdir_def wp_simps split: prod.splits option.splits)
qed

lemma wp_get_app_name:
  assumes "opkg_contract p view"
  shows "wp (get_app_name p pkg)
    (\<lambda>n h'. clock h \<le> clock h' \<and> view (outside h') = view (outside h) \<and> map_of (files h') = map_of (files h) \<and> plain_name n \<and> valid_name n)
    (\<lambda>e h'. (clock h \<le> clock h' \<and> view (outside h') = view (outside h) \<and> map_of (files h') = map_of (files h)) \<and>
       e \<in> {AppIdError, OSError, ValueError}) h"
proof -
  obtain r g where ex: "exec p [''opkg'', ''info'', path_str pkg] h = (r, g)" by (metis surj_pair)
  have o: "only_files p view [''opkg'', ''info'', path_str pkg] (\<lambda>_. False) h"
    using assms by (simp add: opkg_contract_def)
  have v: "parse_lines ls m = Inl e \<Longrightarrow> e = ValueError" for ls m e
    by (induction ls m rule: parse_lines.induct) (auto split: list.splits)
  have n: "r = Some (0, out) \<Longrightarrow> parse_lines (split_at (CHR 0x0A) out) Map.empty = Inr info \<Longrightarrow> info ''Package'' = Some n \<Longrightarrow>
      plain_name n \<and> valid_name n" for out info n
    using assms ex unfolding opkg_contract_def package_names_def by blast
  show ?thesis
    using only_filesD [OF o ex]
    by (auto simp: get_app_name_def parse_app_info_def wp_simps ex intro!: ext dest: v n split: prod.splits option.splits sum.splits)
qed

text \<open>
  What an installation keeps: the containers, and the directories that are not in the new bundle; on its level, the new
  bundle is the only directory that may be new.
\<close>

definition installation :: "'x container_view \<Rightarrow> location \<Rightarrow> 'x host \<Rightarrow> 'x host \<Rightarrow> bool" where
  "installation view d h h' \<longleftrightarrow>
     clock h \<le> clock h' \<and> view (outside h') = view (outside h) \<and>
     (\<forall>q. \<not> prefix d q \<longrightarrow> isdir (files h) q \<longrightarrow> isdir (files h') q) \<and>
     (\<forall>q. length q = length d \<longrightarrow> isdir (files h') q \<longrightarrow> q = d \<or> isdir (files h) q)"

lemma prefix_same_length: "prefix a b \<Longrightarrow> length a = length b \<Longrightarrow> a = b"
  by (auto simp: prefix_def)

lemma wp_install_app:
  fixes p :: "'x platform"
  assumes "opkg_contract p view" and "d \<noteq> []" and "list_all valid_name d"
  shows "wp (install_app p pkg d) (\<lambda>_ h'. installation view d h h')
    (\<lambda>e h'. e \<in> {AppIdError, AppInstallError, AppPathInexistent, AppUninstallError, OSError, ValueError} \<and>
       (e = AppInstallError \<longrightarrow> \<not> isdir (files h') d) \<and>
       (e = AppInstallError \<or> e = AppIdError \<longrightarrow> (\<forall>q. length q = length d \<longrightarrow> isdir (files h') q \<longrightarrow> isdir (files h) q))) h"
proof -
  have run: "wp (subprocess_run p [''opkg'', ''--add-dest'', opkg_dest n d, ''install'', path_str pkg])
      (\<lambda>r h''. installation view d h h'') (\<lambda>e h''. e = OSError) h'"
    if h': "clock h \<le> clock h' \<and> view (outside h') = view (outside h) \<and> map_of (files h') = map_of (files h) \<and> plain_name n \<and> valid_name n"
    for n h'
  proof -
    obtain r g where ex: "exec p [''opkg'', ''--add-dest'', opkg_dest n d, ''install'', path_str pkg] h' = (r, g)" by (metis surj_pair)
    have o: "only_files p view [''opkg'', ''--add-dest'', opkg_dest n d, ''install'', path_str pkg]
        (\<lambda>q. prefix d q \<or> prefix q d \<and> map_of (files h') q = None) h'"
      using opkg_contractD(3) [OF assms(1) _ assms(3)] h' by blast
    note f = only_filesD [OF o ex]
    have "isdir (files g) q" if "\<not> prefix d q" "isdir (files h) q" for q
      using f(3) [of q] that h' by (auto simp: isdir_def)
    moreover have "q = d \<or> isdir (files h) q" if "length q = length d" "isdir (files g) q" for q
    proof (cases "q = d")
      case False
      with that(1) have "\<not> prefix d q" "\<not> prefix q d" using prefix_same_length [of d q] prefix_same_length [of q d] by auto
      with f(3) [of q] that(2) h' show ?thesis by (simp add: isdir_def)
    qed simp
    ultimately show ?thesis
      using f(1,2) h' by (auto simp: wp_simps ex installation_def split: option.splits)
  qed
  have clean: "wp (remove_app p n d)
      (\<lambda>_ h''. \<not> isdir (files h'') d \<and> (\<forall>q. length q = length d \<longrightarrow> isdir (files h'') q \<longrightarrow> isdir (files h) q))
      (\<lambda>e _. e \<in> {AppPathInexistent, AppUninstallError, OSError}) h'" if "installation view d h h'" "plain_name n" for n h'
    by (rule wp_mono [OF wp_remove_app [OF assms(1,2) that(2) assms(3)]]) (use that in \<open>auto simp: removal_def installation_def\<close>)
  have none: "installation view d h h' \<Longrightarrow> map_of (files h') d = None \<Longrightarrow> length q = length d \<Longrightarrow> isdir (files h') q \<Longrightarrow>
      isdir (files h) q" for h' :: "'x host" and q
    unfolding installation_def isdir_def by (metis option.distinct(1))
  show ?thesis
    unfolding install_app_def wp_and_then [of "get_app_name p pkg"]
  proof (rule wp_mono [OF wp_get_app_name [OF assms(1)]])
    fix n and h' :: "'x host"
    assume h': "clock h \<le> clock h' \<and> view (outside h') = view (outside h) \<and> map_of (files h') = map_of (files h) \<and> plain_name n \<and> valid_name n"
    show "wp (and_then (subprocess_run p [''opkg'', ''--add-dest'', opkg_dest n d, ''install'', path_str pkg])
       (\<lambda>(returncode, _).
           if returncode \<noteq> 0 then
             and_then (look (\<lambda>h. map_of (files h) d \<noteq> None)) (\<lambda>there.
               and_then (if there then remove_app p n d else ret ()) (\<lambda>_. raise AppInstallError))
           else ret ()))
      (\<lambda>_ h'. installation view d h h')
      (\<lambda>e h'. e \<in> {AppIdError, AppInstallError, AppPathInexistent, AppUninstallError, OSError, ValueError} \<and>
       (e = AppInstallError \<longrightarrow> \<not> isdir (files h') d) \<and>
       (e = AppInstallError \<or> e = AppIdError \<longrightarrow> (\<forall>q. length q = length d \<longrightarrow> isdir (files h') q \<longrightarrow> isdir (files h) q))) h'"
      unfolding wp_and_then [of "subprocess_run p _"]
      by (rule wp_mono [OF run [OF h']])
        (auto simp: wp_simps isdir_def [of _ d] intro: none intro!: wp_mono [OF clean] simp: h')
  qed (auto simp: isdir_def)
qed

lemma opkg_dest_path:
  assumes "plain_name n" and "list_all valid_name d"
  shows "comps (tl (dropWhile (\<lambda>c. c \<noteq> CHR '':'') (opkg_dest n d))) = d"
proof -
  have "dropWhile (\<lambda>c. c \<noteq> CHR '':'') (opkg_dest n d) = CHR '':'' # path_str d"
    using assms(1) unfolding opkg_dest_def by (subst dropWhile_append2) (auto simp: plain_name_def)
  then show ?thesis using assms(2) by simp
qed

lemma simulated_opkg: "opkg_contract (simulated failing) map_of"
proof -
  have "parse_lines (split_at (CHR 0x0A) ''Package: a'') Map.empty = Inr [''Package'' \<mapsto> ''a'']"
    "parse_lines (split_at (CHR 0x0A) ''Package: b'') Map.empty = Inr [''Package'' \<mapsto> ''b'']"
    by (simp_all add: rstrip_def lstrip_def py_space_def)
  then have "package_names (simulated failing)"
    by (auto simp: package_names_def simulate_def simulate_opkg_def plain_name_def valid_name_def split: if_splits)
  moreover have "map_of (install_tree d fs) q = map_of (files h) q"
    if "make_path (files h) [] d = Some fs" "\<not> prefix d q" "prefix q d \<longrightarrow> (\<exists>y. map_of (files h) q = Some y)"
    for fs q d and h :: "containers host"
  proof -
    have "map_of fs q = map_of (files h) q"
      using make_path_changes [OF that(1), of q] that(3) by (cases "map_of fs q = map_of (files h) q") auto
    then show ?thesis using that(2) by (auto simp: map_of_install_tree strict_prefix_def)
  qed
  ultimately show ?thesis
    by (auto simp: opkg_contract_def only_files_def simulate_def simulate_opkg_def opkg_dest_path Let_def split: option.splits)
qed

text \<open>The program ends with 0 exactly if the action returned; an application that it removed with 0 is gone.\<close>

lemma app_manager_main_removes:
  assumes "opkg_contract p view" and "d \<noteq> []" and "plain_name n" and "list_all valid_name d"
  shows "wp (app_manager_main p (Remove_action n d)) (\<lambda>rc h'. rc = 0 \<longrightarrow> removal view d h h') (\<lambda>_ _. False) h"
  unfolding app_manager_main_def run_manager_action.simps wp_try_else
  by (rule wp_mono [OF wp_remove_app [OF assms]]) (simp_all add: wp_ret)

end
