(* ===== verification/Human_Sort.thy ===== *)
theory Human_Sort imports Python "HOL-Library.Char_ord" "HOL-Library.List_Lexorder" begin

text \<open>
  The sorting of names in the way that humans expect (\<open>human_sort\<close> and \<open>alphanum_sort\<close>): numbers in the names count as
  numbers.  A key alternates between texts and numbers, so that two keys never compare a text with a number.
\<close>

datatype piece = Text string | Number nat

instantiation piece :: linorder
begin

fun less_eq_piece :: "piece \<Rightarrow> piece \<Rightarrow> bool" where
  "less_eq_piece (Text s) (Text t) = (s \<le> t)"
| "less_eq_piece (Text s) (Number n) = True"
| "less_eq_piece (Number m) (Text t) = False"
| "less_eq_piece (Number m) (Number n) = (m \<le> n)"

definition less_piece :: "piece \<Rightarrow> piece \<Rightarrow> bool" where
  "less_piece a b \<longleftrightarrow> a \<le> b \<and> \<not> b \<le> (a :: piece)"

instance
proof
  fix a b c :: piece
  show "a \<le> a" by (cases a) simp_all
  show "a \<le> b \<Longrightarrow> b \<le> c \<Longrightarrow> a \<le> c" by (cases a; cases b; cases c) auto
  show "a \<le> b \<Longrightarrow> b \<le> a \<Longrightarrow> a = b" by (cases a; cases b) auto
  show "a \<le> b \<or> b \<le> a" by (cases a; cases b) auto
qed (simp add: less_piece_def)

end

definition is_digit :: "char \<Rightarrow> bool" where
  "is_digit c \<longleftrightarrow> of_char c \<in> {48 .. 57 :: nat}"

definition digits_value :: "string \<Rightarrow> nat" where
  "digits_value s = foldl (\<lambda>v c. 10 * v + (of_char c - 48)) 0 s"

text \<open>\<open>re.split("([0-9]+)", key)\<close> with the digits converted\<close>

function alphanum_key :: "string \<Rightarrow> piece list" where
  "alphanum_key s =
     (let rest = dropWhile (\<lambda>c. \<not> is_digit c) s
      in Text (takeWhile (\<lambda>c. \<not> is_digit c) s) #
         (if rest = [] then []
          else Number (digits_value (takeWhile is_digit rest)) # alphanum_key (dropWhile is_digit rest)))"
  by pat_completeness auto
termination
proof (relation "measure length")
  fix s rest :: string
  assume r: "rest = dropWhile (\<lambda>c. \<not> is_digit c) s" and "rest \<noteq> []"
  then obtain c cs where c: "rest = c # cs" "is_digit c" by (metis hd_dropWhile list.exhaust_sel)
  have "length (dropWhile is_digit rest) \<le> length cs" using c by (simp add: length_dropWhile_le)
  also have "\<dots> < length rest" using c by simp
  also have "\<dots> \<le> length s" unfolding r by (rule length_dropWhile_le)
  finally show "(dropWhile is_digit rest, s) \<in> measure length" by simp
qed simp

declare alphanum_key.simps [simp del]

definition human_sort :: "location list \<Rightarrow> location list" where
  "human_sort l = sort_key (\<lambda>p. alphanum_key (path_str p)) l"

section \<open>Versions\<close>

lemma digits_value_decimal: "digits_value (decimal n) = n"
proof (induction n rule: decimal.induct)
  case (1 n)
  then show ?case by (subst decimal.simps) (auto simp: digits_value_def digit_char_def)
qed

lemma decimal_is_digits: "decimal n \<noteq> []" "\<forall>c \<in> set (decimal n). is_digit c"
  by (subst decimal.simps, simp) (auto simp: is_digit_def dest: decimal_digits)

lemma takeWhile_stop: "\<not> P c \<Longrightarrow> takeWhile P (xs @ c # ys) = takeWhile P xs"
  and dropWhile_stop: "\<not> P c \<Longrightarrow> dropWhile P (xs @ c # ys) = dropWhile P xs @ c # ys"
  by (induction xs) auto

text \<open>The number at the end of a path is a piece of its own, after the pieces of what comes before.\<close>

lemma alphanum_key_number:
  assumes "\<not> is_digit c" and "d \<noteq> []" and "\<forall>x \<in> set d. is_digit x"
  shows "alphanum_key (u @ c # d) = alphanum_key (u @ [c]) @ [Number (digits_value d), Text []]"
proof (induction u rule: length_induct)
  case (1 u)
  let ?n = "\<lambda>c. \<not> is_digit c"
  show ?case
  proof (cases "dropWhile ?n u = []")
    case True
    then have u: "\<forall>x \<in> set u. ?n x" by (simp add: dropWhile_eq_Nil_conv)
    have d: "takeWhile ?n d = []" "dropWhile ?n d = d" using assms(2,3) by (cases d; simp)+
    have e: "takeWhile is_digit d = d" "dropWhile is_digit d = []"
      using assms(3) by (simp_all add: takeWhile_eq_all_conv dropWhile_eq_Nil_conv)
    have "takeWhile ?n (u @ c # d) = u @ [c]" "dropWhile ?n (u @ c # d) = d"
      "takeWhile ?n (u @ [c]) = u @ [c]" "dropWhile ?n (u @ [c]) = []"
      using u assms(1) d by (simp_all add: takeWhile_append2 dropWhile_append2)
    moreover have "alphanum_key [] = [Text []]" by (simp add: alphanum_key.simps)
    ultimately show ?thesis
      using assms(2) by (simp add: alphanum_key.simps [of "u @ c # d"] alphanum_key.simps [of "u @ [c]"] e)
  next
    case False
    let ?r = "dropWhile ?n u" and ?v = "dropWhile is_digit (dropWhile ?n u)"
    have "is_digit (hd ?r)" using hd_dropWhile [OF False] by simp
    then have "length ?v < length ?r" using False
      by (cases ?r) (simp_all add: le_imp_less_Suc length_dropWhile_le)
    then have short: "length ?v < length u" using length_dropWhile_le [of ?n u] by linarith
    have some: "\<not> (\<forall>x \<in> set u. ?n x)" using False by (simp add: dropWhile_eq_Nil_conv)
    have t: "takeWhile ?n (u @ z) = takeWhile ?n u" and d: "dropWhile ?n (u @ z) = ?r @ z" for z
      using some by (metis (mono_tags, lifting) takeWhile_append1, metis (mono_tags, lifting) dropWhile_append1)
    note split = t d takeWhile_stop [of is_digit, OF assms(1)] dropWhile_stop [of is_digit, OF assms(1)]
    have ih: "alphanum_key (?v @ c # d) = alphanum_key (?v @ [c]) @ [Number (digits_value d), Text []]"
      using 1 short by blast
    show ?thesis
      by (simp only: alphanum_key.simps [of "u @ c # d"] alphanum_key.simps [of "u @ [c]"] split Let_def ih) (simp add: False)
  qed
qed

lemma key_of_version:
  "alphanum_key (path_str (parent @ [decimal k])) = alphanum_key (path_str parent @ [sep]) @ [Number k, Text []]"
proof -
  have "path_str (parent @ [decimal k]) = path_str parent @ sep # decimal k"
    by (simp add: path_str_def)
  then show ?thesis
    using alphanum_key_number [of sep "decimal k" "path_str parent"] decimal_is_digits [of k]
    by (simp add: digits_value_decimal is_digit_def)
qed

lemma append_le_append: "(xs @ as :: piece list) \<le> xs @ bs \<longleftrightarrow> as \<le> bs"
  by (induction xs) auto

lemma version_key_le:
  "alphanum_key (path_str (parent @ [decimal i])) \<le> alphanum_key (path_str (parent @ [decimal j])) \<longleftrightarrow> i \<le> j"
  unfolding key_of_version append_le_append by (auto simp: less_piece_def)

text \<open>Directories that are called by numbers are sorted by these numbers.\<close>

lemma human_sort_versions:
  "human_sort (map (\<lambda>k. parent @ [decimal k]) ks) = map (\<lambda>k. parent @ [decimal k]) (sort ks)"
proof -
  let ?g = "\<lambda>k. parent @ [decimal k]" and ?f = "\<lambda>p. alphanum_key (path_str p)"
  have "insort_key ?f (?g k) (map ?g xs) = map ?g (insort k xs)" for k xs
    using version_key_le [of parent] by (induction xs) auto
  then show ?thesis
    unfolding human_sort_def by (induction ks) (simp_all only: list.map sort_key_simps)
qed

end
