(* ===== verification/App_Update.thy ===== *)
theory App_Update imports App_Lifecycle App_Manager Human_Sort begin

text \<open>
  \<open>manager.py\<close> and \<open>cli.py\<close> of the application update manager: a tar archive with packages is unpacked, the
  applications are installed beside their running versions, the running versions are stopped, the new ones are run, and the
  previous versions are removed; if an application cannot be stopped or run, everything is rolled back.
\<close>

section \<open>The package\<close>

definition IPKS_EXTRACTION_PATH :: location where "IPKS_EXTRACTION_PATH = [''mnt'', ''cache'', ''opkg'', ''src_ipk'']"

definition to_lower :: "char \<Rightarrow> char" where
  "to_lower c = (let n = of_char c :: nat in if 65 \<le> n \<and> n \<le> 90 then char_of (n + 32) else c)"

text \<open>\<open>_validate_archive_member\<close>: whether the member is an ipk; other files are skipped, ipks that are not plain files or
  lie in a directory are refused.\<close>

definition validate_archive_member :: "tar_info \<Rightarrow> exn + bool" where
  "validate_archive_member tar_info =
     (if \<not> suffix ''.ipk'' (map to_lower (tar_name tar_info)) then Inr False
      else if \<not> tar_isfile tar_info then Inl IllegalPackage
      else if sep \<in> set (tar_name tar_info) then Inl IllegalPackage
      else Inr True)"

fun get_ipks_from_pkg :: "tar_info list \<Rightarrow> exn + tar_info list" where
  "get_ipks_from_pkg [] = Inr []"
| "get_ipks_from_pkg (tar_info # tar_file) =
     (case validate_archive_member tar_info of
        Inl e \<Rightarrow> Inl e
      | Inr valid \<Rightarrow>
          (case get_ipks_from_pkg tar_file of
             Inl e \<Rightarrow> Inl e
           | Inr ipks \<Rightarrow> Inr (if valid then tar_info # ipks else ipks)))"

text \<open>\<open>extractall\<close> of members that are plain files: the directory is made when there is something to put into it.\<close>

definition extract_member :: "'x platform \<Rightarrow> location \<Rightarrow> tar_info \<Rightarrow> (unit, 'x) py" where
  "extract_member p path tar_info =
     and_then (look (refuses p (Untar (tar_name tar_info)))) (\<lambda>broken.
       if broken then raise TarError
       else and_then (makedirs p path) (\<lambda>_. put_file p (path_join path (tar_name tar_info)) (\<lambda>_. tar_data tar_info)))"

definition unpack_package :: "'x platform \<Rightarrow> location \<Rightarrow> (string list, 'x) py" where
  "unpack_package p update_pkg =
     and_then (read_file p update_pkg) (\<lambda>archive.
       case tar_members p archive of
         None \<Rightarrow> raise IllegalPackage
       | Some tar_file \<Rightarrow>
           and_then (lift (get_ipks_from_pkg tar_file)) (\<lambda>members.
             if members = [] then raise IllegalPackage
             else try_else (for_each (extract_member p IPKS_EXTRACTION_PATH) members) (\<lambda>e. e = TarError)
                    (\<lambda>_. raise IllegalPackage) (\<lambda>_. ret (map tar_name members))))"

section \<open>Installation\<close>

record app_record =
  name :: string
  cur_bundle_path :: "location option"
  new_bundle_path :: location
  ipk_path :: location

text \<open>\<open>int\<close> of a text, with the signs, blanks and underscores that it takes\<close>

fun digits_ok :: "string \<Rightarrow> bool" where
  "digits_ok [] = False"
| "digits_ok [c] = is_digit c"
| "digits_ok (c # d # cs) =
     (is_digit c \<and> (if d = CHR ''_'' then (case cs of e # _ \<Rightarrow> is_digit e \<and> digits_ok cs | [] \<Rightarrow> False) else digits_ok (d # cs)))"

definition py_int :: "string \<Rightarrow> int option" where
  "py_int s =
     (let t = rstrip (lstrip s);
          (neg, d) = (case t of c # r \<Rightarrow> if c = CHR ''-'' then (True, r) else if c = CHR ''+'' then (False, r) else (False, t)
                      | [] \<Rightarrow> (False, []));
          v = int (digits_value (filter (\<lambda>c. c \<noteq> CHR ''_'') d))
      in if digits_ok d then Some (if neg then - v else v) else None)"

text \<open>\<open>_get_app_bundle_paths\<close>: \<open>None\<close> is the \<open>None\<close> it returns when the directory of the application holds no bundle.\<close>

definition get_app_bundle_paths :: "'x platform \<Rightarrow> string \<Rightarrow> ((location option \<times> location) option, 'x) py" where
  "get_app_bundle_paths p app_name =
     (let app_parent_dir = path_join APPS_PATH app_name in
      and_then (look (\<lambda>h. isdir (files h) app_parent_dir)) (\<lambda>there.
        if \<not> there then ret (Some (None, app_parent_dir @ [''0'']))
        else and_then (get_oci_bundle_paths p app_parent_dir) (\<lambda>app_version_dirs.
          if app_version_dirs = [] then ret None
          else let sorted = human_sort app_version_dirs
               in case py_int (last (last sorted)) of
                    None \<Rightarrow> raise ValueError
                  | Some latest \<Rightarrow> ret (Some (Some (hd sorted), app_parent_dir @ [str_int (latest + 1)])))))"

definition manage_app_installation :: "'x platform \<Rightarrow> location \<Rightarrow> (app_record, 'x) py" where
  "manage_app_installation p ipk =
     and_then (get_app_name p ipk) (\<lambda>app_name.
       and_then (get_app_bundle_paths p app_name) (\<lambda>paths.
         case paths of
           None \<Rightarrow> raise TypeError
         | Some (cur, new) \<Rightarrow>
             and_then (install_app p ipk new) (\<lambda>_.
               ret \<lparr>name = app_name, cur_bundle_path = cur, new_bundle_path = new, ipk_path = ipk\<rparr>)))"

text \<open>\<open>_remove_apps_bundles\<close> for the current or for the new bundles\<close>

definition remove_bundle :: "'x platform \<Rightarrow> (app_record \<Rightarrow> location option) \<Rightarrow> app_record \<Rightarrow> (unit, 'x) py" where
  "remove_bundle p path_attr app =
     (case path_attr app of None \<Rightarrow> ret () | Some d \<Rightarrow> remove_app p (name app) d)"

abbreviation new_bundle :: "app_record \<Rightarrow> location option" where
  "new_bundle app \<equiv> Some (new_bundle_path app)"

definition remove_apps_bundles :: "'x platform \<Rightarrow> (app_record \<Rightarrow> location option) \<Rightarrow> app_record list \<Rightarrow> (unit, 'x) py" where
  "remove_apps_bundles p path_attr installed_apps = for_each (remove_bundle p path_attr) installed_apps"

text \<open>\<open>install_apps\<close>: the loop over the packages, with the applications installed so far\<close>

fun install_ipks :: "'x platform \<Rightarrow> location list \<Rightarrow> app_record list \<Rightarrow> (app_record list, 'x) py" where
  "install_ipks p [] installed_apps = ret installed_apps"
| "install_ipks p (ipk # ipks) installed_apps =
     try_else (manage_app_installation p ipk) (\<lambda>e. e = AppIdError \<or> e = AppInstallError)
       (\<lambda>install_error.
          try_else (remove_apps_bundles p new_bundle installed_apps) (\<lambda>e. e = AppUninstallError)
            (\<lambda>uninstall_error. raise (Raised_from uninstall_error install_error))
            (\<lambda>_. raise install_error))
       (\<lambda>app_record. install_ipks p ipks (installed_apps @ [app_record]))"

definition install_apps :: "'x platform \<Rightarrow> string list \<Rightarrow> (app_record list, 'x) py" where
  "install_apps p ipks = install_ipks p (map (path_join IPKS_EXTRACTION_PATH) ipks) []"

section \<open>Start and rollback\<close>

definition is_stop_exn :: "exn \<Rightarrow> bool" where
  "is_stop_exn e \<longleftrightarrow> (case e of
     ContainerKillError _ \<Rightarrow> True | ContainerDeleteError _ \<Rightarrow> True | AppStopTimeoutError _ \<Rightarrow> True | _ \<Rightarrow> False)"

definition is_run_exn :: "exn \<Rightarrow> bool" where
  "is_run_exn e \<longleftrightarrow> e = ContainerCreationError \<or> e = ContainerStartError"

definition is_rollback_exn :: "exn \<Rightarrow> bool" where
  "is_rollback_exn e \<longleftrightarrow> is_stop_exn e \<or> is_run_exn e \<or> e = AppPathInexistent \<or> e = AppUninstallError"

definition stop_newly_installed_app :: "'x platform \<Rightarrow> app_record \<Rightarrow> (unit, 'x) py" where
  "stop_newly_installed_app p app =
     try_else (terminate_app p (name app) DEFAULT_TIMEOUT_AFTER_SIGTERM DEFAULT_TIMEOUT_AFTER_SIGKILL) is_stop_exn
       (\<lambda>terminate_error.
          if sublist (state_value DOES_NOT_EXIST) (exn_text terminate_error) then ret () else raise terminate_error)
       ret"

definition run_previous_app_version :: "'x platform \<Rightarrow> app_record \<Rightarrow> (unit, 'x) py" where
  "run_previous_app_version p app =
     (case cur_bundle_path app of
        None \<Rightarrow> ret ()
      | Some d \<Rightarrow> try_else (run_app p (name app) d) is_run_exn raise ret)"

definition rollback_apps :: "'x platform \<Rightarrow> app_record list \<Rightarrow> (unit, 'x) py" where
  "rollback_apps p installed_apps =
     and_then (for_each (stop_newly_installed_app p) installed_apps) (\<lambda>_.
       and_then (remove_apps_bundles p new_bundle installed_apps) (\<lambda>_.
         for_each (run_previous_app_version p) installed_apps))"

text \<open>The rollback in the two loops of \<open>start_installed_apps\<close>: its own error is raised from the one it handles.\<close>

definition roll_back_and_raise :: "'x platform \<Rightarrow> app_record list \<Rightarrow> exn \<Rightarrow> (unit, 'x) py" where
  "roll_back_and_raise p installed_apps error =
     try_else (rollback_apps p installed_apps) is_rollback_exn
       (\<lambda>rollback_error. raise (Raised_from rollback_error error)) (\<lambda>_. raise error)"

definition stop_running_version :: "'x platform \<Rightarrow> app_record list \<Rightarrow> app_record \<Rightarrow> (unit, 'x) py" where
  "stop_running_version p installed_apps app =
     try_else (terminate_app p (name app) DEFAULT_TIMEOUT_AFTER_SIGTERM DEFAULT_TIMEOUT_AFTER_SIGKILL) is_stop_exn
       (roll_back_and_raise p installed_apps) ret"

definition run_new_installed_version :: "'x platform \<Rightarrow> app_record list \<Rightarrow> app_record \<Rightarrow> (unit, 'x) py" where
  "run_new_installed_version p installed_apps app =
     try_else (run_app p (name app) (new_bundle_path app)) is_run_exn (roll_back_and_raise p installed_apps) ret"

definition start_installed_apps :: "'x platform \<Rightarrow> app_record list \<Rightarrow> (unit, 'x) py" where
  "start_installed_apps p installed_apps =
     (if installed_apps = [] then ret ()
      else and_then (for_each (stop_running_version p installed_apps) installed_apps) (\<lambda>_.
        and_then (for_each (run_new_installed_version p installed_apps) installed_apps) (\<lambda>_.
          remove_apps_bundles p cur_bundle_path installed_apps)))"

section \<open>The program\<close>

definition run_mbl_app_update_manager :: "'x platform \<Rightarrow> location \<Rightarrow> (app_record list, 'x) py" where
  "run_mbl_app_update_manager p update_package =
     and_then (unpack_package p update_package) (\<lambda>ipks.
       and_then (install_apps p ipks) (\<lambda>installed_apps.
         and_then (start_installed_apps p installed_apps) (\<lambda>_. ret installed_apps)))"

definition app_update_main :: "'x platform \<Rightarrow> location \<Rightarrow> (int, 'x) py" where
  "app_update_main p update_package =
     try_else (run_mbl_app_update_manager p update_package) (\<lambda>_. True) (\<lambda>_. ret 1) (\<lambda>_. ret 0)"

end
