(* ===== verification/App_Rollback.thy ===== *)
theory App_Rollback imports App_Update begin

text \<open>
  The correctness of the start and the rollback of installed applications: each loop of the update manager is an
  \<open>item_loop\<close>, and its facts are put together along the program.
\<close>

section \<open>The loops\<close>

definition platform_contract :: "'x platform \<Rightarrow> 'x container_view \<Rightarrow> bool" where
  "platform_contract p view \<longleftrightarrow> runc_contract p view \<and> sleep_contract p view \<and> opkg_contract p view"

lemma platform_contractD:
  assumes "platform_contract p view"
  shows "runc_contract p view" "sleep_contract p view" "opkg_contract p view"
  using assms by (simp_all add: platform_contract_def)

text \<open>Whether the removal of a bundle leaves a directory: it is neither in the bundle nor in the parent of the bundle,
  or it is another bundle of this parent.\<close>

definition spared :: "location \<Rightarrow> location \<Rightarrow> bool" where
  "spared d q \<longleftrightarrow> \<not> prefix (butlast d) q \<or> (q \<noteq> d \<and> q \<noteq> [] \<and> butlast q = butlast d)"

lemma removal_spares: "removal view d h h' \<Longrightarrow> spared d q \<Longrightarrow> isdir (files h) q \<Longrightarrow> isdir (files h') q"
  unfolding removal_def spared_def by (metis append_butlast_last_id isdir_def)

interpretation remove_loop: item_loop
  "\<lambda>h. opkg_contract p view \<and> view (outside h) = view o0 \<and> (\<forall>q \<in> Q. isdir (files h) q) \<and> (\<forall>q \<in> R. \<not> isdir (files h) q)"
  "\<lambda>app. plain_name (name app) \<and> (\<forall>d. path_attr app = Some d \<longrightarrow> d \<noteq> [] \<and> list_all valid_name d \<and> (\<forall>q \<in> Q. spared d q))"
  "remove_bundle p path_attr"
  "\<lambda>app h. \<forall>d. path_attr app = Some d \<longrightarrow> \<not> isdir (files h) d"
  "\<lambda>_ _. True" "\<lambda>e _. e \<in> {AppPathInexistent, AppUninstallError, OSError}"
  for p :: "'x platform" and view o0 Q R path_attr
proof unfold_locales
  fix h :: "'x host" and a :: app_record and S
  assume "opkg_contract p view \<and> view (outside h) = view o0 \<and> (\<forall>q \<in> Q. isdir (files h) q) \<and> (\<forall>q \<in> R. \<not> isdir (files h) q)"
    and item: "plain_name (name a) \<and> (\<forall>d. path_attr a = Some d \<longrightarrow> d \<noteq> [] \<and> list_all valid_name d \<and> (\<forall>q \<in> Q. spared d q))"
    and S: "\<And>b. b \<in> S \<Longrightarrow> (plain_name (name b) \<and> (\<forall>d. path_attr b = Some d \<longrightarrow>
        d \<noteq> [] \<and> list_all valid_name d \<and> (\<forall>q \<in> Q. spared d q))) \<and> True \<and>
       (\<forall>d. path_attr b = Some d \<longrightarrow> \<not> isdir (files h) d)"
  then have o: "opkg_contract p view" and v: "view (outside h) = view o0" and q: "\<forall>q \<in> Q. isdir (files h) q" and r: "\<forall>q \<in> R. \<not> isdir (files h) q" by blast+
  show "wp (remove_bundle p path_attr a)
      (\<lambda>_ h'. (opkg_contract p view \<and> view (outside h') = view o0 \<and> (\<forall>q \<in> Q. isdir (files h') q) \<and> (\<forall>q \<in> R. \<not> isdir (files h') q)) \<and>
         (\<forall>d. path_attr a = Some d \<longrightarrow> \<not> isdir (files h') d) \<and> (\<forall>b \<in> S. \<forall>d. path_attr b = Some d \<longrightarrow> \<not> isdir (files h') d))
      (\<lambda>e _. e \<in> {AppPathInexistent, AppUninstallError, OSError}) h"
  proof (cases "path_attr a")
    case None
    then show ?thesis using o v q r S by (simp add: remove_bundle_def wp_simps)
  next
    case (Some d)
    with item have d: "d \<noteq> []" "\<forall>q \<in> Q. spared d q" "plain_name (name a)" "list_all valid_name d" by blast+
    have "remove_bundle p path_attr a = remove_app p (name a) d" using Some by (simp add: remove_bundle_def)
    then show ?thesis
    proof (simp only:, intro wp_mono [OF wp_remove_app [OF o d(1,3,4)]])
      fix h' assume rem: "removal view d h h'"
      have gone: "\<not> isdir (files h') x" if "\<not> isdir (files h) x \<or> x = d" for x
        using rem that by (auto simp: removal_def)
      have "view (outside h') = view o0" using rem v by (simp add: removal_def)
      moreover have "\<forall>q \<in> Q. isdir (files h') q" using removal_spares [OF rem] q d(2) by blast
      moreover have "\<forall>q \<in> R. \<not> isdir (files h') q" using gone r by blast
      moreover have "\<forall>d. path_attr a = Some d \<longrightarrow> \<not> isdir (files h') d" using gone Some by simp
      moreover have "\<forall>b \<in> S. \<forall>d. path_attr b = Some d \<longrightarrow> \<not> isdir (files h') d" using gone S by blast
      ultimately show "(opkg_contract p view \<and> view (outside h') = view o0 \<and> (\<forall>q \<in> Q. isdir (files h') q) \<and> (\<forall>q \<in> R. \<not> isdir (files h') q)) \<and>
         (\<forall>d. path_attr a = Some d \<longrightarrow> \<not> isdir (files h') d) \<and> (\<forall>b \<in> S. \<forall>d. path_attr b = Some d \<longrightarrow> \<not> isdir (files h') d)"
        using o by blast
    qed
  qed
qed

interpretation stop_loop: item_loop
  "\<lambda>h. platform_contract p view \<and> kept view ns h0 h"
  "\<lambda>app. plain_name (name app) \<and> name app \<in> ns"
  "stop_newly_installed_app p"
  "\<lambda>app h. view (outside h) (name app) = None"
  "\<lambda>a b. name a \<noteq> name b" "\<lambda>_ _. True"
  for p :: "'x platform" and view ns h0
proof unfold_locales
  fix h :: "'x host" and a :: app_record and S
  assume "platform_contract p view \<and> kept view ns h0 h" and a: "plain_name (name a) \<and> name a \<in> ns"
    and S: "\<And>b. b \<in> S \<Longrightarrow> (plain_name (name b) \<and> name b \<in> ns) \<and> name a \<noteq> name b \<and> view (outside h) (name b) = None"
  then have c: "platform_contract p view" and k: "kept view ns h0 h" by blast+
  have up: "kept view ns h0 h'" "\<forall>b \<in> S. view (outside h') (name b) = None" if k': "kept view {name a} h h'" for h'
  proof -
    show "kept view ns h0 h'" using kept_trans [OF k kept_mono [OF k']] a by simp
    show "\<forall>b \<in> S. view (outside h') (name b) = None"
      using S kept_view [OF k'] by (metis singletonD)
  qed
  show "wp (stop_newly_installed_app p a)
      (\<lambda>_ h'. (platform_contract p view \<and> kept view ns h0 h') \<and> view (outside h') (name a) = None \<and>
         (\<forall>b \<in> S. view (outside h') (name b) = None)) (\<lambda>_ _. True) h"
    unfolding stop_newly_installed_app_def wp_try_else
  proof (rule wp_mono [OF wp_terminate_app [OF platform_contractD(1,2) [OF c] conjunct1 [OF a]]])
    fix e h' assume e: "kept view {name a} h h' \<and> stop_error view (name a) e h'"
    then show "if is_stop_exn e
        then wp (if sublist (state_value DOES_NOT_EXIST) (exn_text e) then ret () else raise e)
          (\<lambda>_ h'. (platform_contract p view \<and> kept view ns h0 h') \<and> view (outside h') (name a) = None \<and>
             (\<forall>b \<in> S. view (outside h') (name b) = None)) (\<lambda>_ _. True) h'
        else True"
      using up [of h'] c by (simp add: wp_simps stop_error_def absence_def)
  qed (use up c in \<open>simp add: wp_simps\<close>)
qed

interpretation run_previous_loop: item_loop
  "\<lambda>h. platform_contract p view \<and> kept view ns h0 h"
  "\<lambda>app. plain_name (name app) \<and> (cur_bundle_path app \<noteq> None \<longrightarrow> name app \<in> ns)"
  "run_previous_app_version p"
  "\<lambda>app h. \<forall>c. cur_bundle_path app = Some c \<longrightarrow> view (outside h) (name app) = Some (path_str c, True)"
  "\<lambda>a b. name a \<noteq> name b" "\<lambda>_ _. True"
  for p :: "'x platform" and view ns h0
proof unfold_locales
  fix h :: "'x host" and a :: app_record and S
  assume "platform_contract p view \<and> kept view ns h0 h"
    and a: "plain_name (name a) \<and> (cur_bundle_path a \<noteq> None \<longrightarrow> name a \<in> ns)"
    and S: "\<And>b. b \<in> S \<Longrightarrow> (plain_name (name b) \<and> (cur_bundle_path b \<noteq> None \<longrightarrow> name b \<in> ns)) \<and> name a \<noteq> name b \<and>
       (\<forall>c. cur_bundle_path b = Some c \<longrightarrow> view (outside h) (name b) = Some (path_str c, True))"
  then have c: "platform_contract p view" and k: "kept view ns h0 h" by blast+
  show "wp (run_previous_app_version p a)
      (\<lambda>_ h'. (platform_contract p view \<and> kept view ns h0 h') \<and>
         (\<forall>c. cur_bundle_path a = Some c \<longrightarrow> view (outside h') (name a) = Some (path_str c, True)) \<and>
         (\<forall>b \<in> S. \<forall>c. cur_bundle_path b = Some c \<longrightarrow> view (outside h') (name b) = Some (path_str c, True))) (\<lambda>_ _. True) h"
  proof (cases "cur_bundle_path a")
    case None
    then show ?thesis using c k S by (simp add: run_previous_app_version_def wp_simps)
  next
    case (Some d)
    have "kept view ns h0 h'" if "kept view {name a} h h'" for h'
      using kept_trans [OF k kept_mono [OF that]] a Some by simp
    moreover have "\<forall>b \<in> S. \<forall>c. cur_bundle_path b = Some c \<longrightarrow> view (outside h') (name b) = Some (path_str c, True)"
      if "kept view {name a} h h'" for h'
      using S kept_view [OF that] by (metis singletonD)
    ultimately show ?thesis
      unfolding run_previous_app_version_def Some option.case wp_try_else
      by (intro wp_mono [OF wp_run_app [OF platform_contractD(1) [OF c] conjunct1 [OF a], of d h]]) (auto simp: wp_simps c)
  qed
qed

section \<open>Rollback\<close>

text \<open>The records that an installation makes.\<close>

definition app_ok :: "app_record \<Rightarrow> bool" where
  "app_ok app \<longleftrightarrow> plain_name (name app) \<and> valid_name (name app) \<and>
     (\<exists>k. valid_name k \<and> new_bundle_path app = APPS_PATH @ [name app, k]) \<and>
     (\<forall>c. cur_bundle_path app = Some c \<longrightarrow> c \<noteq> new_bundle_path app \<and> (\<exists>k. valid_name k \<and> c = APPS_PATH @ [name app, k]))"

definition restored :: "'x container_view \<Rightarrow> app_record list \<Rightarrow> 'x host \<Rightarrow> bool" where
  "restored view apps h \<longleftrightarrow>
     (\<forall>app \<in> set apps. \<not> isdir (files h) (new_bundle_path app) \<and>
        view (outside h) (name app) = map_option (\<lambda>c. (path_str c, True)) (cur_bundle_path app))"

lemma valid_apps_path: "list_all valid_name (APPS_PATH @ ns) \<longleftrightarrow> list_all valid_name ns"
  by (simp add: APPS_PATH_def valid_name_def)

lemma app_ok_paths:
  "app_ok app \<Longrightarrow> new_bundle_path app \<noteq> [] \<and> list_all valid_name (new_bundle_path app)"
  "app_ok app \<Longrightarrow> cur_bundle_path app = Some c \<Longrightarrow> c \<noteq> [] \<and> list_all valid_name c"
  by (auto simp: app_ok_def APPS_PATH_def valid_name_def)

lemma sorted_wrt_names: "distinct (map name apps) \<Longrightarrow> sorted_wrt (\<lambda>a b. name b \<noteq> name a) apps"
  by (induction apps) (auto simp: image_iff)

lemma sorted_wrt_True: "sorted_wrt (\<lambda>_ _. True) xs"
  by (induction xs) auto

lemma wp_rollback_apps:
  assumes c: "platform_contract p view" and d: "distinct (map name apps)" and ok: "\<forall>app \<in> set apps. app_ok app"
  shows "wp (rollback_apps p apps) (\<lambda>_ h'. restored view apps h') (\<lambda>_ _. True) h"
proof -
  let ?old = "\<lambda>h. \<forall>app \<in> set apps. \<not> isdir (files h) (new_bundle_path app)"
  let ?stopped = "\<lambda>h. \<forall>app \<in> set apps. view (outside h) (name app) = None"
  have plain: "app \<in> set apps \<Longrightarrow> plain_name (name app)" for app using ok by (simp add: app_ok_def)
  have 1: "wp (for_each (stop_newly_installed_app p) apps) (\<lambda>_. ?stopped) (\<lambda>_ _. True) h"
    using stop_loop.loop_achieves [of p view "name ` set apps" h h apps] c sorted_wrt_names [OF d] plain
    by (auto elim!: wp_mono)
  have 2: "wp (remove_apps_bundles p new_bundle apps) (\<lambda>_ h'. ?stopped h' \<and> ?old h') (\<lambda>_ _. True) h1" if "?stopped h1" for h1
    unfolding remove_apps_bundles_def
  proof (rule wp_mono [OF remove_loop.loop_achieves [where view = view and ?o0.0 = "outside h1" and Q = "{}" and R = "{}"]])
    show "opkg_contract p view \<and> view (outside h1) = view (outside h1) \<and> (\<forall>q \<in> {}. isdir (files h1) q) \<and> (\<forall>q \<in> {}. \<not> isdir (files h1) q)"
      using platform_contractD(3) [OF c] by simp
  qed (use that ok app_ok_paths plain in \<open>auto simp: sorted_wrt_True\<close>)
  let ?ns = "name ` {app \<in> set apps. cur_bundle_path app \<noteq> None}"
  have 3: "wp (for_each (run_previous_app_version p) apps) (\<lambda>_ h'. restored view apps h') (\<lambda>_ _. True) h2"
    if h2: "?stopped h2" "?old h2" for h2
  proof -
    have "restored view apps h'" if k: "kept view ?ns h2 h'"
      and run: "\<forall>app \<in> set apps. \<forall>c. cur_bundle_path app = Some c \<longrightarrow> view (outside h') (name app) = Some (path_str c, True)" for h'
      unfolding restored_def
    proof (intro ballI conjI)
      fix app assume app: "app \<in> set apps"
      have "prefix [''home''] (new_bundle_path app)" using ok app by (auto simp: app_ok_def APPS_PATH_def)
      then show "\<not> isdir (files h') (new_bundle_path app)" using kept_isdir [OF k] h2(2) app by simp
      show "view (outside h') (name app) = map_option (\<lambda>c. (path_str c, True)) (cur_bundle_path app)"
      proof (cases "cur_bundle_path app")
        case None
        have "name app \<notin> ?ns"
        proof
          assume "name app \<in> ?ns"
          then obtain b where "b \<in> set apps" "cur_bundle_path b \<noteq> None" "name b = name app" by auto
          with app d None show False by (auto simp: distinct_map inj_on_def)
        qed
        with None show ?thesis using kept_view [OF k] h2(1) app by simp
      qed (use run app in simp)
    qed
    then show ?thesis
      using run_previous_loop.loop_achieves [of p view ?ns h2 h2 apps] c sorted_wrt_names [OF d] plain
      by (auto elim!: wp_mono)
  qed
  show ?thesis
    unfolding rollback_apps_def wp_and_then
    by (rule wp_mono [OF 1], rule wp_mono [OF 2], assumption, rule wp_mono [OF 3]) auto
qed

section \<open>Start\<close>

definition rolled_back :: "'x container_view \<Rightarrow> app_record list \<Rightarrow> exn \<Rightarrow> 'x host \<Rightarrow> bool" where
  "rolled_back view apps e h \<longleftrightarrow> (is_stop_exn e \<or> is_run_exn e \<longrightarrow> restored view apps h)"

lemma wp_roll_back_and_raise:
  assumes "platform_contract p view" and "distinct (map name apps)" and "\<forall>app \<in> set apps. app_ok app"
  shows "wp (roll_back_and_raise p apps e) (\<lambda>_ _. False) (rolled_back view apps) h"
proof -
  have n: "is_stop_exn x \<Longrightarrow> is_rollback_exn x" "is_run_exn x \<Longrightarrow> is_rollback_exn x" for x
    by (simp_all add: is_rollback_exn_def)
  have r: "\<not> is_stop_exn (Raised_from x y)" "\<not> is_run_exn (Raised_from x y)" for x y
    by (simp_all add: is_stop_exn_def is_run_exn_def)
  show ?thesis
    unfolding roll_back_and_raise_def wp_try_else
    by (rule wp_mono [OF wp_rollback_apps [OF assms]])
      (auto simp: wp_simps rolled_back_def r dest: n)
qed

text \<open>What the loops keep, and the records they are for.\<close>

definition start_inv :: "'x platform \<Rightarrow> 'x container_view \<Rightarrow> app_record list \<Rightarrow> 'x host \<Rightarrow> bool" where
  "start_inv p view apps h \<longleftrightarrow> platform_contract p view \<and> distinct (map name apps) \<and> (\<forall>app \<in> set apps. app_ok app)"

lemmas start_invD = iffD1 [OF start_inv_def, THEN conjunct1] iffD1 [OF start_inv_def, THEN conjunct2, THEN conjunct1]
  iffD1 [OF start_inv_def, THEN conjunct2, THEN conjunct2]

interpretation stop_running_loop: item_loop
  "start_inv p view apps" "\<lambda>app. app \<in> set apps" "stop_running_version p apps"
  "\<lambda>app h. view (outside h) (name app) = None" "\<lambda>a b. name a \<noteq> name b" "rolled_back view apps"
  for p :: "'x platform" and view apps
proof unfold_locales
  fix h :: "'x host" and a :: app_record and S
  assume i: "start_inv p view apps h" and a: "a \<in> set apps"
    and S: "\<And>b. b \<in> S \<Longrightarrow> b \<in> set apps \<and> name a \<noteq> name b \<and> view (outside h) (name b) = None"
  have plain: "plain_name (name a)" using start_invD(3) [OF i] a by (auto simp: app_ok_def)
  show "wp (stop_running_version p apps a)
      (\<lambda>_ h'. start_inv p view apps h' \<and> view (outside h') (name a) = None \<and> (\<forall>b \<in> S. view (outside h') (name b) = None))
      (rolled_back view apps) h"
    unfolding stop_running_version_def wp_try_else
  proof (rule wp_mono [OF wp_terminate_app [OF platform_contractD(1,2) [OF start_invD(1) [OF i]] plain]])
    fix h' assume k: "kept view {name a} h h' \<and> view (outside h') (name a) = None"
    have "\<forall>b \<in> S. view (outside h') (name b) = None" using S kept_view [OF conjunct1 [OF k]] by (metis singletonD)
    then show "wp (ret u) (\<lambda>_ h'. start_inv p view apps h' \<and> view (outside h') (name a) = None \<and>
        (\<forall>b \<in> S. view (outside h') (name b) = None)) (rolled_back view apps) h'" for u
      using k i by (simp add: wp_simps start_inv_def)
  next
    fix e h' assume e: "kept view {name a} h h' \<and> stop_error view (name a) e h'"
    show "if is_stop_exn e
        then wp (roll_back_and_raise p apps e) (\<lambda>_ h'. start_inv p view apps h' \<and> view (outside h') (name a) = None \<and>
          (\<forall>b \<in> S. view (outside h') (name b) = None)) (rolled_back view apps) h'
        else rolled_back view apps e h'"
      using e wp_mono [OF wp_roll_back_and_raise [OF start_invD [OF i]]]
      by (auto simp: rolled_back_def is_run_exn_def stop_error_def)
  qed
qed

interpretation run_new_loop: item_loop
  "start_inv p view apps" "\<lambda>app. app \<in> set apps" "run_new_installed_version p apps"
  "\<lambda>app h. view (outside h) (name app) = Some (path_str (new_bundle_path app), True) \<and> isdir (files h) (new_bundle_path app)"
  "\<lambda>a b. name a \<noteq> name b" "rolled_back view apps"
  for p :: "'x platform" and view apps
proof unfold_locales
  let ?runs = "\<lambda>app h. view (outside h) (name app) = Some (path_str (new_bundle_path app), True) \<and> isdir (files h) (new_bundle_path app)"
  fix h :: "'x host" and a :: app_record and S
  assume i: "start_inv p view apps h" and a: "a \<in> set apps"
    and S: "\<And>b. b \<in> S \<Longrightarrow> b \<in> set apps \<and> name a \<noteq> name b \<and> ?runs b h"
  have home: "prefix [''home''] (new_bundle_path b)" if "b \<in> set apps" for b
    using start_invD(3) [OF i] that by (auto simp: app_ok_def APPS_PATH_def)
  have plain: "plain_name (name a)" using start_invD(3) [OF i] a by (auto simp: app_ok_def)
  show "wp (run_new_installed_version p apps a)
      (\<lambda>_ h'. start_inv p view apps h' \<and> ?runs a h' \<and> (\<forall>b \<in> S. ?runs b h')) (rolled_back view apps) h"
    unfolding run_new_installed_version_def wp_try_else
  proof (rule wp_mono [OF wp_run_app [OF platform_contractD(1) [OF start_invD(1) [OF i]] plain]])
    fix h' assume k: "kept view {name a} h h' \<and> view (outside h') (name a) = Some (path_str (new_bundle_path a), True) \<and>
      (prefix [''home''] (new_bundle_path a) \<longrightarrow> isdir (files h') (new_bundle_path a))"
    have "?runs b h'" if "b \<in> S" for b
      using S [OF that] kept_view [OF conjunct1 [OF k], of "name b"] kept_isdir [OF conjunct1 [OF k] home] by auto
    then show "wp (ret u) (\<lambda>_ h'. start_inv p view apps h' \<and> ?runs a h' \<and> (\<forall>b \<in> S. ?runs b h'))
        (rolled_back view apps) h'" for u
      using k i home [OF a] by (simp add: wp_simps start_inv_def)
  next
    fix e h'
    assume e: "kept view {name a} h h' \<and> e \<in> {ContainerStateError, ContainerAlreadyExistError, ContainerCreationError,
       ContainerStartError, OSError, TypeError}"
    show "if is_run_exn e
        then wp (roll_back_and_raise p apps e) (\<lambda>_ h'. start_inv p view apps h' \<and> ?runs a h' \<and> (\<forall>b \<in> S. ?runs b h'))
          (rolled_back view apps) h'
        else rolled_back view apps e h'"
      using e wp_mono [OF wp_roll_back_and_raise [OF start_invD [OF i]]]
      by (auto simp: rolled_back_def is_stop_exn_def)
  qed
qed

definition updated :: "'x container_view \<Rightarrow> app_record list \<Rightarrow> 'x host \<Rightarrow> bool" where
  "updated view apps h \<longleftrightarrow>
     (\<forall>app \<in> set apps.
        view (outside h) (name app) = Some (path_str (new_bundle_path app), True) \<and> isdir (files h) (new_bundle_path app) \<and>
        (\<forall>c. cur_bundle_path app = Some c \<longrightarrow> \<not> isdir (files h) c))"

lemma spared_new_bundles:
  assumes "distinct (map name apps)" and "\<forall>app \<in> set apps. app_ok app"
    and "a \<in> set apps" and "b \<in> set apps" and "cur_bundle_path b = Some c"
  shows "c \<noteq> [] \<and> spared c (new_bundle_path a)"
proof -
  obtain i where i: "new_bundle_path a = APPS_PATH @ [name a, i]" using assms(2,3) by (auto simp: app_ok_def)
  obtain k where k: "c = APPS_PATH @ [name b, k]" "c \<noteq> new_bundle_path b" using assms(2,4,5) by (auto simp: app_ok_def)
  show ?thesis
  proof (cases "name a = name b")
    case True
    then have "a = b" using assms(1,3,4) by (auto simp: distinct_map inj_on_def)
    with i k show ?thesis by (simp add: spared_def butlast_append)
  next
    case False
    with i k show ?thesis by (simp add: spared_def butlast_append)
  qed
qed

lemma wp_start_installed_apps:
  assumes c: "platform_contract p view" and d: "distinct (map name apps)" and ok: "\<forall>app \<in> set apps. app_ok app"
  shows "wp (start_installed_apps p apps) (\<lambda>_. updated view apps) (rolled_back view apps) h"
proof (cases "apps = []")
  case True
  then show ?thesis by (simp add: start_installed_apps_def wp_simps updated_def)
next
  case False
  have i: "start_inv p view apps g" for g using assms by (simp add: start_inv_def)
  note s = sorted_wrt_names [OF d]
  let ?runs = "\<lambda>h. \<forall>app \<in> set apps. view (outside h) (name app) = Some (path_str (new_bundle_path app), True) \<and> isdir (files h) (new_bundle_path app)"
  have last: "wp (remove_apps_bundles p cur_bundle_path apps) (\<lambda>_. updated view apps) (rolled_back view apps) g" if g: "?runs g" for g
    unfolding remove_apps_bundles_def
  proof (rule wp_mono [OF remove_loop.loop_achieves [where view = view and ?o0.0 = "outside g" and Q = "new_bundle_path ` set apps" and R = "{}"]])
    show "opkg_contract p view \<and> view (outside g) = view (outside g) \<and> (\<forall>q \<in> new_bundle_path ` set apps. isdir (files g) q) \<and>
        (\<forall>q \<in> {}. \<not> isdir (files g) q)"
      using platform_contractD(3) [OF c] g by simp
    show "sorted_wrt (\<lambda>_ _. True) apps" by (rule sorted_wrt_True)
    show "plain_name (name app) \<and> (\<forall>c. cur_bundle_path app = Some c \<longrightarrow>
        c \<noteq> [] \<and> list_all valid_name c \<and> (\<forall>q \<in> new_bundle_path ` set apps. spared c q))" if "app \<in> set apps" for app
      using spared_new_bundles [OF d ok _ that] ok that app_ok_paths(2) [of app] by (auto simp: app_ok_def)
  qed (use g in \<open>auto simp: updated_def rolled_back_def is_stop_exn_def is_run_exn_def\<close>)
  have mid: "wp (and_then (for_each (run_new_installed_version p apps) apps) (\<lambda>_. remove_apps_bundles p cur_bundle_path apps))
      (\<lambda>_. updated view apps) (rolled_back view apps) g" for g
    unfolding wp_and_then
    by (rule wp_mono [OF run_new_loop.loop_achieves [OF i s]]) (auto intro: last)
  show ?thesis
    unfolding start_installed_apps_def if_not_P [OF False]
    unfolding wp_and_then [of "for_each (stop_running_version p apps) apps"]
    by (rule wp_mono [OF stop_running_loop.loop_achieves [OF i s]]) (auto intro: mid)
qed

section \<open>Properties\<close>

text \<open>Two applications in two versions each, of which the first is running.\<close>

definition demo_dir :: "string \<Rightarrow> string \<Rightarrow> location" where
  "demo_dir n k = APPS_PATH @ [n, k]"

definition demo_apps :: "app_record list" where
  "demo_apps = map (\<lambda>n. \<lparr>name = n, cur_bundle_path = Some (demo_dir n ''0''), new_bundle_path = demo_dir n ''1'', ipk_path = [n]\<rparr>) [''a'', ''b'']"

definition demo_host :: "containers host" where
  "demo_host =
     \<lparr>files = map (\<lambda>q. (q, Folder)) [[], [''home''], APPS_PATH, APPS_PATH @ [''a''], APPS_PATH @ [''b''],
        demo_dir ''a'' ''0'', demo_dir ''a'' ''1'', demo_dir ''b'' ''0'', demo_dir ''b'' ''1''],
      clock = 0, epoch = 0, answers = [], history = [],
      outside = [(''a'', path_str (demo_dir ''a'' ''0''), True), (''b'', path_str (demo_dir ''b'' ''0''), True)]\<rparr>"

lemma simulated_platform: "platform_contract (simulated failing) map_of"
  by (simp add: platform_contract_def simulated_runc simulated_sleep simulated_opkg)

lemma demo_apps_ok: "distinct (map name demo_apps)" "\<forall>app \<in> set demo_apps. app_ok app"
  by (auto simp: demo_apps_def demo_dir_def app_ok_def plain_name_def valid_name_def)

text \<open>The start of the installed applications.  It always comes back, and when it returns, each application has a
  started container of its new bundle, the new bundle is in place, and the previous bundle is gone.\<close>

lemma start_installed_apps_updates:
  assumes "platform_contract p view" and "distinct (map name apps)" and "\<forall>app \<in> set apps. app_ok app"
  shows "\<exists>r h'. start_installed_apps p apps h = Some (r, h') \<and> (r = Inr () \<longrightarrow> updated view apps h')"
proof -
  obtain r h' where "start_installed_apps p apps h = Some (r, h')"
    and "case r of Inl e \<Rightarrow> rolled_back view apps e h' | Inr _ \<Rightarrow> updated view apps h'"
    using wp_start_installed_apps [OF assms, of h] unfolding wp_iff by blast
  then show ?thesis by (intro exI [of _ r] exI [of _ h']) auto
qed

lemma demo_start: "map_option fst (start_installed_apps (simulated []) demo_apps demo_host) = Some (Inr ())"
  by code_simp

lemma start_installed_apps_updates_example:
  "\<exists>h'. start_installed_apps (simulated []) demo_apps demo_host = Some (Inr (), h') \<and> updated map_of demo_apps h'"
  using start_installed_apps_updates [OF simulated_platform demo_apps_ok, of "[]" demo_host] demo_start by auto

text \<open>C11: the rollback.  When the start ends with an error that means that an application could not be stopped or could not
  be run, then the rollback was complete: the new bundles are gone, each application that had a previous bundle has a
  started container of it, and the others have none.\<close>

theorem start_installed_apps_rolls_back:
  assumes "platform_contract p view" and "distinct (map name apps)" and "\<forall>app \<in> set apps. app_ok app"
    and "start_installed_apps p apps h = Some (Inl e, h')" and "is_stop_exn e \<or> is_run_exn e"
  shows "restored view apps h'"
  using wp_error [OF wp_start_installed_apps [OF assms(1-3)] assms(4)] assms(5) by (simp add: rolled_back_def)

lemma demo_rollback:
  "map_option fst (start_installed_apps (simulated [[''runc'', ''create'', ''--bundle'', path_str (demo_dir ''b'' ''1''), ''b'']])
     demo_apps demo_host) = Some (Inl ContainerCreationError)"
  by code_simp

theorem start_installed_apps_rolls_back_witness:
  "\<exists>h'. start_installed_apps (simulated [[''runc'', ''create'', ''--bundle'', path_str (demo_dir ''b'' ''1''), ''b'']])
     demo_apps demo_host = Some (Inl ContainerCreationError, h') \<and> restored map_of demo_apps h'"
proof -
  obtain h' where run: "start_installed_apps (simulated [[''runc'', ''create'', ''--bundle'', path_str (demo_dir ''b'' ''1''), ''b'']])
     demo_apps demo_host = Some (Inl ContainerCreationError, h')"
    using demo_rollback by auto
  with start_installed_apps_rolls_back [OF simulated_platform demo_apps_ok run] show ?thesis
    by (simp add: is_run_exn_def)
qed

text \<open>An error of \<open>runc state\<close> is none of the errors that are rolled back: the first application has lost its process, the new
  bundles stay, and nothing was started again.\<close>

lemma state_error_is_not_rolled_back:
  "map_option (\<lambda>(r, h). (r, isdir (files h) (demo_dir ''a'' ''1''), history h))
     (start_installed_apps (simulated [[''runc'', ''state'', ''a'']]) demo_apps demo_host) =
   Some (Inl ContainerStateError, True, [[''runc'', ''kill'', ''a'', ''SIGTERM''], [''runc'', ''state'', ''a'']])"
  by code_simp

end
