(* ===== verification/App_Install.thy ===== *)
theory App_Install imports App_Rollback begin

text \<open>
  The correctness of the unpacking of a package, of the choice of the bundle directories and of the installation of
  the applications; and of the update manager as a whole.
\<close>

section \<open>Bundle directories\<close>

definition lookup_errors :: "exn set" where
  "lookup_errors = {OSError, ValueError, TypeError, KeyError}"

lemma is_bundle_config_errors: "is_bundle_config config dirs = Inl e \<Longrightarrow> e \<in> lookup_errors"
  by (auto simp: is_bundle_config_def json_in_def json_get_def lookup_errors_def
        split: sum.splits json.splits option.splits bool.splits)

lemma wp_collect_bundles:
  "wp (collect_bundles p ds) (\<lambda>r h'. h' = h \<and> set r \<subseteq> set ds) (\<lambda>e h'. h' = h \<and> e \<in> lookup_errors) h"
proof (induction ds)
  case (Cons d ds)
  show ?case
    by (auto simp: wp_simps read_file_def intro!: wp_mono [OF Cons] dest: is_bundle_config_errors
          split: option.splits document.splits sum.splits) (auto simp: lookup_errors_def)
qed (simp add: wp_simps)

lemma wp_get_oci_bundle_paths:
  "wp (get_oci_bundle_paths p d) (\<lambda>r h'. h' = h \<and> (\<forall>q \<in> set r. prefix d q)) (\<lambda>e h'. h' = h \<and> e \<in> lookup_errors) h"
  by (auto simp: get_oci_bundle_paths_def wp_then_look walk_dirs_def intro!: wp_mono [OF wp_collect_bundles])

lemma set_human_sort [simp]: "set (human_sort l) = set l"
  by (simp add: human_sort_def)

lemma human_sort_Nil_iff [simp]: "human_sort l = [] \<longleftrightarrow> l = []"
  by (metis set_empty set_human_sort)

definition bundle_shape :: "string \<Rightarrow> location option \<Rightarrow> location \<Rightarrow> bool" where
  "bundle_shape n cur new \<longleftrightarrow>
     (\<exists>k. valid_name k \<and> new = APPS_PATH @ [n, k]) \<and> (\<forall>c. cur = Some c \<longrightarrow> prefix (APPS_PATH @ [n]) c)"

lemma valid_str_int: "valid_name (str_int i)"
proof -
  have "sep \<notin> set (decimal k)" "decimal k \<noteq> []" "CHR ''.'' \<notin> set (decimal k)" for k
    using decimal_digits [of sep k] decimal_digits [of "CHR ''.''" k] decimal_is_digits(1) by auto
  then show ?thesis by (auto simp: str_int_def valid_name_def) (metis list.set_intros(1))+
qed

lemma wp_get_app_bundle_paths:
  assumes "plain_name n" and "valid_name n"
  shows "wp (get_app_bundle_paths p n) (\<lambda>r h'. h' = h \<and> (\<forall>cur new. r = Some (cur, new) \<longrightarrow> bundle_shape n cur new))
    (\<lambda>e h'. h' = h \<and> e \<in> lookup_errors) h"
proof -
  have "path_join APPS_PATH n = APPS_PATH @ [n]" using assms path_join_plain by (simp add: valid_name_def)
  moreover have "valid_name ''0''" by (simp add: valid_name_def)
  moreover have "prefix d (hd (human_sort l))" if "\<forall>q \<in> set l. prefix d q" "l \<noteq> []" for l :: "location list" and d
    using that by (metis hd_in_set human_sort_Nil_iff set_human_sort)
  moreover have "ValueError \<in> lookup_errors" by (simp add: lookup_errors_def)
  ultimately show ?thesis
    by (auto simp: get_app_bundle_paths_def Let_def wp_simps bundle_shape_def valid_str_int intro!: wp_mono [OF wp_get_oci_bundle_paths]
          split: option.splits)
qed

section \<open>Installation\<close>

definition app_shape :: "app_record \<Rightarrow> bool" where
  "app_shape app \<longleftrightarrow> plain_name (name app) \<and> valid_name (name app) \<and> bundle_shape (name app) (cur_bundle_path app) (new_bundle_path app)"

text \<open>The level of the file system on which the versions of the applications are.\<close>

definition version_level :: nat where "version_level = 4"

lemma new_bundle_facts:
  "app_shape app \<Longrightarrow> length (new_bundle_path app) = version_level \<and> new_bundle_path app \<noteq> [] \<and>
     list_all valid_name (new_bundle_path app)"
  by (auto simp: app_shape_def bundle_shape_def APPS_PATH_def version_level_def valid_name_def)

definition no_new_version :: "'x host \<Rightarrow> 'x host \<Rightarrow> bool" where
  "no_new_version h h' \<longleftrightarrow> (\<forall>q. length q = version_level \<longrightarrow> isdir (files h') q \<longrightarrow> isdir (files h) q)"

lemma wp_manage_app_installation:
  fixes p :: "'x platform"
  assumes "opkg_contract p view"
  shows "wp (manage_app_installation p ipk)
    (\<lambda>app h'. app_shape app \<and> ipk_path app = ipk \<and> view (outside h') = view (outside h) \<and>
       (\<forall>q. length q = version_level \<longrightarrow> isdir (files h') q \<longrightarrow> isdir (files h) q \<or> q = new_bundle_path app))
    (\<lambda>e h'. e = AppIdError \<or> e = AppInstallError \<longrightarrow> no_new_version h h') h"
proof -
  let ?Q = "\<lambda>app h'. app_shape app \<and> ipk_path app = ipk \<and> view (outside h') = view (outside h) \<and>
       (\<forall>q. length q = version_level \<longrightarrow> isdir (files h') q \<longrightarrow> isdir (files h) q \<or> q = new_bundle_path app)"
  let ?E = "\<lambda>e h'. e = AppIdError \<or> e = AppInstallError \<longrightarrow> no_new_version h h'"
  have inst: "wp (and_then (install_app p ipk new) (\<lambda>_. ret \<lparr>name = n, cur_bundle_path = cur, new_bundle_path = new, ipk_path = ipk\<rparr>)) ?Q ?E h'"
    if "bundle_shape n cur new" "plain_name n \<and> valid_name n" "view (outside h') = view (outside h)" "map_of (files h') = map_of (files h)"
    for n cur new and h' :: "'x host"
  proof -
    have l: "length new = version_level" "new \<noteq> []" "list_all valid_name new"
      using that(1,2) by (auto simp: bundle_shape_def APPS_PATH_def version_level_def valid_name_def)
    show ?thesis
      unfolding wp_and_then
      by (rule wp_mono [OF wp_install_app [OF assms l(2,3)]])
        (use that l in \<open>auto simp: wp_simps installation_def app_shape_def no_new_version_def isdir_def\<close>)
  qed
  have paths: "wp (and_then (get_app_bundle_paths p n) (\<lambda>paths. case paths of None \<Rightarrow> raise TypeError
      | Some (cur, new) \<Rightarrow> and_then (install_app p ipk new)
          (\<lambda>_. ret \<lparr>name = n, cur_bundle_path = cur, new_bundle_path = new, ipk_path = ipk\<rparr>))) ?Q ?E h'"
    if "plain_name n" "valid_name n" "view (outside h') = view (outside h)" "map_of (files h') = map_of (files h)"
    for n and h' :: "'x host"
    unfolding wp_and_then [of "get_app_bundle_paths p n"]
    by (rule wp_mono [OF wp_get_app_bundle_paths [OF that(1,2)]])
      (use that inst in \<open>auto simp: wp_raise lookup_errors_def split: option.splits prod.splits\<close>)
  show ?thesis
    unfolding manage_app_installation_def wp_and_then [of "get_app_name p ipk"]
    by (rule wp_mono [OF wp_get_app_name [OF assms]]) (use paths in \<open>auto simp: no_new_version_def isdir_def\<close>)
qed

text \<open>After a failed installation the bundles of the other applications are taken away again.\<close>

lemma wp_install_ipks:
  fixes p :: "'x platform"
  assumes "opkg_contract p view"
    and "\<forall>app \<in> set apps. app_shape app"
    and "\<forall>q. length q = version_level \<longrightarrow> isdir (files h) q \<longrightarrow> isdir (files h0) q \<or> q \<in> new_bundle_path ` set apps"
  shows "wp (install_ipks p ipks apps)
    (\<lambda>r h'. (\<forall>app \<in> set r. app_shape app) \<and> map ipk_path r = map ipk_path apps @ ipks \<and> view (outside h') = view (outside h))
    (\<lambda>e h'. e = AppIdError \<or> e = AppInstallError \<longrightarrow> no_new_version h0 h') h"
  using assms(2,3)
proof (induction ipks arbitrary: apps h)
  case Nil
  then show ?case by (simp add: wp_simps)
next
  case (Cons ipk ipks)
  have clean: "wp (remove_apps_bundles p new_bundle apps) (\<lambda>_. no_new_version h0)
      (\<lambda>e _. e \<in> {AppPathInexistent, AppUninstallError, OSError}) h1" if h1: "no_new_version h h1" for h1 :: "'x host"
    unfolding remove_apps_bundles_def
  proof (rule wp_mono [OF remove_loop.loop_achieves [where view = view and ?o0.0 = "outside h1" and Q = "{}"
          and R = "{q. \<not> isdir (files h1) q}"]])
    show "opkg_contract p view \<and> view (outside h1) = view (outside h1) \<and> (\<forall>q \<in> {}. isdir (files h1) q) \<and>
        (\<forall>q \<in> {q. \<not> isdir (files h1) q}. \<not> isdir (files h1) q)"
      using assms(1) by simp
    show "sorted_wrt (\<lambda>_ _. True) apps" by (rule sorted_wrt_True)
    show "plain_name (name app) \<and> (\<forall>d. new_bundle app = Some d \<longrightarrow> d \<noteq> [] \<and> list_all valid_name d \<and> (\<forall>q \<in> {}. spared d q))"
      if "app \<in> set apps" for app
      using Cons.prems(1) that new_bundle_facts by (auto simp: app_shape_def)
    fix h' :: "'x host"
    assume "(opkg_contract p view \<and> view (outside h') = view (outside h1) \<and> (\<forall>q \<in> {}. isdir (files h') q) \<and>
        (\<forall>q \<in> {q. \<not> isdir (files h1) q}. \<not> isdir (files h') q)) \<and>
      (\<forall>b \<in> set apps. \<forall>d. new_bundle b = Some d \<longrightarrow> \<not> isdir (files h') d)"
    then have "isdir (files h') q \<Longrightarrow> isdir (files h1) q \<and> q \<notin> new_bundle_path ` set apps" for q by auto
    with h1 Cons.prems(2) show "no_new_version h0 h'" unfolding no_new_version_def by blast
  qed auto
  show ?case
    unfolding install_ipks.simps wp_try_else [of "manage_app_installation p ipk"]
  proof (rule wp_mono [OF wp_manage_app_installation [OF assms(1)]])
    fix app and h' :: "'x host"
    assume a: "app_shape app \<and> ipk_path app = ipk \<and> view (outside h') = view (outside h) \<and>
       (\<forall>q. length q = version_level \<longrightarrow> isdir (files h') q \<longrightarrow> isdir (files h) q \<or> q = new_bundle_path app)"
    have "wp (install_ipks p ipks (apps @ [app]))
       (\<lambda>r h''. (\<forall>app \<in> set r. app_shape app) \<and> map ipk_path r = map ipk_path (apps @ [app]) @ ipks \<and> view (outside h'') = view (outside h'))
       (\<lambda>e h''. e = AppIdError \<or> e = AppInstallError \<longrightarrow> no_new_version h0 h'') h'"
      using a Cons.prems by (intro Cons.IH) auto
    then show "wp (install_ipks p ipks (apps @ [app]))
       (\<lambda>r h'. (\<forall>app \<in> set r. app_shape app) \<and> map ipk_path r = map ipk_path apps @ ipk # ipks \<and> view (outside h') = view (outside h))
       (\<lambda>e h'. e = AppIdError \<or> e = AppInstallError \<longrightarrow> no_new_version h0 h') h'"
      using a by simp
  next
    fix e and h' :: "'x host"
    assume "e = AppIdError \<or> e = AppInstallError \<longrightarrow> no_new_version h h'"
    then show "if e = AppIdError \<or> e = AppInstallError
      then wp (try_else (remove_apps_bundles p new_bundle apps) (\<lambda>e. e = AppUninstallError)
          (\<lambda>uninstall_error. raise (Raised_from uninstall_error e)) (\<lambda>_. raise e))
        (\<lambda>r h'. (\<forall>app \<in> set r. app_shape app) \<and> map ipk_path r = map ipk_path apps @ ipk # ipks \<and> view (outside h') = view (outside h))
        (\<lambda>e h'. e = AppIdError \<or> e = AppInstallError \<longrightarrow> no_new_version h0 h') h'
      else e = AppIdError \<or> e = AppInstallError \<longrightarrow> no_new_version h0 h'"
      by (auto simp: wp_try_else wp_raise intro!: wp_mono [OF clean])
  qed
qed

section \<open>Unpacking\<close>

definition is_ipk :: "tar_info \<Rightarrow> bool" where
  "is_ipk t \<longleftrightarrow> suffix ''.ipk'' (map to_lower (tar_name t))"

definition good_ipks :: "tar_info list \<Rightarrow> bool" where
  "good_ipks tar \<longleftrightarrow> (\<forall>t \<in> set tar. is_ipk t \<longrightarrow> tar_isfile t \<and> sep \<notin> set (tar_name t))"

lemma get_ipks_from_pkg_eq:
  "get_ipks_from_pkg tar = (if good_ipks tar then Inr (filter is_ipk tar) else Inl IllegalPackage)"
proof -
  have v: "validate_archive_member t =
      (if \<not> is_ipk t then Inr False else if tar_isfile t \<and> sep \<notin> set (tar_name t) then Inr True else Inl IllegalPackage)" for t
    by (simp add: validate_archive_member_def is_ipk_def)
  show ?thesis by (induction tar) (auto simp: v good_ipks_def)
qed

lemma make_path_keeps_documents:
  "make_path fs d ns = Some fs' \<Longrightarrow> map_of fs q = Some x \<Longrightarrow> map_of fs' q = Some x"
proof (induction fs d ns rule: make_path.induct)
  case (2 fs p n ns)
  then show ?case by (cases "q = p @ [n]") (auto split: option.splits document.splits)
qed simp

lemma wp_extract_member:
  assumes "sep \<notin> set (tar_name t)" and "tar_name t \<noteq> []"
  shows "wp (extract_member p d t)
    (\<lambda>_ h'. outside h' = outside h \<and> map_of (files h') (d @ [tar_name t]) = Some (Document (tar_data t)) \<and>
       (\<forall>q x. q \<noteq> d @ [tar_name t] \<longrightarrow> map_of (files h) q = Some x \<longrightarrow> map_of (files h') q = Some x))
    (\<lambda>e _. e \<in> {OSError, TarError}) h"
  using path_join_plain [OF assms]
  by (auto simp: extract_member_def makedirs_def put_file_def wp_simps dest: make_path_keeps_documents split: option.splits)

interpretation extract_loop: item_loop
  "\<lambda>h. outside h = o0" "\<lambda>t. sep \<notin> set (tar_name t) \<and> tar_name t \<noteq> []" "extract_member p d"
  "\<lambda>t h. map_of (files h) (d @ [tar_name t]) = Some (Document (tar_data t))" "\<lambda>s t. tar_name s \<noteq> tar_name t"
  "\<lambda>e _. e \<in> {OSError, TarError}"
  for p :: "'x platform" and d o0
proof unfold_locales
  fix h :: "'x host" and a :: tar_info and S
  assume "outside h = o0" and "sep \<notin> set (tar_name a) \<and> tar_name a \<noteq> []"
    and S: "\<And>b. b \<in> S \<Longrightarrow> (sep \<notin> set (tar_name b) \<and> tar_name b \<noteq> []) \<and> tar_name a \<noteq> tar_name b \<and>
      map_of (files h) (d @ [tar_name b]) = Some (Document (tar_data b))"
  then show "wp (extract_member p d a)
     (\<lambda>_ h'. outside h' = o0 \<and> map_of (files h') (d @ [tar_name a]) = Some (Document (tar_data a)) \<and>
        (\<forall>b \<in> S. map_of (files h') (d @ [tar_name b]) = Some (Document (tar_data b))))
     (\<lambda>e _. e \<in> {OSError, TarError}) h"
    by (intro wp_mono [OF wp_extract_member]) (auto dest: S)
qed

lemma wp_extract_all:
  assumes "\<forall>t \<in> set ts. sep \<notin> set (tar_name t) \<and> tar_name t \<noteq> []"
  shows "wp (for_each (extract_member p d) ts)
    (\<lambda>_ h'. outside h' = outside h \<and>
       (distinct (map tar_name ts) \<longrightarrow> (\<forall>t \<in> set ts. map_of (files h') (d @ [tar_name t]) = Some (Document (tar_data t)))))
    (\<lambda>e _. e \<in> {OSError, TarError}) h"
proof (cases "distinct (map tar_name ts)")
  case True
  then have "sorted_wrt (\<lambda>s t. tar_name t \<noteq> tar_name s) ts" by (induction ts) (auto simp: image_iff)
  then show ?thesis
    by (intro wp_mono [OF extract_loop.loop_achieves [where ?o0.0 = "outside h"]]) (use assms in auto)
next
  case False
  have "wp (for_each (extract_member p d) ts) (\<lambda>_ h'. outside h' = outside h) (\<lambda>e _. e \<in> {OSError, TarError}) h"
    using assms
  proof (induction ts arbitrary: h)
    case (Cons t ts)
    have "wp (extract_member p d t) (\<lambda>_ h'. outside h' = outside h) (\<lambda>e _. e \<in> {OSError, TarError}) h"
      using Cons.prems by (intro wp_mono [OF wp_extract_member]) auto
    then show ?case
      unfolding wp_for_each by (rule wp_mono) (use Cons in \<open>auto intro!: wp_mono [OF Cons.IH]\<close>)
  qed (simp add: wp_simps)
  then show ?thesis using False by simp
qed

lemma wp_unpack_package:
  "wp (unpack_package p update_pkg)
    (\<lambda>ipks h'. outside h' = outside h \<and> (\<exists>archive tar. map_of (files h) update_pkg = Some (Document archive) \<and>
       tar_members p archive = Some tar \<and> good_ipks tar \<and> ipks = map tar_name (filter is_ipk tar) \<and> ipks \<noteq> [] \<and>
       (distinct ipks \<longrightarrow> (\<forall>t \<in> set tar. is_ipk t \<longrightarrow>
          map_of (files h') (IPKS_EXTRACTION_PATH @ [tar_name t]) = Some (Document (tar_data t))))))
    (\<lambda>e _. e = IllegalPackage \<or> e = OSError) h"
proof -
  have n: "is_ipk t \<Longrightarrow> tar_name t \<noteq> []" for t by (auto simp: is_ipk_def)
  have x: "wp (for_each (extract_member p IPKS_EXTRACTION_PATH) (filter is_ipk tar))
      (\<lambda>_ h'. outside h' = outside h \<and> (distinct (map tar_name (filter is_ipk tar)) \<longrightarrow> (\<forall>t \<in> set tar. is_ipk t \<longrightarrow>
          map_of (files h') (IPKS_EXTRACTION_PATH @ [tar_name t]) = Some (Document (tar_data t)))))
      (\<lambda>e _. e \<in> {OSError, TarError}) h" if "good_ipks tar" for tar
    by (rule wp_mono [OF wp_extract_all]) (use that n in \<open>auto simp: good_ipks_def\<close>)
  have r: "wp (read_file p update_pkg) (\<lambda>s h'. h' = h \<and> map_of (files h) update_pkg = Some (Document s)) (\<lambda>e _. e = OSError) h"
    by (auto simp: read_file_def wp_simps split: option.splits document.splits)
  show ?thesis
    unfolding unpack_package_def wp_and_then [of "read_file p update_pkg"]
  proof (rule wp_mono [OF r], elim conjE)
    fix archive and h' :: "'a host"
    assume "h' = h" and a: "map_of (files h) update_pkg = Some (Document archive)"
    show "wp (case tar_members p archive of None \<Rightarrow> raise IllegalPackage
       | Some tar_file \<Rightarrow>
           and_then (lift (get_ipks_from_pkg tar_file)) (\<lambda>members.
             if members = [] then raise IllegalPackage
             else try_else (for_each (extract_member p IPKS_EXTRACTION_PATH) members) (\<lambda>e. e = TarError)
                    (\<lambda>_. raise IllegalPackage) (\<lambda>_. ret (map tar_name members))))
      (\<lambda>ipks h'. outside h' = outside h \<and> (\<exists>archive tar. map_of (files h) update_pkg = Some (Document archive) \<and>
       tar_members p archive = Some tar \<and> good_ipks tar \<and> ipks = map tar_name (filter is_ipk tar) \<and> ipks \<noteq> [] \<and>
       (distinct ipks \<longrightarrow> (\<forall>t \<in> set tar. is_ipk t \<longrightarrow>
          map_of (files h') (IPKS_EXTRACTION_PATH @ [tar_name t]) = Some (Document (tar_data t))))))
      (\<lambda>e _. e = IllegalPackage \<or> e = OSError) h'"
    proof (cases "tar_members p archive")
      case None
      then show ?thesis by (simp add: wp_simps)
    next
      case (Some tar)
      show ?thesis
      proof (cases "good_ipks tar \<and> filter is_ipk tar \<noteq> []")
        case True
        then have g: "get_ipks_from_pkg tar = Inr (filter is_ipk tar)" by (simp add: get_ipks_from_pkg_eq)
        from True show ?thesis
          unfolding \<open>h' = h\<close> Some option.case wp_and_then wp_lift g sum.case if_not_P [OF conjunct2 [OF True]] wp_try_else
          by (intro wp_mono [OF x]) (auto simp: wp_ret wp_raise a Some)
      next
        case False
        then show ?thesis by (auto simp: Some wp_and_then wp_lift get_ipks_from_pkg_eq wp_raise)
      qed
    qed
  qed auto
qed

section \<open>Version numbers\<close>

lemma decimal_not_space: "c \<in> set (decimal k) \<Longrightarrow> \<not> py_space c \<and> c \<noteq> CHR ''_'' \<and> c \<noteq> CHR ''-'' \<and> c \<noteq> CHR ''+''"
  using decimal_digits [of c k] by (auto simp: py_space_def)

lemma digits_ok_decimal: "\<forall>c \<in> set s. is_digit c \<Longrightarrow> s \<noteq> [] \<Longrightarrow> digits_ok s"
  by (induction s rule: digits_ok.induct) (auto simp: is_digit_def)

lemma py_int_decimal: "py_int (decimal k) = Some (int k)"
proof -
  have "dropWhile py_space (decimal k) = decimal k" "dropWhile py_space (rev (decimal k)) = rev (decimal k)"
    using decimal_not_space [of _ k] by (auto simp: dropWhile_eq_self_iff hd_rev decimal_is_digits dest!: spec [of _ "hd (decimal k)"] spec [of _ "last (decimal k)"])
  then have s: "rstrip (lstrip (decimal k)) = decimal k" by (simp add: rstrip_def lstrip_def)
  have f: "filter (\<lambda>c. c \<noteq> CHR ''_'') (decimal k) = decimal k"
    using decimal_not_space by (simp add: filter_id_conv)
  obtain c r where c: "decimal k = c # r" using decimal_is_digits(1) [of k] by (cases "decimal k") auto
  then have "c \<noteq> CHR ''-''" "c \<noteq> CHR ''+''" using decimal_not_space [of c k] by auto
  then show ?thesis
    using digits_ok_decimal [OF decimal_is_digits(2) decimal_is_digits(1), of k] f
    unfolding py_int_def Let_def s by (simp add: c digits_value_decimal [of k, unfolded c])
qed

definition version_dir :: "string \<Rightarrow> nat \<Rightarrow> location" where
  "version_dir n k = APPS_PATH @ [n, decimal k]"

lemma human_sort_version_dirs: "human_sort (map (version_dir n) ks) = map (version_dir n) (sort ks)"
  using human_sort_versions [of "APPS_PATH @ [n]" ks] by (simp add: version_dir_def [abs_def])

lemma hd_sort: "ks \<noteq> [] \<Longrightarrow> hd (sort ks) = Min (set ks)" for ks :: "nat list"
proof -
  have "xs \<noteq> [] \<Longrightarrow> sorted xs \<Longrightarrow> hd xs = Min (set xs)" for xs :: "nat list"
    by (cases xs) (auto intro!: Min_eqI [symmetric])
  from this [of "sort ks"] show "ks \<noteq> [] \<Longrightarrow> hd (sort ks) = Min (set ks)" by (metis set_empty set_sort sorted_sort)
qed

lemma last_sort: "ks \<noteq> [] \<Longrightarrow> last (sort ks) = Max (set ks)" for ks :: "nat list"
proof -
  have "xs \<noteq> [] \<Longrightarrow> sorted xs \<Longrightarrow> last xs = Max (set xs)" for xs :: "nat list"
    by (cases xs rule: rev_cases) (auto simp: sorted_append intro!: Max_eqI [symmetric])
  from this [of "sort ks"] show "ks \<noteq> [] \<Longrightarrow> last (sort ks) = Max (set ks)" by (metis set_empty set_sort sorted_sort)
qed

text \<open>The directories of an application whose bundles are called by numbers.\<close>

lemma get_app_bundle_paths_versions:
  assumes "valid_name n" and "isdir (files h) (APPS_PATH @ [n])" and "ks \<noteq> []"
    and "get_oci_bundle_paths p (APPS_PATH @ [n]) h = Some (Inr (map (version_dir n) ks), h)"
  shows "get_app_bundle_paths p n h =
    Some (Inr (Some (Some (version_dir n (Min (set ks))), version_dir n (Max (set ks) + 1))), h)"
proof -
  have j: "path_join APPS_PATH n = APPS_PATH @ [n]" using assms(1) path_join_plain by (simp add: valid_name_def)
  have l: "last (version_dir n k) = decimal k" for k by (simp add: version_dir_def)
  have s: "str_int (int k + 1) = decimal (k + 1)" for k by (simp add: str_int_def nat_add_distrib)
  have ne: "sort ks \<noteq> []" using assms(3) by (metis set_empty set_sort)
  have e: "hd (human_sort (map (version_dir n) ks)) = version_dir n (Min (set ks))"
    "last (human_sort (map (version_dir n) ks)) = version_dir n (Max (set ks))"
    using assms(3) ne by (simp_all add: human_sort_version_dirs hd_map last_map hd_sort last_sort)
  have "(APPS_PATH @ [n]) @ [str_int (int (Max (set ks)) + 1)] = version_dir n (Max (set ks) + 1)"
    by (simp only: s version_dir_def) simp
  then show ?thesis
    unfolding get_app_bundle_paths_def j Let_def and_then_def look_def
    using assms(2,3,4) by (simp add: e l py_int_decimal ret_def)
qed

section \<open>Properties\<close>

text \<open>C39: the directories of an installation.  When the bundles of an application are called by numbers, in whatever order
  they are found, the version with the lowest number is taken for the current one and the new bundle gets a number higher
  than all of them, as numbers and not as texts, so that no bundle is installed over another.\<close>

theorem get_app_bundle_paths_next:
  assumes "valid_name n" and "isdir (files h) (APPS_PATH @ [n])" and "ks \<noteq> []"
    and "get_oci_bundle_paths p (APPS_PATH @ [n]) h = Some (Inr (map (version_dir n) ks), h)"
  shows "\<exists>low high. get_app_bundle_paths p n h = Some (Inr (Some (Some (version_dir n low), version_dir n high)), h) \<and>
    low \<in> set ks \<and> (\<forall>k \<in> set ks. low \<le> k \<and> k < high \<and> version_dir n k \<noteq> version_dir n high)"
proof -
  have v: "i < j \<Longrightarrow> version_dir n i \<noteq> version_dir n j" for i j
    using py_int_decimal [of i] py_int_decimal [of j] by (auto simp: version_dir_def)
  have m: "k \<in> set ks \<Longrightarrow> k < Max (set ks) + 1" for k by (simp add: le_imp_less_Suc)
  show ?thesis
    by (rule exI [of _ "Min (set ks)"], rule exI [of _ "Max (set ks) + 1"])
      (use get_app_bundle_paths_versions [OF assms] assms(3) m v in simp)
qed

definition demo_versions :: "containers host" where
  "demo_versions =
     \<lparr>files = map (\<lambda>q. (q, Folder)) [[], [''home''], APPS_PATH, APPS_PATH @ [''a''],
        APPS_PATH @ [''a'', ''10''], APPS_PATH @ [''a'', ''10'', ''rootfs''],
        APPS_PATH @ [''a'', ''9''], APPS_PATH @ [''a'', ''9'', ''rootfs'']] @
        [(APPS_PATH @ [''a'', ''10'', ''config.json''], Document ''bundle''),
         (APPS_PATH @ [''a'', ''9'', ''config.json''], Document ''bundle'')],
      clock = 0, epoch = 0, answers = [], history = [], outside = []\<rparr>"

lemma demo_versions_found:
  "get_oci_bundle_paths (simulated []) (APPS_PATH @ [''a'']) demo_versions = Some (Inr (map (version_dir ''a'') [10, 9]), demo_versions)"
  by code_simp

theorem get_app_bundle_paths_next_witness:
  "\<exists>low high. get_app_bundle_paths (simulated []) ''a'' demo_versions =
     Some (Inr (Some (Some (version_dir ''a'' low), version_dir ''a'' high)), demo_versions) \<and> low \<le> 9 \<and> 10 < high"
  using get_app_bundle_paths_next [OF _ _ _ demo_versions_found]
  by (auto simp: valid_name_def demo_versions_def isdir_def APPS_PATH_def)


text \<open>A device without applications, with a package of two of them.\<close>

definition demo_fresh :: "containers host" where
  "demo_fresh =
     \<lparr>files = ([''p''], Document ''archive'') # map (\<lambda>q. (q, Folder)) [[], [''home''], APPS_PATH],
      clock = 0, epoch = 0, answers = [], history = [], outside = []\<rparr>"




text \<open>C40: the records of an installation.  When the installation returns, there is one record for each package, in their
  order; each has a name that the other programs accept as it is, a new bundle directory of its own right below the
  directory of the application, and a current bundle, if any, inside that directory; and no container was touched.\<close>

theorem install_apps_records:
  assumes "opkg_contract p view" and "install_apps p ipks h = Some (Inr apps, h')"
  shows "(\<forall>app \<in> set apps. app_shape app) \<and> map ipk_path apps = map (path_join IPKS_EXTRACTION_PATH) ipks \<and>
    view (outside h') = view (outside h)"
proof -
  have "wp (install_apps p ipks) (\<lambda>r h'. (\<forall>app \<in> set r. app_shape app) \<and>
      map ipk_path r = map (path_join IPKS_EXTRACTION_PATH) ipks \<and> view (outside h') = view (outside h)) (\<lambda>_ _. True) h"
    unfolding install_apps_def by (rule wp_mono [OF wp_install_ipks [OF assms(1), where ?h0.0 = h]]) simp_all
  from wp_result [OF this assms(2)] show ?thesis .
qed

definition demo_installed :: "app_record list" where
  "demo_installed =
     [\<lparr>name = ''a'', cur_bundle_path = None, new_bundle_path = demo_dir ''a'' ''0'', ipk_path = IPKS_EXTRACTION_PATH @ [''a.ipk'']\<rparr>,
      \<lparr>name = ''b'', cur_bundle_path = None, new_bundle_path = demo_dir ''b'' ''0'', ipk_path = IPKS_EXTRACTION_PATH @ [''b.IPK'']\<rparr>]"

lemma demo_install: "map_option fst (install_apps (simulated []) [''a.ipk'', ''b.IPK''] demo_fresh) = Some (Inr demo_installed)"
  by code_simp

theorem install_apps_records_witness:
  "\<exists>h'. install_apps (simulated []) [''a.ipk'', ''b.IPK''] demo_fresh = Some (Inr demo_installed, h') \<and>
     list_all app_shape demo_installed \<and> outside h' = []"
proof -
  obtain h' where run: "install_apps (simulated []) [''a.ipk'', ''b.IPK''] demo_fresh = Some (Inr demo_installed, h')"
    using demo_install by auto
  from install_apps_records [OF simulated_opkg run] run show ?thesis
    by (cases "outside h'") (auto simp: list_all_iff demo_fresh_def fun_eq_iff split: if_splits)
qed

text \<open>The unpacking of a package.  It accepts exactly the tar archives that hold at least one ipk and whose ipks are
  plain files outside any directory; it returns their names in the order of the archive, and if the names differ, each ipk
  is then in the extraction directory with its contents.  Whatever else it finds ends with the error of an illegal package or
  of the file system.\<close>

lemma unpack_package_outcome:
  "\<exists>r h'. unpack_package p update_pkg h = Some (r, h') \<and>
     (case r of
        Inl e \<Rightarrow> e = IllegalPackage \<or> e = OSError
      | Inr ipks \<Rightarrow> \<exists>archive tar. map_of (files h) update_pkg = Some (Document archive) \<and> tar_members p archive = Some tar \<and>
          good_ipks tar \<and> ipks = map tar_name (filter is_ipk tar) \<and> ipks \<noteq> [] \<and>
          (distinct ipks \<longrightarrow> (\<forall>t \<in> set tar. is_ipk t \<longrightarrow>
             map_of (files h') (IPKS_EXTRACTION_PATH @ [tar_name t]) = Some (Document (tar_data t)))))"
proof -
  obtain r h' where "unpack_package p update_pkg h = Some (r, h')"
    and "case r of Inl e \<Rightarrow> e = IllegalPackage \<or> e = OSError | Inr ipks \<Rightarrow> outside h' = outside h \<and>
       (\<exists>archive tar. map_of (files h) update_pkg = Some (Document archive) \<and> tar_members p archive = Some tar \<and>
          good_ipks tar \<and> ipks = map tar_name (filter is_ipk tar) \<and> ipks \<noteq> [] \<and>
          (distinct ipks \<longrightarrow> (\<forall>t \<in> set tar. is_ipk t \<longrightarrow>
             map_of (files h') (IPKS_EXTRACTION_PATH @ [tar_name t]) = Some (Document (tar_data t)))))"
    using wp_unpack_package [of p update_pkg h] unfolding wp_iff by blast
  then show ?thesis by (intro exI [of _ r] exI [of _ h']) (auto split: sum.splits)
qed

lemma demo_unpack: "map_option fst (unpack_package (simulated []) [''p''] demo_fresh) = Some (Inr [''a.ipk'', ''b.IPK''])"
  by code_simp

lemma unpack_package_outcome_example:
  "\<exists>h'. unpack_package (simulated []) [''p''] demo_fresh = Some (Inr [''a.ipk'', ''b.IPK''], h') \<and>
     map_of (files h') (IPKS_EXTRACTION_PATH @ [''b.IPK'']) = Some (Document ''B'')"
proof -
  obtain h' where run: "unpack_package (simulated []) [''p''] demo_fresh = Some (Inr [''a.ipk'', ''b.IPK''], h')"
    using demo_unpack by auto
  have m: "map_of (files demo_fresh) [''p''] = Some (Document ''archive'')" by (simp add: demo_fresh_def)
  from unpack_package_outcome [of "simulated []" "[''p'']" demo_fresh] obtain tar where
    tar: "tar_members (simulated []) ''archive'' = Some tar"
    and all: "\<forall>t \<in> set tar. is_ipk t \<longrightarrow> map_of (files h') (IPKS_EXTRACTION_PATH @ [tar_name t]) = Some (Document (tar_data t))"
    by (auto simp: run m)
  have "\<lparr>tar_name = ''b.IPK'', tar_isfile = True, tar_data = ''B''\<rparr> \<in> set tar"
    using tar by (auto simp: simulated_def)
  moreover have "is_ipk \<lparr>tar_name = ''b.IPK'', tar_isfile = True, tar_data = ''B''\<rparr>" by code_simp
  ultimately show ?thesis using all run by fastforce
qed

text \<open>C10: the update manager as a whole.  When it returns, it has handled the ipks of the package in their order, and
  provided these are different applications in different versions, each of them has a started container of its new
  bundle, the new bundle is in place, and its previous bundle is gone.\<close>

theorem update_manager_success:
  assumes "platform_contract p view" and "run_mbl_app_update_manager p update_pkg h = Some (Inr apps, h')"
    and "distinct (map name apps)" and "\<forall>app \<in> set apps. app_ok app"
  shows "updated view apps h' \<and> (\<exists>archive tar. map_of (files h) update_pkg = Some (Document archive) \<and>
    tar_members p archive = Some tar \<and> map ipk_path apps = map (\<lambda>t. IPKS_EXTRACTION_PATH @ [tar_name t]) (filter is_ipk tar))"
proof -
  obtain ipks h1 h2 where u: "unpack_package p update_pkg h = Some (Inr ipks, h1)"
    and i: "install_apps p ipks h1 = Some (Inr apps, h2)" and s: "start_installed_apps p apps h2 = Some (Inr (), h')"
    using assms(2) by (auto simp: run_mbl_app_update_manager_def and_then_result ret_def)
  from wp_result [OF wp_unpack_package u] obtain archive tar where
    t: "map_of (files h) update_pkg = Some (Document archive)" "tar_members p archive = Some tar" "good_ipks tar"
      "ipks = map tar_name (filter is_ipk tar)" by blast
  have "wp (install_apps p ipks) (\<lambda>r _. map ipk_path r = map (path_join IPKS_EXTRACTION_PATH) ipks) (\<lambda>_ _. True) h1"
    unfolding install_apps_def
    by (rule wp_mono [OF wp_install_ipks [OF platform_contractD(3) [OF assms(1)], where ?h0.0 = h1]]) simp_all
  from wp_result [OF this i] have "map ipk_path apps = map (path_join IPKS_EXTRACTION_PATH) ipks" .
  moreover have "path_join IPKS_EXTRACTION_PATH (tar_name x) = IPKS_EXTRACTION_PATH @ [tar_name x]" if "x \<in> set tar" "is_ipk x" for x
    using that t(3) by (intro path_join_plain) (auto simp: good_ipks_def is_ipk_def)
  ultimately have "map ipk_path apps = map (\<lambda>t. IPKS_EXTRACTION_PATH @ [tar_name t]) (filter is_ipk tar)"
    by (simp add: t(4))
  moreover have "updated view apps h'"
    using wp_result [OF wp_start_installed_apps [OF assms(1,3,4)] s] .
  ultimately show ?thesis using t(1,2) by blast
qed

lemma demo_update: "map_option fst (run_mbl_app_update_manager (simulated []) [''p''] demo_fresh) = Some (Inr demo_installed)"
  by code_simp

theorem update_manager_success_witness:
  "\<exists>h'. run_mbl_app_update_manager (simulated []) [''p''] demo_fresh = Some (Inr demo_installed, h') \<and> updated map_of demo_installed h'"
proof -
  obtain h' where run: "run_mbl_app_update_manager (simulated []) [''p''] demo_fresh = Some (Inr demo_installed, h')"
    using demo_update by auto
  have "distinct (map name demo_installed)" "\<forall>app \<in> set demo_installed. app_ok app"
    by (auto simp: demo_installed_def demo_dir_def app_ok_def plain_name_def valid_name_def)
  from update_manager_success [OF simulated_platform run this] run show ?thesis by blast
qed

section \<open>What is not handled\<close>

text \<open>A directory of an application without a bundle in it, two packages of one application, and a value with a colon in the
  control data end in errors that are neither rolled back nor cleaned up.\<close>

lemma empty_app_directory_is_an_error: "map_option fst (install_apps (simulated []) [''a.ipk''] demo_host) = Some (Inl TypeError)"
  by code_simp

lemma same_app_twice_is_not_rolled_back:
  "map_option fst (start_installed_apps (simulated [])
     [\<lparr>name = ''a'', cur_bundle_path = None, new_bundle_path = demo_dir ''a'' ''0'', ipk_path = [''x'']\<rparr>,
      \<lparr>name = ''a'', cur_bundle_path = Some (demo_dir ''a'' ''0''), new_bundle_path = demo_dir ''a'' ''1'', ipk_path = [''y'']\<rparr>] demo_host) =
   Some (Inl ContainerAlreadyExistError)"
  by code_simp

lemma colon_in_value_is_an_error: "parse_lines [''Package: a'', ''Homepage: http://x''] Map.empty = Inl ValueError"
  by simp

text \<open>The exit code of the program.\<close>

lemma app_update_main_exit_code:
  "app_update_main p update_pkg h =
     map_option (\<lambda>(r, h'). (Inr (if isl r then 1 else 0), h')) (run_mbl_app_update_manager p update_pkg h)"
proof (cases "run_mbl_app_update_manager p update_pkg h")
  case (Some x)
  then show ?thesis by (cases x; cases "fst x") (auto simp: app_update_main_def try_else_def ret_def)
qed (simp add: app_update_main_def try_else_def)

end
