(* ===== verification/App_Boot.thy ===== *)
theory App_Boot imports App_Install begin

text \<open>
  \<open>cli.py\<close> of the application lifecycle manager: the actions of its commands.  \<open>run\<close> and \<open>run-all\<close> bring up the
  installed applications: they run the version with the lowest number and remove the others, so that an update that was
  interrupted before its start is undone when the applications are brought up again.
\<close>

definition run_app_from_parent_dir :: "'x platform \<Rightarrow> string \<Rightarrow> (unit, 'x) py" where
  "run_app_from_parent_dir p app_name =
     (let app_parent_dir = path_join APPS_PATH app_name in
      and_then (look (\<lambda>h. isdir (files h) app_parent_dir)) (\<lambda>there.
        if \<not> there then raise AppNotInstalled
        else and_then (get_oci_bundle_paths p app_parent_dir) (\<lambda>versions.
          case human_sort versions of
            [] \<Rightarrow> ret ()
          | valid_version # invalid_versions \<Rightarrow>
              and_then (run_app p app_name valid_version) (\<lambda>_. for_each (rmtree p) invalid_versions))))"

text \<open>\<open>next\<close> of the walk through a directory that is not there stops the iteration.\<close>

definition run_all_action :: "'x platform \<Rightarrow> (unit, 'x) py" where
  "run_all_action p =
     and_then (look files) (\<lambda>fs.
       if isdir fs APPS_PATH then for_each (run_app_from_parent_dir p) (dirnames fs APPS_PATH) else raise StopIteration)"

datatype action = Run string | Run_all | Terminate string int int | Kill string int

definition run_action :: "'x platform \<Rightarrow> action \<Rightarrow> (unit, 'x) py" where
  "run_action p a =
     (case a of
        Run n \<Rightarrow> run_app_from_parent_dir p n
      | Run_all \<Rightarrow> run_all_action p
      | Terminate n sigterm_timeout sigkill_timeout \<Rightarrow> terminate_app p n sigterm_timeout sigkill_timeout
      | Kill n sigkill_timeout \<Rightarrow> kill_app p n sigkill_timeout)"

definition lifecycle_main :: "'x platform \<Rightarrow> action \<Rightarrow> (int, 'x) py" where
  "lifecycle_main p a = try_else (run_action p a) (\<lambda>_. True) (\<lambda>_. ret 1) (\<lambda>_. ret 0)"

section \<open>Facts\<close>

text \<open>The removal of the other versions.\<close>

interpretation rmtree_loop: item_loop
  "\<lambda>h. outside h = o0 \<and> isdir (files h) q" "\<lambda>d. \<not> prefix d q" "rmtree p"
  "\<lambda>d h. \<not> isdir (files h) d" "\<lambda>_ _. True" "\<lambda>e _. e = OSError"
  for p :: "'x platform" and o0 q
  by unfold_locales (auto simp: rmtree_def wp_simps)

lemma wp_run_app_from_parent_dir:
  assumes c: "runc_contract p view" and n: "plain_name n" "valid_name n" and ks: "ks \<noteq> []" "distinct ks"
    and found: "get_oci_bundle_paths p (APPS_PATH @ [n]) h = Some (Inr (map (version_dir n) ks), h)"
  shows "wp (run_app_from_parent_dir p n)
    (\<lambda>_ h'. view (outside h') n = Some (path_str (version_dir n (Min (set ks))), True) \<and>
       isdir (files h') (version_dir n (Min (set ks))) \<and>
       (\<forall>k \<in> set ks - {Min (set ks)}. \<not> isdir (files h') (version_dir n k))) (\<lambda>_ _. True) h"
proof -
  let ?low = "version_dir n (Min (set ks))"
  have j: "path_join APPS_PATH n = APPS_PATH @ [n]" using n(2) path_join_plain by (simp add: valid_name_def)
  obtain k others where s: "sort ks = k # others" using ks(1) by (metis list.exhaust set_empty set_sort)
  have k: "k = Min (set ks)" using hd_sort [OF ks(1)] s by simp
  have o: "set others = set ks - {k}" using s ks(2) by (metis Diff_insert_absorb distinct.simps(2) distinct_sort list.simps(15) set_sort)
  have v: "\<not> prefix (version_dir n i) (version_dir n j)" if "i \<noteq> j" for i j
    using that py_int_decimal [of i] py_int_decimal [of j] by (auto simp: version_dir_def)
  have home: "prefix [''home''] ?low" by (simp add: version_dir_def APPS_PATH_def)
  have rest: "wp (for_each (rmtree p) (map (version_dir n) others))
      (\<lambda>_ h''. view (outside h'') n = Some (path_str ?low, True) \<and> isdir (files h'') ?low \<and>
         (\<forall>k \<in> set ks - {Min (set ks)}. \<not> isdir (files h'') (version_dir n k))) (\<lambda>_ _. True) h'"
    if "view (outside h') n = Some (path_str ?low, True)" "isdir (files h') ?low" for h'
  proof (rule wp_mono [OF rmtree_loop.loop_achieves [where ?o0.0 = "outside h'" and q = ?low]])
    show "sorted_wrt (\<lambda>_ _. True) (map (version_dir n) others)" by (rule sorted_wrt_True)
    show "\<not> prefix d ?low" if "d \<in> set (map (version_dir n) others)" for d
      using that o v k by auto
  qed (use that o k in auto)
  have f: "wp (get_oci_bundle_paths p (APPS_PATH @ [n])) (\<lambda>r h'. r = map (version_dir n) ks \<and> h' = h) (\<lambda>_ _. True) h"
    by (simp add: wp_def found)
  show ?thesis
    unfolding run_app_from_parent_dir_def j Let_def wp_then_look wp_if wp_raise wp_and_then [of "get_oci_bundle_paths p _"]
    by (auto intro!: wp_mono [OF f] simp: human_sort_version_dirs s k [symmetric] wp_and_then)
      (rule wp_mono [OF wp_run_app [OF c n(1)]], use rest home k in auto)
qed

section \<open>Properties\<close>

text \<open>C19: an interruption between the installation and the start of an update.  When an installation was given the current and
  the new bundle of an application, and the application is later brought up with the new bundle beside the old ones, then its run
  starts the bundle that was current and removes the new one.\<close>

theorem reboot_before_start_keeps_current:
  assumes "runc_contract p view" and "plain_name n" and "valid_name n"
    and "ks \<noteq> []" and "distinct ks" and "isdir (files h) (APPS_PATH @ [n])"
    and "get_oci_bundle_paths p (APPS_PATH @ [n]) h = Some (Inr (map (version_dir n) ks), h)"
    and "get_app_bundle_paths p n h = Some (Inr (Some (Some cur, version_dir n new)), h)"
    and "set ls = insert new (set ks)" and "distinct ls"
    and "get_oci_bundle_paths p (APPS_PATH @ [n]) g = Some (Inr (map (version_dir n) ls), g)"
    and "run_app_from_parent_dir p n g = Some (Inr (), g')"
  shows "view (outside g') n = Some (path_str cur, True) \<and> isdir (files g') cur \<and> \<not> isdir (files g') (version_dir n new)"
proof -
  have e: "cur = version_dir n (Min (set ks))" "version_dir n new = version_dir n (Max (set ks) + 1)"
    using get_app_bundle_paths_versions [OF assms(3,6,4,7)] assms(8) by simp_all
  then have new: "new = Max (set ks) + 1"
    using py_int_decimal [of new] py_int_decimal [of "Max (set ks) + 1"] by (simp add: version_dir_def)
  have m: "Min (set ks) \<le> Max (set ks)" using assms(4) by (metis List.finite_set Max_ge Min_in set_empty)
  have "Min (set ls) = min new (Min (set ks))" using assms(4,9) by (simp only: Min_insert List.finite_set set_empty) simp
  then have low: "Min (set ls) = Min (set ks)" "new \<in> set ls - {Min (set ls)}"
    using assms(9) new m by simp_all
  have ls: "ls \<noteq> []" using assms(9) by auto
  from wp_result [OF wp_run_app_from_parent_dir [OF assms(1,2,3) ls assms(10,11)] assms(12)] low e(1)
  show ?thesis by auto
qed

definition demo_interrupted :: "containers host" where
  "demo_interrupted = demo_versions\<lparr>files := files demo_versions @
     [(APPS_PATH @ [''a'', ''11''], Folder), (APPS_PATH @ [''a'', ''11'', ''rootfs''], Folder),
      (APPS_PATH @ [''a'', ''11'', ''config.json''], Document ''bundle'')]\<rparr>"

lemma demo_interrupted_runs:
  "get_app_bundle_paths (simulated []) ''a'' demo_versions =
     Some (Inr (Some (Some (version_dir ''a'' 9), version_dir ''a'' 11)), demo_versions)"
  "get_oci_bundle_paths (simulated []) (APPS_PATH @ [''a'']) demo_interrupted =
     Some (Inr (map (version_dir ''a'') [10, 9, 11]), demo_interrupted)"
  "map_option fst (run_app_from_parent_dir (simulated []) ''a'' demo_interrupted) = Some (Inr ())"
  by code_simp+

theorem reboot_before_start_keeps_current_witness:
  "\<exists>g'. run_app_from_parent_dir (simulated []) ''a'' demo_interrupted = Some (Inr (), g') \<and>
     map_of (outside g') ''a'' = Some (path_str (version_dir ''a'' 9), True) \<and> \<not> isdir (files g') (version_dir ''a'' 11)"
proof -
  obtain g' where run: "run_app_from_parent_dir (simulated []) ''a'' demo_interrupted = Some (Inr (), g')"
    using demo_interrupted_runs(3) by auto
  have a: "plain_name ''a''" "valid_name ''a''" "isdir (files demo_versions) (APPS_PATH @ [''a''])"
    by (auto simp: plain_name_def valid_name_def demo_versions_def isdir_def APPS_PATH_def)
  from reboot_before_start_keeps_current [OF simulated_runc a(1,2) _ _ a(3) demo_versions_found demo_interrupted_runs(1)
      _ _ demo_interrupted_runs(2) run] run
  show ?thesis by auto
qed

end
