(* ===== verification/App_Reboot.thy ===== *)
theory App_Reboot imports App_Boot begin

text \<open>
  An update across a reboot: which bundles are on the device after each step of the update manager, and which of them
  the lifecycle manager brings up when the containers are gone.
\<close>

section \<open>Bundles\<close>








section \<open>What each part of the update manager changes\<close>

definition same_home :: "'x host \<Rightarrow> 'x host \<Rightarrow> bool" where
  "same_home h h' \<longleftrightarrow> (\<forall>q. prefix [''home''] q \<longrightarrow> map_of (files h') q = map_of (files h) q)"

lemma same_home_refl [simp]: "same_home h h"
  by (simp add: same_home_def)











text \<open>
  After its installation an application has the new bundle, and in its directory everything else is as it was.  Those of the
  other applications are as they were.
\<close>

definition app_dir :: "string \<Rightarrow> location" where "app_dir n = APPS_PATH @ [n]"



lemma app_dir_facts [simp]:
  "prefix (app_dir m) (app_dir n) \<longleftrightarrow> m = n"
  "strict_prefix (app_dir m) (app_dir n @ [k]) \<longleftrightarrow> m = n"
  by (auto simp: app_dir_def strict_prefix_def)













section \<open>The bundles after an update\<close>








section \<open>Bringing up\<close>


section \<open>Properties\<close>









end
