(* ===== verification/Shell.thy ===== *)
theory Shell imports App_Manager Human_Sort begin

text \<open>
  What the shell scripts use of the shell and of its commands, as statements over the machine of \<open>Python\<close>.  The commands
  on files are modelled on the tree of files (\<open>refuses\<close> says which operations the system refuses); all other commands are run by
  the platform.  A command ends with a status, here whether it was zero; \<open>exit n\<close> raises \<open>Exit n\<close>.
\<close>

section \<open>Statements\<close>

definition sh_exit :: "int \<Rightarrow> ('a, 'x) py" where
  "sh_exit n = raise (Exit n)"

definition status :: "(unit, 'x) py \<Rightarrow> (bool, 'x) py" where
  "status m = try_else m (\<lambda>e. e = OSError) (\<lambda>_. ret False) (\<lambda>_. ret True)"

text \<open>\<open>if ! m; then exit n; fi\<close>\<close>

definition or_exit :: "int \<Rightarrow> (bool, 'x) py \<Rightarrow> (unit, 'x) py" where
  "or_exit n m = and_then m (\<lambda>ok. if ok then ret () else sh_exit n)"

fun is_exit :: "exn \<Rightarrow> bool" where
  "is_exit (Exit n) = True"
| "is_exit _ = False"

fun exit_code :: "exn \<Rightarrow> int" where
  "exit_code (Exit n) = n"
| "exit_code _ = 0"

text \<open>The command substitution of a function: it runs in a subshell, so an \<open>exit\<close> in it only gives the status.\<close>

definition captured :: "(string, 'x) py \<Rightarrow> (int \<times> string, 'x) py" where
  "captured m = try_else m is_exit (\<lambda>e. ret (exit_code e, [])) (\<lambda>out. ret (0, out))"

text \<open>A script as a command.\<close>

definition run_script :: "(unit, 'x) py \<Rightarrow> (int, 'x) py" where
  "run_script m = try_else m is_exit (\<lambda>e. ret (exit_code e)) (\<lambda>_. ret 0)"

text \<open>A command on several arguments goes on after an error, which its status shows.\<close>

primrec all_ok :: "('a \<Rightarrow> (bool, 'x) py) \<Rightarrow> 'a list \<Rightarrow> (bool, 'x) py" where
  "all_ok f [] = ret True"
| "all_ok f (x # xs) = and_then (f x) (\<lambda>a. and_then (all_ok f xs) (\<lambda>b. ret (a \<and> b)))"

section \<open>Commands\<close>

text \<open>A command of the platform with its status and output; one that cannot be run has the status 127.\<close>

definition command :: "'x platform \<Rightarrow> string list \<Rightarrow> (int \<times> string, 'x) py" where
  "command p cmd = try_else (subprocess_run p cmd) (\<lambda>e. e = OSError) (\<lambda>_. ret (127, [])) ret"

definition command_ok :: "'x platform \<Rightarrow> string list \<Rightarrow> (bool, 'x) py" where
  "command_ok p cmd = and_then (command p cmd) (\<lambda>(rc, _). ret (rc = 0))"

definition sh_exists :: "location \<Rightarrow> (bool, 'x) py" where
  "sh_exists f = look (\<lambda>h. map_of (files h) f \<noteq> None)"

definition rm_f :: "'x platform \<Rightarrow> location \<Rightarrow> (bool, 'x) py" where
  "rm_f p f = and_then (sh_exists f) (\<lambda>there. if there then status (os_remove p f) else ret True)"

definition rm_rf :: "'x platform \<Rightarrow> location \<Rightarrow> (bool, 'x) py" where
  "rm_rf p d = and_then (look (\<lambda>h. map_of (files h) d)) (\<lambda>there.
     case there of
       None \<Rightarrow> ret True
     | Some Folder \<Rightarrow> status (rmtree p d)
     | Some (Document _) \<Rightarrow> status (os_remove p d))"

definition mkdir_p :: "'x platform \<Rightarrow> location \<Rightarrow> (bool, 'x) py" where
  "mkdir_p p d = status (makedirs p d)"

definition touch :: "'x platform \<Rightarrow> location \<Rightarrow> (bool, 'x) py" where
  "touch p f = and_then (sh_exists f) (\<lambda>there. if there then ret True else status (put_file p f (\<lambda>_. [])))"

definition cp :: "'x platform \<Rightarrow> location \<Rightarrow> location \<Rightarrow> (bool, 'x) py" where
  "cp p src dst = status (and_then (read_file p src) (\<lambda>text.
     and_then (look (\<lambda>h. isdir (files h) dst)) (\<lambda>into.
       put_file p (if into then dst @ [last src] else dst) (\<lambda>_. text))))"

text \<open>\<open>cp\<close> of several files\<close>

definition cp_all :: "'x platform \<Rightarrow> location list \<Rightarrow> location \<Rightarrow> (bool, 'x) py" where
  "cp_all p srcs dst = and_then (look (\<lambda>h. isdir (files h) dst)) (\<lambda>into.
     if into \<or> length srcs = 1 then all_ok (\<lambda>src. cp p src dst) srcs else ret False)"

text \<open>\<open>$(cat f)\<close>, without the newlines at the end; nothing if the file cannot be read\<close>

definition strip_newlines :: "string \<Rightarrow> string" where
  "strip_newlines s = rev (dropWhile (\<lambda>c. c = CHR 0x0A) (rev s))"

definition cat :: "'x platform \<Rightarrow> location \<Rightarrow> (bool \<times> string, 'x) py" where
  "cat p f = try_else (read_file p f) (\<lambda>e. e = OSError) (\<lambda>_. ret (False, [])) (\<lambda>s. ret (True, strip_newlines s))"

text \<open>\<open>d/*\<close>, where names that start with a dot are left out\<close>

definition glob :: "files \<Rightarrow> location \<Rightarrow> location list" where
  "glob fs d = map (\<lambda>n. d @ [n]) (filter (\<lambda>n. take 1 n \<noteq> ''.'') (remdups (children fs d)))"

text \<open>A pattern without a match stands for itself.\<close>

definition glob_words :: "files \<Rightarrow> location \<Rightarrow> location list" where
  "glob_words fs d = (if glob fs d = [] then [d @ [''*'']] else glob fs d)"

text \<open>\<open>cmd > f\<close>: the file is emptied before the command runs.  And \<open>wc -c < f\<close>.\<close>

definition redirected :: "'x platform \<Rightarrow> string list \<Rightarrow> location \<Rightarrow> (bool, 'x) py" where
  "redirected p cmd f = and_then (status (put_file p f (\<lambda>_. []))) (\<lambda>opened.
     if \<not> opened then ret False
     else and_then (command p cmd) (\<lambda>(rc, out).
       and_then (status (put_file p f (\<lambda>_. out))) (\<lambda>written. ret (rc = 0 \<and> written))))"

definition wc_c :: "'x platform \<Rightarrow> location \<Rightarrow> (nat option, 'x) py" where
  "wc_c p f = try_else (read_file p f) (\<lambda>e. e = OSError) (\<lambda>_. ret None) (\<lambda>s. ret (Some (length s)))"

section \<open>Texts\<close>

abbreviation newline :: char where "newline \<equiv> CHR 0x0A"

text \<open>\<open>grep -q '^[0-9]\+$'\<close>: whether some line is a number\<close>

definition some_line_is_number :: "string \<Rightarrow> bool" where
  "some_line_is_number s \<longleftrightarrow> (\<exists>l \<in> set (split_at newline s). l \<noteq> [] \<and> list_all is_digit l)"

text \<open>\<open>expr s \* 1024\<close>: it fails for a text that is no number, and with the status 1 if the result is zero\<close>

definition expr_times_1024 :: "string \<Rightarrow> bool \<times> string" where
  "expr_times_1024 s =
     (let d = (case s of c # r \<Rightarrow> if c = CHR ''-'' then r else s | [] \<Rightarrow> [])
      in if d \<noteq> [] \<and> list_all is_digit d
         then (digits_value d \<noteq> 0, (if d = s then [] else if digits_value d = 0 then [] else ''-'') @ decimal (digits_value d * 1024))
         else (False, []))"

text \<open>The fields of a line, and what \<open>awk\<close> prints: one line for each line of its input that matches.\<close>

definition blank :: "char \<Rightarrow> bool" where
  "blank c \<longleftrightarrow> c = CHR '' '' \<or> c = CHR 0x09"

function fields :: "string \<Rightarrow> string list" where
  "fields s = (let t = dropWhile blank s in
     if t = [] then [] else takeWhile (\<lambda>c. \<not> blank c) t # fields (dropWhile (\<lambda>c. \<not> blank c) t))"
  by pat_completeness auto
termination
proof (relation "measure length")
  fix s t :: string
  assume t: "t = dropWhile blank s" and "t \<noteq> []"
  then obtain c cs where c: "t = c # cs" "\<not> blank c" by (metis hd_dropWhile list.exhaust_sel)
  have "length (dropWhile (\<lambda>c. \<not> blank c) t) \<le> length cs" using c by (simp add: length_dropWhile_le)
  also have "\<dots> < length t" using c by simp
  also have "\<dots> \<le> length s" unfolding t by (rule length_dropWhile_le)
  finally show "(dropWhile (\<lambda>c. \<not> blank c) t, s) \<in> measure length" by simp
qed simp

declare fields.simps [simp del]

definition nth_field :: "nat \<Rightarrow> string \<Rightarrow> string" where
  "nth_field i l = (let fs = fields l in if i < length fs then fs ! i else [])"

definition joined :: "string list \<Rightarrow> string" where
  "joined ls = (case ls of [] \<Rightarrow> [] | l # ls \<Rightarrow> foldl (\<lambda>s l. s @ newline # l) l ls)"

text \<open>The lines of a text that ends with a newline or was cut off at its newlines\<close>

definition text_lines :: "string \<Rightarrow> string list" where
  "text_lines s = (if strip_newlines s = [] then [] else split_at newline (strip_newlines s))"

text \<open>\<open>${s%v?}\<close> and \<open>${s%.xz}\<close>, and \<open>basename s .xz\<close>\<close>

definition drop_version :: "string \<Rightarrow> string" where
  "drop_version s = (if length s \<ge> 2 \<and> s ! (length s - 2) = CHR ''v'' then take (length s - 2) s else s)"

definition drop_xz :: "string \<Rightarrow> string" where
  "drop_xz s = (if suffix ''.xz'' s then take (length s - 3) s else s)"

definition base_name_xz :: "string \<Rightarrow> string" where
  "base_name_xz s =
     (if s = [] then [] else if comps s = [] then ''/''
      else let b = last (comps s) in if b = ''.xz'' then b else drop_xz b)"

section \<open>Rules\<close>

lemma wp_always: "wp m Q (\<lambda>_ _. False) h \<Longrightarrow> \<exists>a h'. m h = Some (Inr a, h') \<and> Q a h'"
  unfolding wp_iff by (metis (no_types) old.sum.exhaust old.sum.simps(5,6))

lemma wp_sh_exit [wp_simps]: "wp (sh_exit n) Q E h = E (Exit n) h"
  by (simp add: sh_exit_def wp_simps)

lemma wp_status [wp_simps]: "wp (status m) Q E h = wp m (\<lambda>_. Q True) (\<lambda>e h. if e = OSError then Q False h else E e h) h"
  by (auto simp: status_def wp_def try_else_def ret_def split: option.split sum.split)

lemma wp_or_exit [wp_simps]: "wp (or_exit n m) Q E h = wp m (\<lambda>ok h. if ok then Q () h else E (Exit n) h) E h"
  by (auto simp: or_exit_def wp_def and_then_def ret_def sh_exit_def raise_def split: option.split sum.split)

lemma wp_captured [wp_simps]:
  "wp (captured m) Q E h = wp m (\<lambda>s. Q (0, s)) (\<lambda>e h. if is_exit e then Q (exit_code e, []) h else E e h) h"
  by (auto simp: captured_def wp_def try_else_def ret_def split: option.split sum.split)

lemma wp_run_script [wp_simps]:
  "wp (run_script m) Q E h = wp m (\<lambda>_. Q 0) (\<lambda>e h. if is_exit e then Q (exit_code e) h else E e h) h"
  by (auto simp: run_script_def wp_def try_else_def ret_def split: option.split sum.split)

lemma wp_all_ok_aux:
  assumes "I S ok h" and "\<And>S ok x h. x \<in> set xs \<Longrightarrow> I S ok h \<Longrightarrow> wp (f x) (\<lambda>a. I (insert x S) (ok \<and> a)) E h"
  shows "wp (all_ok f xs) (\<lambda>a. I (S \<union> set xs) (ok \<and> a)) E h"
  using assms
proof (induction xs arbitrary: S ok h)
  case (Cons x xs)
  have rest: "wp (and_then (all_ok f xs) (\<lambda>b. ret (a \<and> b))) (\<lambda>b. I (S \<union> set (x # xs)) (ok \<and> b)) E g"
    if "I (insert x S) (ok \<and> a) g" for a g
    unfolding wp_and_then
    by (rule wp_mono [OF Cons.IH [of "insert x S" "ok \<and> a" g]]) (use that Cons.prems(2) in \<open>auto simp: wp_ret conj_assoc\<close>)
  show ?case
    unfolding all_ok.simps
    by (subst wp_and_then) (rule wp_mono [OF Cons.prems(2) [OF _ Cons.prems(1)] rest], auto)
qed (simp add: wp_simps)

lemma wp_all_ok:
  assumes "I {} True h" and "\<And>S ok x h. x \<in> set xs \<Longrightarrow> I S ok h \<Longrightarrow> wp (f x) (\<lambda>a. I (insert x S) (ok \<and> a)) E h"
  shows "wp (all_ok f xs) (I (set xs)) E h"
  using wp_all_ok_aux [where I = I, OF assms] by simp

text \<open>What a command of the platform ends with, and the machine after it.\<close>

definition outcome :: "'x platform \<Rightarrow> string list \<Rightarrow> 'x host \<Rightarrow> int \<times> string" where
  "outcome p cmd h = (case fst (exec p cmd h) of None \<Rightarrow> (127, []) | Some r \<Rightarrow> r)"

definition after :: "'x platform \<Rightarrow> string list \<Rightarrow> 'x host \<Rightarrow> 'x host" where
  "after p cmd h = (snd (exec p cmd h))\<lparr>history := history h @ (if fst (exec p cmd h) = None then [] else [cmd])\<rparr>"

lemma wp_command [wp_simps]: "wp (command p cmd) Q E h = Q (outcome p cmd h) (after p cmd h)"
  by (simp add: command_def wp_simps outcome_def after_def split: prod.split option.split)

lemma wp_command_ok [wp_simps]: "wp (command_ok p cmd) Q E h = Q (fst (outcome p cmd h) = 0) (after p cmd h)"
  by (simp add: command_ok_def wp_simps split: prod.split)

lemma wp_sh_exists [wp_simps]: "wp (sh_exists f) Q E h = Q (map_of (files h) f \<noteq> None) h"
  by (simp add: sh_exists_def wp_simps)

lemma wp_read_file:
  "wp (read_file p f) Q E h = (case map_of (files h) f of
     Some (Document s) \<Rightarrow> if refuses p (Open_file f) h then E OSError h else Q s h | _ \<Rightarrow> E OSError h)"
  by (simp add: read_file_def wp_simps split: option.split document.split)

text \<open>The file that a program reads: nothing if it is not there, is a directory or is refused.\<close>

definition readable :: "'x platform \<Rightarrow> location \<Rightarrow> 'x host \<Rightarrow> string option" where
  "readable p f h = (case map_of (files h) f of Some (Document s) \<Rightarrow> if refuses p (Open_file f) h then None else Some s | _ \<Rightarrow> None)"

lemma wp_cat [wp_simps]:
  "wp (cat p f) Q E h = Q (case readable p f h of None \<Rightarrow> (False, []) | Some s \<Rightarrow> (True, strip_newlines s)) h"
  by (simp add: cat_def wp_try_else wp_read_file wp_ret readable_def split: option.split document.split)

lemma wp_wc_c [wp_simps]: "wp (wc_c p f) Q E h = Q (map_option length (readable p f h)) h"
  by (simp add: wc_c_def wp_try_else wp_read_file wp_ret readable_def split: option.split document.split)

text \<open>What removing, and writing, a file does to the machine where it succeeds.\<close>

definition without_file :: "location \<Rightarrow> 'x host \<Rightarrow> 'x host" where
  "without_file f h = h\<lparr>files := filter (\<lambda>(q, d). q \<noteq> f) (files h)\<rparr>"

definition with_file :: "location \<Rightarrow> string \<Rightarrow> 'x host \<Rightarrow> 'x host" where
  "with_file f s h = h\<lparr>files := (f, Document s) # filter (\<lambda>(q, d). q \<noteq> f) (files h)\<rparr>"

lemma file_ops [simp]:
  "map_of (files (without_file f h)) q = (if q = f then None else map_of (files h) q)"
  "map_of (files (with_file f s h)) q = (if q = f then Some (Document s) else map_of (files h) q)"
  "outside (without_file f h) = outside h" "outside (with_file f s h) = outside h"
  "history (without_file f h) = history h" "history (with_file f s h) = history h"
  by (auto simp: without_file_def with_file_def)

definition removable :: "'x platform \<Rightarrow> location \<Rightarrow> 'x host \<Rightarrow> bool" where
  "removable p f h \<longleftrightarrow> \<not> refuses p (Remove_file f) h \<and> isfile_at (files h) f"

definition writable :: "'x platform \<Rightarrow> location \<Rightarrow> 'x host \<Rightarrow> bool" where
  "writable p f h \<longleftrightarrow> \<not> refuses p (Open_file f) h \<and> f \<noteq> [] \<and> isdir (files h) (butlast f) \<and> \<not> isdir (files h) f"

lemma wp_os_remove_file [wp_simps]: "wp (os_remove p f) Q E h = (if removable p f h then Q () (without_file f h) else E OSError h)"
  by (simp add: os_remove_def wp_simps removable_def without_file_def)

lemma wp_put_file:
  "wp (put_file p f (\<lambda>_. s)) Q E h = (if writable p f h then Q () (with_file f s h) else E OSError h)"
  by (simp add: put_file_def wp_simps writable_def with_file_def)

lemma wp_rm_f [wp_simps]:
  "wp (rm_f p f) Q E h =
     (if map_of (files h) f = None then Q True h else if removable p f h then Q True (without_file f h) else Q False h)"
  by (simp add: rm_f_def wp_simps)

lemma wp_touch [wp_simps]:
  "wp (touch p f) Q E h =
     (if map_of (files h) f \<noteq> None then Q True h else if writable p f h then Q True (with_file f [] h) else Q False h)"
  by (simp add: touch_def wp_simps wp_put_file)

lemma wp_cp [wp_simps]:
  "wp (cp p src dst) Q E h =
     (let f = (if isdir (files h) dst then dst @ [last src] else dst)
      in case readable p src h of None \<Rightarrow> Q False h
         | Some s \<Rightarrow> if writable p f h then Q True (with_file f s h) else Q False h)"
  by (simp add: cp_def wp_simps wp_put_file wp_read_file readable_def Let_def split: option.split document.split)

lemma wp_redirected:
  "wp (redirected p cmd f) Q E h =
     (if writable p f h
      then let g = with_file f [] h; (rc, out) = outcome p cmd g; h' = after p cmd g
        in if writable p f h' then Q (rc = 0) (with_file f out h') else Q False h'
      else Q False h)"
  by (simp add: redirected_def wp_simps wp_put_file Let_def split: prod.split)

lemma wp_rm_rf:
  "wp (rm_rf p d) Q E h =
     (case map_of (files h) d of
        None \<Rightarrow> Q True h
      | Some Folder \<Rightarrow> if refuses p (Rmtree d) h then Q False h else Q True (h\<lparr>files := without_tree d (files h)\<rparr>)
      | Some (Document _) \<Rightarrow> if removable p d h then Q True (without_file d h) else Q False h)"
  by (simp add: rm_rf_def rmtree_def wp_simps isdir_def split: option.split document.split)

lemma wp_mkdir_p:
  "wp (mkdir_p p d) Q E h =
     (case make_path (files h) [] d of
        None \<Rightarrow> Q False h | Some fs \<Rightarrow> if refuses p (Makedirs d) h then Q False h else Q True (h\<lparr>files := fs\<rparr>))"
  by (simp add: mkdir_p_def makedirs_def wp_simps split: option.split)

end
