(* ===== verification/Update_Scripts.thy ===== *)
theory Update_Scripts imports Shell begin

text \<open>
  The scripts of the cloud client that activate an update: \<open>arm_update_common.sh.in\<close>, \<open>arm_update_activate.sh\<close> (which calls
  swupdate), \<open>arm_update_active_details.sh\<close>, and the installers that the handlers of swupdate call,
  \<open>bootloader_installer.sh\<close> and \<open>boot_partition_installer.sh\<close>.  Messages and the redirection into log files are left out,
  \<open>expr\<close> and \<open>[\<close> compute without a bound, and a relative path starts at the root.  What concerns devices is left to commands
  of the platform: \<open>lsblk\<close>, \<open>[ -b\<close>, \<open>mount\<close>, \<open>dd\<close>, \<open>tar\<close>, \<open>du\<close>, \<open>xzcat\<close>, \<open>sync\<close>, \<open>realpath\<close>, \<open>swupdate\<close> and \<open>systemctl\<close>.
\<close>

section \<open>The common part\<close>

text \<open>The directories that are set when the scripts are built, with the defaults of the build.\<close>

record script_config =
  FLAGS_DIR :: location
  TMP_DIR :: location
  UPDATE_PAYLOAD_DIR :: location
  PAYLOAD_TMP_DIR :: location
  PART_INFO_DIR :: location

definition default_script_config :: script_config where
  "default_script_config =
     \<lparr>FLAGS_DIR = [''var'', ''bootflags''], TMP_DIR = [''tmp''], UPDATE_PAYLOAD_DIR = [''tmp''],
      PAYLOAD_TMP_DIR = [''tmp'', ''arm_update_activate''], PART_INFO_DIR = [''config'', ''factory'', ''part-info'']\<rparr>"

definition SAVED_HEADER_PATH :: "script_config \<Rightarrow> location" where
  "SAVED_HEADER_PATH cfg = FLAGS_DIR cfg @ [''header'']"

definition exit_on_error :: "int \<Rightarrow> (unit, 'x) py" where
  "exit_on_error eoeStatus = (if eoeStatus \<noteq> 0 then sh_exit eoeStatus else ret ())"

text \<open>The second field of the lines that are about the root, as the command substitution gives it.\<close>

definition root_device_name :: "string \<Rightarrow> string" where
  "root_device_name lsblk_output = strip_newlines (joined (map (nth_field 1) (filter (prefix ''/ '') (text_lines lsblk_output))))"

definition get_device_for_mbl_partitions :: "'x platform \<Rightarrow> (int \<times> string, 'x) py" where
  "get_device_for_mbl_partitions p =
     and_then (command p [''lsblk'', ''-n'', ''-o'', ''MOUNTPOINT,PKNAME'']) (\<lambda>(rc, gdmpLsblkOutput).
       if rc \<noteq> 0 then ret (1, [])
       else let gdmpDevicePath = ''/dev/'' @ root_device_name gdmpLsblkOutput in
         and_then (command_ok p [''['', ''-b'', gdmpDevicePath, '']'']) (\<lambda>is_block.
           if is_block then ret (0, strip_newlines gdmpDevicePath) else ret (1, [])))"

definition remount_partition_or_die :: "'x platform \<Rightarrow> string \<Rightarrow> string \<Rightarrow> (unit, 'x) py" where
  "remount_partition_or_die p mount_point mount_opts =
     or_exit 10 (command_ok p [''mount'', ''-o'', ''remount,'' @ mount_opts, mount_point])"

definition validate_positive_integer_or_die :: "string \<Rightarrow> (unit, 'x) py" where
  "validate_positive_integer_or_die s = (if some_line_is_number s then ret () else sh_exit 11)"

definition copy_dir_or_die :: "'x platform \<Rightarrow> location \<Rightarrow> string \<Rightarrow> (unit, 'x) py" where
  "copy_dir_or_die p source_path mnt_point =
     and_then (remount_partition_or_die p mnt_point ''rw'') (\<lambda>_.
       and_then (or_exit 12 (and_then (look (\<lambda>h. glob_words (files h) (comps mnt_point))) (all_ok (rm_f p)))) (\<lambda>_.
         and_then (or_exit 13 (and_then (look (\<lambda>h. glob_words (files h) source_path)) (\<lambda>fs. cp_all p fs (comps mnt_point)))) (\<lambda>_.
           remount_partition_or_die p mnt_point ''ro'')))"

definition decompress_or_die :: "'x platform \<Rightarrow> string \<Rightarrow> string \<Rightarrow> (unit, 'x) py" where
  "decompress_or_die p compressed_path decompressed_path =
     or_exit 17 (redirected p [''xzcat'', compressed_path] (comps decompressed_path))"

definition do_not_reboot_flag :: "script_config \<Rightarrow> location" where
  "do_not_reboot_flag cfg = TMP_DIR cfg @ [''do_not_reboot'']"

definition remove_do_not_reboot_flag_or_die :: "script_config \<Rightarrow> 'x platform \<Rightarrow> (unit, 'x) py" where
  "remove_do_not_reboot_flag_or_die cfg p = or_exit 18 (rm_f p (do_not_reboot_flag cfg))"

text \<open>The files that describe a partition\<close>

definition part_info :: "script_config \<Rightarrow> string \<Rightarrow> string \<Rightarrow> location" where
  "part_info cfg part_name var_name = PART_INFO_DIR cfg @ [''MBL_'' @ part_name @ ''_'' @ var_name]"

definition is_part_skipped :: "script_config \<Rightarrow> 'x platform \<Rightarrow> string \<Rightarrow> (bool, 'x) py" where
  "is_part_skipped cfg p part_name =
     and_then (cat p (part_info cfg (drop_version part_name) ''SKIP'')) (\<lambda>(_, skip). ret (skip = ''1''))"

definition get_part_size_var_B :: "script_config \<Rightarrow> 'x platform \<Rightarrow> string \<Rightarrow> string \<Rightarrow> (string, 'x) py" where
  "get_part_size_var_B cfg p part_name var_name =
     and_then (cat p (part_info cfg (drop_version part_name) (var_name @ ''_KiB''))) (\<lambda>(_, size_KiB).
       and_then (validate_positive_integer_or_die size_KiB) (\<lambda>_.
         let size_B = snd (expr_times_1024 size_KiB)
         in and_then (validate_positive_integer_or_die size_B) (\<lambda>_. ret size_B)))"

definition get_part_size_B :: "script_config \<Rightarrow> 'x platform \<Rightarrow> string \<Rightarrow> (string, 'x) py" where
  "get_part_size_B cfg p part_name = get_part_size_var_B cfg p part_name ''SIZE''"

definition get_part_offset_B :: "script_config \<Rightarrow> 'x platform \<Rightarrow> string \<Rightarrow> string \<Rightarrow> (string, 'x) py" where
  "get_part_offset_B cfg p part_name bank =
     get_part_size_var_B cfg p part_name (''OFFSET_BANK'' @ (if bank = [] then ''1'' else bank))"

section \<open>The installer of boot loaders\<close>

definition dd_command :: "string \<Rightarrow> string \<Rightarrow> string \<Rightarrow> string list" where
  "dd_command file device offset_B =
     [''dd'', ''if='' @ file, ''of='' @ device, ''oflag=seek_bytes'', ''conv=fsync'', ''seek='' @ offset_B]"

definition write_to_flash_or_die :: "'x platform \<Rightarrow> string \<Rightarrow> string \<Rightarrow> string \<Rightarrow> (unit, 'x) py" where
  "write_to_flash_or_die p file offset_B max_size_B =
     and_then (get_device_for_mbl_partitions p) (\<lambda>(rc, device_path).
     and_then (exit_on_error rc) (\<lambda>_.
     and_then (wc_c p (comps file)) (\<lambda>size.
       case size of
         None \<Rightarrow> sh_exit 59
       | Some actual_size_B \<Rightarrow>
           if actual_size_B > digits_value max_size_B then sh_exit 60
           else and_then (or_exit 63 (command_ok p (dd_command file device_path offset_B))) (\<lambda>_.
             and_then (command p [''sync'']) (\<lambda>_. ret ())))))"

definition update_bootloader_or_die :: "script_config \<Rightarrow> 'x platform \<Rightarrow> string \<Rightarrow> (unit, 'x) py" where
  "update_bootloader_or_die cfg p path =
     (let part = base_name_xz path in
      and_then (is_part_skipped cfg p part) (\<lambda>skipped.
        if skipped then sh_exit 32
        else and_then (captured (get_part_size_B cfg p part)) (\<lambda>(rc, max_size_B).
          and_then (exit_on_error rc) (\<lambda>_.
          and_then (captured (get_part_offset_B cfg p part ''1'')) (\<lambda>(rc, offset_B).
          and_then (exit_on_error rc) (\<lambda>_.
          and_then (decompress_or_die p path (drop_xz path)) (\<lambda>_.
          and_then (write_to_flash_or_die p (drop_xz path) offset_B max_size_B) (\<lambda>_.
            remove_do_not_reboot_flag_or_die cfg p))))))))"

definition bootloader_installer :: "script_config \<Rightarrow> 'x platform \<Rightarrow> string \<Rightarrow> (int, 'x) py" where
  "bootloader_installer cfg p path = run_script (and_then (update_bootloader_or_die cfg p path) (\<lambda>_. sh_exit 0))"

section \<open>The installer of the boot partition\<close>

definition update_boot_part_from_dir_or_die ::
    "script_config \<Rightarrow> 'x platform \<Rightarrow> string \<Rightarrow> location \<Rightarrow> string \<Rightarrow> string \<Rightarrow> (unit, 'x) py" where
  "update_boot_part_from_dir_or_die cfg p part_name dir size_estimate_B skip_ok =
     and_then (is_part_skipped cfg p part_name) (\<lambda>skipped.
       if skipped then (if skip_ok \<noteq> ''yes'' then sh_exit 65 else ret ())
       else and_then (captured (get_part_size_B cfg p part_name)) (\<lambda>(rc, max_size_B).
         and_then (exit_on_error rc) (\<lambda>_.
           if digits_value size_estimate_B > digits_value max_size_B then sh_exit 60
           else and_then (cat p (part_info cfg part_name ''MOUNT_POINT'')) (\<lambda>(found, mount_point).
             if \<not> found \<or> mount_point = [] then sh_exit 31
             else and_then (copy_dir_or_die p dir mount_point) (\<lambda>_. remove_do_not_reboot_flag_or_die cfg p)))))"

definition boot_tmp_dir :: "script_config \<Rightarrow> location" where
  "boot_tmp_dir cfg = PAYLOAD_TMP_DIR cfg @ [''boot'']"

definition update_boot_or_die :: "script_config \<Rightarrow> 'x platform \<Rightarrow> string \<Rightarrow> (unit, 'x) py" where
  "update_boot_or_die cfg p path =
     (let tmp_dir = boot_tmp_dir cfg in
      and_then (or_exit 62 (mkdir_p p tmp_dir)) (\<lambda>_.
      and_then (or_exit 58 (command_ok p [''tar'', ''-xf'', path, ''-C'', path_str tmp_dir])) (\<lambda>_.
      and_then (command p [''du'', ''-k'', path_str tmp_dir]) (\<lambda>(_, du_output).
        let (ok, size_estimate_B) = expr_times_1024 (strip_newlines (joined (map (nth_field 0) (text_lines du_output))))
        in if \<not> ok then sh_exit 59
           else and_then (validate_positive_integer_or_die size_estimate_B) (\<lambda>_.
             and_then (update_boot_part_from_dir_or_die cfg p ''BOOT'' tmp_dir size_estimate_B ''no'') (\<lambda>_.
             and_then (update_boot_part_from_dir_or_die cfg p ''WKS_BOOTLOADER_FS'' tmp_dir size_estimate_B ''yes'') (\<lambda>_.
               remove_do_not_reboot_flag_or_die cfg p)))))))"

definition boot_partition_installer :: "script_config \<Rightarrow> 'x platform \<Rightarrow> string \<Rightarrow> (int, 'x) py" where
  "boot_partition_installer cfg p path = run_script (and_then (update_boot_or_die cfg p path) (\<lambda>_. sh_exit 0))"

section \<open>The activation\<close>

definition save_header_or_die :: "script_config \<Rightarrow> 'x platform \<Rightarrow> string \<Rightarrow> (unit, 'x) py" where
  "save_header_or_die cfg p hdr =
     and_then (or_exit 21 (cp p (comps hdr) (SAVED_HEADER_PATH cfg))) (\<lambda>_. and_then (command p [''sync'']) (\<lambda>_. ret ()))"

definition clean_up :: "script_config \<Rightarrow> 'x platform \<Rightarrow> (unit, 'x) py" where
  "clean_up cfg p = and_then (rm_rf p (PAYLOAD_TMP_DIR cfg)) (\<lambda>_. ret ())"

definition set_up_payload_tmp_dir_or_die :: "script_config \<Rightarrow> 'x platform \<Rightarrow> (unit, 'x) py" where
  "set_up_payload_tmp_dir_or_die cfg p =
     and_then (or_exit 22 (rm_rf p (PAYLOAD_TMP_DIR cfg))) (\<lambda>_. or_exit 23 (mkdir_p p (PAYLOAD_TMP_DIR cfg)))"

text \<open>The part of the script after \<open>trap clean_up EXIT\<close>\<close>

definition call_swupdate :: "script_config \<Rightarrow> 'x platform \<Rightarrow> string \<Rightarrow> string \<Rightarrow> (unit, 'x) py" where
  "call_swupdate cfg p hdr firmware_path =
     and_then (touch p (do_not_reboot_flag cfg)) (\<lambda>_.
     and_then (or_exit 25 (command_ok p [''swupdate'', ''-i'', firmware_path])) (\<lambda>_.
     and_then (save_header_or_die cfg p hdr) (\<lambda>_.
     and_then (sh_exists (do_not_reboot_flag cfg)) (\<lambda>flag.
       if flag
       then and_then (command p [''systemctl'', ''restart'', ''mbl-cloud-client'']) (\<lambda>(rc, _). exit_on_error rc)
       else ret ()))))"

definition arm_update_activate :: "script_config \<Rightarrow> 'x platform \<Rightarrow> string \<Rightarrow> string \<Rightarrow> (int, 'x) py" where
  "arm_update_activate cfg p hdr firmware =
     run_script (and_then (command p [''realpath'', firmware]) (\<lambda>(rc, out).
       if rc \<noteq> 0 then sh_exit 24
       else and_then (set_up_payload_tmp_dir_or_die cfg p) (\<lambda>_.
         try_finally (and_then (call_swupdate cfg p hdr (strip_newlines out)) (\<lambda>_. sh_exit 0)) (clean_up cfg p))))"

definition arm_update_active_details :: "script_config \<Rightarrow> 'x platform \<Rightarrow> string \<Rightarrow> (int, 'x) py" where
  "arm_update_active_details cfg p hdr =
     run_script (and_then (sh_exists (SAVED_HEADER_PATH cfg)) (\<lambda>saved.
       if saved then or_exit 22 (cp p (SAVED_HEADER_PATH cfg) (butlast (comps hdr) @ [''header.bin''])) else sh_exit 23))"

section \<open>Copying a directory\<close>

text \<open>The entries of a directory that the pattern \<open>*\<close> stands for, and the tree with those of one directory in another.\<close>

definition visible_in :: "location \<Rightarrow> location \<Rightarrow> bool" where
  "visible_in d q \<longleftrightarrow> q \<noteq> [] \<and> butlast q = d \<and> take 1 (last q) \<noteq> ''.''"

definition mirrored :: "location \<Rightarrow> location \<Rightarrow> files \<Rightarrow> files \<Rightarrow> bool" where
  "mirrored src dst fs fs' \<longleftrightarrow>
     (\<forall>q. map_of fs' q = (if visible_in dst q then map_of fs (src @ [last q]) else map_of fs q))"

definition same_outside :: "location \<Rightarrow> 'x host \<Rightarrow> 'x host \<Rightarrow> bool" where
  "same_outside d h h' \<longleftrightarrow> (\<forall>q. \<not> visible_in d q \<longrightarrow> map_of (files h') q = map_of (files h) q)"

lemma visible_in_snoc [simp]: "visible_in d (e @ [n]) \<longleftrightarrow> e = d \<and> take 1 n \<noteq> ''.''"
  by (simp add: visible_in_def)

lemma visible_inE: "visible_in d q \<Longrightarrow> (\<And>n. q = d @ [n] \<Longrightarrow> take 1 n \<noteq> ''.'' \<Longrightarrow> P) \<Longrightarrow> P"
  by (metis append_butlast_last_id visible_in_def)

lemma visible_in_self [simp]: "\<not> visible_in d d"
  by (auto elim!: visible_inE)

lemma set_glob: "set (glob fs d) = {q. visible_in d q \<and> map_of fs q \<noteq> None}"
  by (auto simp: glob_def children_iff map_of_eq_None_iff elim!: visible_inE)

lemma glob_words_missing: "q \<notin> set (glob_words fs d) \<Longrightarrow> visible_in d q \<Longrightarrow> map_of fs q = None"
proof -
  have "set (glob fs d) \<subseteq> set (glob_words fs d)" by (auto simp: glob_words_def)
  then show "q \<notin> set (glob_words fs d) \<Longrightarrow> visible_in d q \<Longrightarrow> map_of fs q = None"
    unfolding set_glob by (metis (mono_tags) mem_Collect_eq subsetD)
qed

lemma last_glob: "distinct (map last (glob fs d))"
  by (simp add: glob_def o_def)

text \<open>The loops of \<open>rm -f\<close> and of \<open>cp\<close>\<close>

lemma wp_rm_all:
  "wp (all_ok (rm_f p) ws)
     (\<lambda>ok h'. history h' = history h \<and> outside h' = outside h \<and>
        (\<forall>q. map_of (files h') q = map_of (files h) q \<or> q \<in> set ws \<and> map_of (files h') q = None) \<and>
        (ok \<longrightarrow> (\<forall>q \<in> set ws. map_of (files h') q = None))) E h"
proof (rule wp_all_ok [where I = "\<lambda>S ok h'. history h' = history h \<and> outside h' = outside h \<and>
    (\<forall>q. map_of (files h') q = map_of (files h) q \<or> q \<in> S \<and> map_of (files h') q = None) \<and>
    (ok \<longrightarrow> (\<forall>q \<in> S. map_of (files h') q = None))"])
qed (auto simp: wp_rm_f)

lemma wp_cp_all:
  assumes "isdir (files h) d" and "\<And>s n. s \<in> set srcs \<Longrightarrow> s \<noteq> d @ [n]" and "inj_on last (set srcs)"
  shows "wp (cp_all p srcs d)
     (\<lambda>ok h'. history h' = history h \<and> outside h' = outside h \<and>
        (\<forall>q. (\<forall>s \<in> set srcs. q \<noteq> d @ [last s]) \<longrightarrow> map_of (files h') q = map_of (files h) q) \<and>
        (ok \<longrightarrow> (\<forall>s \<in> set srcs. \<exists>t. map_of (files h) s = Some (Document t) \<and> map_of (files h') (d @ [last s]) = Some (Document t)))) E h"
proof -
  let ?I = "\<lambda>S ok h'. S \<subseteq> set srcs \<and> history h' = history h \<and> outside h' = outside h \<and>
    (\<forall>q. (\<forall>s \<in> S. q \<noteq> d @ [last s]) \<longrightarrow> map_of (files h') q = map_of (files h) q) \<and>
    (ok \<longrightarrow> (\<forall>s \<in> S. \<exists>t. map_of (files h) s = Some (Document t) \<and> map_of (files h') (d @ [last s]) = Some (Document t)))"
  have step: "wp (cp p s d) (\<lambda>a. ?I (insert s S) (ok \<and> a)) E g" if s: "s \<in> set srcs" and I: "?I S ok g" for S ok s g
  proof -
    have d: "isdir (files g) d" using I assms(1) by (auto simp: isdir_def)
    have src: "map_of (files g) s = map_of (files h) s" using I s assms(2) by blast
    have same: "last s' = last s \<Longrightarrow> s' = s" if "s' \<in> S" for s'
      using assms(3) s I that by (auto dest: inj_onD)
    show ?thesis
      using I s d src same by (auto simp: wp_cp readable_def Let_def split: option.split document.split)
  qed
  have "wp (all_ok (\<lambda>s. cp p s d) srcs) (?I (set srcs)) E h"
    by (rule wp_all_ok [where I = ?I]) (use step in auto)
  then show ?thesis
    unfolding cp_all_def wp_and_then wp_look using assms(1) by (auto elim!: wp_mono)
qed

text \<open>What is assumed of \<open>mount\<close>: a change of the options of a mounted partition leaves the tree of files as it is.\<close>

definition remount_command :: "string \<Rightarrow> string \<Rightarrow> string list" where
  "remount_command mount_opts mount_point = [''mount'', ''-o'', ''remount,'' @ mount_opts, mount_point]"

definition mount_contract :: "'x platform \<Rightarrow> bool" where
  "mount_contract p \<longleftrightarrow> (\<forall>opts mnt h. files (after p (remount_command opts mnt) h) = files h)"

lemma wp_remount [wp_simps]:
  "wp (remount_partition_or_die p mnt opts) Q E h =
     (let g = after p (remount_command opts mnt) h
      in if fst (outcome p (remount_command opts mnt) h) = 0 then Q () g else E (Exit 10) g)"
  by (simp add: remount_partition_or_die_def wp_simps remount_command_def Let_def)

lemma after_success: "fst (outcome p cmd h) = 0 \<Longrightarrow> history (after p cmd h) = history h @ [cmd]"
  by (auto simp: outcome_def after_def split: option.splits)

text \<open>What a call of \<open>copy_dir_or_die\<close> leaves when it does not succeed: the partition is still writable unless it was not made so.\<close>

definition copy_failed :: "location \<Rightarrow> string \<Rightarrow> exn \<Rightarrow> 'x host \<Rightarrow> 'x host \<Rightarrow> bool" where
  "copy_failed src mnt e h h' \<longleftrightarrow> same_outside (comps mnt) h h' \<and>
     (e = Exit 10 \<and> (files h' = files h \<or> mirrored src (comps mnt) (files h) (files h')) \<or>
      e \<in> {Exit 12, Exit 13} \<and> history h' = history h @ [remount_command ''rw'' mnt])"

lemma wp_copy_dir_or_die:
  assumes m: "mount_contract p" and d: "isdir (files h) (comps mnt)" and apart: "src \<noteq> comps mnt"
  shows "wp (copy_dir_or_die p src mnt)
     (\<lambda>_ h'. mirrored src (comps mnt) (files h) (files h') \<and>
        history h' = history h @ [remount_command ''rw'' mnt, remount_command ''ro'' mnt])
     (\<lambda>e h'. copy_failed src mnt e h h') h"
proof -
  let ?d = "comps mnt"
  let ?rw = "remount_command ''rw'' mnt" and ?ro = "remount_command ''ro'' mnt"
  have keep: "files (after p (remount_command opts mnt) g) = files g" for opts g
    using m by (simp add: mount_contract_def)
  have copied: "wp (and_then (or_exit 13 (and_then (look (\<lambda>h. glob_words (files h) src)) (\<lambda>fs. cp_all p fs ?d)))
        (\<lambda>_. remount_partition_or_die p mnt ''ro''))
      (\<lambda>_ h'. mirrored src ?d (files h) (files h') \<and> history h' = history h @ [?rw, ?ro]) (\<lambda>e h'. copy_failed src mnt e h h') g"
    if hist: "history g = history h @ [?rw]" and outs: "same_outside ?d h g" and gone: "\<And>q. visible_in ?d q \<Longrightarrow> map_of (files g) q = None"
    for g
  proof -
    have gd: "isdir (files g) ?d" using d outs by (simp add: isdir_def same_outside_def)
    have in_src: "map_of (files g) (src @ [n]) = map_of (files h) (src @ [n])" for n
      using outs apart by (simp add: same_outside_def)
    have inj: "inj_on last (set (glob_words (files g) src))"
      using last_glob [of "files g" src] by (auto simp: glob_words_def distinct_map)
    have not_in: "s \<noteq> ?d @ [n]" if "s \<in> set (glob_words (files g) src)" for s n
      using that apart by (auto simp: glob_words_def set_glob split: if_splits elim!: visible_inE)
    have vis: "visible_in src s" if "s \<in> set (glob_words (files g) src)" for s
      using that by (auto simp: glob_words_def set_glob split: if_splits)
    show ?thesis
      unfolding wp_and_then wp_or_exit wp_look
    proof (rule wp_mono [OF wp_cp_all [OF gd not_in inj]], assumption, goal_cases)
      case (1 ok k)
      have o: "same_outside ?d h k"
        unfolding same_outside_def
      proof (intro allI impI)
        fix q assume q: "\<not> visible_in ?d q"
        have "q \<noteq> ?d @ [last s]" if "s \<in> set (glob_words (files g) src)" for s
          using q vis [OF that] by (auto elim!: visible_inE)
        then have "map_of (files k) q = map_of (files g) q" using 1 by simp
        then show "map_of (files k) q = map_of (files h) q" using outs q by (simp add: same_outside_def)
      qed
      have "mirrored src ?d (files h) (files k)" if ok
        unfolding mirrored_def
      proof (intro allI)
        fix q
        show "map_of (files k) q = (if visible_in ?d q then map_of (files h) (src @ [last q]) else map_of (files h) q)"
        proof (cases "visible_in ?d q")
          case True
          then obtain n where n: "q = ?d @ [n]" "take 1 n \<noteq> ''.''" by (elim visible_inE)
          show ?thesis
          proof (cases "src @ [n] \<in> set (glob_words (files g) src)")
            case mem: True
            then show ?thesis using 1 \<open>ok\<close> n in_src by fastforce
          next
            case False
            have none: "map_of (files h) (src @ [n]) = None"
              using glob_words_missing [OF False] n in_src [of n] by simp
            have "q \<noteq> ?d @ [last s]" if "s \<in> set (glob_words (files g) src)" for s
              using that False vis [OF that] n by (auto elim!: visible_inE)
            then have "map_of (files k) q = map_of (files g) q" using 1 by simp
            then show ?thesis using gone [OF True] none n True by simp
          qed
        next
          case False
          then show ?thesis using o by (simp add: same_outside_def)
        qed
      qed
      moreover have "same_outside ?d h (after p ?ro k)" using o by (simp add: same_outside_def keep)
      moreover have "history k = history h @ [?rw]" using 1 hist by simp
      ultimately show ?case
        using o after_success [of p ?ro k] by (simp add: wp_remount Let_def copy_failed_def keep)
    qed simp
  qed
  have removed: "wp (or_exit 12 (and_then (look (\<lambda>h. glob_words (files h) ?d)) (all_ok (rm_f p))))
      (\<lambda>_ g. history g = history h @ [?rw] \<and> same_outside ?d h g \<and> (\<forall>q. visible_in ?d q \<longrightarrow> map_of (files g) q = None))
      (\<lambda>e h'. copy_failed src mnt e h h') g"
    if hist: "history g = history h @ [?rw]" and fs: "files g = files h" for g
    unfolding wp_or_exit wp_and_then wp_look
  proof (rule wp_mono [OF wp_rm_all], goal_cases)
    case (1 ok k)
    have vis: "visible_in ?d q" if "q \<in> set (glob_words (files g) ?d)" "map_of (files h) q \<noteq> None" for q
      using that by (auto simp: glob_words_def set_glob fs glob_def split: if_splits)
    have "same_outside ?d h k"
      unfolding same_outside_def
    proof (intro allI impI)
      fix q assume q: "\<not> visible_in ?d q"
      show "map_of (files k) q = map_of (files h) q" using 1 vis [of q] q unfolding fs by (metis (full_types))
    qed
    moreover have "map_of (files k) q = None" if "visible_in ?d q" ok for q
    proof (cases "map_of (files h) q = None")
      case True
      then show ?thesis using 1 fs by metis
    next
      case False
      then have "q \<in> set (glob_words (files g) ?d)" using glob_words_missing [of q "files g" ?d] that(1) fs by (metis (no_types))
      then show ?thesis using 1 that by blast
    qed
    ultimately show ?case using 1 hist by (simp add: copy_failed_def)
  qed simp
  show ?thesis
    unfolding copy_dir_or_die_def
  proof (subst wp_and_then, subst wp_remount, unfold Let_def, split if_split, intro conjI impI)
    assume ok: "fst (outcome p ?rw h) = 0"
    show "wp (and_then (or_exit 12 (and_then (look (\<lambda>h. glob_words (files h) ?d)) (all_ok (rm_f p))))
        (\<lambda>_. and_then (or_exit 13 (and_then (look (\<lambda>h. glob_words (files h) src)) (\<lambda>fs. cp_all p fs ?d)))
          (\<lambda>_. remount_partition_or_die p mnt ''ro'')))
       (\<lambda>_ h'. mirrored src ?d (files h) (files h') \<and> history h' = history h @ [?rw, ?ro])
       (\<lambda>e h'. copy_failed src mnt e h h') (after p ?rw h)"
      by (subst wp_and_then, rule wp_mono [OF removed [OF after_success [OF ok] keep]]) (auto intro: copied)
  qed (simp add: copy_failed_def same_outside_def keep)
qed

section \<open>Writing a boot loader\<close>

text \<open>What the description of a partition says, in bytes, if it is one number.\<close>

definition part_value :: "script_config \<Rightarrow> 'x platform \<Rightarrow> 'x host \<Rightarrow> string \<Rightarrow> string \<Rightarrow> nat option" where
  "part_value cfg p h part_name var_name =
     (let k = (case readable p (part_info cfg (drop_version part_name) (var_name @ ''_KiB'')) h of None \<Rightarrow> [] | Some s \<Rightarrow> strip_newlines s)
      in if k \<noteq> [] \<and> list_all is_digit k then Some (digits_value k * 1024) else None)"

lemma split_at_absent: "c \<notin> set s \<Longrightarrow> split_at c s = [s]"
  by (induction s) auto

lemma one_number: "list_all is_digit k \<Longrightarrow> some_line_is_number k \<longleftrightarrow> k \<noteq> []"
  by (subst some_line_is_number_def, subst split_at_absent) (auto simp: list_all_iff is_digit_def)

lemma two_validations:
  "some_line_is_number k \<and> some_line_is_number (snd (expr_times_1024 k)) \<longleftrightarrow> k \<noteq> [] \<and> list_all is_digit k"
proof (cases "list_all is_digit k")
  case True
  have hd: "k \<noteq> CHR ''-'' # r" for r using True by (auto simp: is_digit_def)
  show ?thesis
  proof (cases k)
    case (Cons c r)
    then have "snd (expr_times_1024 k) = decimal (digits_value k * 1024)"
      using True hd by (auto simp: expr_times_1024_def Let_def)
    moreover have "list_all is_digit (decimal (digits_value k * 1024))"
      using decimal_is_digits by (simp add: list_all_iff)
    ultimately show ?thesis using True by (simp add: one_number decimal_nonempty)
  qed (simp add: some_line_is_number_def)
next
  case False
  show ?thesis
  proof (cases "\<exists>r. k = CHR ''-'' # r \<and> list_all is_digit r")
    case True
    then have "newline \<notin> set k" by (fastforce simp: list_all_iff is_digit_def)
    then show ?thesis using False by (simp add: some_line_is_number_def split_at_absent)
  next
    case no: False
    then have "snd (expr_times_1024 k) = []" using False by (auto simp: expr_times_1024_def Let_def split: list.split)
    then show ?thesis using False by (simp add: some_line_is_number_def)
  qed
qed

lemma wp_get_part_size_var_B [wp_simps]:
  "wp (get_part_size_var_B cfg p part var) Q E h =
     (case part_value cfg p h part var of None \<Rightarrow> E (Exit 11) h | Some n \<Rightarrow> Q (decimal n) h)"
proof -
  let ?k = "case readable p (part_info cfg (drop_version part) (var @ ''_KiB'')) h of None \<Rightarrow> [] | Some s \<Rightarrow> strip_newlines s"
  have w: "wp (get_part_size_var_B cfg p part var) Q E h =
      (if some_line_is_number ?k \<and> some_line_is_number (snd (expr_times_1024 ?k)) then Q (snd (expr_times_1024 ?k)) h else E (Exit 11) h)"
    by (auto simp: get_part_size_var_B_def validate_positive_integer_or_die_def wp_simps Let_def split: option.split prod.split)
  have e: "snd (expr_times_1024 ?k) = decimal (digits_value ?k * 1024)" if "?k \<noteq> []" "list_all is_digit ?k"
    using that by (cases ?k) (auto simp: expr_times_1024_def Let_def is_digit_def)
  show ?thesis unfolding w two_validations part_value_def Let_def using e by auto
qed

text \<open>What is assumed of the commands that deal with the device: they leave the tree of files as it is.\<close>

definition device_contract :: "'x platform \<Rightarrow> bool" where
  "device_contract p \<longleftrightarrow>
     (\<forall>cmd h. cmd \<noteq> [] \<and> hd cmd \<in> {''lsblk'', ''['', ''dd'', ''sync'', ''xzcat''} \<longrightarrow> files (after p cmd h) = files h)"

text \<open>The writes to a device so far.\<close>

definition device_writes :: "'x host \<Rightarrow> string list list" where
  "device_writes h = filter (\<lambda>c. take 1 c = [''dd'']) (history h)"

lemma device_writes_after [simp]:
  "take 1 cmd \<noteq> [''dd''] \<Longrightarrow> device_writes (after p cmd h) = device_writes h"
  by (simp add: device_writes_def after_def)

lemma device_writes_dd:
  "device_writes (after p (dd_command file dev off) h) =
     device_writes h @ (if fst (exec p (dd_command file dev off) h) = None then [] else [dd_command file dev off])"
  by (simp add: device_writes_def after_def dd_command_def)

lemma device_writes_files [simp]:
  "device_writes (without_file f h) = device_writes h" "device_writes (with_file f s h) = device_writes h"
  by (simp_all add: device_writes_def)

text \<open>A write of a file that is not longer than it may be.\<close>

definition bounded_write :: "string \<Rightarrow> string \<Rightarrow> string \<Rightarrow> 'x host \<Rightarrow> 'x host \<Rightarrow> bool" where
  "bounded_write file offset_B max_size_B h h' \<longleftrightarrow>
     (\<exists>dev image. map_of (files h) (comps file) = Some (Document image) \<and> length image \<le> digits_value max_size_B \<and>
        device_writes h' = device_writes h @ [dd_command file dev offset_B])"

lemma wp_write_to_flash_or_die:
  assumes "device_contract p"
  shows "wp (write_to_flash_or_die p file offset_B max_size_B)
     (\<lambda>_ h'. files h' = files h \<and> bounded_write file offset_B max_size_B h h')
     (\<lambda>e h'. files h' = files h \<and> e \<in> {Exit 1, Exit 59, Exit 60, Exit 63} \<and>
        (device_writes h' = device_writes h \<or> bounded_write file offset_B max_size_B h h')) h"
proof -
  have keep: "files (after p (c # cs) g) = files g" if "c \<in> {''lsblk'', ''['', ''dd'', ''sync'', ''xzcat''}" for c cs g
    using assms that unfolding device_contract_def by (metis list.distinct(1) list.sel(1))
  have keep_dd: "files (after p (dd_command f d off) g) = files g" for f d off g
    by (simp add: dd_command_def keep)
  have ran: "fst (outcome p cmd g) = 0 \<Longrightarrow> fst (exec p cmd g) \<noteq> None" for cmd g
    by (cases "fst (exec p cmd g)") (auto simp: outcome_def)
  have flash: "wp (and_then (or_exit 63 (command_ok p (dd_command file dev offset_B))) (\<lambda>_. and_then (command p [''sync'']) (\<lambda>_. ret ())))
     (\<lambda>_ h'. files h' = files h \<and> bounded_write file offset_B max_size_B h h')
     (\<lambda>e h'. files h' = files h \<and> e \<in> {Exit 1, Exit 59, Exit 60, Exit 63} \<and>
        (device_writes h' = device_writes h \<or> bounded_write file offset_B max_size_B h h')) g"
    if "files g = files h" "device_writes g = device_writes h" "map_of (files h) (comps file) = Some (Document image)"
      "length image \<le> digits_value max_size_B" for g dev image
    using that ran [of "dd_command file dev offset_B" g]
    by (auto simp: wp_simps keep keep_dd bounded_write_def device_writes_dd)
  have device: "wp (get_device_for_mbl_partitions p)
      (\<lambda>(rc, _) g. files g = files h \<and> device_writes g = device_writes h \<and> rc \<in> {0, 1})
      (\<lambda>_ _. False) h"
    by (simp add: get_device_for_mbl_partitions_def wp_simps keep Let_def split: prod.split)
  show ?thesis
    unfolding write_to_flash_or_die_def
  proof (subst wp_and_then, rule wp_mono [OF device], goal_cases)
    case (1 r g)
    then show ?case
      by (auto simp: exit_on_error_def wp_and_then [of "ret ()"] wp_and_then [of "sh_exit x" for x] wp_and_then [of "wc_c p f" for f]
        wp_ret wp_sh_exit wp_wc_c readable_def intro!: flash [simplified] split: option.splits document.splits)
  qed simp
qed

text \<open>What \<open>xzcat\<close> makes of the payload, and the one write of an installation.\<close>

definition unpacked :: "'x platform \<Rightarrow> string \<Rightarrow> 'x host \<Rightarrow> int \<times> string" where
  "unpacked p path h = outcome p [''xzcat'', path] (with_file (comps (drop_xz path)) [] h)"

definition boot_loader_written :: "script_config \<Rightarrow> 'x platform \<Rightarrow> string \<Rightarrow> 'x host \<Rightarrow> 'x host \<Rightarrow> bool" where
  "boot_loader_written cfg p path h h' \<longleftrightarrow>
     (\<exists>size off dev image. part_value cfg p h (base_name_xz path) ''SIZE'' = Some size \<and>
        part_value cfg p h (base_name_xz path) ''OFFSET_BANK1'' = Some off \<and>
        unpacked p path h = (0, image) \<and> map_of (files h') (comps (drop_xz path)) = Some (Document image) \<and> length image \<le> size \<and>
        device_writes h' = device_writes h @ [dd_command (drop_xz path) dev (decimal off)])"

lemma wp_decompress_or_die:
  assumes "device_contract p"
  shows "wp (decompress_or_die p path (drop_xz path))
     (\<lambda>_ g. device_writes g = device_writes h \<and>
        (\<exists>image. unpacked p path h = (0, image) \<and> map_of (files g) (comps (drop_xz path)) = Some (Document image)))
     (\<lambda>e g. e = Exit 17 \<and> device_writes g = device_writes h) h"
  by (simp add: decompress_or_die_def wp_or_exit wp_redirected Let_def unpacked_def split: prod.split)

lemma wp_remove_flag:
  "wp (remove_do_not_reboot_flag_or_die cfg p) Q E h =
     (if map_of (files h) (do_not_reboot_flag cfg) = None then Q () h
      else if removable p (do_not_reboot_flag cfg) h then Q () (without_file (do_not_reboot_flag cfg) h) else E (Exit 18) h)"
  by (simp add: remove_do_not_reboot_flag_or_die_def wp_or_exit wp_rm_f)

lemma boot_loader_writtenI:
  assumes "part_value cfg p h (base_name_xz path) ''SIZE'' = Some sz" "part_value cfg p h (base_name_xz path) ''OFFSET_BANK1'' = Some off"
    and "unpacked p path h = (0, img)" "map_of (files g) (comps (drop_xz path)) = Some (Document img)"
    and "device_writes g = device_writes h" "files k = files g"
    and b: "bounded_write (drop_xz path) (decimal off) (decimal sz) g k"
  shows "boot_loader_written cfg p path h k"
proof -
  from b obtain dev where "length img \<le> sz" "device_writes k = device_writes h @ [dd_command (drop_xz path) dev (decimal off)]"
    using assms(4,5) by (auto simp: bounded_write_def digits_value_decimal)
  then show ?thesis using assms(1-4,6) unfolding boot_loader_written_def by metis
qed

lemma boot_loader_written_without:
  "boot_loader_written cfg p path h k \<Longrightarrow> comps (drop_xz path) \<noteq> f \<Longrightarrow> boot_loader_written cfg p path h (without_file f k)"
  by (simp add: boot_loader_written_def)

lemma wp_update_bootloader_or_die:
  assumes "device_contract p" and "comps (drop_xz path) \<noteq> do_not_reboot_flag cfg"
  shows "wp (update_bootloader_or_die cfg p path)
     (\<lambda>_ h'. boot_loader_written cfg p path h h' \<and> map_of (files h') (do_not_reboot_flag cfg) = None)
     (\<lambda>e h'. (\<exists>n. e = Exit n \<and> n \<noteq> 0) \<and> (device_writes h' = device_writes h \<or> boot_loader_written cfg p path h h')) h"
proof -
  let ?part = "base_name_xz path" and ?f = "drop_xz path"
  have written: "wp (and_then (write_to_flash_or_die p ?f (decimal off) (decimal size)) (\<lambda>_. remove_do_not_reboot_flag_or_die cfg p))
     (\<lambda>_ h'. boot_loader_written cfg p path h h' \<and> map_of (files h') (do_not_reboot_flag cfg) = None)
     (\<lambda>e h'. (\<exists>n. e = Exit n \<and> n \<noteq> 0) \<and> (device_writes h' = device_writes h \<or> boot_loader_written cfg p path h h')) g"
    if "part_value cfg p h ?part ''SIZE'' = Some size" "part_value cfg p h ?part ''OFFSET_BANK1'' = Some off"
      "device_writes g = device_writes h" "unpacked p path h = (0, image)" "map_of (files g) (comps ?f) = Some (Document image)"
    for size off g image
  proof (subst wp_and_then, rule wp_mono [OF wp_write_to_flash_or_die [OF assms(1)]], goal_cases)
    case (1 u k)
    then have "boot_loader_written cfg p path h k" using boot_loader_writtenI [OF that(1,2,4,5,3), of k] by blast
    then show ?case
      using assms(2) by (simp add: wp_remove_flag boot_loader_written_without)
  next
    case (2 e k)
    then have "device_writes k = device_writes h \<or> boot_loader_written cfg p path h k"
      using boot_loader_writtenI [OF that(1,2,4,5,3), of k] that(3) by metis
    moreover have "\<exists>n. e = Exit n \<and> n \<noteq> 0"
    proof -
      have "e \<in> {Exit 1, Exit 59, Exit 60, Exit 63}" using 2 by (elim conjE)
      then show ?thesis by (elim insertE emptyE) simp_all
    qed
    ultimately show ?case by blast
  qed
  have unpack: "wp (and_then (decompress_or_die p path ?f) (\<lambda>_. and_then (write_to_flash_or_die p ?f (decimal off) (decimal size))
        (\<lambda>_. remove_do_not_reboot_flag_or_die cfg p)))
     (\<lambda>_ h'. boot_loader_written cfg p path h h' \<and> map_of (files h') (do_not_reboot_flag cfg) = None)
     (\<lambda>e h'. (\<exists>n. e = Exit n \<and> n \<noteq> 0) \<and> (device_writes h' = device_writes h \<or> boot_loader_written cfg p path h h')) h"
    if "part_value cfg p h ?part ''SIZE'' = Some size" "part_value cfg p h ?part ''OFFSET_BANK1'' = Some off" for size off
  proof (subst wp_and_then, rule wp_mono [OF wp_decompress_or_die [OF assms(1)]], goal_cases)
    case (1 u g)
    then obtain image where "unpacked p path h = (0, image)" "map_of (files g) (comps ?f) = Some (Document image)" by blast
    then show ?case using written [OF that] 1 by blast
  qed simp
  show ?thesis
    using unpack
    by (auto simp: update_bootloader_or_die_def Let_def is_part_skipped_def get_part_size_B_def get_part_offset_B_def exit_on_error_def
      wp_and_then [of "and_then m f" for m f] wp_and_then [of "cat p f" for f] wp_and_then [of "captured m" for m]
      wp_and_then [of "ret x" for x] wp_and_then [of "sh_exit x" for x] wp_cat wp_captured wp_get_part_size_var_B wp_ret wp_sh_exit
      split: option.splits)
qed

section \<open>A platform for examples\<close>

text \<open>
  A device with the root on \<open>mmcblk0\<close>; \<open>mount\<close> works, \<open>xzcat\<close> turns every payload into the same image, and \<open>sync\<close>, \<open>dd\<close>, \<open>tar\<close>
  and \<open>swupdate\<close> end with 0 without an effect on the tree of files.
\<close>

definition demo_exec :: "string list \<Rightarrow> unit host \<Rightarrow> (int \<times> string) option \<times> unit host" where
  "demo_exec cmd h =
     (Some (0, if take 1 cmd = [''lsblk''] then ''/boot mmcblk0'' @ [newline] @ ''/ mmcblk0'' @ [newline]
               else if take 1 cmd = [''xzcat''] then ''loader''
               else if take 1 cmd = [''realpath''] then ''/u'' @ [newline] else []), h)"

definition demo_shell :: "unit platform" where
  "demo_shell = \<lparr>exec = demo_exec, loads = (\<lambda>_. None), tar_members = (\<lambda>_. None),
     refuses = (\<lambda>_ _. False), sleep = (\<lambda>_ h. h)\<rparr>"

definition demo_partitions :: "unit host" where
  "demo_partitions =
     \<lparr>files = [([], Folder), ([''tmp''], Folder), ([''tmp'', ''WKS_BOOTLOADER1v3.xz''], Document ''xz''),
        ([''tmp'', ''do_not_reboot''], Document []),
        ([''config'', ''factory'', ''part-info'', ''MBL_WKS_BOOTLOADER1_SIZE_KiB''], Document (''1'' @ [newline])),
        ([''config'', ''factory'', ''part-info'', ''MBL_WKS_BOOTLOADER1_OFFSET_BANK1_KiB''], Document ''3'')],
      clock = 0, epoch = 0, answers = [], history = [], outside = ()\<rparr>"

lemma demo_after [simp]: "after demo_shell cmd h = h\<lparr>history := history h @ [cmd]\<rparr>"
  by (simp add: after_def demo_shell_def demo_exec_def)

section \<open>Properties\<close>

text \<open>C24: the installer of boot loaders and the bounds of their partitions.  However the installer ends, it has written to a
  device at most once, and that write is of an image that is no longer than the size that is described for the partition, at the
  described offset.  If it ends with 0, the image that the payload unpacks to was written, and the file that
  forbids the reboot is gone.\<close>

theorem bootloader_installer_in_bounds:
  assumes "device_contract p" and "comps (drop_xz path) \<noteq> do_not_reboot_flag cfg"
  shows "\<exists>rc h'. bootloader_installer cfg p path h = Some (Inr rc, h') \<and>
    (device_writes h' = device_writes h \<or> boot_loader_written cfg p path h h') \<and>
    (rc = 0 \<longrightarrow> boot_loader_written cfg p path h h' \<and> map_of (files h') (do_not_reboot_flag cfg) = None)"
proof -
  have "wp (bootloader_installer cfg p path)
     (\<lambda>rc h'. (device_writes h' = device_writes h \<or> boot_loader_written cfg p path h h') \<and>
       (rc = 0 \<longrightarrow> boot_loader_written cfg p path h h' \<and> map_of (files h') (do_not_reboot_flag cfg) = None)) (\<lambda>_ _. False) h"
    unfolding bootloader_installer_def wp_run_script
    by (subst wp_and_then, rule wp_mono [OF wp_update_bootloader_or_die [OF assms]]) (auto simp: wp_sh_exit)
  from wp_always [OF this] show ?thesis by metis
qed

lemma demo_bootloader_installer:
  "map_option (\<lambda>(r, h). (r, device_writes h)) (bootloader_installer default_script_config demo_shell ''/tmp/WKS_BOOTLOADER1v3.xz'' demo_partitions) =
     Some (Inr 0, [dd_command ''/tmp/WKS_BOOTLOADER1v3'' ''/dev/mmcblk0'' ''3072''])"
  by code_simp

lemma demo_part_size: "part_value default_script_config demo_shell demo_partitions ''WKS_BOOTLOADER1v3'' ''SIZE'' = Some 1024"
  by code_simp

lemma demo_names:
  "base_name_xz ''/tmp/WKS_BOOTLOADER1v3.xz'' = ''WKS_BOOTLOADER1v3''"
  "comps (drop_xz ''/tmp/WKS_BOOTLOADER1v3.xz'') \<noteq> do_not_reboot_flag default_script_config"
  by code_simp+

theorem bootloader_installer_in_bounds_witness:
  "\<exists>h' image. bootloader_installer default_script_config demo_shell ''/tmp/WKS_BOOTLOADER1v3.xz'' demo_partitions = Some (Inr 0, h') \<and>
     unpacked demo_shell ''/tmp/WKS_BOOTLOADER1v3.xz'' demo_partitions = (0, image) \<and> length image \<le> 1024 \<and>
     map_of (files h') [''tmp'', ''do_not_reboot''] = None"
proof -
  have "device_contract demo_shell" by (simp add: device_contract_def)
  from bootloader_installer_in_bounds [OF this demo_names(2), of demo_partitions] obtain rc h'
    where run: "bootloader_installer default_script_config demo_shell ''/tmp/WKS_BOOTLOADER1v3.xz'' demo_partitions = Some (Inr rc, h')"
      and res: "rc = 0 \<longrightarrow> boot_loader_written default_script_config demo_shell ''/tmp/WKS_BOOTLOADER1v3.xz'' demo_partitions h' \<and>
        map_of (files h') (do_not_reboot_flag default_script_config) = None"
    by blast
  have rc: "rc = 0" using run demo_bootloader_installer by simp
  then obtain image where "unpacked demo_shell ''/tmp/WKS_BOOTLOADER1v3.xz'' demo_partitions = (0, image)" "length image \<le> 1024"
    using res unfolding boot_loader_written_def demo_names demo_part_size by auto
  moreover have "map_of (files h') [''tmp'', ''do_not_reboot''] = None"
    using res rc by (simp add: do_not_reboot_flag_def default_script_config_def)
  ultimately show ?thesis using run unfolding rc by blast
qed

text \<open>C25: replacing the files of a partition.  \<open>copy_dir_or_die\<close> comes back, whatever fails in it.  If it returns, the directory and the
  partition have the same visible files, nothing else was changed, and the partition is read-only again.  If it exits with 12 or
  13, only visible files of the partition may have been changed, and the last command that was run is the one that made the
  partition writable; if it exits with 10, one of the two remounts was refused, and the files are those from before or all new.\<close>

theorem copy_dir_or_die_outcome:
  assumes "mount_contract p" and "isdir (files h) (comps mnt)" and "src \<noteq> comps mnt"
  shows "\<exists>r h'. copy_dir_or_die p src mnt h = Some (r, h') \<and>
    (case r of
       Inr _ \<Rightarrow> mirrored src (comps mnt) (files h) (files h') \<and>
         history h' = history h @ [remount_command ''rw'' mnt, remount_command ''ro'' mnt]
     | Inl e \<Rightarrow> copy_failed src mnt e h h')"
  using wp_copy_dir_or_die [OF assms] unfolding wp_iff by simp

definition demo_copy :: "unit host" where
  "demo_copy =
     \<lparr>files = [([], Folder), ([''boot''], Folder), ([''boot'', ''old''], Document ''1''), ([''boot'', ''.id''], Document ''2''),
        ([''s''], Folder), ([''s'', ''new''], Document ''3'')],
      clock = 0, epoch = 0, answers = [], history = [], outside = ()\<rparr>"

lemma demo_copy_run: "map_option fst (copy_dir_or_die demo_shell [''s''] ''/boot'' demo_copy) = Some (Inr ())"
  by code_simp

theorem copy_dir_or_die_outcome_witness:
  "\<exists>h'. copy_dir_or_die demo_shell [''s''] ''/boot'' demo_copy = Some (Inr (), h') \<and>
     map_of (files h') [''boot'', ''new''] = Some (Document ''3'') \<and> map_of (files h') [''boot'', ''old''] = None \<and>
     map_of (files h') [''boot'', ''.id''] = Some (Document ''2'')"
proof -
  have c: "mount_contract demo_shell" by (simp add: mount_contract_def)
  have b: "comps ''/boot'' = [''boot'']" by code_simp
  have d: "isdir (files demo_copy) (comps ''/boot'')" "[''s''] \<noteq> comps ''/boot''"
    by (simp_all only: b) (simp_all add: demo_copy_def isdir_def)
  from copy_dir_or_die_outcome [OF c d] demo_copy_run obtain h' where
    run: "copy_dir_or_die demo_shell [''s''] ''/boot'' demo_copy = Some (Inr (), h')"
    and m: "mirrored [''s''] [''boot''] (files demo_copy) (files h')"
    unfolding b by auto
  from m have "map_of (files h') q = (if visible_in [''boot''] q then map_of (files demo_copy) ([''s''] @ [last q]) else map_of (files demo_copy) q)" for q
    by (simp add: mirrored_def)
  then show ?thesis using run by (simp add: visible_in_def demo_copy_def)
qed

text \<open>A description with more than one line passes the check of the number, but the multiplication refuses it.\<close>

lemma two_numbers_are_refused:
  "some_line_is_number (''1'' @ [newline] @ ''2'') \<and> expr_times_1024 (''1'' @ [newline] @ ''2'') = (False, [])"
  by code_simp

end
