(* ===== verification/Update_Activation.thy ===== *)
theory Update_Activation imports Update_Scripts begin

text \<open>
  What \<open>arm_update_activate.sh\<close> achieves, for every way its commands can end: the temporary directory, the saved header, the
  file that forbids a reboot, and the restart of the cloud client.
\<close>

section \<open>Assumptions\<close>

text \<open>The places the script deals with do not lie in each other.\<close>

definition activation_layout :: "script_config \<Rightarrow> bool" where
  "activation_layout cfg \<longleftrightarrow>
     (\<forall>q \<in> {SAVED_HEADER_PATH cfg, do_not_reboot_flag cfg}. \<not> prefix (PAYLOAD_TMP_DIR cfg) q \<and> \<not> prefix q (PAYLOAD_TMP_DIR cfg)) \<and>
     \<not> prefix (SAVED_HEADER_PATH cfg) (do_not_reboot_flag cfg)"

definition swupdate_command :: "string \<Rightarrow> string list" where
  "swupdate_command firmware_path = [''swupdate'', ''-i'', firmware_path]"

definition restart_command :: "string list" where
  "restart_command = [''systemctl'', ''restart'', ''mbl-cloud-client'']"

text \<open>
  What is assumed of the commands: \<open>realpath\<close> and \<open>sync\<close> leave the tree as it is, the restart of the service leaves the flag and
  the saved header; and the system lets the script remove its temporary directory.
\<close>

definition activation_contract :: "script_config \<Rightarrow> 'x platform \<Rightarrow> bool" where
  "activation_contract cfg p \<longleftrightarrow>
     (\<forall>f h. files (after p [''realpath'', f] h) = files h) \<and> (\<forall>h. files (after p [''sync''] h) = files h) \<and>
     (\<forall>h. \<forall>q \<in> {SAVED_HEADER_PATH cfg, do_not_reboot_flag cfg}. map_of (files (after p restart_command h)) q = map_of (files h) q) \<and>
     (\<forall>h. \<not> refuses p (Rmtree (PAYLOAD_TMP_DIR cfg)) h \<and> \<not> refuses p (Remove_file (PAYLOAD_TMP_DIR cfg)) h)"

lemma activation_contractD:
  assumes "activation_contract cfg p"
  shows "files (after p [''realpath'', f] h) = files h" "files (after p [''sync''] h) = files h"
    and "map_of (files (after p restart_command h)) (SAVED_HEADER_PATH cfg) = map_of (files h) (SAVED_HEADER_PATH cfg)"
    and "map_of (files (after p restart_command h)) (do_not_reboot_flag cfg) = map_of (files h) (do_not_reboot_flag cfg)"
    and "\<not> refuses p (Rmtree (PAYLOAD_TMP_DIR cfg)) h" "\<not> refuses p (Remove_file (PAYLOAD_TMP_DIR cfg)) h"
  using assms unfolding activation_contract_def by blast+

section \<open>The parts of the script\<close>

text \<open>Nothing is at the temporary directory, and nothing outside of it was changed.\<close>

lemma wp_rm_tmp:
  assumes "activation_contract cfg p"
  shows "wp (rm_rf p (PAYLOAD_TMP_DIR cfg))
    (\<lambda>ok h'. ok \<and> map_of (files h') (PAYLOAD_TMP_DIR cfg) = None \<and> history h' = history h \<and>
       (\<forall>q. \<not> prefix (PAYLOAD_TMP_DIR cfg) q \<longrightarrow> map_of (files h') q = map_of (files h) q)) (\<lambda>_ _. False) h"
  using activation_contractD(5,6) [OF assms]
  by (auto simp: wp_rm_rf removable_def isfile_at_def split: option.split document.split)

lemma make_path_elsewhere:
  "make_path fs p ns = Some fs' \<Longrightarrow> map_of fs q \<noteq> None \<or> \<not> prefix q (p @ ns) \<Longrightarrow> map_of fs' q = map_of fs q"
proof (induction fs p ns rule: make_path.induct)
  case (2 fs p n ns)
  have "prefix (p @ [n]) (p @ n # ns)" by (metis append.assoc append_Cons append_Nil prefixI)
  then have "map_of fs q \<noteq> None \<or> q \<noteq> p @ [n]" using 2(4) by blast
  then show ?case using 2 by (auto split: option.splits document.splits if_splits)
qed simp

lemma wp_set_up:
  assumes "activation_contract cfg p"
  shows "wp (set_up_payload_tmp_dir_or_die cfg p)
    (\<lambda>_ h'. history h' = history h \<and>
       (\<forall>q. \<not> prefix (PAYLOAD_TMP_DIR cfg) q \<and> (map_of (files h) q = None \<longrightarrow> \<not> prefix q (PAYLOAD_TMP_DIR cfg)) \<longrightarrow>
          map_of (files h') q = map_of (files h) q))
    (\<lambda>e h'. e = Exit 23) h"
  unfolding set_up_payload_tmp_dir_or_die_def
proof (subst wp_and_then, subst wp_or_exit, rule wp_mono [OF wp_rm_tmp [OF assms]], goal_cases)
  case (1 ok k)
  have "map_of fs q = map_of (files h) q"
    if "make_path (files k) [] (PAYLOAD_TMP_DIR cfg) = Some fs" "\<not> prefix (PAYLOAD_TMP_DIR cfg) q"
      "map_of (files h) q = None \<longrightarrow> \<not> prefix q (PAYLOAD_TMP_DIR cfg)" for fs q
    using make_path_elsewhere [OF that(1), of q] that(2,3) 1 by (cases "map_of (files h) q") auto
  then show ?case using 1 by (simp add: wp_or_exit wp_mkdir_p split: option.split)
qed simp

text \<open>The machine on which swupdate is called: the flag is there, unless it could not be written.\<close>

definition prepared :: "script_config \<Rightarrow> 'x platform \<Rightarrow> 'x host \<Rightarrow> 'x host \<Rightarrow> bool" where
  "prepared cfg p h g \<longleftrightarrow>
     (map_of (files g) (do_not_reboot_flag cfg) = None \<longrightarrow> \<not> writable p (do_not_reboot_flag cfg) g) \<and>
     map_of (files g) (do_not_reboot_flag cfg) \<in> {map_of (files h) (do_not_reboot_flag cfg), Some (Document [])} \<and>
     (\<forall>q. \<not> prefix (PAYLOAD_TMP_DIR cfg) q \<and> q \<noteq> do_not_reboot_flag cfg \<and>
        (map_of (files h) q = None \<longrightarrow> \<not> prefix q (PAYLOAD_TMP_DIR cfg)) \<longrightarrow>
        map_of (files g) q = map_of (files h) q)"

text \<open>What the script does with it.\<close>

definition activated :: "script_config \<Rightarrow> 'x platform \<Rightarrow> string \<Rightarrow> string \<Rightarrow> 'x host \<Rightarrow> 'x host \<Rightarrow> bool" where
  "activated cfg p hdr firmware_path g h' \<longleftrightarrow>
     (let g' = after p (swupdate_command firmware_path) g in
      fst (outcome p (swupdate_command firmware_path) g) = 0 \<and>
      (\<exists>s. readable p (comps hdr) g' = Some s \<and>
         (\<not> isdir (files g') (SAVED_HEADER_PATH cfg) \<longrightarrow> map_of (files h') (SAVED_HEADER_PATH cfg) = Some (Document s))) \<and>
      map_of (files h') (do_not_reboot_flag cfg) = map_of (files g') (do_not_reboot_flag cfg) \<and>
      (last (history h') = restart_command \<longleftrightarrow> map_of (files g') (do_not_reboot_flag cfg) \<noteq> None))"

lemma last_after: "last (history (after p cmd h)) = cmd \<or> history (after p cmd h) = history h"
  by (simp add: after_def)

lemma wp_call_swupdate:
  assumes c: "activation_contract cfg p" and l: "activation_layout cfg"
  shows "wp (call_swupdate cfg p hdr fw)
     (\<lambda>_ h'. \<exists>g. prepared cfg p h g \<and> activated cfg p hdr fw g h')
     (\<lambda>e h'. \<exists>n. e = Exit n \<and> n \<noteq> 0) h"
proof -
  let ?saved = "SAVED_HEADER_PATH cfg" and ?flag = "do_not_reboot_flag cfg"
  have ne: "?saved \<noteq> ?flag" "?saved @ [n] \<noteq> ?flag" for n
    using l unfolding activation_layout_def by (metis prefix_order.refl, metis prefixI)
  have rest: "wp (and_then (or_exit 25 (command_ok p [''swupdate'', ''-i'', fw])) (\<lambda>_.
       and_then (save_header_or_die cfg p hdr) (\<lambda>_. and_then (sh_exists ?flag) (\<lambda>flag.
         if flag then and_then (command p [''systemctl'', ''restart'', ''mbl-cloud-client'']) (\<lambda>(rc, _). exit_on_error rc) else ret ()))))
     (\<lambda>_ h'. \<exists>g. prepared cfg p h g \<and> activated cfg p hdr fw g h')
     (\<lambda>e h'. \<exists>n. e = Exit n \<and> n \<noteq> 0) g" (is "wp ?m ?Q ?E g") if g: "prepared cfg p h g" for g
  proof -
    let ?sw = "swupdate_command fw"
    let ?g1 = "after p ?sw g"
    have sw: "[''swupdate'', ''-i'', fw] = ?sw" and re: "[''systemctl'', ''restart'', ''mbl-cloud-client''] = restart_command"
      by (simp_all add: swupdate_command_def restart_command_def)
    let ?to = "if isdir (files ?g1) ?saved then ?saved @ [last (comps hdr)] else ?saved"
    have finished: "?Q () k"
      if ok: "fst (outcome p ?sw g) = 0" and r: "readable p (comps hdr) ?g1 = Some s"
        and k': "k' = after p [''sync''] (with_file ?to s ?g1)"
        and k: "if map_of (files ?g1) ?flag = None then k = k' else k = after p restart_command k' \<and> fst (outcome p restart_command k') = 0"
      for s k k'
    proof -
      have sv: "\<not> isdir (files ?g1) ?saved \<longrightarrow> map_of (files k') ?saved = Some (Document s)" and fl: "map_of (files k') ?flag = map_of (files ?g1) ?flag"
        using ne ne [symmetric] by (simp_all add: k' activation_contractD(2) [OF c])
      have "last (history k') \<noteq> restart_command"
        using last_after [of p "[''sync'']" "with_file ?to s ?g1"] after_success [OF ok]
        by (auto simp: k' restart_command_def swupdate_command_def)
      then have "activated cfg p hdr fw g k"
        using ok r k sv fl after_success [of p restart_command k'] activation_contractD(3,4) [OF c, of k']
        by (auto simp: activated_def Let_def split: if_splits)
      then show ?thesis using g by blast
    qed
    have nz: "?E (Exit n) k" if "n \<noteq> 0" for n k using that by simp
    show ?thesis
      unfolding save_header_or_die_def exit_on_error_def sw re
      using nz
      by (auto simp: wp_simps Let_def activation_contractD(2) [OF c] ne ne [symmetric] intro!: finished split: option.split prod.split)
  qed
  have prep: "prepared cfg p h (with_file ?flag [] h)"
      "map_of (files h) ?flag \<noteq> None \<or> \<not> writable p ?flag h \<Longrightarrow> prepared cfg p h h"
    by (auto simp: prepared_def)
  show ?thesis
    unfolding call_swupdate_def
    by (subst wp_and_then, subst wp_touch) (use ne prep in \<open>auto intro!: rest\<close>)
qed

lemma activated_cong:
  assumes "activated cfg p hdr fw g k" and "history k' = history k"
    and "map_of (files k') (SAVED_HEADER_PATH cfg) = map_of (files k) (SAVED_HEADER_PATH cfg)"
    and "map_of (files k') (do_not_reboot_flag cfg) = map_of (files k) (do_not_reboot_flag cfg)"
  shows "activated cfg p hdr fw g k'"
  using assms by (simp add: activated_def)

lemma activation_result:
  assumes c: "activation_contract cfg p" and l: "activation_layout cfg"
  shows "\<exists>rc h'. arm_update_activate cfg p hdr firmware h = Some (Inr rc, h') \<and>
    (rc = 0 \<longrightarrow> map_of (files h') (PAYLOAD_TMP_DIR cfg) = None \<and>
      (\<exists>out g. outcome p [''realpath'', firmware] h = (0, out) \<and> prepared cfg p h g \<and> activated cfg p hdr (strip_newlines out) g h'))"
proof -
  let ?tmp = "PAYLOAD_TMP_DIR cfg" and ?m = "\<lambda>fw. and_then (call_swupdate cfg p hdr fw) (\<lambda>_. sh_exit 0)"
  let ?Q = "\<lambda>h'. map_of (files h') ?tmp = None \<and>
      (\<exists>out g. outcome p [''realpath'', firmware] h = (0, out) \<and> prepared cfg p h g \<and> activated cfg p hdr (strip_newlines out) g h')"
  have apart: "\<not> prefix ?tmp (SAVED_HEADER_PATH cfg)" "\<not> prefix ?tmp (do_not_reboot_flag cfg)"
      "\<not> prefix (SAVED_HEADER_PATH cfg) ?tmp" "\<not> prefix (do_not_reboot_flag cfg) ?tmp"
    using l by (simp_all add: activation_layout_def)
  have clean: "wp (clean_up cfg p) (\<lambda>_ h'. map_of (files h') ?tmp = None \<and> history h' = history k \<and>
      (\<forall>q. \<not> prefix ?tmp q \<longrightarrow> map_of (files h') q = map_of (files k) q)) (\<lambda>_ _. False) k" for k
    unfolding clean_up_def by (subst wp_and_then, rule wp_mono [OF wp_rm_tmp [OF c]]) (auto simp: wp_ret)
  have called: "wp (try_finally (?m (strip_newlines out)) (clean_up cfg p)) (\<lambda>_ _. False) (\<lambda>e h'. \<exists>n. e = Exit n \<and> (n = 0 \<longrightarrow> ?Q h')) k"
    if real: "outcome p [''realpath'', firmware] h = (0, out)"
      and same: "\<And>g. prepared cfg p k g \<Longrightarrow> prepared cfg p h g" for k out
    unfolding wp_try_finally wp_and_then
  proof (rule wp_mono [OF wp_call_swupdate [OF c l]], goal_cases)
    case (1 u k')
    then obtain g where g: "prepared cfg p h g" "activated cfg p hdr (strip_newlines out) g k'" using same by blast
    show ?case
      unfolding wp_sh_exit
    proof (rule wp_mono [OF clean], goal_cases)
      case (1 v k2)
      then have "activated cfg p hdr (strip_newlines out) g k2" using activated_cong [OF g(2), of k2] apart by simp
      then show ?case using 1 g(1) real by blast
    qed simp
  next
    case (2 e k')
    then show ?case by (auto intro: wp_mono [OF clean])
  qed
  have "wp (arm_update_activate cfg p hdr firmware) (\<lambda>rc h'. rc = 0 \<longrightarrow> ?Q h') (\<lambda>_ _. False) h"
    unfolding arm_update_activate_def wp_run_script
  proof (subst wp_and_then, subst wp_command, unfold wp_case_prod split_beta wp_if wp_sh_exit, split if_split, intro conjI impI)
    let ?h1 = "after p [''realpath'', firmware] h" and ?out = "snd (outcome p [''realpath'', firmware] h)"
    assume "\<not> fst (outcome p [''realpath'', firmware] h) \<noteq> 0"
    then have real: "outcome p [''realpath'', firmware] h = (0, ?out)" by (simp add: prod_eq_iff)
    show "wp (and_then (set_up_payload_tmp_dir_or_die cfg p) (\<lambda>_. try_finally (?m (strip_newlines ?out)) (clean_up cfg p)))
       (\<lambda>_ h'. 0 = (0::int) \<longrightarrow> ?Q h') (\<lambda>e h'. if is_exit e then exit_code e = 0 \<longrightarrow> ?Q h' else False) ?h1"
    proof (subst wp_and_then, rule wp_mono [OF wp_set_up [OF c]], goal_cases)
      case (1 u k)
      then have "prepared cfg p k g \<Longrightarrow> prepared cfg p h g" for g
        using 1 apart by (simp add: prepared_def activation_contractD(1) [OF c])
      then show ?case by (intro wp_mono [OF called [OF real]]) auto
    qed simp
  qed simp
  from wp_always [OF this] show ?thesis by metis
qed

text \<open>The query of the active header: the client finds the saved header next to the one it named, and is told if there is none.\<close>

lemma wp_arm_update_active_details:
  assumes "\<not> isdir (files h) (butlast (comps hdr) @ [''header.bin''])"
  shows "wp (arm_update_active_details cfg p hdr)
    (\<lambda>rc h'. rc \<in> {0, 22, 23} \<and> (rc = 23 \<longleftrightarrow> map_of (files h) (SAVED_HEADER_PATH cfg) = None) \<and>
       (rc = 0 \<longrightarrow> (\<exists>s. readable p (SAVED_HEADER_PATH cfg) h = Some s \<and>
          map_of (files h') (butlast (comps hdr) @ [''header.bin'']) = Some (Document s))) \<and>
       (\<forall>q. q \<noteq> butlast (comps hdr) @ [''header.bin''] \<longrightarrow> map_of (files h') q = map_of (files h) q)) (\<lambda>_ _. False) h"
  using assms by (auto simp: arm_update_active_details_def wp_simps Let_def split: option.split)

section \<open>Properties\<close>

text \<open>C23: the activation of an update.  The script comes back, whatever its commands do.  When it ends with 0, swupdate has
  accepted the update, called on a machine on which the file that forbids a reboot was written unless it could not be; the header
  it was given is saved (unless a directory is in its place); that file is there exactly if swupdate and its handlers left it; the last command was the restart
  of the cloud client if it is there and another one if it is not; and the temporary directory is gone.\<close>

theorem arm_update_activate_outcome:
  assumes c: "activation_contract cfg p" and l: "activation_layout cfg"
  shows "\<exists>rc h'. arm_update_activate cfg p hdr firmware h = Some (Inr rc, h') \<and>
    (rc = 0 \<longrightarrow> map_of (files h') (PAYLOAD_TMP_DIR cfg) = None \<and>
      (\<exists>out g. outcome p [''realpath'', firmware] h = (0, out) \<and> prepared cfg p h g \<and> activated cfg p hdr (strip_newlines out) g h'))"
  using assms by (rule activation_result)

definition demo_before_activation :: "unit host" where
  "demo_before_activation =
     \<lparr>files = [([], Folder), ([''tmp''], Folder), ([''var''], Folder), ([''var'', ''bootflags''], Folder),
        ([''u''], Document ''payload''), ([''h''], Document ''header'')],
      clock = 0, epoch = 0, answers = [], history = [], outside = ()\<rparr>"

lemma demo_activation_contract: "activation_contract default_script_config demo_shell" "activation_layout default_script_config"
  by (simp_all add: activation_contract_def activation_layout_def default_script_config_def SAVED_HEADER_PATH_def do_not_reboot_flag_def
      demo_shell_def [THEN arg_cong [where f = refuses]])

lemma demo_activation:
  "map_option (\<lambda>(r, h). (r, last (history h))) (arm_update_activate default_script_config demo_shell ''/h'' ''/u'' demo_before_activation) =
     Some (Inr 0, restart_command)"
  by code_simp

theorem arm_update_activate_outcome_witness:
  "\<exists>h'. arm_update_activate default_script_config demo_shell ''/h'' ''/u'' demo_before_activation = Some (Inr 0, h') \<and>
     map_of (files h') [''var'', ''bootflags'', ''header''] = Some (Document ''header'') \<and>
     map_of (files h') [''tmp'', ''arm_update_activate''] = None \<and> last (history h') = restart_command"
proof -
  from arm_update_activate_outcome [OF demo_activation_contract, of "''/h''" "''/u''" demo_before_activation] obtain rc h'
    where run: "arm_update_activate default_script_config demo_shell ''/h'' ''/u'' demo_before_activation = Some (Inr rc, h')"
      and res: "rc = 0 \<longrightarrow> map_of (files h') (PAYLOAD_TMP_DIR default_script_config) = None \<and>
        (\<exists>out g. outcome demo_shell [''realpath'', ''/u''] demo_before_activation = (0, out) \<and>
           prepared default_script_config demo_shell demo_before_activation g \<and>
           activated default_script_config demo_shell ''/h'' (strip_newlines out) g h')"
    by blast
  have rc: "rc = 0" using run demo_activation by simp
  with res obtain fw g where g: "prepared default_script_config demo_shell demo_before_activation g"
    and a: "activated default_script_config demo_shell ''/h'' fw g h'" by blast
  have "map_of (files g) [''h''] = Some (Document ''header'')"
    and "\<not> isdir (files g) [''var'', ''bootflags'', ''header'']"
    using g by (simp_all add: prepared_def default_script_config_def do_not_reboot_flag_def demo_before_activation_def isdir_def)
  with a have "map_of (files h') [''var'', ''bootflags'', ''header''] = Some (Document ''header'')"
    by (auto simp: activated_def readable_def Let_def default_script_config_def SAVED_HEADER_PATH_def split: if_splits)
  moreover have "map_of (files h') [''tmp'', ''arm_update_activate''] = None"
    using res rc by (simp add: default_script_config_def)
  moreover have "last (history h') = restart_command" using run demo_activation by simp
  ultimately show ?thesis using run unfolding rc by blast
qed

end
