(* ===== verification/Image_Handlers.thy ===== *)
theory Image_Handlers imports Update_Activation begin

text \<open>
  \<open>swupdate_handlers.lua\<close>: the handlers in Lua that swupdate calls for the images of boot loaders, of the boot partition and of
  applications; each copies its image into a file and runs an installer script on it.  The copy is a method of the image that
  swupdate provides, so it is a parameter; \<open>os.execute\<close> (of Lua 5.2 and later) hands a line to the shell of the platform.
\<close>

section \<open>The handlers\<close>

record image =
  filename :: string

text \<open>\<open>image:copy2file(path)\<close>: an error code, and the machine afterwards\<close>

type_synonym 'x copy2file = "image \<Rightarrow> string \<Rightarrow> 'x host \<Rightarrow> int \<times> 'x host"

definition copied :: "'x copy2file \<Rightarrow> image \<Rightarrow> string \<Rightarrow> (int, 'x) py" where
  "copied copy2file img path h = (let (err, h') = copy2file img path h in ret err h')"

definition copy_image_to_file :: "script_config \<Rightarrow> 'x copy2file \<Rightarrow> image \<Rightarrow> (string option \<times> int, 'x) py" where
  "copy_image_to_file cfg copy2file img =
     (let img_path = path_str (PAYLOAD_TMP_DIR cfg) @ ''/'' @ filename img
      in and_then (copied copy2file img img_path) (\<lambda>err. ret (if err \<noteq> 0 then (None, 1) else (Some img_path, 0))))"

text \<open>Whether the command succeeded, and its code\<close>

definition os_execute :: "'x platform \<Rightarrow> string \<Rightarrow> (bool \<times> int, 'x) py" where
  "os_execute p cmd = and_then (command p [cmd]) (\<lambda>(rc, _). ret (rc = 0, rc))"

definition run_installer :: "'x platform \<Rightarrow> string \<Rightarrow> string \<Rightarrow> (int, 'x) py" where
  "run_installer p installer_path image_path =
     and_then (os_execute p (installer_path @ '' '' @ image_path)) (\<lambda>(success, err).
       ret (if \<not> success then 1 else if err \<noteq> 0 then 1 else 0))"

definition install_with :: "script_config \<Rightarrow> 'x platform \<Rightarrow> 'x copy2file \<Rightarrow> string \<Rightarrow> image \<Rightarrow> (int, 'x) py" where
  "install_with cfg p copy2file installer img =
     and_then (copy_image_to_file cfg copy2file img) (\<lambda>(img_path, cp_err).
       if cp_err \<noteq> 0 then ret 1
       else and_then (run_installer p installer (case img_path of Some s \<Rightarrow> s | None \<Rightarrow> ''nil'')) (\<lambda>ri_err.
         ret (if ri_err \<noteq> 0 then 1 else 0)))"

definition wks_bootloader1 :: "script_config \<Rightarrow> 'x platform \<Rightarrow> 'x copy2file \<Rightarrow> image \<Rightarrow> (int, 'x) py" where
  "wks_bootloader1 cfg p copy2file = install_with cfg p copy2file ''/opt/arm/bootloader_installer.sh''"

definition wks_bootloader2 :: "script_config \<Rightarrow> 'x platform \<Rightarrow> 'x copy2file \<Rightarrow> image \<Rightarrow> (int, 'x) py" where
  "wks_bootloader2 cfg p copy2file = install_with cfg p copy2file ''/opt/arm/bootloader_installer.sh''"

definition boot :: "script_config \<Rightarrow> 'x platform \<Rightarrow> 'x copy2file \<Rightarrow> image \<Rightarrow> (int, 'x) py" where
  "boot cfg p copy2file = install_with cfg p copy2file ''/opt/arm/boot_partition_installer.sh''"

definition apps :: "script_config \<Rightarrow> 'x platform \<Rightarrow> 'x copy2file \<Rightarrow> image \<Rightarrow> (int, 'x) py" where
  "apps cfg p copy2file = install_with cfg p copy2file ''/opt/arm/apps_installer.sh''"

definition registered_handlers :: "script_config \<Rightarrow> 'x platform \<Rightarrow> 'x copy2file \<Rightarrow> (string \<times> (image \<Rightarrow> (int, 'x) py)) list" where
  "registered_handlers cfg p copy2file =
     [(''WKS_BOOTLOADER1v3'', wks_bootloader1 cfg p copy2file), (''WKS_BOOTLOADER2v3'', wks_bootloader2 cfg p copy2file),
      (''BOOTv3'', boot cfg p copy2file), (''APPSv3'', apps cfg p copy2file)]"

text \<open>What swupdate documents: the images of a payload are given to the handlers of their types, one after the other, until one fails.\<close>

primrec install_images ::
    "script_config \<Rightarrow> 'x platform \<Rightarrow> 'x copy2file \<Rightarrow> (string \<times> image) list \<Rightarrow> (int, 'x) py" where
  "install_images cfg p copy2file [] = ret 0"
| "install_images cfg p copy2file (x # xs) =
     (case map_of (registered_handlers cfg p copy2file) (fst x) of
        None \<Rightarrow> ret 1
      | Some handler \<Rightarrow> and_then (handler (snd x)) (\<lambda>rc. if rc \<noteq> 0 then ret 1 else install_images cfg p copy2file xs))"

section \<open>The scripts as commands\<close>

definition as_command :: "(int, 'x) py \<Rightarrow> 'x host \<Rightarrow> (int \<times> string) option \<times> 'x host" where
  "as_command m h = (case m h of Some (Inr rc, h') \<Rightarrow> (Some (rc, []), h') | _ \<Rightarrow> (None, h))"

text \<open>The path that an image is copied to, where the shell takes it as one word and it is not the file that forbids a reboot.\<close>

definition image_path :: "script_config \<Rightarrow> image \<Rightarrow> string" where
  "image_path cfg img = path_str (PAYLOAD_TMP_DIR cfg) @ ''/'' @ filename img"

definition plain_image :: "script_config \<Rightarrow> image \<Rightarrow> bool" where
  "plain_image cfg img \<longleftrightarrow> list_all (\<lambda>c. \<not> blank c) (image_path cfg img) \<and>
     comps (image_path cfg img) \<noteq> do_not_reboot_flag cfg \<and> comps (drop_xz (image_path cfg img)) \<noteq> do_not_reboot_flag cfg"

text \<open>
  The machine on which the handlers run: the shell runs the installed scripts, the copy writes only its file, and the installer of
  applications leaves the file that forbids a reboot.  The scripts run on a platform of their own, that of their commands.
\<close>

definition handler_contract :: "script_config \<Rightarrow> 'x platform \<Rightarrow> 'x platform \<Rightarrow> 'x copy2file \<Rightarrow> bool" where
  "handler_contract cfg p scripts copy2file \<longleftrightarrow>
     (\<forall>path h. list_all (\<lambda>c. \<not> blank c) path \<longrightarrow>
        exec p [''/opt/arm/bootloader_installer.sh'' @ '' '' @ path] h = as_command (bootloader_installer cfg scripts path) h \<and>
        exec p [''/opt/arm/boot_partition_installer.sh'' @ '' '' @ path] h = as_command (boot_partition_installer cfg scripts path) h) \<and>
     (\<forall>path h. map_of (files (after p [''/opt/arm/apps_installer.sh'' @ '' '' @ path] h)) (do_not_reboot_flag cfg) = map_of (files h) (do_not_reboot_flag cfg)) \<and>
     (\<forall>img path h. \<forall>q. q \<noteq> comps path \<longrightarrow> map_of (files (snd (copy2file img path h))) q = map_of (files h) q)"

section \<open>Installers that end with 0\<close>

text \<open>A script ends with a status of its own: each of its exits is with a number other than zero, or at its end.\<close>

definition fails_with_number :: "exn \<Rightarrow> 'x host \<Rightarrow> bool" where
  "fails_with_number e h \<longleftrightarrow> (\<exists>n. e = Exit n \<and> n \<noteq> 0)"

lemma fails_with_number_simp [simp]: "fails_with_number (Exit n) h \<longleftrightarrow> n \<noteq> 0"
  by (simp add: fails_with_number_def)

lemma wp_exit_on_error [wp_simps]: "wp (exit_on_error n) Q E h = (if n = 0 then Q () h else E (Exit n) h)"
  by (simp add: exit_on_error_def wp_simps)

lemma wp_is_part_skipped [wp_simps]:
  "wp (is_part_skipped cfg p part) Q E h =
     Q ((case readable p (part_info cfg (drop_version part) ''SKIP'') h of None \<Rightarrow> [] | Some s \<Rightarrow> strip_newlines s) = ''1'') h"
  by (simp add: is_part_skipped_def wp_simps split: option.split prod.split)

lemma wp_copy_dir_fails: "wp (copy_dir_or_die p src mnt) (\<lambda>_ _. True) fails_with_number h"
proof -
  have all: "wp (all_ok f xs) (\<lambda>_ _. True) E h" if "\<And>x h. wp (f x) (\<lambda>_ _. True) E h"
    for f :: "location \<Rightarrow> (bool, 'a) py" and xs E h
    using that by (intro wp_all_ok [where I = "\<lambda>_ _ _. True", THEN wp_mono]) (auto intro: wp_mono)
  have rm: "wp (all_ok (rm_f p) xs) Q E h" if "\<And>ok h'. Q ok h'" for xs Q E h
    by (rule wp_mono [OF all [of "rm_f p" E]]) (use that in \<open>auto simp: wp_rm_f\<close>)
  have cp: "wp (cp_all p xs d) Q E h" if "\<And>ok h'. Q ok h'" for xs d Q E h
    unfolding cp_all_def wp_then_look
    using that by (auto simp: wp_ret intro!: wp_mono [OF all [of "\<lambda>s. cp p s d" E]] simp: wp_cp Let_def split: option.split)
  show ?thesis
    by (simp add: copy_dir_or_die_def wp_simps Let_def rm cp)
qed

lemma wp_update_boot_part_fails:
  "wp (update_boot_part_from_dir_or_die cfg p part dir size_B skip_ok) (\<lambda>_ _. True) fails_with_number h"
proof -
  have "wp (and_then (copy_dir_or_die p dir mnt) (\<lambda>_. remove_do_not_reboot_flag_or_die cfg p)) (\<lambda>_ _. True) fails_with_number h" for mnt
    by (subst wp_and_then, rule wp_mono [OF wp_copy_dir_fails]) (auto simp: wp_remove_flag)
  then show ?thesis
    by (simp add: update_boot_part_from_dir_or_die_def get_part_size_B_def wp_and_then [of "is_part_skipped cfg p x" for x]
        wp_and_then [of "captured m" for m] wp_and_then [of "exit_on_error n" for n] wp_and_then [of "cat p f" for f]
        wp_is_part_skipped wp_captured wp_get_part_size_var_B wp_exit_on_error wp_cat wp_sh_exit wp_ret
        split: option.split)
qed

text \<open>
  What the installer has done with a boot partition when it goes on: it was skipped, which is allowed for one of the two; or its
  files are those of the directory, whose estimated size does not exceed that of the partition, and the flag is removed.
\<close>

definition part_skipped :: "script_config \<Rightarrow> 'x platform \<Rightarrow> string \<Rightarrow> 'x host \<Rightarrow> bool" where
  "part_skipped cfg p part h \<longleftrightarrow>
     (case readable p (part_info cfg (drop_version part) ''SKIP'') h of None \<Rightarrow> [] | Some s \<Rightarrow> strip_newlines s) = ''1''"

definition mount_point_of :: "script_config \<Rightarrow> 'x platform \<Rightarrow> string \<Rightarrow> 'x host \<Rightarrow> string" where
  "mount_point_of cfg p part h = (case readable p (part_info cfg part ''MOUNT_POINT'') h of None \<Rightarrow> [] | Some s \<Rightarrow> strip_newlines s)"

definition boot_part_updated :: "script_config \<Rightarrow> 'x platform \<Rightarrow> string \<Rightarrow> location \<Rightarrow> string \<Rightarrow> 'x host \<Rightarrow> 'x host \<Rightarrow> bool" where
  "boot_part_updated cfg p part dir size_B h h' \<longleftrightarrow>
     (\<exists>max_size fs. part_value cfg p h part ''SIZE'' = Some max_size \<and> digits_value size_B \<le> max_size \<and>
        mirrored dir (comps (mount_point_of cfg p part h)) (files h) fs \<and>
        (\<forall>q. map_of (files h') q = (if q = do_not_reboot_flag cfg then None else map_of fs q)))"

lemma wp_update_boot_part_result:
  assumes m: "mount_contract p" and d: "isdir (files h) (comps (mount_point_of cfg p part h))"
    and apart: "dir \<noteq> comps (mount_point_of cfg p part h)"
  shows "wp (update_boot_part_from_dir_or_die cfg p part dir size_B skip_ok)
    (\<lambda>_ h'. if part_skipped cfg p part h then skip_ok = ''yes'' \<and> h' = h else boot_part_updated cfg p part dir size_B h h')
    (\<lambda>_ _. True) h"
proof -
  have "wp (and_then (copy_dir_or_die p dir (mount_point_of cfg p part h)) (\<lambda>_. remove_do_not_reboot_flag_or_die cfg p))
      (\<lambda>_ h'. boot_part_updated cfg p part dir size_B h h') (\<lambda>_ _. True) h"
    if "part_value cfg p h part ''SIZE'' = Some max_size" "digits_value size_B \<le> max_size" for max_size
    by (subst wp_and_then, rule wp_mono [OF wp_copy_dir_or_die [OF m d apart]])
      (use that in \<open>auto simp: wp_remove_flag boot_part_updated_def\<close>)
  then show ?thesis
    by (auto simp: update_boot_part_from_dir_or_die_def get_part_size_B_def part_skipped_def mount_point_of_def
        wp_and_then [of "is_part_skipped cfg p x" for x] digits_value_decimal
        wp_and_then [of "captured m" for m] wp_and_then [of "exit_on_error n" for n] wp_and_then [of "cat p f" for f]
        wp_is_part_skipped wp_captured wp_get_part_size_var_B wp_exit_on_error wp_cat wp_sh_exit wp_ret
        split: option.split)
qed

lemma wp_update_boot_or_die:
  "wp (update_boot_or_die cfg p path) (\<lambda>_ h'. map_of (files h') (do_not_reboot_flag cfg) = None) fails_with_number h"
proof -
  have parts: "wp (and_then (update_boot_part_from_dir_or_die cfg p a dir size_B x) (\<lambda>_.
      and_then (update_boot_part_from_dir_or_die cfg p b dir size_B y) (\<lambda>_. remove_do_not_reboot_flag_or_die cfg p)))
      (\<lambda>_ h'. map_of (files h') (do_not_reboot_flag cfg) = None) fails_with_number h" for a b x y dir size_B h
    by (subst wp_and_then, rule wp_mono [OF wp_update_boot_part_fails],
        subst wp_and_then, rule wp_mono [OF wp_update_boot_part_fails]) (auto simp: wp_remove_flag)
  show ?thesis
    by (simp add: update_boot_or_die_def validate_positive_integer_or_die_def parts Let_def wp_and_then [of "or_exit n m" for n m]
        wp_and_then [of "command p c" for c] wp_and_then [of "ret x" for x] wp_and_then [of "sh_exit n" for n]
        wp_or_exit wp_mkdir_p wp_command wp_command_ok wp_sh_exit wp_ret split: option.split prod.split)
qed

lemma boot_partition_installer_removes_flag:
  assumes "boot_partition_installer cfg p path h = Some (Inr 0, h')"
  shows "map_of (files h') (do_not_reboot_flag cfg) = None"
proof -
  have "wp (boot_partition_installer cfg p path) (\<lambda>rc h'. rc = 0 \<longrightarrow> map_of (files h') (do_not_reboot_flag cfg) = None) (\<lambda>_ _. False) h"
    unfolding boot_partition_installer_def wp_run_script
    by (subst wp_and_then, rule wp_mono [OF wp_update_boot_or_die]) (auto simp: wp_sh_exit fails_with_number_def)
  from wp_result [OF this assms] show ?thesis by simp
qed

lemma bootloader_installer_removes_flag:
  assumes "device_contract p" and "comps (drop_xz path) \<noteq> do_not_reboot_flag cfg" and "bootloader_installer cfg p path h = Some (Inr 0, h')"
  shows "map_of (files h') (do_not_reboot_flag cfg) = None"
proof -
  have "wp (bootloader_installer cfg p path) (\<lambda>rc h'. rc = 0 \<longrightarrow> map_of (files h') (do_not_reboot_flag cfg) = None) (\<lambda>_ _. False) h"
    unfolding bootloader_installer_def wp_run_script
    by (subst wp_and_then, rule wp_mono [OF wp_update_bootloader_or_die [OF assms(1,2)]]) (auto simp: wp_sh_exit)
  from wp_result [OF this assms(3)] show ?thesis by simp
qed

section \<open>From the images to the flag\<close>

lemma command_eq: "command p cmd h = Some (Inr (outcome p cmd h), after p cmd h)"
  by (simp add: command_def subprocess_run_def try_else_def raise_def ret_def outcome_def after_def split: option.split prod.split)

lemma install_with_eq:
  "install_with cfg p copy2file installer img h =
     (let (err, h1) = copy2file img (image_path cfg img) h; cmd = [installer @ '' '' @ image_path cfg img] in
      Some (if err \<noteq> 0 then (Inr 1, h1) else (Inr (if fst (outcome p cmd h1) = 0 then 0 else 1), after p cmd h1)))"
  by (simp add: install_with_def copy_image_to_file_def copied_def run_installer_def os_execute_def command_eq and_then_def ret_def
      image_path_def Let_def split: prod.split)

lemma as_command_success:
  assumes "exec p cmd h = as_command m h" and "fst (outcome p cmd h) = 0"
  shows "\<exists>h'. m h = Some (Inr 0, h') \<and> files (after p cmd h) = files h'"
  using assms by (auto simp: as_command_def outcome_def after_def split: option.splits sum.splits)

lemma handler_and_flag:
  assumes c: "handler_contract cfg p scripts copy2file" "device_contract scripts" and img: "plain_image cfg img"
    and reg: "map_of (registered_handlers cfg p copy2file) type = Some handler"
    and run: "handler img h = Some (Inr 0, h')"
  shows "map_of (files h') (do_not_reboot_flag cfg) =
    (if type = ''APPSv3'' then map_of (files h) (do_not_reboot_flag cfg) else None)"
proof -
  let ?path = "image_path cfg img" and ?flag = "do_not_reboot_flag cfg"
  let ?h1 = "snd (copy2file img ?path h)"
  from reg obtain installer where h: "handler = install_with cfg p copy2file installer"
    and kind: "type \<noteq> ''APPSv3'' \<longrightarrow> installer = ''/opt/arm/bootloader_installer.sh'' \<or> installer = ''/opt/arm/boot_partition_installer.sh''"
      "type = ''APPSv3'' \<longrightarrow> installer = ''/opt/arm/apps_installer.sh''"
    by (auto simp: registered_handlers_def wks_bootloader1_def wks_bootloader2_def boot_def apps_def split: if_splits)
  let ?cmd = "[installer @ '' '' @ ?path]"
  have ok: "fst (outcome p ?cmd ?h1) = 0" and h': "h' = after p ?cmd ?h1"
    using run by (auto simp: h install_with_eq Let_def split: prod.splits if_splits)
  have p: "list_all (\<lambda>c. \<not> blank c) ?path" "comps ?path \<noteq> ?flag" "comps (drop_xz ?path) \<noteq> ?flag"
    using img by (simp_all add: plain_image_def)
  show ?thesis
  proof (cases "type = ''APPSv3''")
    case True
    have "map_of (files h') ?flag = map_of (files ?h1) ?flag"
      using c(1) kind(2) True unfolding h' handler_contract_def by metis
    also have "\<dots> = map_of (files h) ?flag" using c(1) p(2) unfolding handler_contract_def by metis
    finally show ?thesis using True by simp
  next
    case False
    with kind(1) consider "installer = ''/opt/arm/bootloader_installer.sh''" | "installer = ''/opt/arm/boot_partition_installer.sh''" by blast
    then show ?thesis
    proof cases
      case 1
      have "exec p ?cmd ?h1 = as_command (bootloader_installer cfg scripts ?path) ?h1"
        using c(1) p(1) unfolding 1 handler_contract_def by metis
      from as_command_success [OF this ok] show ?thesis
        using bootloader_installer_removes_flag [OF c(2) p(3)] False h' by metis
    next
      case 2
      have "exec p ?cmd ?h1 = as_command (boot_partition_installer cfg scripts ?path) ?h1"
        using c(1) p(1) unfolding 2 handler_contract_def by metis
      from as_command_success [OF this ok] show ?thesis
        using boot_partition_installer_removes_flag False h' by metis
    qed
  qed
qed

lemma install_images_flag:
  assumes c: "handler_contract cfg p scripts copy2file" "device_contract scripts"
    and "\<And>x. x \<in> set images \<Longrightarrow> plain_image cfg (snd x)"
    and "install_images cfg p copy2file images h = Some (Inr 0, h')"
  shows "map_of (files h') (do_not_reboot_flag cfg) =
    (if fst ` set images \<subseteq> {''APPSv3''} then map_of (files h) (do_not_reboot_flag cfg) else None)"
  using assms(3,4)
proof (induction images arbitrary: h)
  case (Cons x xs)
  obtain handler where reg: "map_of (registered_handlers cfg p copy2file) (fst x) = Some handler"
    using Cons.prems(2) by (auto simp: ret_def split: option.splits)
  obtain rc h1 where run: "handler (snd x) h = Some (Inr rc, h1)"
    and rest: "(if rc \<noteq> 0 then ret 1 else install_images cfg p copy2file xs) h1 = Some (Inr 0, h')"
    using Cons.prems(2) by (auto simp: reg and_then_result)
  have rc: "rc = 0" using rest by (auto simp: ret_def split: if_splits)
  have "map_of (files h1) (do_not_reboot_flag cfg) = (if fst x = ''APPSv3'' then map_of (files h) (do_not_reboot_flag cfg) else None)"
    using Cons.prems(1) by (intro handler_and_flag [OF c _ reg run [unfolded rc]]) simp
  moreover have "map_of (files h') (do_not_reboot_flag cfg) =
      (if fst ` set xs \<subseteq> {''APPSv3''} then map_of (files h1) (do_not_reboot_flag cfg) else None)"
    using Cons.IH [of h1] rest rc Cons.prems(1) by simp
  ultimately show ?case by simp
qed (simp add: ret_def)

end
