(* ===== verification/Crc32.thy ===== *)
theory Crc32 imports Prelude "HOL-Library.Word" begin

text \<open>
  The checksum of the firmware update header: Python's \<open>zlib.crc32\<close>, one bit at a time, with the
  fact that makes it useful: no single byte can change without changing the checksum.
\<close>

unbundle bit_operations_syntax

type_synonym byte = "8 word"

definition crc_poly :: "32 word" where "crc_poly = 0xEDB88320"

definition crc_bit :: "32 word \<Rightarrow> 32 word" where
  "crc_bit c = (if bit c 0 then drop_bit 1 c XOR crc_poly else drop_bit 1 c)"

definition crc_byte :: "32 word \<Rightarrow> byte \<Rightarrow> 32 word" where
  "crc_byte c b = (crc_bit ^^ 8) (c XOR ucast b)"

definition crc32 :: "byte list \<Rightarrow> 32 word" where
  "crc32 bs = NOT (foldl crc_byte 0xFFFFFFFF bs)"

lemma crc_byte_unfold:
  "crc_byte c b = crc_bit (crc_bit (crc_bit (crc_bit (crc_bit (crc_bit (crc_bit (crc_bit (c XOR ucast b))))))))"
  by (simp add: crc_byte_def eval_nat_numeral)

text \<open>The check value of the algorithm: the checksum of the letters a, b and c.\<close>

lemma crc32_check: "crc32 [0x61, 0x62, 0x63] = 0x352441C2"
  by (simp add: crc32_def crc_byte_unfold crc_bit_def crc_poly_def)

lemma bit_crc_bit:
  assumes "n < 32"
  shows "bit (crc_bit c) n \<longleftrightarrow> (bit c (Suc n) \<noteq> (bit c 0 \<and> bit crc_poly n))"
  using assms by (auto simp: crc_bit_def bit_xor_iff bit_drop_bit_eq)

lemma bit_crc_bit_top: "bit (crc_bit c) 31 \<longleftrightarrow> bit c 0"
proof -
  have "bit crc_poly 31" by (simp add: crc_poly_def)
  moreover have "\<not> bit c 32" by (simp add: bit_word.rep_eq)
  ultimately show ?thesis by (simp add: bit_crc_bit)
qed

lemma crc_bit_inj: "inj crc_bit"
proof (rule injI, rule bit_word_eqI)
  fix c d :: "32 word" and n
  assume e: "crc_bit c = crc_bit d" and n: "n < LENGTH(32)"
  have z: "bit c 0 = bit d 0" using bit_crc_bit_top [of c] bit_crc_bit_top [of d] e by simp
  show "bit c n = bit d n"
  proof (cases n)
    case (Suc k)
    with n have "k < 32" by simp
    with bit_crc_bit [of k c] bit_crc_bit [of k d] e z show ?thesis by (auto simp: Suc)
  qed (simp add: z)
qed

lemma crc_byte_eq_iff:
  "crc_byte c a = crc_byte d b \<longleftrightarrow> c XOR ucast a = d XOR ucast b"
  unfolding crc_byte_def using inj_fn [OF crc_bit_inj, of 8] by (auto dest: injD)

lemma xor_cancel: "a XOR c = b XOR c \<longleftrightarrow> a = b" "c XOR a = c XOR b \<longleftrightarrow> a = b" for a b c :: "32 word"
  by (metis xor.assoc xor.right_neutral xor_self_eq) (metis xor.assoc xor.left_neutral xor_self_eq)

lemma crc_byte_inj1: "crc_byte c b = crc_byte d b \<longleftrightarrow> c = d"
  by (simp only: crc_byte_eq_iff xor_cancel)

lemma crc_byte_inj2: "crc_byte c a = crc_byte c b \<longleftrightarrow> a = b"
proof -
  have "(ucast (ucast a :: 32 word) :: byte) = a" for a :: byte
    by (rule bit_word_eqI) (simp add: bit_ucast_iff)
  then show ?thesis by (metis crc_byte_eq_iff xor_cancel(2))
qed

lemma foldl_crc_inj: "foldl crc_byte c bs = foldl crc_byte d bs \<longleftrightarrow> c = d"
  by (induction bs arbitrary: c d) (auto simp: crc_byte_inj1)

lemma crc32_one_byte: "a \<noteq> b \<Longrightarrow> crc32 (xs @ a # ys) \<noteq> crc32 (xs @ b # ys)"
  by (simp add: crc32_def foldl_crc_inj crc_byte_inj2)

end
