(* ===== verification/Update_Header.thy ===== *)
theory Update_Header imports Crc32 begin

text \<open>
  \<open>firmware_update_header_util.py\<close>: the header that the cloud client stores for a firmware update, as
  bytes and as the attributes of a \<open>FirmwareUpdateHeader\<close>.  \<open>unpack\<close> changes an object, also when it
  raises, so it returns the object beside its result.
\<close>

section \<open>Big-endian numbers\<close>

definition be_val :: "byte list \<Rightarrow> int" where
  "be_val bs = foldl (\<lambda>a b. a * 256 + uint b) 0 bs"

fun be_bytes :: "nat \<Rightarrow> int \<Rightarrow> byte list" where
  "be_bytes 0 v = []"
| "be_bytes (Suc n) v = be_bytes n (v div 256) @ [word_of_int v]"

lemma length_be_bytes [simp]: "length (be_bytes n v) = n"
  by (induction n arbitrary: v) simp_all

lemma be_val_simps [simp]: "be_val [] = 0" "be_val (bs @ [b]) = be_val bs * 256 + uint b"
  by (simp_all add: be_val_def)

lemma uint_byte: "0 \<le> uint b \<and> uint b < 256" for b :: byte
  using unsigned_greater_eq [of b] unsigned_less [of b] by simp

lemma be_val_range: "0 \<le> be_val bs \<and> be_val bs < 256 ^ length bs"
proof (induction bs rule: rev_induct)
  case (snoc b bs)
  with uint_byte [of b] show ?case by simp
qed simp

lemma be_val_bytes: "be_val (be_bytes n v) = v mod 256 ^ n"
proof (induction n arbitrary: v)
  case (Suc n)
  have "v mod 256 ^ Suc n = (v div 256 mod 256 ^ n) * 256 + v mod 256"
    by (simp add: mod_mult2_eq' [symmetric] zmod_zmult2_eq algebra_simps)
  with Suc show ?case by (simp add: uint_word_of_int)
qed simp

lemma be_bytes_val: "be_bytes (length bs) (be_val bs) = bs"
proof (induction bs rule: rev_induct)
  case (snoc b bs)
  have "(be_val bs * 256 + uint b) div 256 = be_val bs" using uint_byte [of b] by simp
  moreover have "word_of_int (be_val bs * 256 + uint b) = b"
  proof -
    have "(256 :: byte) = 0" by (rule word_uint_eqI) simp
    then show ?thesis by (simp only: of_int_add of_int_mult of_int_numeral mult_zero_right add_0_left word_of_int_uint)
  qed
  ultimately show ?case using snoc by simp
qed simp

section \<open>The header\<close>

definition SIZEOF_SHA512 :: nat where "SIZEOF_SHA512 = 64"
definition SIZEOF_SHA256 :: nat where "SIZEOF_SHA256 = 32"
definition SIZEOF_GUID :: nat where "SIZEOF_GUID = 16"
definition HEADER_MAGIC :: int where "HEADER_MAGIC = 0x5A51B3D4"
definition HEADER_FORMAT_VERSION :: int where "HEADER_FORMAT_VERSION = 2"

text \<open>The sizes of the two formats: two numbers of 4 bytes, two of 8, the hash, the GUID and the size of
  the signature; and the checksum.\<close>

definition header_size :: nat where "header_size = 4 + 4 + 8 + 8 + SIZEOF_SHA512 + SIZEOF_GUID + 4"
definition crc_size :: nat where "crc_size = 4"
definition header_and_crc_size :: nat where "header_and_crc_size = header_size + crc_size"

lemmas header_consts = SIZEOF_SHA512_def SIZEOF_SHA256_def SIZEOF_GUID_def HEADER_MAGIC_def
  HEADER_FORMAT_VERSION_def header_size_def crc_size_def header_and_crc_size_def

record update_header =
  firmware_version :: int
  firmware_size :: int
  firmware_hash :: "byte list"
  campaign_id :: "byte list"
  firmware_signature :: "byte list"

definition FirmwareUpdateHeader :: update_header where
  "FirmwareUpdateHeader = \<lparr>firmware_version = 0, firmware_size = 0, firmware_hash = replicate SIZEOF_SHA256 0,
     campaign_id = replicate SIZEOF_GUID 0, firmware_signature = []\<rparr>"

datatype header_error =
    Data_too_short nat
  | Invalid_sha256
  | Invalid_magic int
  | Unsupported_version int
  | Invalid_crc int int
  | Signature_too_short nat nat
  | Incorrect_hash_size nat
  | Incorrect_campaign_size nat
  | Struct_error \<comment> \<open>\<open>struct.error\<close>: a number does not fit its field\<close>

definition slice :: "nat \<Rightarrow> nat \<Rightarrow> byte list \<Rightarrow> byte list" where
  "slice from n bs = take n (drop from bs)"

definition calculate_crc :: "byte list \<Rightarrow> int" where
  "calculate_crc header_bytes = uint (crc32 header_bytes) mod 2 ^ 32"

definition unpack :: "byte list \<Rightarrow> update_header \<Rightarrow> (header_error + unit) \<times> update_header" where
  "unpack data h =
     (if length data < header_and_crc_size then (Inl (Data_too_short (length data)), h)
      else
        let header_magic = be_val (slice 0 4 data);
            header_version = be_val (slice 4 4 data);
            firmware_hash_512 = slice 24 SIZEOF_SHA512 data;
            firmware_signature_size = be_val (slice 104 4 data);
            h = h\<lparr>firmware_version := be_val (slice 8 8 data), firmware_size := be_val (slice 16 8 data),
                  campaign_id := slice 88 SIZEOF_GUID data\<rparr>;
            h = h\<lparr>firmware_hash := take SIZEOF_SHA256 firmware_hash_512\<rparr>
        in if \<not> list_all (\<lambda>b. b = 0) (drop SIZEOF_SHA256 firmware_hash_512) then (Inl Invalid_sha256, h)
           else
             let header_crc = be_val (slice header_size crc_size data)
             in if header_magic \<noteq> HEADER_MAGIC then (Inl (Invalid_magic header_magic), h)
                else if header_version \<noteq> HEADER_FORMAT_VERSION then (Inl (Unsupported_version header_version), h)
                else
                  let correct_crc = calculate_crc (take header_size data)
                  in if header_crc \<noteq> correct_crc then (Inl (Invalid_crc header_crc correct_crc), h)
                     else if firmware_signature_size \<noteq> 0 then
                       let total_size = header_and_crc_size + nat firmware_signature_size
                       in if length data < total_size then (Inl (Signature_too_short total_size (length data)), h)
                          else (Inr (), h\<lparr>firmware_signature := slice header_and_crc_size (total_size - header_and_crc_size) data\<rparr>)
                     else (Inr (), h))"

text \<open>\<open>struct.pack_into\<close> raises for a number outside the range of its field.\<close>

definition fits :: "nat \<Rightarrow> int \<Rightarrow> bool" where
  "fits n v \<longleftrightarrow> 0 \<le> v \<and> v < 256 ^ n"

definition header_bytes :: "update_header \<Rightarrow> byte list" where
  "header_bytes h =
     be_bytes 4 HEADER_MAGIC @ be_bytes 4 HEADER_FORMAT_VERSION @ be_bytes 8 (firmware_version h) @
     be_bytes 8 (firmware_size h) @ (firmware_hash h @ replicate (SIZEOF_SHA512 - SIZEOF_SHA256) 0) @
     campaign_id h @ be_bytes 4 (int (length (firmware_signature h)))"

definition pack :: "update_header \<Rightarrow> header_error + byte list" where
  "pack h =
     (if length (firmware_hash h) \<noteq> SIZEOF_SHA256 then Inl (Incorrect_hash_size (length (firmware_hash h)))
      else if length (campaign_id h) \<noteq> SIZEOF_GUID then Inl (Incorrect_campaign_size (length (campaign_id h)))
      else if \<not> (fits 8 (firmware_version h) \<and> fits 8 (firmware_size h) \<and> fits 4 (int (length (firmware_signature h))))
      then Inl Struct_error
      else Inr (header_bytes h @ be_bytes crc_size (calculate_crc (header_bytes h)) @ firmware_signature h))"

text \<open>
  The hash of a stream: what each call of \<open>readinto\<close> gives, until one gives nothing.  The object of
  \<open>hashlib\<close> is a parameter: \<open>upd\<close> feeds bytes to it.
\<close>

fun calculate_firmware_hash :: "('s \<Rightarrow> byte list \<Rightarrow> 's) \<Rightarrow> 's \<Rightarrow> byte list list \<Rightarrow> 's" where
  "calculate_firmware_hash upd hasher [] = hasher"
| "calculate_firmware_hash upd hasher (chunk # chunks) =
     (if chunk = [] then hasher else calculate_firmware_hash upd (upd hasher chunk) chunks)"

section \<open>Facts\<close>

text \<open>How the stream is cut does not matter for an object that may be fed in pieces.\<close>

lemma calculate_firmware_hash_concat:
  assumes "\<And>s a b. upd (upd s a) b = upd s (a @ b)" and "\<And>s. upd s [] = s" and "[] \<notin> set chunks"
  shows "calculate_firmware_hash upd s chunks = upd s (concat chunks)"
  using assms(3) by (induction chunks arbitrary: s) (auto simp: assms(1,2))

lemma calculate_crc_range: "0 \<le> calculate_crc bs \<and> calculate_crc bs < 256 ^ 4"
  by (simp add: calculate_crc_def)

lemma calculate_crc_uint: "calculate_crc bs = uint (crc32 bs)"
proof -
  have "uint (crc32 bs) < 2 ^ 32" using unsigned_less [of "crc32 bs"] by simp
  then show ?thesis unfolding calculate_crc_def by (intro mod_pos_pos_trivial) simp_all
qed

lemma calculate_crc_one_byte: "a \<noteq> b \<Longrightarrow> calculate_crc (xs @ a # ys) \<noteq> calculate_crc (xs @ b # ys)"
  using crc32_one_byte [of a b xs ys] by (simp add: calculate_crc_uint word_uint_eq_iff)

text \<open>What a blob that is accepted looks like, and what the object then holds.\<close>

definition good_blob :: "byte list \<Rightarrow> bool" where
  "good_blob data \<longleftrightarrow>
     header_and_crc_size + nat (be_val (slice 104 4 data)) \<le> length data \<and>
     list_all (\<lambda>b. b = 0) (slice 56 32 data) \<and>
     be_val (slice 0 4 data) = HEADER_MAGIC \<and> be_val (slice 4 4 data) = HEADER_FORMAT_VERSION \<and>
     be_val (slice 108 4 data) = calculate_crc (take 108 data)"

definition contents :: "byte list \<Rightarrow> update_header \<Rightarrow> update_header" where
  "contents data h =
     h\<lparr>firmware_version := be_val (slice 8 8 data), firmware_size := be_val (slice 16 8 data),
       firmware_hash := slice 24 32 data, campaign_id := slice 88 16 data,
       firmware_signature := (let n = nat (be_val (slice 104 4 data)) in if n = 0 then firmware_signature h else slice 112 n data)\<rparr>"

lemma unpack_accepts:
  "(\<exists>h'. unpack data h = (Inr (), h')) \<longleftrightarrow> good_blob data"
  "unpack data h = (Inr (), h') \<Longrightarrow> h' = contents data h"
proof -
  have d: "drop 32 (slice 24 64 data) = slice 56 32 data" "take 32 (slice 24 64 data) = slice 24 32 data"
    by (simp_all add: slice_def drop_take min_def)
  have p: "be_val (slice 104 4 data) = 0 \<or> 0 < be_val (slice 104 4 data)"
    using be_val_range [of "slice 104 4 data"] by linarith
  show "(\<exists>h'. unpack data h = (Inr (), h')) \<longleftrightarrow> good_blob data"
    using p by (auto simp: unpack_def good_blob_def header_consts d Let_def)
  show "unpack data h = (Inr (), h') \<Longrightarrow> h' = contents data h"
    using p by (auto simp: unpack_def contents_def header_consts d Let_def split: if_splits)
qed

lemma be_val_fits: "fits n v \<Longrightarrow> be_val (be_bytes n v) = v"
  by (simp add: fits_def be_val_bytes)

lemma fits_consts: "fits 4 HEADER_MAGIC" "fits 4 HEADER_FORMAT_VERSION" "fits 4 (calculate_crc bs)"
  using calculate_crc_range [of bs] by (simp_all add: fits_def header_consts)

lemma length_header_bytes:
  "length (firmware_hash h) = SIZEOF_SHA256 \<Longrightarrow> length (campaign_id h) = SIZEOF_GUID \<Longrightarrow> length (header_bytes h) = 108"
  by (simp add: header_bytes_def header_consts)

text \<open>The fields of a packed header, read back.\<close>

lemma slices_header_bytes:
  assumes "length (firmware_hash h) = SIZEOF_SHA256" and "length (campaign_id h) = SIZEOF_GUID"
  shows "slice 0 4 (header_bytes h @ r) = be_bytes 4 HEADER_MAGIC"
    "slice 4 4 (header_bytes h @ r) = be_bytes 4 HEADER_FORMAT_VERSION"
    "slice 8 8 (header_bytes h @ r) = be_bytes 8 (firmware_version h)"
    "slice 16 8 (header_bytes h @ r) = be_bytes 8 (firmware_size h)"
    "slice 24 32 (header_bytes h @ r) = firmware_hash h"
    "slice 56 32 (header_bytes h @ r) = replicate 32 0"
    "slice 88 16 (header_bytes h @ r) = campaign_id h"
    "slice 104 4 (header_bytes h @ r) = be_bytes 4 (int (length (firmware_signature h)))"
    "slice 108 4 (header_bytes h @ r) = take 4 r" "slice 112 n (header_bytes h @ r) = take n (drop 4 r)"
    "take 108 (header_bytes h @ r) = header_bytes h"
  using assms by (simp_all add: slice_def header_bytes_def header_consts)

lemma pack_cases:
  assumes "pack h = Inr data"
  shows "length (firmware_hash h) = SIZEOF_SHA256" "length (campaign_id h) = SIZEOF_GUID"
    "fits 8 (firmware_version h)" "fits 8 (firmware_size h)" "fits 4 (int (length (firmware_signature h)))"
    "data = header_bytes h @ be_bytes 4 (calculate_crc (header_bytes h)) @ firmware_signature h"
  using assms by (auto simp: pack_def crc_size_def split: if_splits)

lemma pack_good_blob:
  assumes "pack h = Inr data"
  shows "good_blob (data @ extra)" and "contents (data @ extra) h0 =
    (if firmware_signature h = [] then h\<lparr>firmware_signature := firmware_signature h0\<rparr> else h)"
proof -
  note c = pack_cases [OF assms]
  note s = slices_header_bytes [OF c(1,2)] be_val_fits [OF fits_consts(1)] be_val_fits [OF fits_consts(2)]
    be_val_fits [OF fits_consts(3)] be_val_fits [OF c(3)] be_val_fits [OF c(4)] be_val_fits [OF c(5)]
  show "good_blob (data @ extra)"
    by (simp add: good_blob_def c(6) s header_and_crc_size_def header_size_def crc_size_def length_header_bytes c(1,2))
      (simp add: header_consts list_all_iff)
  show "contents (data @ extra) h0 = (if firmware_signature h = [] then h\<lparr>firmware_signature := firmware_signature h0\<rparr> else h)"
    by (simp add: contents_def c(6) s)
qed

lemma header_bytes_contents:
  assumes "good_blob data" and "firmware_signature h0 = []"
  shows "header_bytes (contents data h0) = take 108 data"
    and "int (length (firmware_signature (contents data h0))) = be_val (slice 104 4 data)"
proof -
  have l: "112 + nat (be_val (slice 104 4 data)) \<le> length data"
    using assms(1) by (simp add: good_blob_def header_consts)
  show n: "int (length (firmware_signature (contents data h0))) = be_val (slice 104 4 data)"
    using l be_val_range [of "slice 104 4 data"] by (simp add: contents_def assms(2) Let_def slice_def)
  have b: "be_bytes k (be_val (slice i k data)) = slice i k data" if "i + k \<le> 112" for i k
    using be_bytes_val [of "slice i k data"] that l by (simp add: slice_def)
  have z: "replicate 32 0 = slice 56 32 data"
    using assms(1) l by (simp add: good_blob_def list_eq_iff_nth_eq list_all_length slice_def)
  have j: "take n data @ slice n k data = take (n + k) data" for n k
    by (simp add: slice_def take_add)
  have "be_bytes 4 HEADER_MAGIC = take 4 data" "be_bytes 4 HEADER_FORMAT_VERSION = slice 4 4 data"
    using b [of 0 4] b [of 4 4] assms(1) by (simp_all add: good_blob_def slice_def)
  then show "header_bytes (contents data h0) = take 108 data"
    using b [of 8 8] b [of 16 8] b [of 104 4] z
    by (simp add: header_bytes_def n) (simp add: contents_def header_consts j flip: append_assoc)
qed

lemma be_val_inj: "length xs = length ys \<Longrightarrow> be_val xs = be_val ys \<longleftrightarrow> xs = ys"
  by (metis be_bytes_val)

lemma calculate_crc_update:
  assumes "i < length bs" and "b \<noteq> bs ! i"
  shows "calculate_crc (bs[i := b]) \<noteq> calculate_crc bs"
  using calculate_crc_one_byte [OF assms(2), of "take i bs" "drop (Suc i) bs"] assms(1)
  by (simp add: upd_conv_take_nth_drop id_take_nth_drop [symmetric])

lemma good_blob_change:
  assumes "good_blob data" and "i < 112" and "b \<noteq> data ! i"
  shows "\<not> good_blob (data[i := b])"
proof
  assume g: "good_blob (data[i := b])"
  have l: "112 \<le> length data" using assms(1) by (simp add: good_blob_def header_consts)
  have e: "be_val (slice 108 4 data) = calculate_crc (take 108 data)"
    and e': "be_val (slice 108 4 (data[i := b])) = calculate_crc (take 108 (data[i := b]))"
    using assms(1) g by (simp_all add: good_blob_def)
  show False
  proof (cases "i < 108")
    case True
    then have "slice 108 4 (data[i := b]) = slice 108 4 data" by (simp add: slice_def)
    then have "calculate_crc ((take 108 data)[i := b]) = calculate_crc (take 108 data)"
      using e e' by (simp add: take_update_swap)
    with calculate_crc_update [of i "take 108 data" b] True assms(3) l show False by simp
  next
    case False
    then have "take 108 (data[i := b]) = take 108 data" by simp
    then have "slice 108 4 (data[i := b]) = slice 108 4 data"
      using e e' be_val_inj [of "slice 108 4 (data[i := b])" "slice 108 4 data"] by (simp add: slice_def)
    moreover have "slice 108 4 (data[i := b]) ! (i - 108) = b" "slice 108 4 data ! (i - 108) = data ! i"
      using False assms(2) l by (simp_all add: slice_def)
    ultimately show False using assms(3) by simp
  qed
qed

lemma unpack_errors: "fst (unpack data h) \<noteq> Inl Struct_error"
  by (auto simp: unpack_def Let_def)

text \<open>An object that is used again keeps the old signature when the new blob has none.\<close>

lemma unpack_keeps_signature:
  assumes "pack h = Inr data" and "firmware_signature h = []"
  shows "firmware_signature (snd (unpack data h0)) = firmware_signature h0"
proof -
  obtain h' where "unpack data h0 = (Inr (), h')"
    using unpack_accepts(1) pack_good_blob(1) [OF assms(1), of "[]"] by fastforce
  with unpack_accepts(2) [OF this] show ?thesis
    using pack_good_blob(2) [OF assms(1), of "[]" h0] assms(2) by simp
qed

lemma packed_is_read:
  assumes "pack h = Inr data"
  shows "unpack (data @ extra) FirmwareUpdateHeader = (Inr (), h)"
proof -
  obtain h' where u: "unpack (data @ extra) FirmwareUpdateHeader = (Inr (), h')"
    using unpack_accepts(1) pack_good_blob(1) [OF assms] by fastforce
  with unpack_accepts(2) [OF u] pack_good_blob(2) [OF assms, of extra FirmwareUpdateHeader] show ?thesis
    by (auto simp: FirmwareUpdateHeader_def)
qed

section \<open>Properties\<close>

text \<open>C8: what is packed is read back.  If \<open>pack\<close> gives a blob, a new object reads from it, whatever follows the
  blob, exactly the attributes that were packed.\<close>

theorem pack_unpack:
  assumes "pack h = Inr data"
  shows "unpack (data @ extra) FirmwareUpdateHeader = (Inr (), h)"
  using assms by (rule packed_is_read)

definition demo_header :: update_header where
  "demo_header = \<lparr>firmware_version = 1565000000, firmware_size = 4096, firmware_hash = replicate 32 0xAB,
     campaign_id = replicate 16 0x11, firmware_signature = [1, 2, 3]\<rparr>"

lemma demo_header_pack: "\<exists>data. pack demo_header = Inr data \<and> length data = 115 \<and> data ! 5 = 0"
  by (simp add: pack_def demo_header_def fits_def header_consts header_bytes_def nth_append eval_nat_numeral)

theorem pack_unpack_witness:
  "\<exists>data. pack demo_header = Inr data \<and> unpack (data @ [7]) FirmwareUpdateHeader = (Inr (), demo_header)"
  using demo_header_pack pack_unpack [of demo_header _ "[7]"] by blast

text \<open>What is read is packed again.  A blob that a new object accepts is, up to the bytes after the
  signature, the one that \<open>pack\<close> gives for the attributes read: the attributes determine the blob.\<close>

lemma unpack_pack:
  assumes "unpack blob FirmwareUpdateHeader = (Inr (), h)"
  shows "pack h = Inr (take (header_and_crc_size + length (firmware_signature h)) blob)"
proof -
  have g: "good_blob blob" and h: "h = contents blob FirmwareUpdateHeader"
    using unpack_accepts [of blob FirmwareUpdateHeader] assms by blast+
  note b = header_bytes_contents [OF g, of FirmwareUpdateHeader, folded h]
  have s0: "firmware_signature FirmwareUpdateHeader = []" by (simp add: FirmwareUpdateHeader_def)
  have l: "112 + nat (be_val (slice 104 4 blob)) \<le> length blob"
    and c: "be_val (slice 108 4 blob) = calculate_crc (take 108 blob)"
    using g by (simp_all add: good_blob_def header_consts)
  have r: "fits k (be_val (slice i k blob))" if "i + k \<le> 112" for i k
    using be_val_range [of "slice i k blob"] that l by (simp add: slice_def fits_def)
  have "be_bytes 4 (calculate_crc (take 108 blob)) = slice 108 4 blob"
    using be_bytes_val [of "slice 108 4 blob"] l c by (simp add: slice_def)
  moreover have "firmware_signature h = slice 112 (length (firmware_signature h)) blob"
    using b(2) [OF s0] by (auto simp: h contents_def Let_def slice_def s0)
  moreover have "length (firmware_hash h) = 32" "length (campaign_id h) = 16" "fits 8 (firmware_version h)" "fits 8 (firmware_size h)"
    using l r [of 8 8] r [of 16 8] by (simp_all add: h contents_def slice_def)
  moreover have "fits 4 (int (length (firmware_signature h)))"
    using b(2) [OF s0] r [of 104 4] by simp
  moreover have "take n blob @ slice n k blob = take (n + k) blob" for n k
    by (simp add: slice_def take_add)
  note this [of 108 4] this [of 112 "length (firmware_signature h)"]
  ultimately show ?thesis
    using b(1) [OF s0] by (simp add: pack_def header_consts flip: append_assoc)
qed

lemma unpack_pack_example:
  "\<exists>data. pack demo_header = Inr data \<and> pack demo_header = Inr (take 115 (data @ [7]))"
proof -
  obtain data where d: "pack demo_header = Inr data" using demo_header_pack by blast
  obtain h where u: "unpack (data @ [7]) FirmwareUpdateHeader = (Inr (), h)"
    using unpack_accepts(1) pack_good_blob(1) [OF d] by fastforce
  have "h = demo_header"
    using unpack_accepts(2) [OF u] pack_good_blob(2) [OF d, of "[7]" FirmwareUpdateHeader] by (simp add: demo_header_def)
  with unpack_pack [OF u] d show ?thesis
    by (simp add: demo_header_def header_consts)
qed

text \<open>C9: a damaged header is noticed.  When any one byte of the header or of its checksum is changed, in the
  blob \<open>pack\<close> gave, \<open>unpack\<close> raises a \<open>FormatError\<close>.\<close>

theorem unpack_detects_corruption:
  assumes "pack h = Inr data" and "i < header_and_crc_size" and "b \<noteq> data ! i"
  shows "\<exists>e. fst (unpack (data[i := b]) h0) = Inl e \<and> e \<noteq> Struct_error"
  using good_blob_change [of data i b] pack_good_blob(1) [OF assms(1), of "[]"] assms(2,3)
    unpack_accepts(1) [of "data[i := b]" h0] unpack_errors [of "data[i := b]" h0]
  by (cases "unpack (data[i := b]) h0"; cases "fst (unpack (data[i := b]) h0)") (auto simp: header_consts)

theorem unpack_detects_corruption_witness:
  "\<exists>data e. pack demo_header = Inr data \<and> data ! 5 = 0 \<and> fst (unpack (data[5 := 1]) FirmwareUpdateHeader) = Inl e"
proof -
  obtain data where d: "pack demo_header = Inr data" "data ! 5 = 0" using demo_header_pack by blast
  from unpack_detects_corruption [OF d(1), of 5 1 FirmwareUpdateHeader] d show ?thesis
    by (auto simp: header_consts)
qed

end
