(* ===== verification/Firmware_Manager.thy ===== *)
theory Firmware_Manager imports Python Update_Header begin

text \<open>
  \<open>manager.py\<close> and \<open>cli.py\<close> of the firmware update manager: a header is written for an update package, the shell script of the
  cloud client installs the package, the files are removed, and the device is rebooted if the installation asks for it
  and the user agrees.  The SHA-256 object of \<open>hashlib\<close> is a parameter.
\<close>

section \<open>The header file\<close>

definition UPDATE_ACTIVATION_SHELL_SCRIPT :: location where
  "UPDATE_ACTIVATION_SHELL_SCRIPT = [''opt'', ''arm'', ''arm_update_activate.sh'']"
definition HEADER_FILE :: location where "HEADER_FILE = [''scratch'', ''firmware_update_header_file'']"
definition DONT_REBOOT_FLAG :: location where "DONT_REBOOT_FLAG = [''tmp'', ''do_not_reboot'']"

record 's hashing =
  new_hash :: 's
  hash_update :: "'s \<Rightarrow> byte list \<Rightarrow> 's"
  hash_digest :: "'s \<Rightarrow> byte list"

text \<open>A text file and its bytes; the reads of a file into a buffer of \<open>n\<close> bytes.\<close>

definition bytes_of :: "string \<Rightarrow> byte list" where "bytes_of s = map of_char s"
definition text_of :: "byte list \<Rightarrow> string" where "text_of bs = map (\<lambda>b. char_of (unat b)) bs"

function reads :: "nat \<Rightarrow> byte list \<Rightarrow> byte list list" where
  "reads n bs = (if n = 0 \<or> bs = [] then [] else take n bs # reads n (drop n bs))"
  by pat_completeness auto
termination by (relation "measure (\<lambda>(n, bs). length bs)") auto

declare reads.simps [simp del]

fun header_exn :: "header_error \<Rightarrow> exn" where
  "header_exn Struct_error = StructError"
| "header_exn _ = FormatError"

definition firmware_hash_of :: "'s hashing \<Rightarrow> byte list \<Rightarrow> byte list" where
  "firmware_hash_of H bs = hash_digest H (calculate_firmware_hash (hash_update H) (new_hash H) (reads (1024 * 128) bs))"

definition create_header_data :: "'s hashing \<Rightarrow> 'x platform \<Rightarrow> location \<Rightarrow> (byte list, 'x) py" where
  "create_header_data H p update_pkg =
     try_else
       (and_then (look epoch) (\<lambda>now.
          and_then (read_file p update_pkg) (\<lambda>payload.
            case pack (FirmwareUpdateHeader\<lparr>firmware_version := now, firmware_hash := firmware_hash_of H (bytes_of payload)\<rparr>) of
              Inl e \<Rightarrow> raise (header_exn e)
            | Inr header_data \<Rightarrow> ret header_data)))
       (\<lambda>e. e = OSError \<or> e = FormatError) (\<lambda>_. raise HeaderFileError) ret"

definition append_header_data_to_header_file :: "'x platform \<Rightarrow> byte list \<Rightarrow> (unit, 'x) py" where
  "append_header_data_to_header_file p header_data =
     try_else (put_file p HEADER_FILE (\<lambda>_. text_of header_data)) (\<lambda>e. e = OSError) (\<lambda>_. raise HeaderFileError) ret"

definition install_header :: "'s hashing \<Rightarrow> 'x platform \<Rightarrow> location \<Rightarrow> (unit, 'x) py" where
  "install_header H p update_pkg = and_then (create_header_data H p update_pkg) (append_header_data_to_header_file p)"

section \<open>The installation\<close>

definition activation_command :: "location \<Rightarrow> string list" where
  "activation_command update_pkg =
     [path_str UPDATE_ACTIVATION_SHELL_SCRIPT, ''--firmware'', path_str update_pkg, ''--header'', path_str HEADER_FILE]"

text \<open>The questions: the answer and the lines that are left, or the error at the end of the input.\<close>

fun proceed :: "string list \<Rightarrow> exn + (bool \<times> string list)" where
  "proceed [] = Inl EOFError"
| "proceed (user_input # rest) =
     (if user_input = ''y'' \<or> user_input = ''Y'' then Inr (True, rest)
      else if user_input = ''n'' \<or> user_input = ''N'' then Inr (False, rest)
      else proceed rest)"

definition ask_user :: "(bool, 'x) py" where
  "ask_user h =
     (case proceed (answers h) of
        Inl e \<Rightarrow> Some (Inl e, h\<lparr>answers := []\<rparr>)
      | Inr (yes, rest) \<Rightarrow> Some (Inr yes, h\<lparr>answers := rest\<rparr>))"

text \<open>\<open>os.system\<close>, whose result is not looked at\<close>

definition os_system :: "'x platform \<Rightarrow> string \<Rightarrow> (unit, 'x) py" where
  "os_system p cmd h = Some (Inr (), (snd (exec p [cmd] h))\<lparr>history := history h @ [[cmd]]\<rparr>)"

definition install_firmware :: "'x platform \<Rightarrow> location \<Rightarrow> bool \<Rightarrow> bool \<Rightarrow> bool \<Rightarrow> (unit, 'x) py" where
  "install_firmware p update_pkg keep assume_yes assume_no =
     and_then
       (try_finally
          (and_then (subprocess_run p (activation_command update_pkg)) (\<lambda>(returncode, _).
             if returncode \<noteq> 0 then raise FmwInstallError
             else if \<not> keep then os_remove p update_pkg
             else ret ()))
          (if \<not> keep then os_remove p HEADER_FILE else ret ()))
       (\<lambda>_. and_then (look (\<lambda>h. isfile_at (files h) DONT_REBOOT_FLAG)) (\<lambda>flag.
          if \<not> flag \<and> \<not> assume_no then
            and_then (if assume_yes then ret True else ask_user) (\<lambda>yes. if yes then os_system p ''reboot'' else ret ())
          else ret ()))"

definition firmware_update_main :: "'s hashing \<Rightarrow> 'x platform \<Rightarrow> location \<Rightarrow> bool \<Rightarrow> bool \<Rightarrow> bool \<Rightarrow> (int, 'x) py" where
  "firmware_update_main H p update_pkg keep assume_yes assume_no =
     try_else (and_then (install_header H p update_pkg) (\<lambda>_. install_firmware p update_pkg keep assume_yes assume_no))
       (\<lambda>_. True) (\<lambda>_. ret 1) (\<lambda>_. ret 0)"

section \<open>Facts\<close>

lemma bytes_text [simp]: "bytes_of (text_of bs) = bs"
proof -
  have "of_char (char_of (unat b) :: char) = b" for b :: byte
  proof -
    have "unat b < 256" using unsigned_less [of b, where ?'a = nat] by simp
    then have "(of_char (char_of (unat b)) :: nat) = unat b" by (simp add: of_char_of)
    moreover have "(of_char (char_of (unat b) :: char) :: byte) = of_nat (of_char (char_of (unat b) :: char))"
      by (simp only: of_nat_of_char)
    ultimately show ?thesis by simp
  qed
  then show ?thesis by (simp add: bytes_of_def text_of_def o_def)
qed

lemma reads_concat: "0 < n \<Longrightarrow> concat (reads n bs) = bs \<and> [] \<notin> set (reads n bs)"
proof (induction n bs rule: reads.induct)
  case (1 n bs)
  then show ?case by (subst (1 2) reads.simps) auto
qed

text \<open>What \<open>hashlib\<close> documents: data may be given in pieces.\<close>

definition hash_law :: "'s hashing \<Rightarrow> bool" where
  "hash_law H \<longleftrightarrow> (\<forall>s a b. hash_update H (hash_update H s a) b = hash_update H s (a @ b)) \<and> (\<forall>s. hash_update H s [] = s)"

lemma firmware_hash_of_law:
  assumes "hash_law H"
  shows "firmware_hash_of H bs = hash_digest H (hash_update H (new_hash H) bs)"
  using calculate_firmware_hash_concat [of "hash_update H" "reads (1024 * 128) bs" "new_hash H"] assms reads_concat [of "1024 * 128" bs]
  by (simp add: firmware_hash_of_def hash_law_def)

definition asked_to_reboot :: "bool \<Rightarrow> string list \<Rightarrow> bool" where
  "asked_to_reboot assume_yes lines \<longleftrightarrow> assume_yes \<or> (\<exists>rest. proceed lines = Inr (True, rest))"

lemma wp_install_header:
  "wp (install_header H p update_pkg)
    (\<lambda>_ h'. \<exists>payload text. map_of (files h) update_pkg = Some (Document payload) \<and>
       map_of (files h') HEADER_FILE = Some (Document text) \<and>
       unpack (bytes_of text) FirmwareUpdateHeader =
         (Inr (), FirmwareUpdateHeader\<lparr>firmware_version := epoch h, firmware_hash := firmware_hash_of H (bytes_of payload)\<rparr>))
    (\<lambda>e h'. e = HeaderFileError \<or> e = StructError) h"
proof -
  have x: "header_exn e = StructError \<or> header_exn e = FormatError" for e by (cases e) auto
  have r: "wp (read_file p update_pkg) (\<lambda>s h'. h' = h \<and> map_of (files h) update_pkg = Some (Document s)) (\<lambda>e _. e = OSError) h"
    by (auto simp: read_file_def wp_simps split: option.splits document.splits)
  have c: "wp (create_header_data H p update_pkg)
      (\<lambda>d h'. \<exists>payload. map_of (files h) update_pkg = Some (Document payload) \<and>
         pack (FirmwareUpdateHeader\<lparr>firmware_version := epoch h, firmware_hash := firmware_hash_of H (bytes_of payload)\<rparr>) = Inr d)
      (\<lambda>e h'. e = HeaderFileError \<or> e = StructError) h"
    unfolding create_header_data_def wp_try_else wp_then_look unfolding wp_and_then
    by (rule wp_mono [OF r]) (use x in \<open>auto simp: wp_ret wp_raise split: sum.splits\<close>)
  show ?thesis
    unfolding install_header_def wp_and_then
    by (rule wp_mono [OF c])
      (auto simp: append_header_data_to_header_file_def put_file_def wp_simps HEADER_FILE_def
        dest!: packed_is_read [where extra = "[]"])
qed

text \<open>What the installation leaves when it gets to the question of the reboot.\<close>

definition cleaned_up :: "bool \<Rightarrow> location \<Rightarrow> 'x host \<Rightarrow> 'x host \<Rightarrow> bool" where
  "cleaned_up keep update_pkg g h \<longleftrightarrow>
     (\<forall>q. map_of (files h) q = (if \<not> keep \<and> (q = update_pkg \<or> q = HEADER_FILE) then None else map_of (files g) q)) \<and>
     answers h = answers g \<and> outside h = outside g"

definition reboots :: "bool \<Rightarrow> bool \<Rightarrow> 'x host \<Rightarrow> bool" where
  "reboots assume_yes assume_no h \<longleftrightarrow>
     \<not> isfile_at (files h) DONT_REBOOT_FLAG \<and> \<not> assume_no \<and>
     (assume_yes \<or> (\<exists>rest. proceed (answers h) = Inr (True, rest)))"

lemma wp_os_remove:
  "wp (os_remove p f) (\<lambda>_ h'. h' = h\<lparr>files := filter (\<lambda>(q, d). q \<noteq> f) (files h)\<rparr>) (\<lambda>e h'. e = OSError \<and> h' = h) h"
  by (simp add: os_remove_def wp_simps)

lemma install_firmware_result:
  assumes "install_firmware p update_pkg keep assume_yes assume_no h = Some (Inr (), h')"
  shows "\<exists>out g d. exec p (activation_command update_pkg) h = (Some (0, out), g) \<and> cleaned_up keep update_pkg g d \<and>
    (if reboots assume_yes assume_no d
     then history h' = history h @ [activation_command update_pkg, [''reboot'']]
     else history h' = history h @ [activation_command update_pkg] \<and> files h' = files d)"
proof -
  let ?cmd = "activation_command update_pkg"
  let ?install = "try_finally
      (and_then (subprocess_run p ?cmd) (\<lambda>(returncode, _).
         if returncode \<noteq> 0 then raise FmwInstallError else if \<not> keep then os_remove p update_pkg else ret ()))
      (if \<not> keep then os_remove p HEADER_FILE else ret ())"
  let ?inst = "\<lambda>d. \<exists>out g. exec p ?cmd h = (Some (0, out), g) \<and> cleaned_up keep update_pkg g d \<and> history d = history h @ [?cmd]"
  have w: "wp ?install (\<lambda>_. ?inst) (\<lambda>_ _. True) h"
    by (auto simp: wp_simps cleaned_up_def simp del: filter_filter split: prod.splits option.splits intro!: wp_mono [OF wp_os_remove])
  obtain u d where d: "?install h = Some (Inr u, d)"
    and rest: "and_then (look (\<lambda>h. isfile_at (files h) DONT_REBOOT_FLAG)) (\<lambda>flag.
          if \<not> flag \<and> \<not> assume_no then
            and_then (if assume_yes then ret True else ask_user) (\<lambda>yes. if yes then os_system p ''reboot'' else ret ())
          else ret ()) d = Some (Inr (), h')"
    using assms unfolding install_firmware_def and_then_result [of ?install] by blast
  have inst: "?inst d" using wp_result [OF w d] .
  have r: "if reboots assume_yes assume_no d then history h' = history d @ [[''reboot'']] else history h' = history d \<and> files h' = files d"
    using rest by (auto simp: and_then_result look_def ret_def ask_user_def os_system_def reboots_def split: if_splits sum.splits
        dest: arg_cong [where f = "history :: 'a host \<Rightarrow> _"])
  from inst obtain out g where "exec p ?cmd h = (Some (0, out), g)" "cleaned_up keep update_pkg g d" "history d = history h @ [?cmd]"
    by blast
  with r show ?thesis by (intro exI [of _ out] exI [of _ g] exI [of _ d]) simp
qed

section \<open>Properties\<close>

text \<open>C27: the header that the firmware update manager writes.  When \<open>install_header\<close> returns, the header file holds a blob that
  a reader accepts and that says the time of the call and the hash of the whole update package; the hash does not depend
  on the size of the buffer, by the law of \<open>hashlib\<close>.\<close>

theorem install_header_readable:
  assumes "install_header H p update_pkg h = Some (Inr (), h')" and "hash_law H"
  shows "\<exists>payload text. map_of (files h) update_pkg = Some (Document payload) \<and> map_of (files h') HEADER_FILE = Some (Document text) \<and>
    unpack (bytes_of text) FirmwareUpdateHeader = (Inr (), FirmwareUpdateHeader
      \<lparr>firmware_version := epoch h, firmware_hash := hash_digest H (hash_update H (new_hash H) (bytes_of payload))\<rparr>)"
  using wp_result [OF wp_install_header assms(1)] by (simp add: firmware_hash_of_law [OF assms(2)])

text \<open>C26: the end of a firmware installation.  When \<open>install_firmware\<close> returns, the script was run and succeeded, the update
  package and the header file are removed unless they are to be kept, and the reboot command was given exactly if the
  script left no flag against it, the caller did not exclude it, and the caller or the first of the user's answers that is
  a yes or a no asks for it.\<close>

theorem install_firmware_reboots:
  assumes "install_firmware p update_pkg keep assume_yes assume_no h = Some (Inr (), h')"
  shows "\<exists>out g d. exec p (activation_command update_pkg) h = (Some (0, out), g) \<and> cleaned_up keep update_pkg g d \<and>
    (if reboots assume_yes assume_no d
     then history h' = history h @ [activation_command update_pkg, [''reboot'']]
     else history h' = history h @ [activation_command update_pkg] \<and> files h' = files d)"
  using assms by (rule install_firmware_result)

definition demo_device :: "unit host" where
  "demo_device =
     \<lparr>files = [([''u''], Document ''payload''), ([''scratch''], Folder), ([], Folder), (HEADER_FILE, Document ''old'')],
      clock = 0, epoch = 1565000000, answers = [''maybe'', ''Y''], history = [], outside = ()\<rparr>"

definition demo_calls :: "unit platform" where
  "demo_calls = \<lparr>exec = (\<lambda>_ h. (Some (0, []), h)), loads = (\<lambda>_. None), tar_members = (\<lambda>_. None),
     refuses = (\<lambda>_ _. False), sleep = (\<lambda>_ h. h)\<rparr>"

lemma demo_install_firmware:
  "map_option (\<lambda>(r, h). (r, length (history h))) (install_firmware demo_calls [''u''] False False False demo_device) = Some (Inr (), 2)"
  by code_simp

theorem install_firmware_reboots_witness:
  "\<exists>h'. install_firmware demo_calls [''u''] False False False demo_device = Some (Inr (), h') \<and>
     history h' = [activation_command [''u''], [''reboot'']]"
proof -
  obtain h' where run: "install_firmware demo_calls [''u''] False False False demo_device = Some (Inr (), h')"
    using demo_install_firmware by auto
  from install_firmware_reboots [OF run] obtain d
    where c: "cleaned_up False [''u''] demo_device d"
      and r: "if reboots False False d then history h' = history demo_device @ [activation_command [''u''], [''reboot'']]
        else history h' = history demo_device @ [activation_command [''u'']] \<and> files h' = files d"
    by (auto simp: demo_calls_def)
  have "reboots False False d"
    using c by (auto simp: reboots_def cleaned_up_def demo_device_def isfile_at_def DONT_REBOOT_FLAG_def HEADER_FILE_def)
  with r run show ?thesis by (simp add: demo_device_def)
qed

definition demo_hash :: "byte list hashing" where
  "demo_hash = \<lparr>new_hash = [], hash_update = (@), hash_digest = (\<lambda>bs. take 32 (bs @ replicate 32 0))\<rparr>"

lemma demo_install_header: "map_option fst (install_header demo_hash demo_calls [''u''] demo_device) = Some (Inr ())"
proof -
  have law: "hash_law demo_hash" by (simp add: hash_law_def demo_hash_def)
  have l: "length (firmware_hash_of demo_hash bs) = 32" for bs
    by (simp add: firmware_hash_of_law [OF law]) (simp add: demo_hash_def)
  show ?thesis
    by (simp add: install_header_def create_header_data_def and_then_def try_else_def look_def read_file_def os_guard_def ret_def
        demo_device_def demo_calls_def pack_def FirmwareUpdateHeader_def fits_def header_consts l
        append_header_data_to_header_file_def put_file_def isdir_def HEADER_FILE_def set_files_def)
qed

theorem install_header_readable_witness:
  "\<exists>h' text. install_header demo_hash demo_calls [''u''] demo_device = Some (Inr (), h') \<and>
     map_of (files h') HEADER_FILE = Some (Document text) \<and>
     (\<exists>hd. unpack (bytes_of text) FirmwareUpdateHeader = (Inr (), hd) \<and> firmware_version hd = 1565000000)"
proof -
  obtain h' where run: "install_header demo_hash demo_calls [''u''] demo_device = Some (Inr (), h')"
    using demo_install_header by auto
  have "hash_law demo_hash" by (simp add: hash_law_def demo_hash_def)
  from install_header_readable [OF run this] run show ?thesis by (auto simp: demo_device_def)
qed

text \<open>A failed installation: the script reported an error, the header file is removed, the package stays.\<close>

lemma install_firmware_failure:
  assumes "exec p (activation_command update_pkg) h = (Some (rc, out), g)" and "rc \<noteq> 0"
    and "isfile_at (files g) HEADER_FILE" and "\<And>h. \<not> refuses p (Remove_file HEADER_FILE) h"
  shows "\<exists>h'. install_firmware p update_pkg False assume_yes assume_no h = Some (Inl FmwInstallError, h') \<and>
    (\<forall>q. map_of (files h') q = (if q = HEADER_FILE then None else map_of (files g) q))"
  by (simp add: install_firmware_def and_then_def try_finally_def subprocess_run_def assms raise_def ret_def os_remove_def
      os_guard_def look_def set_files_def)

end
