(* ===== verification/Update_Path.thy ===== *)
theory Update_Path imports Image_Handlers Firmware_Manager begin

text \<open>
  An update that is brought by hand, from the firmware update manager to the reboot: the manager runs the activation script, the
  script calls swupdate, swupdate calls the handlers of the images, and the handlers run the installers.  What they share is a
  file that forbids the reboot.
\<close>

section \<open>From the images to the restart\<close>





section \<open>Properties\<close>












end
