(* ===== verification/Apps_Handshake.thy ===== *)
theory Apps_Handshake imports Shell begin

text \<open>
  The installer of applications, \<open>apps_installer.sh\<close>, and the daemon that does its work,
  \<open>mbl-app-update-manager-daemon\<close>: two processes that hand over a path and an exit status through four files.  Each step
  is one command of one of the scripts, in any interleaving; a command that writes or removes a file may fail, and the installer
  may be killed.  The abstract object is a call of the update manager, with one result.
\<close>

section \<open>The two scripts\<close>

datatype installer_pc = Idle | Write_path | Touch_do | Wait_done | Rm_done | Cat_rc | Rm_rc string | Test_rc string | Exited nat

datatype daemon_pc = Wait_do | Rm_do | Cat_path | Running string | Write_rc nat | Rm_path | Touch_done

text \<open>
  The files, the two processes with the argument of the installer, and what the update manager was run on so far and
  returned.
\<close>

record handshake =
  shared :: "location \<Rightarrow> string option"
  installer :: installer_pc
  uaod_apps_file :: string
  daemon :: daemon_pc
  manager_runs :: "(string \<times> nat) list"

definition write_file :: "bool \<Rightarrow> location \<Rightarrow> string \<Rightarrow> handshake \<Rightarrow> handshake" where
  "write_file ok f v s = (if ok then s\<lparr>shared := (shared s)(f \<mapsto> v)\<rparr> else s)"

definition touch_file :: "bool \<Rightarrow> location \<Rightarrow> handshake \<Rightarrow> handshake" where
  "touch_file ok f s = (if shared s f = None then write_file ok f [] s else s)"

definition rm_file :: "bool \<Rightarrow> location \<Rightarrow> handshake \<Rightarrow> handshake" where
  "rm_file ok f s = (if ok then s\<lparr>shared := (shared s)(f := None)\<rparr> else s)"

definition cat_file :: "location \<Rightarrow> handshake \<Rightarrow> string" where
  "cat_file f s = (case shared s f of None \<Rightarrow> [] | Some v \<Rightarrow> strip_newlines v)"

text \<open>\<open>[ s -ne 0 ]\<close>, which is an error, and so not true, if \<open>s\<close> is not a number\<close>

definition not_zero :: "string \<Rightarrow> bool" where
  "not_zero s =
     (let d = (case s of c # r \<Rightarrow> if c = CHR ''-'' \<or> c = CHR ''+'' then r else s | [] \<Rightarrow> [])
      in d \<noteq> [] \<and> list_all is_digit d \<and> digits_value d \<noteq> 0)"

text \<open>The next command of the installer, whose files are in \<open>UPDATE_PAYLOAD_DIR\<close>\<close>

fun installer_next :: "location \<Rightarrow> bool \<Rightarrow> installer_pc \<Rightarrow> handshake \<Rightarrow> handshake" where
  "installer_next d ok Write_path s = (write_file ok (d @ [''firmware_path'']) (uaod_apps_file s @ [newline]) s)\<lparr>installer := Touch_do\<rparr>"
| "installer_next d ok Touch_do s = (touch_file ok (d @ [''do_app_update'']) s)\<lparr>installer := Wait_done\<rparr>"
| "installer_next d ok Wait_done s = (if shared s (d @ [''done_app_update'']) = None then s else s\<lparr>installer := Rm_done\<rparr>)"
| "installer_next d ok Rm_done s = (rm_file ok (d @ [''done_app_update'']) s)\<lparr>installer := Cat_rc\<rparr>"
| "installer_next d ok Cat_rc s = s\<lparr>installer := Rm_rc (cat_file (d @ [''app_update_rc'']) s)\<rparr>"
| "installer_next d ok (Rm_rc rc) s = (rm_file ok (d @ [''app_update_rc'']) s)\<lparr>installer := Test_rc rc\<rparr>"
| "installer_next d ok (Test_rc rc) s = s\<lparr>installer := Exited (if not_zero rc then 47 else 0)\<rparr>"
| "installer_next d ok Idle s = s"
| "installer_next d ok (Exited n) s = s"

text \<open>The next command of the daemon, whose files are in \<open>/scratch\<close>\<close>

definition scratch :: "string \<Rightarrow> location" where
  "scratch f = [''scratch'', f]"

fun daemon_next :: "bool \<Rightarrow> daemon_pc \<Rightarrow> handshake \<Rightarrow> handshake" where
  "daemon_next ok Wait_do s = (if shared s (scratch ''do_app_update'') = None then s else s\<lparr>daemon := Rm_do\<rparr>)"
| "daemon_next ok Rm_do s = (rm_file ok (scratch ''do_app_update'') s)\<lparr>daemon := Cat_path\<rparr>"
| "daemon_next ok Cat_path s = s\<lparr>daemon := Running (cat_file (scratch ''firmware_path'') s)\<rparr>"
| "daemon_next ok (Running p) s = s"
| "daemon_next ok (Write_rc n) s = (write_file ok (scratch ''app_update_rc'') (decimal n @ [newline]) s)\<lparr>daemon := Rm_path\<rparr>"
| "daemon_next ok Rm_path s = (rm_file ok (scratch ''firmware_path'') s)\<lparr>daemon := Touch_done\<rparr>"
| "daemon_next ok Touch_done s = (touch_file ok (scratch ''done_app_update'') s)\<lparr>daemon := Wait_do\<rparr>"

datatype handshake_event =
    Start_installer string
  | Installer bool
  | Daemon bool
  | Manager nat \<comment> \<open>the update manager ends with this status\<close>
  | Kill_installer

definition at_rest :: "installer_pc \<Rightarrow> bool" where
  "at_rest pc \<longleftrightarrow> (case pc of Idle \<Rightarrow> True | Exited n \<Rightarrow> True | _ \<Rightarrow> False)"

inductive handshake_step :: "location \<Rightarrow> handshake \<Rightarrow> handshake_event \<Rightarrow> handshake \<Rightarrow> bool" for d :: location where
  start_installer: "at_rest (installer s) \<Longrightarrow>
    handshake_step d s (Start_installer path) (s\<lparr>installer := Write_path, uaod_apps_file := path\<rparr>)"
| installer_moves: "\<not> at_rest (installer s) \<Longrightarrow> handshake_step d s (Installer ok) (installer_next d ok (installer s) s)"
| kill_installer: "\<not> at_rest (installer s) \<Longrightarrow> handshake_step d s Kill_installer (s\<lparr>installer := Idle\<rparr>)"
| daemon_moves: "(\<And>p. daemon s \<noteq> Running p) \<Longrightarrow> handshake_step d s (Daemon ok) (daemon_next ok (daemon s) s)"
| manager_ends: "daemon s = Running p \<Longrightarrow>
    handshake_step d s (Manager n) (s\<lparr>daemon := Write_rc n, manager_runs := manager_runs s @ [(p, n)]\<rparr>)"

definition before_handshake :: handshake where
  "before_handshake = \<lparr>shared = (\<lambda>_. None), installer = Idle, uaod_apps_file = [], daemon = Wait_do, manager_runs = []\<rparr>"

text \<open>Steps in which no command fails, no process is killed, and paths are of one line\<close>

fun undisturbed :: "handshake_event \<Rightarrow> bool" where
  "undisturbed (Start_installer path) \<longleftrightarrow> strip_newlines path = path"
| "undisturbed (Installer ok) \<longleftrightarrow> ok"
| "undisturbed (Daemon ok) \<longleftrightarrow> ok"
| "undisturbed (Manager n) \<longleftrightarrow> True"
| "undisturbed Kill_installer \<longleftrightarrow> False"

definition quiet_step :: "location \<Rightarrow> handshake \<Rightarrow> handshake_event \<Rightarrow> handshake \<Rightarrow> bool" where
  "quiet_step d s l t \<longleftrightarrow> handshake_step d s l t \<and> undisturbed l"

section \<open>A call with one result\<close>

datatype call_op = Call string | Serve string nat | Return nat

text \<open>The call that is under way, with its result once there is one\<close>

type_synonym call_state = "(string \<times> nat option) option"

fun call_act :: "call_op \<Rightarrow> call_state \<Rightarrow> call_state option" where
  "call_act (Call path) m = (if m = None then Some (Some (path, None)) else None)"
| "call_act (Serve path n) m = (if m = Some (path, None) then Some (Some (path, Some n)) else None)"
| "call_act (Return c) m =
     (case m of Some (path, Some n) \<Rightarrow> if c = (if n \<noteq> 0 then 47 else 0) then Some None else None | _ \<Rightarrow> None)"

fun call_label :: "handshake \<Rightarrow> handshake_event \<Rightarrow> call_op list" where
  "call_label s (Start_installer path) = [Call path]"
| "call_label s (Manager n) = (case daemon s of Running p \<Rightarrow> [Serve p n] | _ \<Rightarrow> [])"
| "call_label s (Installer ok) = (case installer s of Test_rc rc \<Rightarrow> [Return (if not_zero rc then 47 else 0)] | _ \<Rightarrow> [])"
| "call_label s _ = []"

text \<open>The call is served as soon as the update manager has ended, so the files and the two processes show it.\<close>

definition served :: "handshake \<Rightarrow> bool" where
  "served s \<longleftrightarrow> (case daemon s of Write_rc n \<Rightarrow> True | Rm_path \<Rightarrow> True | Touch_done \<Rightarrow> True | _ \<Rightarrow>
     shared s (scratch ''done_app_update'') \<noteq> None \<or>
     (case installer s of Cat_rc \<Rightarrow> True | Rm_rc rc \<Rightarrow> True | Test_rc rc \<Rightarrow> True | _ \<Rightarrow> False))"

definition call_of :: "handshake \<Rightarrow> call_state" where
  "call_of s =
     (if at_rest (installer s) then None
      else Some (uaod_apps_file s, if served s then Some (snd (last (manager_runs s))) else None))"

section \<open>The invariant\<close>

text \<open>The four files, in the order in which they are named in the scripts\<close>

definition files_are :: "handshake \<Rightarrow> string option \<Rightarrow> bool \<Rightarrow> bool \<Rightarrow> string option \<Rightarrow> bool" where
  "files_are s path todo complete rc \<longleftrightarrow>
     shared s (scratch ''firmware_path'') = path \<and> (shared s (scratch ''do_app_update'') \<noteq> None \<longleftrightarrow> todo) \<and>
     (shared s (scratch ''done_app_update'') \<noteq> None \<longleftrightarrow> complete) \<and> shared s (scratch ''app_update_rc'') = rc"

definition result :: "handshake \<Rightarrow> nat \<Rightarrow> bool" where
  "result s n \<longleftrightarrow> manager_runs s \<noteq> [] \<and> last (manager_runs s) = (uaod_apps_file s, n)"

definition handshake_inv :: "handshake \<Rightarrow> bool" where
  "handshake_inv s \<longleftrightarrow> strip_newlines (uaod_apps_file s) = uaod_apps_file s \<and>
     (let path = Some (uaod_apps_file s @ [newline]) in
      case installer s of
        Idle \<Rightarrow> daemon s = Wait_do \<and> files_are s None False False None
      | Exited c \<Rightarrow> daemon s = Wait_do \<and> files_are s None False False None \<and> (\<exists>n. result s n \<and> c = (if n \<noteq> 0 then 47 else 0))
      | Write_path \<Rightarrow> daemon s = Wait_do \<and> files_are s None False False None
      | Touch_do \<Rightarrow> daemon s = Wait_do \<and> files_are s path False False None
      | Wait_done \<Rightarrow>
          (case daemon s of
             Wait_do \<Rightarrow> files_are s path True False None \<or> (\<exists>n. result s n \<and> files_are s None False True (Some (decimal n @ [newline])))
           | Rm_do \<Rightarrow> files_are s path True False None
           | Cat_path \<Rightarrow> files_are s path False False None
           | Running p \<Rightarrow> p = uaod_apps_file s \<and> files_are s path False False None
           | Write_rc n \<Rightarrow> result s n \<and> files_are s path False False None
           | Rm_path \<Rightarrow> \<exists>n. result s n \<and> files_are s path False False (Some (decimal n @ [newline]))
           | Touch_done \<Rightarrow> \<exists>n. result s n \<and> files_are s None False False (Some (decimal n @ [newline])))
      | Rm_done \<Rightarrow> daemon s = Wait_do \<and> (\<exists>n. result s n \<and> files_are s None False True (Some (decimal n @ [newline])))
      | Cat_rc \<Rightarrow> daemon s = Wait_do \<and> (\<exists>n. result s n \<and> files_are s None False False (Some (decimal n @ [newline])))
      | Rm_rc rc \<Rightarrow> daemon s = Wait_do \<and> (\<exists>n. result s n \<and> rc = decimal n \<and> files_are s None False False (Some (decimal n @ [newline])))
      | Test_rc rc \<Rightarrow> daemon s = Wait_do \<and> (\<exists>n. result s n \<and> rc = decimal n \<and> files_are s None False False None))"

lemma decimal_all_digits: "list_all is_digit (decimal n)"
  using decimal_is_digits by (simp add: list_all_iff)

lemma strip_decimal: "strip_newlines (decimal n @ [newline]) = decimal n"
proof -
  have "\<not> is_digit newline" by (simp add: is_digit_def)
  then have "last (decimal n) \<noteq> newline" using decimal_is_digits(2) [of n] last_in_set [OF decimal_is_digits(1) [of n]] by metis
  then have "dropWhile (\<lambda>c. c = newline) (rev (decimal n)) = rev (decimal n)"
    by (simp add: dropWhile_eq_self_iff hd_rev)
  then show ?thesis by (simp add: strip_newlines_def)
qed

lemma not_zero_decimal: "not_zero (decimal n) \<longleftrightarrow> n \<noteq> 0"
proof -
  obtain c r where c: "decimal n = c # r" using decimal_nonempty by (cases "decimal n") auto
  have "is_digit c" using decimal_all_digits [of n] c by simp
  then have "c \<noteq> CHR ''-''" "c \<noteq> CHR ''+''" by (auto simp: is_digit_def)
  then have "not_zero (decimal n) \<longleftrightarrow> digits_value (decimal n) \<noteq> 0"
    using decimal_all_digits [of n] by (simp add: not_zero_def c Let_def)
  then show ?thesis by (simp add: digits_value_decimal)
qed

lemma strip_line: "strip_newlines s = s \<Longrightarrow> strip_newlines (s @ [newline]) = s"
  by (simp add: strip_newlines_def)

lemmas file_steps = write_file_def touch_file_def rm_file_def cat_file_def files_are_def scratch_def result_def

lemma inv_start:
  "handshake_inv s \<Longrightarrow> at_rest (installer s) \<Longrightarrow> strip_newlines path = path \<Longrightarrow>
     handshake_inv (s\<lparr>installer := Write_path, uaod_apps_file := path\<rparr>)"
  by (cases "installer s") (simp_all add: handshake_inv_def at_rest_def files_are_def Let_def)

lemma inv_manager:
  "handshake_inv s \<Longrightarrow> daemon s = Running p \<Longrightarrow>
     handshake_inv (s\<lparr>daemon := Write_rc n, manager_runs := manager_runs s @ [(p, n)]\<rparr>)"
  by (cases "installer s") (simp_all add: handshake_inv_def files_are_def result_def Let_def)

lemma inv_daemon:
  assumes "handshake_inv s"
  shows "handshake_inv (daemon_next True (daemon s) s)"
proof (cases "daemon s")
  case Wait_do
  then show ?thesis
    using assms by (cases "installer s") (auto simp: handshake_inv_def file_steps Let_def)
next
  case Rm_do
  then show ?thesis using assms by (cases "installer s") (simp_all add: handshake_inv_def file_steps Let_def)
next
  case Cat_path
  then show ?thesis using assms by (cases "installer s") (simp_all add: handshake_inv_def file_steps Let_def strip_line)
next
  case Running
  then show ?thesis using assms by simp
next
  case (Write_rc n)
  then show ?thesis
    using assms by (cases "installer s") (simp_all add: handshake_inv_def file_steps Let_def, blast?)
next
  case Rm_path
  then show ?thesis
    using assms by (cases "installer s") (simp_all add: handshake_inv_def file_steps Let_def, blast?)
next
  case Touch_done
  then show ?thesis
    using assms by (cases "installer s") (simp_all add: handshake_inv_def file_steps Let_def, blast?)
qed

lemma inv_installer:
  assumes "handshake_inv s"
  shows "handshake_inv (installer_next [''scratch''] True (installer s) s)"
proof (cases "installer s")
  case Wait_done
  then show ?thesis using assms by (cases "daemon s") (auto simp: handshake_inv_def file_steps Let_def)
next
  case Rm_done
  then show ?thesis using assms by (auto simp: handshake_inv_def file_steps Let_def)
next
  case Cat_rc
  then show ?thesis using assms by (auto simp: handshake_inv_def file_steps Let_def strip_decimal)
next
  case Rm_rc
  then show ?thesis using assms by (auto simp: handshake_inv_def file_steps Let_def)
next
  case (Test_rc rc)
  then obtain n where "result s n" "rc = decimal n" using assms by (auto simp: handshake_inv_def)
  then show ?thesis using Test_rc assms by (simp add: handshake_inv_def files_are_def result_def Let_def not_zero_decimal)
qed (use assms in \<open>simp_all add: handshake_inv_def file_steps Let_def\<close>)

lemma handshake_inv_step:
  assumes "handshake_inv s" and "quiet_step [''scratch''] s l t"
  shows "handshake_inv t"
  using assms(2,1) unfolding quiet_step_def
  by (auto elim!: handshake_step.cases intro: inv_start inv_manager inv_daemon inv_installer)

lemma handshake_inv_start: "handshake_inv before_handshake"
  by (simp add: handshake_inv_def before_handshake_def files_are_def Let_def strip_newlines_def)

section \<open>The handshake as a call\<close>

lemma at_rest_simps [simp]: "at_rest Idle" "at_rest (Exited n)"
  by (simp_all add: at_rest_def)

lemma simulates_start: "at_rest (installer s) \<Longrightarrow> handshake_inv s \<Longrightarrow>
    call_of (s\<lparr>installer := Write_path, uaod_apps_file := path\<rparr>) = Some (path, None) \<and> call_of s = None"
  by (cases "installer s") (auto simp: call_of_def served_def at_rest_def handshake_inv_def files_are_def Let_def)

lemma simulates_manager: "handshake_inv s \<Longrightarrow> daemon s = Running p \<Longrightarrow>
    call_of s = Some (p, None) \<and> call_of (s\<lparr>daemon := Write_rc n, manager_runs := manager_runs s @ [(p, n)]\<rparr>) = Some (p, Some n)"
  by (cases "installer s") (auto simp: call_of_def served_def at_rest_def handshake_inv_def files_are_def Let_def)

lemma simulates_daemon: "handshake_inv s \<Longrightarrow> call_of (daemon_next True (daemon s) s) = call_of s"
  by (cases "daemon s"; cases "installer s")
    (auto simp: call_of_def served_def at_rest_def handshake_inv_def file_steps Let_def)

lemma simulates_installer:
  assumes "handshake_inv s" and "\<not> at_rest (installer s)"
  shows "exec_all call_act (call_label s (Installer True)) (call_of s) = Some (call_of (installer_next [''scratch''] True (installer s) s))"
proof (cases "installer s")
  case (Test_rc rc)
  then obtain n where "result s n" "rc = decimal n" "daemon s = Wait_do" using assms by (auto simp: handshake_inv_def)
  then show ?thesis using Test_rc by (simp add: call_of_def served_def at_rest_def result_def not_zero_decimal)
next
  case Wait_done
  then show ?thesis
    using assms by (cases "daemon s") (auto simp: call_of_def served_def at_rest_def handshake_inv_def file_steps Let_def)
qed (use assms in \<open>auto simp: call_of_def served_def at_rest_def handshake_inv_def file_steps Let_def\<close>)

interpretation rpc: refinement "quiet_step [''scratch'']" before_handshake handshake_inv "\<lambda>_. True" call_label call_act call_of
proof
  show "exec_all call_act (call_label s l) (call_of s) = Some (call_of t)"
    if inv: "handshake_inv s" and step: "quiet_step [''scratch''] s l t" for s l t
  proof -
    from step have "handshake_step [''scratch''] s l t" and q: "undisturbed l" by (simp_all add: quiet_step_def)
    from this(1) show ?thesis
      by cases (use inv q simulates_start simulates_manager simulates_daemon simulates_installer in auto)
  qed
qed (auto intro: handshake_inv_start handshake_inv_step)

text \<open>What a sequence of calls says: the paths that were asked for, and what was served.\<close>

fun calls :: "call_op list \<Rightarrow> string list" where
  "calls [] = []"
| "calls (Call path # ops) = path # calls ops"
| "calls (op # ops) = calls ops"

fun serves :: "call_op list \<Rightarrow> (string \<times> nat) list" where
  "serves [] = []"
| "serves (Serve path n # ops) = (path, n) # serves ops"
| "serves (op # ops) = serves ops"

fun started :: "handshake_event list \<Rightarrow> string list" where
  "started [] = []"
| "started (Start_installer path # ls) = path # started ls"
| "started (l # ls) = started ls"

fun pending :: "call_state \<Rightarrow> string list" where
  "pending (Some (path, None)) = [path]"
| "pending m = []"

lemma calls_append [simp]: "calls (xs @ ys) = calls xs @ calls ys"
  and serves_append [simp]: "serves (xs @ ys) = serves xs @ serves ys"
  by (induction xs rule: calls.induct) simp_all

lemma every_call_is_served:
  "exec_all call_act ops m = Some m' \<Longrightarrow> pending m @ calls ops = map fst (serves ops) @ pending m'"
proof (induction ops arbitrary: m)
  case (Cons op ops)
  then show ?case
    by (cases op) (auto split: if_splits option.splits prod.splits dest!: Cons.IH)
qed simp

lemma installer_next_runs [simp]: "manager_runs (installer_next d ok pc s) = manager_runs s"
  and daemon_next_runs [simp]: "manager_runs (daemon_next ok dpc s) = manager_runs s"
  by (cases pc; simp add: file_steps) (cases dpc; simp add: file_steps)

lemma traced_observes:
  "traced (quiet_step d) call_label s ls ops t \<Longrightarrow> manager_runs t = manager_runs s @ serves ops \<and> calls ops = started ls"
proof (induction rule: traced.induct)
  case (traced_cons s l t ls xs u)
  have "manager_runs t = manager_runs s @ serves (call_label s l) \<and> calls (call_label s l) @ started ls = started (l # ls)"
    using traced_cons(1) unfolding quiet_step_def
    by (auto elim!: handshake_step.cases split: installer_pc.split)
  then show ?case using traced_cons by simp
qed simp

section \<open>Progress\<close>

text \<open>How many commands are left until the installer ends\<close>

definition remaining :: "handshake \<Rightarrow> nat" where
  "remaining s =
     (case installer s of
        Write_path \<Rightarrow> 14 | Touch_do \<Rightarrow> 13
      | Wait_done \<Rightarrow>
          (case daemon s of
             Wait_do \<Rightarrow> if shared s (scratch ''done_app_update'') \<noteq> None then 5 else 12
           | Rm_do \<Rightarrow> 11 | Cat_path \<Rightarrow> 10 | Running p \<Rightarrow> 9 | Write_rc n \<Rightarrow> 8 | Rm_path \<Rightarrow> 7 | Touch_done \<Rightarrow> 6)
      | Rm_done \<Rightarrow> 4 | Cat_rc \<Rightarrow> 3 | Rm_rc rc \<Rightarrow> 2 | Test_rc rc \<Rightarrow> 1 | Idle \<Rightarrow> 0 | Exited n \<Rightarrow> 0)"

lemma remaining_bound: "remaining s \<le> 14"
  by (simp add: remaining_def split: installer_pc.split daemon_pc.split)

lemma daemon_remaining: "handshake_inv s \<Longrightarrow> (\<And>p. daemon s \<noteq> Running p) \<Longrightarrow>
    remaining (daemon_next True (daemon s) s) < remaining s \<or> daemon_next True (daemon s) s = s"
  by (cases "daemon s"; cases "installer s")
    (auto simp: remaining_def handshake_inv_def file_steps Let_def)

lemma installer_remaining: "handshake_inv s \<Longrightarrow> \<not> at_rest (installer s) \<Longrightarrow>
    remaining (installer_next [''scratch''] True (installer s) s) < remaining s \<or> installer_next [''scratch''] True (installer s) s = s"
  by (cases "installer s"; cases "daemon s")
    (auto simp: remaining_def handshake_inv_def file_steps Let_def)

lemma step_remaining:
  assumes "handshake_inv s" and "quiet_step [''scratch''] s l t" and "\<not> at_rest (installer s)"
  shows "remaining t < remaining s \<or> t = s"
proof -
  from assms(2) have "handshake_step [''scratch''] s l t" and q: "undisturbed l" by (simp_all add: quiet_step_def)
  from this(1) show ?thesis
  proof cases
    case (manager_ends p n)
    then show ?thesis
      using assms(1) by (cases "installer s") (auto simp: remaining_def handshake_inv_def Let_def)
  qed (use assms q daemon_remaining installer_remaining in auto)
qed

lemma progress_enabled:
  assumes inv: "handshake_inv s" and "\<not> at_rest (installer s)"
  shows "\<exists>l t. quiet_step [''scratch''] s l t \<and> remaining t < remaining s"
proof -
  have inst: "quiet_step [''scratch''] s (Installer True) (installer_next [''scratch''] True (installer s) s)"
    using assms(2) by (simp add: quiet_step_def installer_moves)
  have daem: "quiet_step [''scratch''] s (Daemon True) (daemon_next True (daemon s) s)" if "\<And>p. daemon s \<noteq> Running p"
    using that by (simp add: quiet_step_def daemon_moves)
  have man: "quiet_step [''scratch''] s (Manager 0) (s\<lparr>daemon := Write_rc 0, manager_runs := manager_runs s @ [(p, 0)]\<rparr>)"
    if "daemon s = Running p" for p
    using that by (simp add: quiet_step_def manager_ends)
  have "installer (installer_next [''scratch''] True (installer s) s) \<noteq> installer s"
    if "\<not> (installer s = Wait_done \<and> shared s (scratch ''done_app_update'') = None)"
    using assms(2) that by (cases "installer s") (auto simp: scratch_def file_steps)
  then consider "installer s = Wait_done" "shared s (scratch ''done_app_update'') = None"
    | "installer_next [''scratch''] True (installer s) s \<noteq> s"
    by metis
  then show ?thesis
  proof cases
    case 2
    then show ?thesis using inst installer_remaining [OF assms] by blast
  next
    case 1
    show ?thesis
    proof (cases "\<exists>p. daemon s = Running p")
      case True
      then obtain p where p: "daemon s = Running p" by blast
      then have "remaining (s\<lparr>daemon := Write_rc 0, manager_runs := manager_runs s @ [(p, 0)]\<rparr>) < remaining s"
        using 1 by (simp add: remaining_def)
      then show ?thesis using man [OF p] by blast
    next
      case False
      then have "daemon (daemon_next True (daemon s) s) \<noteq> daemon s"
        using inv 1 by (cases "daemon s") (auto simp: handshake_inv_def file_steps Let_def)
      then have "daemon_next True (daemon s) s \<noteq> s" by metis
      then show ?thesis using daem False daemon_remaining [OF inv] by blast
    qed
  qed
qed

section \<open>Runs\<close>

text \<open>A step as a function, to run the scripts on examples\<close>

fun handshake_do :: "location \<Rightarrow> handshake_event \<Rightarrow> handshake \<Rightarrow> handshake option" where
  "handshake_do d (Start_installer path) s =
     (if at_rest (installer s) then Some (s\<lparr>installer := Write_path, uaod_apps_file := path\<rparr>) else None)"
| "handshake_do d (Installer ok) s = (if at_rest (installer s) then None else Some (installer_next d ok (installer s) s))"
| "handshake_do d (Daemon ok) s =
     (if (case daemon s of Running p \<Rightarrow> True | _ \<Rightarrow> False) then None else Some (daemon_next ok (daemon s) s))"
| "handshake_do d (Manager n) s =
     (case daemon s of Running p \<Rightarrow> Some (s\<lparr>daemon := Write_rc n, manager_runs := manager_runs s @ [(p, n)]\<rparr>) | _ \<Rightarrow> None)"
| "handshake_do d Kill_installer s = (if at_rest (installer s) then None else Some (s\<lparr>installer := Idle\<rparr>))"

lemma handshake_do_step: "handshake_do d l s = Some t \<longleftrightarrow> handshake_step d s l t"
proof
  assume a: "handshake_do d l s = Some t"
  show "handshake_step d s l t"
  proof (cases l)
    case (Daemon ok)
    with a have "daemon s \<noteq> Running p" for p by (auto split: if_splits)
    from daemon_moves [OF this, of d ok] show ?thesis using a Daemon by (simp split: if_splits del: daemon_next.simps)
  qed (use a in \<open>auto intro: handshake_step.intros split: if_splits daemon_pc.splits\<close>)
next
  assume "handshake_step d s l t"
  then show "handshake_do d l s = Some t"
    by cases (auto split: daemon_pc.split)
qed

lemma play_run: "exec_all (handshake_do d) ls s = Some t \<Longrightarrow> run_of (handshake_step d) s ls t"
  by (induction ls arbitrary: s) (auto simp: handshake_do_step intro: run_of.intros split: option.splits)

lemma quiet_play: "run_of (handshake_step d) s ls t \<Longrightarrow> list_all undisturbed ls \<Longrightarrow> run_of (quiet_step d) s ls t"
  by (induction rule: run_of.induct) (auto simp: quiet_step_def intro: run_of.intros)

definition demo_call :: "handshake_event list" where
  "demo_call =
     [Start_installer ''/scratch/apps'', Daemon True, Installer True, Installer True, Installer True, Daemon True, Daemon True, Daemon True,
      Manager 1, Installer True, Daemon True, Daemon True, Daemon True] @ replicate 5 (Installer True)"

lemma demo_call_run:
  "map_option (\<lambda>s. (installer s, manager_runs s)) (exec_all (handshake_do [''scratch'']) demo_call before_handshake) =
     Some (Exited 47, [(''/scratch/apps'', 1)])"
  by code_simp

lemma demo_call_quiet: "list_all undisturbed demo_call"
  by code_simp

section \<open>Properties\<close>

text \<open>C21: the handshake of the installer of applications and its daemon refines a call of the update manager.  As long as no
  command fails and no process is killed, in every interleaving of the two scripts: the update manager is run on the paths the
  installers were started with, once for each and in their order; and when an installer has ended, it ended with 0 if the run
  for its path returned 0, and with 47 otherwise.\<close>

theorem apps_installer_is_a_call:
  assumes "run_of (quiet_step [''scratch'']) before_handshake events s"
  shows "(\<exists>ops. exec_all call_act ops None = Some (call_of s) \<and> serves ops = manager_runs s \<and> calls ops = started events) \<and>
    (at_rest (installer s) \<longrightarrow> map fst (manager_runs s) = started events) \<and>
    (\<forall>c. installer s = Exited c \<longrightarrow> manager_runs s \<noteq> [] \<and> c = (if snd (last (manager_runs s)) \<noteq> 0 then 47 else 0))"
proof -
  obtain ops where t: "traced (quiet_step [''scratch'']) call_label before_handshake events ops s"
    using run_of_traced [OF assms] by blast
  have "call_of before_handshake = None" by (simp add: call_of_def before_handshake_def)
  with rpc.traced_simulates [OF t handshake_inv_start] have r: "exec_all call_act ops None = Some (call_of s)" by simp
  moreover have o: "serves ops = manager_runs s" "calls ops = started events"
    using traced_observes [OF t] by (simp_all add: before_handshake_def)
  moreover have "map fst (manager_runs s) = started events" if "at_rest (installer s)"
    using every_call_is_served [OF r] o that by (simp add: call_of_def)
  moreover have "handshake_inv s" using rpc.run_inv [OF assms handshake_inv_start] .
  then have "manager_runs s \<noteq> [] \<and> c = (if snd (last (manager_runs s)) \<noteq> 0 then 47 else 0)" if "installer s = Exited c" for c
    using that by (auto simp: handshake_inv_def result_def)
  ultimately show ?thesis by blast
qed

theorem apps_installer_is_a_call_witness:
  "\<exists>s. run_of (quiet_step [''scratch'']) before_handshake demo_call s \<and> installer s = Exited 47 \<and>
     map fst (manager_runs s) = started demo_call \<and> snd (last (manager_runs s)) \<noteq> 0"
proof -
  obtain s where r: "exec_all (handshake_do [''scratch'']) demo_call before_handshake = Some s" and x: "installer s = Exited 47"
    using demo_call_run by auto
  from quiet_play [OF play_run [OF r] demo_call_quiet] have run: "run_of (quiet_step [''scratch'']) before_handshake demo_call s" .
  from apps_installer_is_a_call [OF run] run x show ?thesis by (auto split: if_splits)
qed

text \<open>C22: the handshake completes.  Once an installer has been started, every command of the two scripts that is not an unsuccessful
  look for a file brings its end nearer by at least one of at most 14 commands, and as long as it has not ended there is
  such a command (the end of the update manager counts as one).\<close>

theorem apps_installer_completes:
  assumes "reachable_from (quiet_step [''scratch'']) before_handshake s" and "\<not> at_rest (installer s)"
  shows "remaining s \<le> 14 \<and> (\<forall>l t. quiet_step [''scratch''] s l t \<longrightarrow> remaining t < remaining s \<or> t = s) \<and>
    (\<exists>l t. quiet_step [''scratch''] s l t \<and> remaining t < remaining s)"
  using rpc.reachable_inv [OF assms(1)] assms(2) remaining_bound step_remaining progress_enabled by blast

theorem apps_installer_completes_witness:
  "\<exists>s. run_of (quiet_step [''scratch'']) before_handshake [Start_installer ''/scratch/apps''] s \<and> remaining s \<le> 14 \<and>
     (\<exists>l t. quiet_step [''scratch''] s l t \<and> remaining t < remaining s)"
proof -
  let ?s = "before_handshake\<lparr>installer := Write_path, uaod_apps_file := ''/scratch/apps''\<rparr>"
  have "quiet_step [''scratch''] before_handshake (Start_installer ''/scratch/apps'') ?s"
    by (simp add: quiet_step_def flip: handshake_do_step) (simp add: before_handshake_def strip_newlines_def)
  then have run: "run_of (quiet_step [''scratch'']) before_handshake [Start_installer ''/scratch/apps''] ?s"
    by (auto intro: run_of.intros)
  have "\<not> at_rest (installer ?s)" by (simp add: at_rest_def)
  with apps_installer_completes [OF run_of_reachable [OF run reach_start]] run show ?thesis by blast
qed

section \<open>What else can happen\<close>

text \<open>
  If the daemon cannot write the exit status, the installer compares an empty text with 0, which is an error and so not true,
  and ends with 0 although the update manager failed.
\<close>

lemma lost_status_is_success:
  "\<exists>events s. run_of (handshake_step [''scratch'']) before_handshake events s \<and> installer s = Exited 0 \<and>
     manager_runs s = [(''/scratch/apps'', 1)]"
proof -
  let ?events = "take 10 demo_call @ [Daemon False] @ drop 11 demo_call"
  have "map_option (\<lambda>s. (installer s, manager_runs s)) (exec_all (handshake_do [''scratch'']) ?events before_handshake) =
      Some (Exited 0, [(''/scratch/apps'', 1)])"
    by code_simp
  then show ?thesis using play_run by fastforce
qed

text \<open>
  If an installer is killed while it waits, the result of its update is left behind, and the next installer takes it for its own:
  it ends with 0 before the update manager has run on its path.
\<close>

lemma stale_result_is_reported:
  "\<exists>events s. run_of (handshake_step [''scratch'']) before_handshake events s \<and> uaod_apps_file s = ''/scratch/two'' \<and>
     installer s = Exited 0 \<and> manager_runs s = [(''/scratch/one'', 0)]"
proof -
  let ?events = "Start_installer ''/scratch/one'' # replicate 2 (Installer True) @ replicate 3 (Daemon True) @ [Manager 0, Kill_installer] @
    replicate 3 (Daemon True) @ Start_installer ''/scratch/two'' # replicate 7 (Installer True)"
  have "map_option (\<lambda>s. (uaod_apps_file s, installer s, manager_runs s)) (exec_all (handshake_do [''scratch'']) ?events before_handshake) =
      Some (''/scratch/two'', Exited 0, [(''/scratch/one'', 0)])"
    by code_simp
  then show ?thesis using play_run by fastforce
qed

text \<open>
  The installer looks in the directory that is set when the scripts are built, the daemon in \<open>/scratch\<close>.  With any other
  directory, such as the default of the build, nothing is ever installed and no installer ends.
\<close>

definition never_met :: "location \<Rightarrow> handshake \<Rightarrow> bool" where
  "never_met d s \<longleftrightarrow> daemon s = Wait_do \<and> manager_runs s = [] \<and> shared s (scratch ''do_app_update'') = None \<and>
     shared s (d @ [''done_app_update'']) = None \<and> installer s \<in> {Idle, Write_path, Touch_do, Wait_done}"

lemma scratch_eq: "scratch g = d @ [f] \<longleftrightarrow> d = [''scratch''] \<and> f = g" "d @ [f] = scratch g \<longleftrightarrow> d = [''scratch''] \<and> f = g"
proof -
  have "scratch g = [''scratch''] @ [g]" by (simp add: scratch_def)
  then show "scratch g = d @ [f] \<longleftrightarrow> d = [''scratch''] \<and> f = g" "d @ [f] = scratch g \<longleftrightarrow> d = [''scratch''] \<and> f = g"
    by (auto simp only: append1_eq_conv)
qed

lemma never_met_step:
  assumes "never_met d s" and "handshake_step d s l t" and "d \<noteq> [''scratch'']"
  shows "never_met d t"
  using assms(2)
proof cases
  case (installer_moves ok)
  then show ?thesis
    using assms(1,3) by (cases "installer s") (simp_all add: never_met_def write_file_def touch_file_def scratch_eq)
qed (use assms(1) in \<open>simp_all add: never_met_def\<close>)

lemma other_directory_never_completes:
  assumes d: "d \<noteq> [''scratch'']" and r: "reachable_from (handshake_step d) before_handshake s"
  shows "manager_runs s = [] \<and> (\<forall>n. installer s \<noteq> Exited n)"
proof -
  have "never_met d s"
    using r
  proof (induction rule: reachable_from.induct)
    case (reach_step s l t)
    then show ?case using never_met_step d by blast
  qed (simp add: never_met_def before_handshake_def)
  then show ?thesis by (auto simp: never_met_def)
qed

end
