(* ===== verification/Spec2Isabelle.thy ===== *)
theory Spec2Isabelle imports Rootfs_Handler Watchdog Updated_Daemon Mailbox Cloud_Client Cloud_Main Provisioning Tls_Config Hello_World App_Reboot Update_Path Apps_Handshake begin

text \<open>
  A verification library for mbl-core, the core repository of Mbed Linux OS: for its C and C++ programs,
  and for the Python programs and the shell scripts that install and start what an update brings.

  \<^bold>\<open>The programs and how they interact.\<close>  A device runs from one of two banks.  The cloud client
  (\<open>cloud-services/mbl-cloud-client\<close>) stays registered with the cloud and receives updates; swupdate
  installs a root file system through the handler of \<open>firmware-management/swupdate-handlers\<close>, which
  writes the other bank, sets a boot flag and removes the file that forbids a reboot, the file the
  client's reboot callback looks for.  The update daemon (\<open>firmware-management/updated\<close>) is the successor
  of that path: its clients send a payload and a header over gRPC, and its main thread hands the
  payload to swupdate.  \<open>firmware-management/mbl-watchdog-init\<close> arms the watchdog at boot, and
  \<open>mbl-cloud-client/cloud-provisioning\<close> puts the credentials of the device into the key store.
  \<open>mbl-firmware-update-header-util\<close> reads and writes the header that describes a firmware.
  Applications run in containers of \<open>runc\<close>: \<open>application-framework/mbl-app-lifecycle-manager\<close> starts and
  stops them, at boot all of them, \<open>firmware-management/mbl-app-manager\<close> installs and removes their packages
  with \<open>opkg\<close>, and \<open>mbl-app-update-manager\<close> uses both to replace running applications by those of an
  update, or to go back.  \<open>mbl-firmware-update-manager\<close> writes the header file of an update that was brought
  by hand, with the codec above, and runs the script that activates it: the scripts of
  \<open>mbl-cloud-client/scripts\<close> call swupdate, whose handlers in Lua run further scripts, one of which hands the
  applications of an update over to a daemon around the update manager.

  \<^bold>\<open>Theories.\<close>
  \<^item> \<open>Prelude\<close>: lists and suffixes; reachable states and runs of a step relation; the locale \<open>safe_system\<close>
    (an invariant kept by every step, with its consequences for reachable states and runs) and the
    locale \<open>refinement\<close>, which extends it by an abstract object that the steps implement.
  \<^item> \<open>CLib\<close>, \<open>Posix\<close>: what the C programs use of their library and of the system.  A world has files, open
    descriptors, heap blocks, a mount table and the trace of calls; \<open>fault\<close> says for each call whether
    it fails, so a theorem about every world is about every pattern of failures.  A function that
    may call \<open>abort\<close> or meet undefined behaviour returns an option.
  \<^item> \<open>Handler_Common\<close>, \<open>Rootfs_Handler\<close>: \<open>arm-handler-common.c\<close> and \<open>rootfs-handler.c\<close>, one definition per
    function.  The functions of swupdate are parameters under the contract \<open>swupdate_api\<close>.  The locale
    \<open>flag_file\<close> states what writing and removing a flag promise; it is interpreted on the boot flag.
  \<^item> \<open>Strtol\<close>, \<open>Getopt\<close>, \<open>Watchdog\<close>: \<open>strtol\<close> and \<open>getopt_long\<close>, and \<open>mbl-watchdog-init.c\<close> over a driver state.
  \<^item> \<open>Filesystem\<close>, \<open>Payload\<close>: paths and trees of directories and hard links as \<open>std::filesystem\<close> has them, and
    \<open>fileutils/payload.h\<close>.  The locale \<open>payload_store\<close> states what a link to a payload promises; it is
    interpreted on the constructor and the destructor of the class.
  \<^item> \<open>Coordinator\<close>, \<open>Mailbox\<close>: \<open>UpdateCoordinator.cpp\<close> as a step relation over the mutex, the condition
    variable, the main thread, any number of RPC threads and the signal handlers; and the abstract
    mailbox of one place that it refines.
  \<^item> \<open>Updated_Rpc\<close>, \<open>Updated_Daemon\<close>: errors, service, client and client programs; the command line, the log
    level, the lock file, the registration of signal handlers and \<open>main\<close>, with any number of instances
    on one machine.
  \<^item> \<open>Mbl_Error\<close>, \<open>Cloud_Client\<close>, \<open>Cloud_Main\<close>: the errors of the cloud client, ordered by their codes;
    \<open>MblCloudClient.cpp\<close> as a step relation of the main thread and the event loop of the library, whose calls
    are recorded with whether the object they need still exists; the update handlers; the log, the
    signals, the initialisation, the reboot callback and \<open>main\<close>.
  \<^item> \<open>Provisioning\<close>: the provisioning program over a key store with the contract \<open>kcm_contract\<close>.
  \<^item> \<open>Tls_Config\<close>: the two configurations of mbed TLS, as tables of options and as preprocessor directives.
  \<^item> \<open>Crc32\<close>, \<open>Update_Header\<close>: \<open>zlib.crc32\<close> on words, and \<open>firmware_update_header_util.py\<close> on bytes.
  \<^item> \<open>Hello_World\<close>: the sample application.
  \<^item> \<open>Python\<close>: what the Python programs use of their language: exceptions as values, statements as functions
    on the machine that may also not come back, and the rules \<open>wp_simps\<close> by which they are verified.  The
    locale \<open>item_loop\<close> states what the body of a loop over a list promises so that the loop achieves it for
    every item; it is interpreted on the loops of the update manager, of the extraction and of
    \<open>shutil.rmtree\<close>.
  \<^item> \<open>App_Container\<close>, \<open>App_Lifecycle\<close>: \<open>container.py\<close> and \<open>manager.py\<close> of the lifecycle manager.  What is known of
    \<open>runc\<close> is \<open>runc_contract\<close>, and \<open>sleep_contract\<close> says that a sleep moves the clock; the platform
    \<open>simulated\<close> fulfils all contracts, for every set of commands that fail, and is what the witnesses run on.
  \<^item> \<open>App_Manager\<close>, \<open>Human_Sort\<close>, \<open>App_Update\<close>: the application manager under \<open>opkg_contract\<close>, the order of
    version names, and the update manager, one definition per method.
  \<^item> \<open>App_Rollback\<close>, \<open>App_Install\<close>: the correctness of the update manager, from its loops to the program.
  \<^item> \<open>App_Boot\<close>, \<open>App_Reboot\<close>: the command line of the lifecycle manager, with the start of all applications at
    boot; and which bundles are on the device after each step of an update, under \<open>packages_are_bundles\<close> (a
    package brings one bundle), so that the two programs can be put together.
  \<^item> \<open>Firmware_Manager\<close>: the firmware update manager over the codec of \<open>Update_Header\<close>.
  \<^item> \<open>Shell\<close>: statements and commands of the shell over the machine of \<open>Python\<close>, with their rules; a command on files works
    on the tree, all others are run by the platform.
  \<^item> \<open>Update_Scripts\<close>, \<open>Update_Activation\<close>: \<open>arm_update_common.sh.in\<close>, \<open>arm_update_activate.sh\<close>, \<open>arm_update_active_details.sh\<close>,
    \<open>bootloader_installer.sh\<close> and \<open>boot_partition_installer.sh\<close>, one definition per function, and what they achieve.
  \<^item> \<open>Image_Handlers\<close>, \<open>Update_Path\<close>: \<open>swupdate_handlers.lua\<close>, and the whole path of an update that is brought by hand, as
    platforms whose commands are the programs below them.
  \<^item> \<open>Apps_Handshake\<close>: \<open>apps_installer.sh\<close> and \<open>mbl-app-update-manager-daemon\<close> as a step relation of two processes over four
    files, one command for each step, that refines a call of the update manager.

  \<^bold>\<open>What is shown.\<close>  For the handler: a successful update selects the other bank and, with the cloud client's
  callback, leads to a reboot; whatever fails, nothing leaks and the running bank is untouched;
  without faults it succeeds; and where it does not do what it means to (an image whose copy failed
  is accepted, certain partition numbers are confused).  For the update daemon: the coordinator
  refines the mailbox, loses no wake-up, carries out a pending update and keeps its assertion; a
  payload link is undone by its destructor; one instance runs at a time; and what a second request
  in the same directory, a missing payload or a signal do.  For the cloud client: no call reaches a
  destroyed object in any interleaving, the shutdown completes, the registration does not lapse,
  every result and exit code is accounted for, and the time prefix and the download percentage stay
  in their bounds.  For provisioning: what the key store holds after each outcome.  For the header: that what is packed is
  read back, and the detection of every change of one byte.  For TLS: which of the suites that a
  configuration lists it can provide.  For applications: the wait for the end of a process is over after a
  bounded number of polls, and no container is left after a termination; when an update returns, every
  application runs from its new bundle and the previous one is gone; when one cannot be stopped or run,
  all run from their previous bundles again; a failed installation leaves no version behind; a new bundle
  never takes the place of another; a reboot in the middle of an update starts the current bundle, one
  after it the new bundle; and which errors are not rolled back.  For firmware: the header that is written can be read, and exactly when
  the device is rebooted.  For the scripts: the one write of a boot loader stays in the bounds of its partition; copying a directory
  to a partition replaces its files and makes it read-only again, or fails and leaves it writable; an activation that succeeds
  has saved the header, removed its temporary files and left the decision on the reboot to the installers; from the manager to the
  installers, an update is followed by a reboot exactly if it is not of applications only; and the two scripts of the handshake give
  each installer the result of its own run after at most 14 commands, if nothing fails, no process is killed
  and both use the same directory, while in each of these cases they do not.

  \<^bold>\<open>Bounds.\<close>  Loops are structural or terminate by a measure, so no fuel is used.  The exception is
  the wait for the end of a process, which depends on the clock: \<open>poll_until_stopped\<close> is a partial function
  into an option, and \<open>wait_for_app_stop_terminates\<close> bounds its polls by ten for each second.  Likewise, that
  the programs built on it come back is part of what is proved (\<open>wp\<close> is total correctness).  The C integers are words
  where they are computed with (the progress of a download, the checksum, the status bits of the
  watchdog) and integers with explicit limits elsewhere (\<open>INT_MAX\<close>, the width of \<open>long\<close> as a parameter).
  Buffers are lists of their cells, with sizes \<open>PATH_MAX\<close>, \<open>MAX_DEVICE_FILE_PATH\<close> and 26 for the time
  prefix.

  \<^bold>\<open>Not modelled.\<close>  Log messages, except the lines of the cloud client's own log file.  gRPC, swupdate, the
  cloud client library, the key store, mbed TLS and systemd are seen through the calls made to
  them.  In the file system of \<open>Filesystem\<close> there are no symbolic links and no mount points.  The
  server's shutdown belongs to the end of the daemon's \<open>main\<close>, which is never reached.  The clock is a
  parameter.  Of the Python programs: their argument parsers and log messages, symbolic links, a removal of
  a tree that fails half way, the encoding of texts, and what runs inside the containers; \<open>runc\<close>, \<open>opkg\<close>,
  \<open>hashlib\<close> and the decoders of tar and JSON are parameters.  Of the shell scripts: their messages, the redirection into log files,
  the parser of the activation's command line (which is not in the repository), numbers too large for \<open>expr\<close> and \<open>[\<close>, and
  the inside of the commands that deal with devices.  Not modelled at all are the tests, and the constants of the RPC port
  and of the secure storage.
\<close>

section \<open>From the update to the reboot\<close>

text \<open>
  The handler runs inside swupdate, the decision to reboot is taken later by the cloud client; all
  they share is the file system.
\<close>

lemma reboots_without_flag:
  "fs v ''/tmp/do_not_reboot'' = None \<Longrightarrow> fst (pal_plat_osApplicationReboot v)"
  by (auto simp: pal_plat_osApplicationReboot_def sys_open_def attempt_def split: option.splits)

text \<open>C4: the end of an update.  Once the handler has returned 0, the cloud client's reboot callback
  reboots whatever fails in it, provided the handler was built with the directory the callback looks
  in, and the boot flag then names the bank that was not running.\<close>

theorem update_leads_to_reboot:
  assumes "bank_layout disk b1 b2" and "usable_config cfg" and "wf_world w" and "cstr_mtab w"
    and "swupdate_api openfileoutput copyimage payload"
    and "fs w (part_info_path cfg bank1_file) = Some (Regular b1)"
      "fs w (part_info_path cfg bank2_file) = Some (Regular b2)"
    and "root_device w = Some (partition_device disk (if on2 then b2 else b1))"
    and "not_a_flag cfg (partition_device disk (if on2 then b1 else b2))"
    and "rootfsv4_handler cfg openfileoutput copyimage stack img w = Some (0, w')"
    and "do_not_reboot_path cfg = ''/tmp/do_not_reboot''" and "fs v = fs w'"
  shows "fst (pal_plat_osApplicationReboot v) \<and> (bootflag_present cfg ''rootfs2'' v \<longleftrightarrow> \<not> on2)"
  using rootfsv4_handler_success [OF assms(1-10)] assms(11,12) reboots_without_flag [of v]
  by (simp add: bootflag_present_def)

theorem update_leads_to_reboot_witness:
  "\<exists>w'. rootfsv4_handler default_config demo_openfileoutput demo_copyimage [] ''new'' (demo_world True) = Some (0, w') \<and>
     fst (pal_plat_osApplicationReboot w') \<and> \<not> bootflag_present default_config ''rootfs2'' w'"
proof -
  obtain w' where run: "rootfsv4_handler default_config demo_openfileoutput demo_copyimage [] ''new'' (demo_world True) = Some (0, w')"
    using demo_run [OF demo_api, of "[]" "''new''" True] by blast
  have root: "root_device (demo_world True) = Some (partition_device demo_disk (if True then ''3'' else ''2''))"
    using demo_facts(6) [of True] .
  have "do_not_reboot_path default_config = ''/tmp/do_not_reboot''" by (simp add: demo_defs)
  from update_leads_to_reboot
    [OF demo_facts(5,4) demo_facts(2) demo_facts(3) demo_api demo_facts(7,8) root demo_facts(9) run this refl] run
  show ?thesis by auto
qed

end
